(* ===== verification/Prelude.thy ===== *)
theory Prelude
  imports Main "HOL-Library.Char_ord" "HOL-Library.List_Lexorder" "HOL-Library.Sublist"
    "HOL-Library.AList"
begin

text \<open>
  Prelude of the development: the Python strings, lists and dictionaries the other theories
  share, as HOL functions, with the lemmas about them.

  A Python \<open>str\<close> is modelled as a HOL \<open>string\<close>. HOL characters are the 256 code points of
  Latin-1, so the model is exact for text whose code points are below 256; the character classes
  below (white space, digits, case) are the Unicode ones restricted to that range.
\<close>

named_theorems py_str \<open>unfolding rules for the Python string operations\<close>

section \<open>Characters\<close>

definition cp :: "char \<Rightarrow> nat" where
  "cp c = of_char c"

definition py_isspace_char :: "char \<Rightarrow> bool" where
  "py_isspace_char c \<longleftrightarrow>
     (let n = cp c in (9 \<le> n \<and> n \<le> 13) \<or> (28 \<le> n \<and> n \<le> 32) \<or> n = 133 \<or> n = 160)"

text \<open>A decimal digit: what \<open>\<backslash>d\<close> matches and \<open>int\<close> accepts.\<close>

definition is_decimal_char :: "char \<Rightarrow> bool" where
  "is_decimal_char c \<longleftrightarrow> 48 \<le> cp c \<and> cp c \<le> 57"

text \<open>\<open>str.isdigit\<close> also accepts the superscript digits, which \<open>int\<close> rejects.\<close>

definition py_isdigit_char :: "char \<Rightarrow> bool" where
  "py_isdigit_char c \<longleftrightarrow> is_decimal_char c \<or> cp c = 178 \<or> cp c = 179 \<or> cp c = 185"

definition is_upper_char :: "char \<Rightarrow> bool" where
  "is_upper_char c \<longleftrightarrow> (65 \<le> cp c \<and> cp c \<le> 90) \<or> (192 \<le> cp c \<and> cp c \<le> 222 \<and> cp c \<noteq> 215)"

definition is_ascii_letter :: "char \<Rightarrow> bool" where
  "is_ascii_letter c \<longleftrightarrow> (65 \<le> cp c \<and> cp c \<le> 90) \<or> (97 \<le> cp c \<and> cp c \<le> 122)"

text \<open>Lower-casing an upper-case letter of Latin-1 sets bit 5 of its code point.\<close>

definition py_lower_char :: "char \<Rightarrow> char" where
  "py_lower_char c =
     (if is_upper_char c
      then (case c of Char b0 b1 b2 b3 b4 b5 b6 b7 \<Rightarrow> Char b0 b1 b2 b3 b4 True b6 b7)
      else c)"

definition is_control_char :: "char \<Rightarrow> bool" where
  "is_control_char c \<longleftrightarrow> cp c < 32 \<or> cp c = 127"

lemma py_lower_char_idem [simp]: "py_lower_char (py_lower_char c) = py_lower_char c"
proof (cases c)
  case (Char b0 b1 b2 b3 b4 b5 b6 b7)
  show ?thesis unfolding Char
    by (cases b0; cases b1; cases b2; cases b3; cases b4; cases b5; cases b6; cases b7;
        simp add: py_lower_char_def is_upper_char_def cp_def)
qed

lemma decimal_lower [simp]: "is_decimal_char c \<Longrightarrow> py_lower_char c = c"
  by (simp add: py_lower_char_def is_upper_char_def is_decimal_char_def)

lemma decimal_not_space [simp]: "is_decimal_char c \<Longrightarrow> \<not> py_isspace_char c"
  by (simp add: py_isspace_char_def is_decimal_char_def Let_def)

lemma decimal_isdigit [simp]: "is_decimal_char c \<Longrightarrow> py_isdigit_char c"
  by (simp add: py_isdigit_char_def)

lemma decimal_not_control [simp]: "is_decimal_char c \<Longrightarrow> \<not> is_control_char c"
  by (simp add: is_decimal_char_def is_control_char_def)

lemma letter_not_decimal [simp]: "is_ascii_letter c \<Longrightarrow> \<not> is_decimal_char c"
  by (auto simp: is_decimal_char_def is_ascii_letter_def)

lemma space_lower [simp]: "py_isspace_char (py_lower_char c) = py_isspace_char c"
proof (cases c)
  case (Char b0 b1 b2 b3 b4 b5 b6 b7)
  show ?thesis unfolding Char
    by (cases b0; cases b1; cases b2; cases b3; cases b4; cases b5; cases b6; cases b7;
        simp add: py_lower_char_def is_upper_char_def cp_def py_isspace_char_def)
qed


section \<open>Strings\<close>

definition py_lower :: "string \<Rightarrow> string" where
  "py_lower s = map py_lower_char s"

definition py_lstrip :: "string \<Rightarrow> string" where
  "py_lstrip s = dropWhile py_isspace_char s"

definition py_strip :: "string \<Rightarrow> string" where
  "py_strip s = rev (dropWhile py_isspace_char (rev (py_lstrip s)))"

definition py_isdigit :: "string \<Rightarrow> bool" where
  "py_isdigit s \<longleftrightarrow> s \<noteq> [] \<and> list_all py_isdigit_char s"

definition all_decimal :: "string \<Rightarrow> bool" where
  "all_decimal s \<longleftrightarrow> s \<noteq> [] \<and> list_all is_decimal_char s"

definition py_startswith :: "string \<Rightarrow> string \<Rightarrow> bool" where
  "py_startswith s p = prefix p s"

fun py_contains :: "string \<Rightarrow> string \<Rightarrow> bool" where
  "py_contains p [] = (p = [])"
| "py_contains p (c # cs) = (prefix p (c # cs) \<or> py_contains p cs)"

text \<open>\<open>s.find(p)\<close> from position \<open>i\<close>: the index of the first occurrence, \<open>-1\<close> without one.\<close>

fun py_find_from :: "int \<Rightarrow> string \<Rightarrow> string \<Rightarrow> int" where
  "py_find_from i p [] = (if p = [] then i else -1)"
| "py_find_from i p (c # cs) = (if prefix p (c # cs) then i else py_find_from (i + 1) p cs)"

definition py_find :: "string \<Rightarrow> string \<Rightarrow> int" where
  "py_find s p = py_find_from 0 p s"

text \<open>The first \<open>n\<close> occurrences of \<open>old\<close> (all of them for \<open>None\<close>), from the left.\<close>

fun py_replace_n :: "nat option \<Rightarrow> string \<Rightarrow> string \<Rightarrow> string \<Rightarrow> string" where
  "py_replace_n n old new [] = []"
| "py_replace_n n old new (c # cs) =
     (if old \<noteq> [] \<and> n \<noteq> Some 0 \<and> prefix old (c # cs)
      then new @ py_replace_n (map_option (\<lambda>k. k - 1) n) old new (drop (length old - 1) cs)
      else c # py_replace_n n old new cs)"

definition py_replace :: "string \<Rightarrow> string \<Rightarrow> string \<Rightarrow> string" where
  "py_replace s old new = py_replace_n None old new s"

definition py_replace1 :: "string \<Rightarrow> string \<Rightarrow> string \<Rightarrow> string" where
  "py_replace1 s old new = py_replace_n (Some 1) old new s"

fun py_split_char :: "char \<Rightarrow> string \<Rightarrow> string list" where
  "py_split_char d [] = [[]]"
| "py_split_char d (c # cs) =
     (if c = d then [] # py_split_char d cs
      else (c # hd (py_split_char d cs)) # tl (py_split_char d cs))"

fun split_ws_acc :: "string \<Rightarrow> string \<Rightarrow> string list" where
  "split_ws_acc acc [] = (if acc = [] then [] else [rev acc])"
| "split_ws_acc acc (c # cs) =
     (if py_isspace_char c
      then (if acc = [] then split_ws_acc [] cs else rev acc # split_ws_acc [] cs)
      else split_ws_acc (c # acc) cs)"

definition py_split_ws :: "string \<Rightarrow> string list" where
  "py_split_ws s = split_ws_acc [] s"

definition is_line_break :: "char \<Rightarrow> bool" where
  "is_line_break c \<longleftrightarrow> (10 \<le> cp c \<and> cp c \<le> 13) \<or> (28 \<le> cp c \<and> cp c \<le> 30) \<or> cp c = 133"

fun splitlines_acc :: "string \<Rightarrow> string \<Rightarrow> string list" where
  "splitlines_acc acc [] = (if acc = [] then [] else [rev acc])"
| "splitlines_acc acc (c # cs) =
     (if c = CHR 0x0D
      then (case cs of
              d # ds \<Rightarrow> if d = CHR 0x0A then rev acc # splitlines_acc [] ds
                        else rev acc # splitlines_acc [] cs
            | [] \<Rightarrow> [rev acc])
      else if is_line_break c then rev acc # splitlines_acc [] cs
      else splitlines_acc (c # acc) cs)"

definition py_splitlines :: "string \<Rightarrow> string list" where
  "py_splitlines s = splitlines_acc [] s"

fun py_join :: "string \<Rightarrow> string list \<Rightarrow> string" where
  "py_join sep [] = []"
| "py_join sep [x] = x"
| "py_join sep (x # y # ys) = x @ sep @ py_join sep (y # ys)"

subsection \<open>Numbers in decimal\<close>

definition digit_char :: "nat \<Rightarrow> char" where
  "digit_char d = (if d < 10 then ''0123456789'' ! d else CHR ''0'')"

definition digit_value :: "char \<Rightarrow> nat" where
  "digit_value c = cp c - 48"

definition py_int :: "string \<Rightarrow> nat" where
  "py_int s = foldl (\<lambda>n c. 10 * n + digit_value c) 0 s"

fun py_str_nat :: "nat \<Rightarrow> string" where
  "py_str_nat n =
     (if n < 10 then [digit_char n] else py_str_nat (n div 10) @ [digit_char (n mod 10)])"

declare py_str_nat.simps [simp del]

definition py_str_int :: "int \<Rightarrow> string" where
  "py_str_int i = (if i < 0 then CHR ''-'' # py_str_nat (nat (- i)) else py_str_nat (nat i))"

subsection \<open>\<open>repr\<close> of a string\<close>

definition is_printable_char :: "char \<Rightarrow> bool" where
  "is_printable_char c \<longleftrightarrow> (32 \<le> cp c \<and> cp c \<le> 126) \<or> (161 \<le> cp c \<and> cp c \<noteq> 173)"

definition hex_digit :: "nat \<Rightarrow> char" where
  "hex_digit d = (if d < 16 then ''0123456789abcdef'' ! d else CHR ''0'')"

definition repr_char :: "char \<Rightarrow> char \<Rightarrow> string" where
  "repr_char q c =
     (if c = q \<or> c = CHR 0x5C then [CHR 0x5C, c]
      else if c = CHR 0x09 then [CHR 0x5C, CHR ''t'']
      else if c = CHR 0x0A then [CHR 0x5C, CHR ''n'']
      else if c = CHR 0x0D then [CHR 0x5C, CHR ''r'']
      else if is_printable_char c then [c]
      else [CHR 0x5C, CHR ''x'', hex_digit (cp c div 16), hex_digit (cp c mod 16)])"

definition py_repr :: "string \<Rightarrow> string" where
  "py_repr s =
     (let q = (if CHR 0x27 \<in> set s \<and> CHR 0x22 \<notin> set s then CHR 0x22 else CHR 0x27)
      in [q] @ concat (map (repr_char q) s) @ [q])"

section \<open>Lists and dictionaries\<close>

text \<open>
  A Python \<open>dict\<close> keeps its keys in the order they were first inserted: an association list
  read with \<open>map_of\<close> and written with \<open>AList.update\<close>, which replaces in place and
  appends a new key.
\<close>

type_synonym ('k, 'v) dict = "('k \<times> 'v) list"

abbreviation dict_get :: "('k, 'v) dict \<Rightarrow> 'k \<Rightarrow> 'v option" where
  "dict_get d k \<equiv> map_of d k"

definition dict_set :: "'k \<Rightarrow> 'v \<Rightarrow> ('k, 'v) dict \<Rightarrow> ('k, 'v) dict" where
  "dict_set k v d = AList.update k v d"

definition dict_pop :: "'k \<Rightarrow> ('k, 'v) dict \<Rightarrow> ('k, 'v) dict" where
  "dict_pop k d = AList.delete k d"

definition dict_keys :: "('k, 'v) dict \<Rightarrow> 'k list" where
  "dict_keys d = map fst d"

definition dict_ok :: "('k, 'v) dict \<Rightarrow> bool" where
  "dict_ok d \<longleftrightarrow> distinct (map fst d)"

definition get_default :: "('k, 'v) dict \<Rightarrow> 'k \<Rightarrow> 'v \<Rightarrow> 'v" where
  "get_default d k v = (case dict_get d k of None \<Rightarrow> v | Some w \<Rightarrow> w)"

text \<open>\<open>list(dict.fromkeys(xs))\<close>: the first occurrence of every element, in order.\<close>

fun dedup_acc :: "'a list \<Rightarrow> 'a list \<Rightarrow> 'a list" where
  "dedup_acc seen [] = []"
| "dedup_acc seen (x # xs) =
     (if x \<in> set seen then dedup_acc seen xs else x # dedup_acc (x # seen) xs)"

definition dedup :: "'a list \<Rightarrow> 'a list" where
  "dedup xs = dedup_acc [] xs"

text \<open>\<open>sorted(set(xs))\<close>.\<close>

definition sorted_set :: "'a::linorder list \<Rightarrow> 'a list" where
  "sorted_set xs = sort (remdups xs)"

text \<open>\<open>x or y\<close> on optional strings, and truth of a string.\<close>

definition truthy :: "string \<Rightarrow> bool" where
  "truthy s \<longleftrightarrow> s \<noteq> []"

definition or_empty :: "string option \<Rightarrow> string" where
  "or_empty s = (case s of None \<Rightarrow> [] | Some t \<Rightarrow> t)"


section \<open>Lemmas\<close>

subsection \<open>Stripping and lower case\<close>

lemma py_lower_Nil [simp]: "py_lower [] = []"
  by (simp add: py_lower_def)

lemma py_lower_idem [simp]: "py_lower (py_lower s) = py_lower s"
  by (simp add: py_lower_def comp_def)

lemma py_lower_append [simp]: "py_lower (s @ t) = py_lower s @ py_lower t"
  by (simp add: py_lower_def)

lemma length_py_lower [simp]: "length (py_lower s) = length s"
  by (simp add: py_lower_def)

lemma all_decimal_lower: "list_all is_decimal_char s \<Longrightarrow> py_lower s = s"
  by (induction s) (auto simp: py_lower_def)

lemma dropWhile_same: "(s = [] \<or> \<not> p (hd s)) \<Longrightarrow> dropWhile p s = s"
  by (cases s) auto

lemma py_strip_id:
  "\<lbrakk>s \<noteq> []; \<not> py_isspace_char (hd s); \<not> py_isspace_char (last s)\<rbrakk> \<Longrightarrow> py_strip s = s"
  by (simp add: py_strip_def py_lstrip_def dropWhile_same hd_rev)

lemma py_strip_Nil [simp]: "py_strip [] = []"
  by (simp add: py_strip_def py_lstrip_def)

lemma hd_dropWhile_not: "dropWhile p s \<noteq> [] \<Longrightarrow> \<not> p (hd (dropWhile p s))"
  by (rule hd_dropWhile)

lemma py_strip_hd: "py_strip s \<noteq> [] \<Longrightarrow> \<not> py_isspace_char (hd (py_strip s))"
proof -
  let ?d = "dropWhile py_isspace_char s"
  assume ne: "py_strip s \<noteq> []"
  have r: "py_strip s = rev (dropWhile py_isspace_char (rev ?d))"
    by (simp add: py_strip_def py_lstrip_def)
  have dne: "?d \<noteq> []" using ne r by (auto dest: set_dropWhileD)
  obtain k where k: "dropWhile py_isspace_char (rev ?d) = drop k (rev ?d)"
    by (metis dropWhile_eq_drop)
  then have "py_strip s = take (length ?d - k) ?d" using r by (simp add: rev_drop)
  then have "hd (py_strip s) = hd ?d" using ne by (auto simp: hd_take)
  then show ?thesis using hd_dropWhile [of py_isspace_char s] dne by simp
qed

lemma py_strip_last: "py_strip s \<noteq> [] \<Longrightarrow> \<not> py_isspace_char (last (py_strip s))"
  by (simp add: py_strip_def last_rev hd_dropWhile)

lemma py_strip_idem [simp]: "py_strip (py_strip s) = py_strip s"
  using py_strip_id [OF _ py_strip_hd py_strip_last] by (cases "py_strip s = []") auto

lemma set_py_strip: "set (py_strip s) \<subseteq> set s"
  by (auto simp: py_strip_def py_lstrip_def dest!: set_dropWhileD)

lemma length_py_strip: "length (py_strip s) \<le> length s"
  using length_dropWhile_le [of py_isspace_char "rev (py_lstrip s)"]
    length_dropWhile_le [of py_isspace_char s]
  by (simp add: py_strip_def py_lstrip_def)

lemma py_replace_n_zero [simp]: "py_replace_n (Some 0) old new s = s"
  by (induction s) auto

lemma py_contains_set: "py_contains p s \<Longrightarrow> set p \<subseteq> set s"
  by (induction s) (fastforce dest: set_mono_prefix)+

lemma py_contains_Nil [simp]: "py_contains [] s"
  by (cases s) auto

subsection \<open>Splitting and joining\<close>

lemma py_split_char_nonempty [simp]: "py_split_char d s \<noteq> []"
  by (cases s) auto

lemma py_join_Cons: "py_join sep (x # xs) = (if xs = [] then x else x @ sep @ py_join sep xs)"
  by (cases xs) auto

lemma py_join_split_char: "py_join [d] (py_split_char d s) = s"
proof (induction s)
  case (Cons c cs)
  obtain w ws where w: "py_split_char d cs = w # ws"
    by (cases "py_split_char d cs") auto
  then show ?case using Cons by (auto simp: py_join_Cons)
qed simp

lemma split_char_no_sep: "w \<in> set (py_split_char d s) \<Longrightarrow> d \<notin> set w"
proof (induction s arbitrary: w)
  case (Cons c cs)
  obtain v vs where v: "py_split_char d cs = v # vs"
    by (cases "py_split_char d cs") auto
  then show ?case using Cons by (auto split: if_splits)
qed simp

lemma split_char_no_occ: "d \<notin> set s \<Longrightarrow> py_split_char d s = [s]"
  by (induction s) auto

lemma split_char_append_sep:
  "d \<notin> set w \<Longrightarrow> py_split_char d (w @ d # s) = w # py_split_char d s"
  by (induction w) auto

lemma split_char_join:
  "\<lbrakk>ws \<noteq> []; \<forall>w \<in> set ws. d \<notin> set w\<rbrakk> \<Longrightarrow> py_split_char d (py_join [d] ws) = ws"
proof (induction ws)
  case (Cons w ws)
  show ?case
  proof (cases "ws = []")
    case True
    then show ?thesis using Cons.prems by (simp add: split_char_no_occ)
  next
    case False
    then show ?thesis using Cons by (simp add: py_join_Cons split_char_append_sep)
  qed
qed simp

lemma set_py_join: "set (py_join sep ws) \<subseteq> set sep \<union> \<Union> (set ` set ws)"
  by (induction ws rule: py_join.induct [of _ sep]) auto

lemma split_char_set: "w \<in> set (py_split_char d s) \<Longrightarrow> set w \<subseteq> set s"
proof (induction s arbitrary: w)
  case (Cons c cs)
  obtain v vs where v: "py_split_char d cs = v # vs"
    by (cases "py_split_char d cs") auto
  then show ?case using Cons by (fastforce split: if_splits)
qed simp

text \<open>Words without white space, and lines without line breaks, survive being joined and split.\<close>

definition plain_word :: "string \<Rightarrow> bool" where
  "plain_word w \<longleftrightarrow> w \<noteq> [] \<and> list_all (\<lambda>c. \<not> py_isspace_char c) w"

definition plain_line :: "string \<Rightarrow> bool" where
  "plain_line l \<longleftrightarrow> l \<noteq> [] \<and> list_all (\<lambda>c. \<not> is_line_break c) l"

lemma split_ws_acc_word:
  "list_all (\<lambda>c. \<not> py_isspace_char c) w \<Longrightarrow> split_ws_acc acc (w @ s) = split_ws_acc (rev w @ acc) s"
  by (induction w arbitrary: acc) auto

lemma split_ws_word: "plain_word w \<Longrightarrow> py_split_ws w = [w]"
  using split_ws_acc_word [of w "[]" "[]"] by (simp add: py_split_ws_def plain_word_def)

lemma split_ws_word_space:
  "plain_word w \<Longrightarrow> py_isspace_char c \<Longrightarrow> py_split_ws (w @ c # s) = w # py_split_ws s"
  using split_ws_acc_word [of w "[]" "c # s"] by (simp add: py_split_ws_def plain_word_def)

lemma space_isspace [simp]: "py_isspace_char (CHR '' '')"
  by (simp add: py_isspace_char_def cp_def)

lemma split_ws_join: "list_all plain_word ws \<Longrightarrow> py_split_ws (py_join '' '' ws) = ws"
proof (induction ws)
  case Nil
  then show ?case by (simp add: py_split_ws_def)
next
  case (Cons w ws)
  then show ?case
    by (cases ws) (simp_all add: split_ws_word split_ws_word_space)
qed

lemma splitlines_acc_line:
  "list_all (\<lambda>c. \<not> is_line_break c) l \<Longrightarrow> splitlines_acc acc (l @ s) = splitlines_acc (rev l @ acc) s"
proof (induction l arbitrary: acc)
  case (Cons c l)
  then have "c \<noteq> CHR 0x0D" by (auto simp: is_line_break_def cp_def)
  then show ?case using Cons by simp
qed simp

lemma line_feed_break [simp]: "is_line_break (CHR 0x0A)"
  by (simp add: is_line_break_def cp_def)

lemma splitlines_join:
  "list_all plain_line ls \<Longrightarrow> py_splitlines (py_join [CHR 0x0A] ls) = ls"
proof (induction ls)
  case Nil
  then show ?case by (simp add: py_splitlines_def)
next
  case (Cons l ls)
  show ?case
  proof (cases ls)
    case Nil
    then show ?thesis using Cons.prems splitlines_acc_line [of l "[]" "[]"]
      by (simp add: py_splitlines_def plain_line_def)
  next
    case (Cons m ms)
    then show ?thesis using Cons.prems Cons.IH splitlines_acc_line [of l "[]" "CHR 0x0A # py_join [CHR 0x0A] ls"]
      by (simp add: py_splitlines_def plain_line_def)
  qed
qed

lemma join_nonempty: "list_all plain_word ws \<Longrightarrow> ws \<noteq> [] \<Longrightarrow> py_join sep ws \<noteq> []"
  by (cases ws) (auto simp: py_join_Cons plain_word_def)

lemma hd_join: "w \<noteq> [] \<Longrightarrow> hd (py_join sep (w # ws)) = hd w"
  by (simp add: py_join_Cons)


subsection \<open>Decimal numbers\<close>

lemma digit_cases: "d < 10 \<Longrightarrow> d \<in> {0, 1, 2, 3, 4, 5, 6, 7, 8, 9 :: nat}"
  by auto

lemma is_decimal_digit_char [simp]: "is_decimal_char (digit_char d)"
proof (cases "d < 10")
  case True
  then show ?thesis
    by (auto dest!: digit_cases simp: digit_char_def is_decimal_char_def cp_def)
qed (simp add: digit_char_def is_decimal_char_def cp_def)

lemma digit_value_char: "d < 10 \<Longrightarrow> digit_value (digit_char d) = d"
  by (auto dest!: digit_cases simp: digit_char_def digit_value_def cp_def)

lemma py_int_snoc: "py_int (s @ [c]) = 10 * py_int s + digit_value c"
  by (simp add: py_int_def)

lemma py_str_nat_nonempty [simp]: "py_str_nat n \<noteq> []"
  by (subst py_str_nat.simps) simp

lemma py_str_nat_decimal [simp]: "list_all is_decimal_char (py_str_nat n)"
proof (induction n rule: py_str_nat.induct)
  case (1 n)
  then show ?case by (subst py_str_nat.simps) (simp add: list_all_append)
qed

lemma all_decimal_str_nat [simp]: "all_decimal (py_str_nat n)"
  by (simp add: all_decimal_def)

lemma py_int_str_nat [simp]: "py_int (py_str_nat n) = n"
proof (induction n rule: py_str_nat.induct)
  case (1 n)
  show ?case
  proof (cases "n < 10")
    case True
    then show ?thesis
      by (subst py_str_nat.simps) (simp add: py_int_def digit_value_char)
  next
    case False
    then show ?thesis using 1
      by (subst py_str_nat.simps) (simp add: py_int_snoc digit_value_char)
  qed
qed

lemma py_str_nat_inj: "py_str_nat m = py_str_nat n \<Longrightarrow> m = n"
  by (metis py_int_str_nat)

lemma all_decimal_set: "all_decimal s \<Longrightarrow> c \<in> set s \<Longrightarrow> is_decimal_char c"
  by (auto simp: all_decimal_def list_all_iff)

lemma all_decimal_isdigit: "all_decimal s \<Longrightarrow> py_isdigit s"
  by (auto simp: all_decimal_def py_isdigit_def list_all_iff)

subsection \<open>Dictionaries\<close>

lemma dict_get_set [simp]: "dict_get (dict_set k v d) j = (if j = k then Some v else dict_get d j)"
  by (auto simp: dict_set_def update_conv)

lemma dict_ok_Nil [simp]: "dict_ok []"
  by (simp add: dict_ok_def)

lemma dict_ok_set [simp]: "dict_ok d \<Longrightarrow> dict_ok (dict_set k v d)"
  by (simp add: dict_ok_def dict_set_def distinct_update)

lemma dict_get_pop [simp]: "dict_get (dict_pop k d) j = (if j = k then None else dict_get d j)"
  by (auto simp: dict_pop_def delete_conv)

lemma dict_ok_pop [simp]: "dict_ok d \<Longrightarrow> dict_ok (dict_pop k d)"
  by (simp add: dict_ok_def dict_pop_def distinct_delete)

lemma set_dict_keys_set: "set (dict_keys (dict_set k v d)) = insert k (set (dict_keys d))"
  using dom_update [of k v d] by (simp add: dict_keys_def dict_set_def dom_map_of_conv_image_fst)

lemma dict_get_mem: "dict_get d k = Some v \<Longrightarrow> (k, v) \<in> set d"
  by (rule map_of_SomeD)

lemma dict_set_new: "k \<notin> fst ` set d \<Longrightarrow> dict_set k v d = d @ [(k, v)]"
  by (induction d) (auto simp: dict_set_def)

lemma dict_ok_Cons: "dict_ok ((k, v) # d) \<longleftrightarrow> k \<notin> fst ` set d \<and> dict_ok d"
  by (auto simp: dict_ok_def)

lemma dict_ok_append_same_set:
  "\<lbrakk>dict_ok d; dict_ok e; set d = set e\<rbrakk> \<Longrightarrow> dict_get d = dict_get e"
  by (simp add: dict_ok_def map_of_inject_set)

lemma set_dict_set: "(j, w) \<in> set (dict_set k v d) \<Longrightarrow> (j = k \<and> w = v) \<or> (j, w) \<in> set d"
  by (induction d) (auto simp: dict_set_def split: if_splits)

lemma set_dict_pop: "set (dict_pop k d) \<subseteq> set d"
  by (auto simp: dict_pop_def AList.delete_eq)

lemma dict_ok_get: "dict_ok d \<Longrightarrow> (k, v) \<in> set d \<Longrightarrow> dict_get d k = Some v"
  by (simp add: dict_ok_def)

subsection \<open>Removing duplicates\<close>

lemma set_dedup_acc: "set (dedup_acc seen xs) = set xs - set seen"
  by (induction xs arbitrary: seen) auto

lemma set_dedup [simp]: "set (dedup xs) = set xs"
  by (simp add: dedup_def set_dedup_acc)

lemma distinct_dedup_acc: "distinct (dedup_acc seen xs)"
  by (induction xs arbitrary: seen) (auto simp: set_dedup_acc)

lemma distinct_dedup [simp]: "distinct (dedup xs)"
  by (simp add: dedup_def distinct_dedup_acc)

lemma dedup_Nil_iff [simp]: "dedup xs = [] \<longleftrightarrow> xs = []"
  by (metis set_dedup set_empty)

lemma set_sorted_set [simp]: "set (sorted_set xs) = set xs"
  by (simp add: sorted_set_def)

lemma sorted_sorted_set [simp]: "sorted (sorted_set xs)"
  by (simp add: sorted_set_def)

lemma distinct_sorted_set [simp]: "distinct (sorted_set xs)"
  by (simp add: sorted_set_def)

section \<open>Interfaces shared by the components\<close>

text \<open>
  A store keyed by an identifier, as the clients use it: a read after a write sees the write, and
  a write to one key leaves the others alone. Every persistent store of the program that the
  development models gives an instance.
\<close>

locale keyed_store =
  fixes lookup :: "'s \<Rightarrow> 'k \<Rightarrow> 'v option"
    and store :: "'k \<Rightarrow> 'v \<Rightarrow> 's \<Rightarrow> 's"
    and wf :: "'s \<Rightarrow> bool"
  assumes lookup_store: "lookup (store k v s) j = (if j = k then Some v else lookup s j)"
    and wf_store: "wf s \<Longrightarrow> wf (store k v s)"
begin

definition store_all :: "('k \<times> 'v) list \<Rightarrow> 's \<Rightarrow> 's" where
  "store_all kvs s = fold (\<lambda>(k, v) t. store k v t) kvs s"

lemma lookup_store_same: "lookup (store k v s) k = Some v"
  by (simp add: lookup_store)

lemma lookup_store_other: "j \<noteq> k \<Longrightarrow> lookup (store k v s) j = lookup s j"
  by (simp add: lookup_store)

lemma store_twice: "lookup (store k w (store k v s)) = lookup (store k w s)"
  by (rule ext) (simp add: lookup_store)

lemma wf_store_all: "wf s \<Longrightarrow> wf (store_all kvs s)"
  by (induction kvs arbitrary: s) (auto simp: store_all_def wf_store)

lemma lookup_store_all:
  "lookup (store_all kvs s) j =
     (case map_of (rev kvs) j of None \<Rightarrow> lookup s j | Some v \<Rightarrow> Some v)"
  by (induction kvs arbitrary: s)
    (auto simp: store_all_def lookup_store map_add_def split: option.splits)

end

interpretation dict_store: keyed_store dict_get dict_set dict_ok
  by unfold_locales simp_all


lemma dict_doc_iff:
  assumes "dict_ok t" "\<forall>(i, v) \<in> set t. key v = i"
  shows "v \<in> set (map snd t) \<longleftrightarrow> dict_get t (key v) = Some v"
proof
  assume "v \<in> set (map snd t)"
  then obtain i where "(i, v) \<in> set t" by auto
  moreover from this have "key v = i" using assms(2) by auto
  ultimately show "dict_get t (key v) = Some v" using assms(1) by (simp add: dict_ok_get)
next
  assume "dict_get t (key v) = Some v"
  then show "v \<in> set (map snd t)" by (force dest: dict_get_mem)
qed

lemma dict_doc_key: "\<forall>(i, v) \<in> set t. key v = i \<Longrightarrow> dict_get t k = Some v \<Longrightarrow> key v = k"
  using dict_get_mem by fastforce

text \<open>A dictionary built from a list of rows keeps the last row of each key.\<close>

definition last_row :: "('a \<Rightarrow> string) \<Rightarrow> string \<Rightarrow> 'a list \<Rightarrow> 'a option" where
  "last_row key k rows = find (\<lambda>r. key r = k) (rev rows)"

lemma last_row_None: "last_row key k rows = None \<longleftrightarrow> k \<notin> key ` set rows"
  by (auto simp: last_row_def find_None_iff)

lemma find_SomeD: "find p xs = Some x \<Longrightarrow> x \<in> set xs \<and> p x"
  by (induction xs) (auto split: if_splits)

lemma last_row_Some: "last_row key k rows = Some r \<Longrightarrow> r \<in> set rows \<and> key r = k"
  using find_SomeD [of "\<lambda>r. key r = k" "rev rows" r] by (simp add: last_row_def)

lemma find_unique:
  assumes "x \<in> set xs" "p x" "\<And>y. y \<in> set xs \<Longrightarrow> p y \<Longrightarrow> y = x"
  shows "find p xs = Some x"
proof -
  have "find p xs \<noteq> None" using assms(1,2) by (auto simp: find_None_iff)
  then obtain y where y: "find p xs = Some y" by blast
  from find_SomeD [OF y] have "y = x" by (intro assms(3)) auto
  then show ?thesis using y by simp
qed

text \<open>
  A store whose documents carry their own key, as the SQLite and JSON stores of the program do: a
  document is written under its key, and a pass over the store rewrites the documents it selects.
\<close>

locale document_store =
  fixes key :: "'v \<Rightarrow> 'k"
    and lookup :: "'s \<Rightarrow> 'k \<Rightarrow> 'v option"
    and put :: "'v \<Rightarrow> 's \<Rightarrow> 's"
    and docs :: "'s \<Rightarrow> 'v list"
    and wf :: "'s \<Rightarrow> bool"
  assumes lookup_put: "lookup (put v s) k = (if k = key v then Some v else lookup s k)"
    and wf_put: "wf s \<Longrightarrow> wf (put v s)"
    and docs_lookup: "wf s \<Longrightarrow> v \<in> set (docs s) \<longleftrightarrow> lookup s (key v) = Some v"
    and lookup_key: "wf s \<Longrightarrow> lookup s k = Some v \<Longrightarrow> key v = k"
begin

definition rewrite :: "('v \<Rightarrow> bool) \<Rightarrow> ('v \<Rightarrow> 'v) \<Rightarrow> 's \<Rightarrow> 's" where
  "rewrite p f s = fold (\<lambda>v. put (f v)) (filter p (docs s)) s"

lemma wf_put_all: "wf s \<Longrightarrow> wf (fold (\<lambda>v. put (f v)) vs s)"
  by (induction vs arbitrary: s) (auto simp: wf_put)

lemma wf_rewrite: "wf s \<Longrightarrow> wf (rewrite p f s)"
  by (simp add: rewrite_def wf_put_all)

lemma lookup_put_all:
  assumes "\<And>v. key (f v) = key v"
    and "\<And>v w. v \<in> set vs \<Longrightarrow> w \<in> set vs \<Longrightarrow> key v = key w \<Longrightarrow> v = w"
  shows "lookup (fold (\<lambda>v. put (f v)) vs s) k =
     (case find (\<lambda>v. key v = k) vs of None \<Rightarrow> lookup s k | Some v \<Rightarrow> Some (f v))"
  using assms(2)
proof (induction vs arbitrary: s)
  case (Cons v vs)
  have rest: "find (\<lambda>w. key w = k) vs = None" if "key v = k" "v \<notin> set vs"
    using that Cons.prems by (auto simp: find_None_iff)
  have again: "find (\<lambda>w. key w = k) vs = Some v" if "key v = k" "v \<in> set vs"
    using that Cons.prems by (intro find_unique) auto
  have ih: "lookup (fold (\<lambda>v. put (f v)) vs t) k =
      (case find (\<lambda>v. key v = k) vs of None \<Rightarrow> lookup t k | Some v \<Rightarrow> Some (f v))" for t
    using Cons by simp
  show ?case
    using ih rest again by (cases "key v = k"; cases "v \<in> set vs") (auto simp: lookup_put assms(1) split: option.split)
qed simp

text \<open>A pass changes exactly the selected documents.\<close>

lemma lookup_rewrite:
  assumes "wf s" "\<And>v. key (f v) = key v"
  shows "lookup (rewrite p f s) k = map_option (\<lambda>v. if p v then f v else v) (lookup s k)"
proof -
  have unique: "\<And>v w. v \<in> set (filter p (docs s)) \<Longrightarrow> w \<in> set (filter p (docs s)) \<Longrightarrow> key v = key w \<Longrightarrow> v = w"
    using assms(1) by (auto simp: docs_lookup)
  have all: "lookup (rewrite p f s) k = (case find (\<lambda>v. key v = k) (filter p (docs s)) of
      None \<Rightarrow> lookup s k | Some v \<Rightarrow> Some (f v))"
    unfolding rewrite_def by (rule lookup_put_all [OF assms(2) unique])
  have here: "v \<in> set (docs s) \<and> key v = k \<longleftrightarrow> lookup s k = Some v" for v
    using assms(1) docs_lookup lookup_key by blast
  show ?thesis
  proof (cases "find (\<lambda>v. key v = k) (filter p (docs s))")
    case None
    then have "\<not> (\<exists>v. lookup s k = Some v \<and> p v)" using here by (auto simp: find_None_iff)
    then show ?thesis using None all by (cases "lookup s k") auto
  next
    case (Some v)
    then have "lookup s k = Some v" "p v" using here find_SomeD [OF Some] by auto
    then show ?thesis using Some all by simp
  qed
qed

end

end
