(* ===== verification/Regex.thy ===== *)
theory Regex
  imports Prelude
begin

text \<open>
  The part of Python's \<open>re\<close> that the program uses: the pattern as a datatype, matched by
  backtracking in the order of \<open>re\<close> (the left alternative first, a greedy repetition as long as it
  can, a lazy one as short as it can), with groups, anchors, lookahead and word boundaries. What is
  left to match after an alternative decides whether it is kept, which is how \<open>re\<close> backtracks. The
  matcher is total; it finds a match exactly when the declarative reading of the pattern
  (\<open>rx_rel\<close>) has one. Repetitions of a pattern that matches the empty string do not occur in the
  program and are given a progress check.
\<close>

section \<open>Patterns\<close>

datatype rx =
    Eps
  | One "char \<Rightarrow> bool"
  | Seq rx rx
  | Alt rx rx
  | Rep bool rx
  | Grp nat rx
  | Look rx
  | Bol
  | Eol
  | Sos
  | Eod
  | Eos
  | Wordb

text \<open>A position: the character before it and the text after it.\<close>

type_synonym pos = "char option \<times> string"
type_synonym groups = "(nat \<times> string) list"

definition newline :: char where "newline = CHR 0x0A"

definition is_word_char :: "char \<Rightarrow> bool" where
  "is_word_char c \<longleftrightarrow> is_ascii_letter c \<or> is_decimal_char c \<or> c = CHR ''_'' \<or>
     cp c \<in> {170, 178, 179, 181, 185, 186, 188, 189, 190} \<or>
     (192 \<le> cp c \<and> cp c \<noteq> 215 \<and> cp c \<noteq> 247)"

definition word_before :: "pos \<Rightarrow> bool" where
  "word_before q = (case fst q of None \<Rightarrow> False | Some c \<Rightarrow> is_word_char c)"

definition word_after :: "pos \<Rightarrow> bool" where
  "word_after q = (case snd q of [] \<Rightarrow> False | c # _ \<Rightarrow> is_word_char c)"

definition at_bol :: "pos \<Rightarrow> bool" where
  "at_bol q \<longleftrightarrow> fst q = None \<or> fst q = Some newline"

definition at_eol :: "pos \<Rightarrow> bool" where
  "at_eol q = (case snd q of [] \<Rightarrow> True | c # _ \<Rightarrow> c = newline)"

text \<open>The text between two positions.\<close>

definition taken :: "pos \<Rightarrow> pos \<Rightarrow> string" where
  "taken q q' = take (length (snd q) - length (snd q')) (snd q)"

text \<open>What is left to do: match a pattern, close a group opened at a position, or go on with a
  repetition that must have consumed something.\<close>

datatype item = Do rx | Close nat pos | Again bool rx nat

fun rx_weight :: "rx \<Rightarrow> nat" where
  "rx_weight (Seq a b) = rx_weight a + rx_weight b + 1"
| "rx_weight (Alt a b) = rx_weight a + rx_weight b + 1"
| "rx_weight (Rep _ r) = rx_weight r + 1"
| "rx_weight (Grp _ r) = rx_weight r + 2"
| "rx_weight (Look r) = rx_weight r + 1"
| "rx_weight _ = 1"

lemma rx_weight_pos [simp]: "0 < rx_weight r"
  by (cases r) simp_all

fun item_weight :: "nat \<Rightarrow> item \<Rightarrow> nat" where
  "item_weight l (Do r) = rx_weight r"
| "item_weight l (Close _ _) = 1"
| "item_weight l (Again _ r n) = (if l < n then rx_weight r + 2 else 0)"

definition items_weight :: "item list \<Rightarrow> pos \<Rightarrow> nat" where
  "items_weight ks q = sum_list (map (item_weight (length (snd q))) ks)"

function run_items :: "item list \<Rightarrow> pos \<Rightarrow> groups \<Rightarrow> (pos \<times> groups) option" where
  "run_items [] q g = Some (q, g)"
| "run_items (Close n p # ks) q g = run_items ks q ((n, taken p q) # g)"
| "run_items (Again greedy r n # ks) q g =
     (if length (snd q) < n then run_items (Do (Rep greedy r) # ks) q g else None)"
| "run_items (Do Eps # ks) q g = run_items ks q g"
| "run_items (Do (One p) # ks) q g =
     (case snd q of [] \<Rightarrow> None | c # cs \<Rightarrow> if p c then run_items ks (Some c, cs) g else None)"
| "run_items (Do (Seq a b) # ks) q g = run_items (Do a # Do b # ks) q g"
| "run_items (Do (Alt a b) # ks) q g =
     (case run_items (Do a # ks) q g of None \<Rightarrow> run_items (Do b # ks) q g | Some x \<Rightarrow> Some x)"
| "run_items (Do (Rep True r) # ks) q g =
     (case run_items (Do r # Again True r (length (snd q)) # ks) q g of
        None \<Rightarrow> run_items ks q g | Some x \<Rightarrow> Some x)"
| "run_items (Do (Rep False r) # ks) q g =
     (case run_items ks q g of
        None \<Rightarrow> run_items (Do r # Again False r (length (snd q)) # ks) q g | Some x \<Rightarrow> Some x)"
| "run_items (Do (Grp n r) # ks) q g = run_items (Do r # Close n q # ks) q g"
| "run_items (Do (Look r) # ks) q g =
     (case run_items [Do r] q g of None \<Rightarrow> None | Some (_, g') \<Rightarrow> run_items ks q g')"
| "run_items (Do Bol # ks) q g = (if at_bol q then run_items ks q g else None)"
| "run_items (Do Eol # ks) q g = (if at_eol q then run_items ks q g else None)"
| "run_items (Do Sos # ks) q g = (if fst q = None then run_items ks q g else None)"
| "run_items (Do Eod # ks) q g = (if snd q = [] \<or> snd q = [newline] then run_items ks q g else None)"
| "run_items (Do Eos # ks) q g = (if snd q = [] then run_items ks q g else None)"
| "run_items (Do Wordb # ks) q g =
     (if word_before q \<noteq> word_after q then run_items ks q g else None)"
  by pat_completeness auto
termination
  by (relation "measures [\<lambda>(ks, q, g). length (snd q), \<lambda>(ks, q, g). items_weight ks q]")
    (auto simp: items_weight_def)

section \<open>The entry points\<close>

definition rx_at :: "rx \<Rightarrow> pos \<Rightarrow> (pos \<times> groups) option" where
  "rx_at r q = run_items [Do r] q []"

text \<open>\<open>re.match\<close> and \<open>re.fullmatch\<close>: the groups of the match.\<close>

definition rx_match :: "rx \<Rightarrow> string \<Rightarrow> groups option" where
  "rx_match r s = map_option snd (rx_at r (None, s))"

definition rx_fullmatch :: "rx \<Rightarrow> string \<Rightarrow> groups option" where
  "rx_fullmatch r s = rx_match (Seq r Eos) s"

text \<open>\<open>re.search\<close>: the text before the match, the positions around it, its groups.\<close>

fun rx_find :: "rx \<Rightarrow> string \<Rightarrow> char option \<Rightarrow> string \<Rightarrow> (string \<times> pos \<times> pos \<times> groups) option" where
  "rx_find r pre b s =
     (case rx_at r (b, s) of
        Some (q', g) \<Rightarrow> Some (pre, (b, s), q', g)
      | None \<Rightarrow> (case s of [] \<Rightarrow> None | c # cs \<Rightarrow> rx_find r (pre @ [c]) (Some c) cs))"

declare rx_find.simps [simp del]

definition rx_search :: "rx \<Rightarrow> string \<Rightarrow> groups option" where
  "rx_search r s = map_option (\<lambda>(_, _, _, g). g) (rx_find r [] None s)"

definition group :: "groups \<Rightarrow> nat \<Rightarrow> string option" where
  "group g n = map_of g n"

definition group_text :: "groups \<Rightarrow> nat \<Rightarrow> string" where
  "group_text g n = (case map_of g n of None \<Rightarrow> [] | Some t \<Rightarrow> t)"

text \<open>
  \<open>re.finditer\<close>: the text before each match and its groups, and the text after the last one. The
  fuel bounds the number of matches by the length of the text, which is enough because every match
  is followed by a later start.
\<close>

fun rx_pieces :: "nat \<Rightarrow> rx \<Rightarrow> char option \<Rightarrow> string \<Rightarrow> (string \<times> string \<times> groups) list \<times> string" where
  "rx_pieces 0 r b s = ([], s)"
| "rx_pieces (Suc n) r b s =
     (case rx_find r [] b s of
        None \<Rightarrow> ([], s)
      | Some (pre, q, q', g) \<Rightarrow>
          if length (snd q') < length (snd q)
          then (case rx_pieces n r (fst q') (snd q') of
                  (ms, rest) \<Rightarrow> ((pre, taken q q', g) # ms, rest))
          else (case snd q of
                  [] \<Rightarrow> ([(pre, [], g)], [])
                | c # cs \<Rightarrow>
                    (case rx_pieces n r (Some c) cs of
                       ([], rest) \<Rightarrow> ([(pre, [], g)], c # rest)
                     | ((b', t, g') # ms, rest) \<Rightarrow> ((pre, [], g) # (c # b', t, g') # ms, rest))))"

definition rx_finditer :: "rx \<Rightarrow> string \<Rightarrow> groups list" where
  "rx_finditer r s = map (\<lambda>(_, _, g). g) (fst (rx_pieces (Suc (length s)) r None s))"

definition rx_sub :: "rx \<Rightarrow> (groups \<Rightarrow> string) \<Rightarrow> string \<Rightarrow> string" where
  "rx_sub r f s =
     (case rx_pieces (Suc (length s)) r None s of
        (ms, rest) \<Rightarrow> concat (map (\<lambda>(pre, _, g). pre @ f g) ms) @ rest)"

definition rx_split :: "rx \<Rightarrow> string \<Rightarrow> string list" where
  "rx_split r s =
     (case rx_pieces (Suc (length s)) r None s of (ms, rest) \<Rightarrow> map fst ms @ [rest])"

section \<open>Building patterns\<close>

definition chr_i :: "char \<Rightarrow> char \<Rightarrow> bool" where
  "chr_i a c \<longleftrightarrow> py_lower_char c = py_lower_char a"

fun lit :: "string \<Rightarrow> rx" where
  "lit [] = Eps"
| "lit [c] = One ((=) c)"
| "lit (c # cs) = Seq (One ((=) c)) (lit cs)"

text \<open>The same under \<open>re.IGNORECASE\<close>.\<close>

fun liti :: "string \<Rightarrow> rx" where
  "liti [] = Eps"
| "liti [c] = One (chr_i c)"
| "liti (c # cs) = Seq (One (chr_i c)) (liti cs)"

fun seqs :: "rx list \<Rightarrow> rx" where
  "seqs [] = Eps"
| "seqs [r] = r"
| "seqs (r # rs) = Seq r (seqs rs)"

fun alts :: "rx list \<Rightarrow> rx" where
  "alts [] = One (\<lambda>_. False)"
| "alts [r] = r"
| "alts (r # rs) = Alt r (alts rs)"

definition opt :: "rx \<Rightarrow> rx" where "opt r = Alt r Eps"
definition star :: "rx \<Rightarrow> rx" where "star r = Rep True r"
definition plus1 :: "rx \<Rightarrow> rx" where "plus1 r = Seq r (Rep True r)"
definition star_lazy :: "rx \<Rightarrow> rx" where "star_lazy r = Rep False r"
definition plus_lazy :: "rx \<Rightarrow> rx" where "plus_lazy r = Seq r (Rep False r)"

definition repeat :: "nat \<Rightarrow> rx \<Rightarrow> rx" where "repeat n r = seqs (replicate n r)"

text \<open>\<open>r{0,n}\<close> and \<open>r{m,n}\<close>.\<close>

fun upto_rx :: "nat \<Rightarrow> rx \<Rightarrow> rx" where
  "upto_rx 0 r = Eps"
| "upto_rx (Suc n) r = opt (Seq r (upto_rx n r))"

definition between :: "nat \<Rightarrow> nat \<Rightarrow> rx \<Rightarrow> rx" where
  "between m n r = Seq (repeat m r) (upto_rx (n - m) r)"

definition sp :: rx where "sp = One py_isspace_char"
definition nsp :: rx where "nsp = One (\<lambda>c. \<not> py_isspace_char c)"
definition dig :: rx where "dig = One is_decimal_char"
definition dot :: rx where "dot = One (\<lambda>c. c \<noteq> newline)"
definition anyc :: rx where "anyc = One (\<lambda>_. True)"
definition word :: rx where "word = One is_word_char"
definition chars_in :: "string \<Rightarrow> rx" where "chars_in s = One (\<lambda>c. c \<in> set s)"
definition chars_not :: "string \<Rightarrow> rx" where "chars_not s = One (\<lambda>c. c \<notin> set s)"
definition hexd :: rx where "hexd = One (\<lambda>c. c \<in> set ''0123456789abcdefABCDEF'')"

section \<open>What the matcher computes\<close>

text \<open>The declarative reading: which positions a pattern relates.\<close>

inductive rx_rel :: "rx \<Rightarrow> pos \<Rightarrow> pos \<Rightarrow> bool" where
  rel_Eps: "rx_rel Eps q q"
| rel_One: "p c \<Longrightarrow> rx_rel (One p) (b, c # cs) (Some c, cs)"
| rel_Seq: "rx_rel a q q1 \<Longrightarrow> rx_rel b q1 q2 \<Longrightarrow> rx_rel (Seq a b) q q2"
| rel_Alt1: "rx_rel a q q1 \<Longrightarrow> rx_rel (Alt a b) q q1"
| rel_Alt2: "rx_rel b q q1 \<Longrightarrow> rx_rel (Alt a b) q q1"
| rel_Rep0: "rx_rel (Rep gr r) q q"
| rel_Rep1: "rx_rel r q q1 \<Longrightarrow> length (snd q1) < length (snd q) \<Longrightarrow> rx_rel (Rep gr r) q1 q2
              \<Longrightarrow> rx_rel (Rep gr r) q q2"
| rel_Grp: "rx_rel r q q1 \<Longrightarrow> rx_rel (Grp n r) q q1"
| rel_Look: "rx_rel r q q1 \<Longrightarrow> rx_rel (Look r) q q"
| rel_Bol: "at_bol q \<Longrightarrow> rx_rel Bol q q"
| rel_Eol: "at_eol q \<Longrightarrow> rx_rel Eol q q"
| rel_Sos: "fst q = None \<Longrightarrow> rx_rel Sos q q"
| rel_Eod: "snd q = [] \<or> snd q = [newline] \<Longrightarrow> rx_rel Eod q q"
| rel_Eos: "snd q = [] \<Longrightarrow> rx_rel Eos q q"
| rel_Wordb: "word_before q \<noteq> word_after q \<Longrightarrow> rx_rel Wordb q q"

inductive_cases rx_EpsE: "rx_rel Eps q q'"
inductive_cases rx_OneE: "rx_rel (One p) q q'"
inductive_cases rx_SeqE: "rx_rel (Seq a b) q q'"
inductive_cases rx_AltE: "rx_rel (Alt a b) q q'"
inductive_cases rx_RepE: "rx_rel (Rep gr r) q q'"
inductive_cases rx_GrpE: "rx_rel (Grp n r) q q'"
inductive_cases rx_LookE: "rx_rel (Look r) q q'"
inductive_simps rx_rel_simps: "rx_rel Eps q q'" "rx_rel (Seq a b) q q'" "rx_rel (Alt a b) q q'"
  "rx_rel (Grp n r) q q'" "rx_rel (Look r) q q'" "rx_rel Bol q q'" "rx_rel Eol q q'"
  "rx_rel Sos q q'" "rx_rel Eod q q'" "rx_rel Eos q q'" "rx_rel Wordb q q'"
  "rx_rel (One p) (b, s) q'"

text \<open>The positions that the items left to do relate.\<close>

fun items_rel :: "item list \<Rightarrow> pos \<Rightarrow> pos \<Rightarrow> bool" where
  "items_rel [] q q' = (q = q')"
| "items_rel (Do r # ks) q q' = (\<exists>q1. rx_rel r q q1 \<and> items_rel ks q1 q')"
| "items_rel (Close n p # ks) q q' = items_rel ks q q'"
| "items_rel (Again gr r n # ks) q q' =
     (length (snd q) < n \<and> (\<exists>q1. rx_rel (Rep gr r) q q1 \<and> items_rel ks q1 q'))"

lemma run_items_sound: "run_items ks q g = Some (q', g') \<Longrightarrow> items_rel ks q q'"
proof (induction ks q g arbitrary: q' g' rule: run_items.induct)
  case (5 p ks q g)
  obtain c cs where c: "snd q = c # cs" "p c" "run_items ks (Some c, cs) g = Some (q', g')"
    using 5(2) by (auto split: list.splits if_splits)
  then have "rx_rel (One p) q (Some c, cs)" by (cases q) (auto intro: rel_One)
  moreover note 5(1) [OF c]
  ultimately show ?case by auto
next
  case (6 a b ks q g)
  then show ?case by (fastforce intro: rel_Seq)
next
  case (7 a b ks q g)
  then show ?case by (fastforce intro: rel_Alt1 rel_Alt2 split: option.splits)
next
  case (8 r ks q g)
  have step: "items_rel (Do r # Again True r (length (snd q)) # ks) q q' \<Longrightarrow> ?case"
    unfolding items_rel.simps by (blast intro: rel_Rep1)
  have stop: "items_rel ks q q' \<Longrightarrow> ?case"
    unfolding items_rel.simps by (blast intro: rel_Rep0)
  show ?case
  proof (cases "run_items (Do r # Again True r (length (snd q)) # ks) q g")
    case None
    then show ?thesis using 8 by (intro stop) auto
  next
    case (Some x)
    then show ?thesis using 8 by (intro step) auto
  qed
next
  case (9 r ks q g)
  have step: "items_rel (Do r # Again False r (length (snd q)) # ks) q q' \<Longrightarrow> ?case"
    unfolding items_rel.simps by (blast intro: rel_Rep1)
  have stop: "items_rel ks q q' \<Longrightarrow> ?case"
    unfolding items_rel.simps by (blast intro: rel_Rep0)
  show ?case
  proof (cases "run_items (ks) q g")
    case None
    then show ?thesis using 9 by (intro step) auto
  next
    case (Some x)
    then show ?thesis using 9 by (intro stop) auto
  qed
next
  case (11 r ks q g)
  obtain q1 g1 where 1: "run_items [Do r] q g = Some (q1, g1)" "run_items ks q g1 = Some (q', g')"
    using 11(3) by (auto split: option.splits)
  have "rx_rel r q q1" using 11(1) [OF 1(1)] by auto
  moreover have "items_rel ks q q'" using 11(2) [OF 1(1)] 1(2) by auto
  ultimately show ?case unfolding items_rel.simps by (blast intro: rel_Look)
qed (fastforce simp: rx_rel_simps intro: rel_Grp split: if_splits)+

lemma run_items_complete: "items_rel ks q q' \<Longrightarrow> run_items ks q g \<noteq> None"
proof (induction ks q g arbitrary: q' rule: run_items.induct)
  case (3 greedy r n ks q g)
  then have "length (snd q) < n" "items_rel (Do (Rep greedy r) # ks) q q'" by simp_all
  then show ?case using 3(1) [of q'] by simp
next
  case (6 a b ks q g)
  then have "items_rel (Do a # Do b # ks) q q'" unfolding items_rel.simps by (blast elim: rx_SeqE)
  then show ?case using 6(1) [of q'] by simp
next
  case (5 p ks q g)
  obtain c cs where c: "snd q = c # cs" "p c" "items_rel ks (Some c, cs) q'"
    using 5(2) by (cases q) (auto simp: rx_rel_simps)
  then show ?case using 5(1) [OF c] by simp
next
  case (7 a b ks q g)
  from 7(3) consider "items_rel (Do a # ks) q q'" | "items_rel (Do b # ks) q q'"
    unfolding items_rel.simps by (blast elim: rx_AltE)
  then show ?case
    by cases (use 7(1) [of q'] 7(2) [of q'] in \<open>auto split: option.split\<close>)
next
  case (8 r ks q g)
  from 8(3) consider "items_rel ks q q'" | "items_rel (Do r # Again True r (length (snd q)) # ks) q q'"
    unfolding items_rel.simps by (blast elim: rx_RepE)
  then show ?case
    by cases (use 8(1) [of q'] 8(2) [of q'] in \<open>auto split: option.split\<close>)
next
  case (9 r ks q g)
  from 9(3) consider "items_rel ks q q'" | "items_rel (Do r # Again False r (length (snd q)) # ks) q q'"
    unfolding items_rel.simps by (blast elim: rx_RepE)
  then show ?case
    by cases (use 9(1) [of q'] 9(2) [of q'] in \<open>auto split: option.split\<close>)
next
  case (11 r ks q g)
  obtain q1 where q1: "rx_rel r q q1" "items_rel ks q q'" using 11(3) by (auto simp: rx_rel_simps)
  have "items_rel [Do r] q q1" using q1(1) by (cases q1) simp
  from 11(1) [OF this] obtain q2 g2 where "run_items [Do r] q g = Some (q2, g2)" by auto
  moreover from this have "run_items ks q g2 \<noteq> None" using 11(2) [of "(q2, g2)"] q1(2) by auto
  ultimately show ?case by auto
qed (auto simp: rx_rel_simps)

lemma rx_at_iff: "rx_at r q \<noteq> None \<longleftrightarrow> (\<exists>q'. rx_rel r q q')"
proof
  assume "rx_at r q \<noteq> None"
  then show "\<exists>q'. rx_rel r q q'" unfolding rx_at_def using run_items_sound [of "[Do r]" q "[]"] by fastforce
next
  assume "\<exists>q'. rx_rel r q q'"
  then show "rx_at r q \<noteq> None" unfolding rx_at_def using run_items_complete [of "[Do r]" q] by auto
qed

lemma rx_match_iff: "rx_match r s \<noteq> None \<longleftrightarrow> (\<exists>q'. rx_rel r (None, s) q')"
  using rx_at_iff [of r "(None, s)"] by (simp add: rx_match_def)

lemma rx_rel_extends: "rx_rel r q q' \<Longrightarrow> \<exists>t. snd q = t @ snd q'"
  by (induction rule: rx_rel.induct) auto

lemma taken_append: "snd q = t @ snd q' \<Longrightarrow> taken q q' = t"
  by (simp add: taken_def)

section \<open>Literals, classes and groups\<close>

text \<open>The position after a text.\<close>

definition adv :: "char option \<Rightarrow> string \<Rightarrow> string \<Rightarrow> pos" where
  "adv b t r = (if t = [] then b else Some (last t), r)"

lemma snd_adv [simp]: "snd (adv b t r) = r"
  by (simp add: adv_def)

lemma adv_Nil [simp]: "adv b [] r = (b, r)"
  by (simp add: adv_def)

lemma adv_Cons: "adv (Some c) t r = adv b (c # t) r"
  by (simp add: adv_def)

lemma rel_One_iff: "rx_rel (One p) (b, s) q' \<longleftrightarrow> (\<exists>c r. s = c # r \<and> p c \<and> q' = (Some c, r))"
  by (auto simp: rx_rel_simps)

lemma rel_One_adv: "rx_rel (One p) (b, s) q' \<longleftrightarrow> (\<exists>c r. s = [c] @ r \<and> p c \<and> q' = adv b [c] r)"
  by (auto simp: rel_One_iff adv_def)

lemma rel_liti:
  "rx_rel (liti w) (b, s) q' \<longleftrightarrow> (\<exists>t r. s = t @ r \<and> py_lower t = py_lower w \<and> q' = adv b t r)"
proof (induction w arbitrary: b s rule: liti.induct)
  case 1
  show ?case by (auto simp: rx_rel_simps py_lower_def)
next
  case (2 c)
  show ?case by (auto simp: rel_One_iff chr_i_def py_lower_def adv_def)
next
  case (3 c d cs)
  have "rx_rel (liti (c # d # cs)) (b, s) q' \<longleftrightarrow>
      (\<exists>x r. s = x # r \<and> chr_i c x \<and> rx_rel (liti (d # cs)) (Some x, r) q')"
    by (auto simp: rx_rel_simps(2) rel_One_iff)
  also have "\<dots> \<longleftrightarrow> (\<exists>x t r. s = x # t @ r \<and> chr_i c x \<and> py_lower t = py_lower (d # cs) \<and> q' = adv b (x # t) r)"
    by (auto simp: 3 adv_def)
  also have "\<dots> \<longleftrightarrow> (\<exists>t r. s = t @ r \<and> py_lower t = py_lower (c # d # cs) \<and> q' = adv b t r)"
  proof
    assume "\<exists>x t r. s = x # t @ r \<and> chr_i c x \<and> py_lower t = py_lower (d # cs) \<and> q' = adv b (x # t) r"
    then obtain x t r where "s = (x # t) @ r" "chr_i c x" "py_lower t = py_lower (d # cs)" "q' = adv b (x # t) r"
      by auto
    then show "\<exists>t r. s = t @ r \<and> py_lower t = py_lower (c # d # cs) \<and> q' = adv b t r"
      by (intro exI [of _ "x # t"] exI [of _ r]) (auto simp: chr_i_def py_lower_def)
  next
    assume "\<exists>t r. s = t @ r \<and> py_lower t = py_lower (c # d # cs) \<and> q' = adv b t r"
    then obtain t r where t: "s = t @ r" "py_lower t = py_lower (c # d # cs)" "q' = adv b t r" by auto
    then obtain x t' where "t = x # t'" by (cases t) (auto simp: py_lower_def)
    then show "\<exists>x t r. s = x # t @ r \<and> chr_i c x \<and> py_lower t = py_lower (d # cs) \<and> q' = adv b (x # t) r"
      using t by (intro exI [of _ x] exI [of _ t'] exI [of _ r]) (auto simp: chr_i_def py_lower_def)
  qed
  finally show ?case .
qed

lemma rel_Rep_One_fwd:
  "list_all p t \<Longrightarrow> rx_rel (Rep gr (One p)) (b, t @ r) (adv b t r)"
proof (induction t arbitrary: b)
  case Nil
  show ?case by (simp add: rel_Rep0)
next
  case (Cons c t)
  have "rx_rel (One p) (b, c # t @ r) (Some c, t @ r)" using Cons.prems by (auto intro: rel_One)
  moreover have "rx_rel (Rep gr (One p)) (Some c, t @ r) (adv b (c # t) r)"
    using Cons.IH [of "Some c"] Cons.prems by (simp add: adv_Cons [of c t r b])
  ultimately show ?case by (auto intro: rel_Rep1)
qed

lemma rel_Rep_One:
  "rx_rel (Rep gr (One p)) (b, s) q' \<longleftrightarrow> (\<exists>t r. s = t @ r \<and> list_all p t \<and> q' = adv b t r)"
proof
  have "rx_rel R q q' \<Longrightarrow> R = Rep gr (One p) \<Longrightarrow>
      \<exists>t r. snd q = t @ r \<and> list_all p t \<and> q' = adv (fst q) t r" for R q
  proof (induction rule: rx_rel.induct)
    case (rel_Rep0 gr' r q)
    then show ?case by (intro exI [of _ "[]"] exI [of _ "snd q"]) simp
  next
    case (rel_Rep1 r q q1 gr' q2)
    then obtain c cs where c: "snd q = c # cs" "p c" "q1 = (Some c, cs)"
      by (cases q) (auto simp: rel_One_iff)
    obtain t r' where "snd q1 = t @ r'" "list_all p t" "q2 = adv (fst q1) t r'"
      using rel_Rep1 by auto
    then show ?case using c
      by (intro exI [of _ "c # t"] exI [of _ r']) (simp add: adv_Cons [of c t r' "fst q"])
  qed simp_all
  then show "rx_rel (Rep gr (One p)) (b, s) q' \<Longrightarrow> \<exists>t r. s = t @ r \<and> list_all p t \<and> q' = adv b t r"
    by fastforce
qed (auto intro: rel_Rep_One_fwd)

lemma rel_plus1_One:
  "rx_rel (plus1 (One p)) (b, s) q' \<longleftrightarrow>
     (\<exists>t r. s = t @ r \<and> t \<noteq> [] \<and> list_all p t \<and> q' = adv b t r)"
proof -
  have "rx_rel (plus1 (One p)) (b, s) q' \<longleftrightarrow>
      (\<exists>c t r. s = (c # t) @ r \<and> p c \<and> list_all p t \<and> q' = adv (Some c) t r)"
    by (auto simp: plus1_def rx_rel_simps(2) rel_One_iff rel_Rep_One)
  also have "\<dots> \<longleftrightarrow> (\<exists>t r. s = t @ r \<and> t \<noteq> [] \<and> list_all p t \<and> q' = adv b t r)"
  proof
    assume "\<exists>t r. s = t @ r \<and> t \<noteq> [] \<and> list_all p t \<and> q' = adv b t r"
    then obtain t r where t: "s = t @ r" "t \<noteq> []" "list_all p t" "q' = adv b t r" by auto
    then obtain c t' where "t = c # t'" by (cases t) auto
    then show "\<exists>c t r. s = (c # t) @ r \<and> p c \<and> list_all p t \<and> q' = adv (Some c) t r"
      using t by (auto simp: adv_Cons [of c _ _ b])
  next
    assume "\<exists>c t r. s = (c # t) @ r \<and> p c \<and> list_all p t \<and> q' = adv (Some c) t r"
    then obtain c t r where "s = (c # t) @ r" "p c" "list_all p t" "q' = adv (Some c) t r" by blast
    then show "\<exists>t r. s = t @ r \<and> t \<noteq> [] \<and> list_all p t \<and> q' = adv b t r"
      by (intro exI [of _ "c # t"] exI [of _ r]) (simp add: adv_Cons [of c t r b])
  qed
  finally show ?thesis .
qed

text \<open>A pattern without groups leaves the groups found so far.\<close>

fun no_groups :: "rx \<Rightarrow> bool" where
  "no_groups (Seq a b) = (no_groups a \<and> no_groups b)"
| "no_groups (Alt a b) = (no_groups a \<and> no_groups b)"
| "no_groups (Rep _ r) = no_groups r"
| "no_groups (Grp _ _) = False"
| "no_groups (Look r) = no_groups r"
| "no_groups _ = True"

fun items_groups :: "item list \<Rightarrow> pos \<Rightarrow> groups \<Rightarrow> pos \<Rightarrow> groups \<Rightarrow> bool" where
  "items_groups [] q g q' g' = (q = q' \<and> g = g')"
| "items_groups (Do r # ks) q g q' g' = (\<exists>q1. rx_rel r q q1 \<and> items_groups ks q1 g q' g')"
| "items_groups (Close n p # ks) q g q' g' = items_groups ks q ((n, taken p q) # g) q' g'"
| "items_groups (Again gr r n # ks) q g q' g' =
     (length (snd q) < n \<and> (\<exists>q1. rx_rel (Rep gr r) q q1 \<and> items_groups ks q1 g q' g'))"

fun item_plain :: "item \<Rightarrow> bool" where
  "item_plain (Do r) = no_groups r"
| "item_plain (Close n p) = True"
| "item_plain (Again gr r n) = no_groups r"

lemma run_items_groups:
  "run_items ks q g = Some (q', g') \<Longrightarrow> list_all item_plain ks \<Longrightarrow> items_groups ks q g q' g'"
proof (induction ks q g arbitrary: q' g' rule: run_items.induct)
  case (5 p ks q g)
  obtain c cs where c: "snd q = c # cs" "p c" "run_items ks (Some c, cs) g = Some (q', g')"
    using 5(2) by (auto split: list.splits if_splits)
  then have "rx_rel (One p) q (Some c, cs)" by (cases q) (auto intro: rel_One)
  moreover have "items_groups ks (Some c, cs) g q' g'" using 5(1) [OF c] 5(3) by simp
  ultimately show ?case by auto
next
  case (6 a b ks q g)
  then show ?case by (fastforce intro: rel_Seq)
next
  case (7 a b ks q g)
  then show ?case by (fastforce intro: rel_Alt1 rel_Alt2 split: option.splits)
next
  case (8 r ks q g)
  have step: "items_groups (Do r # Again True r (length (snd q)) # ks) q g q' g' \<Longrightarrow> ?case"
    unfolding items_groups.simps by (blast intro: rel_Rep1)
  have stop: "items_groups ks q g q' g' \<Longrightarrow> ?case"
    unfolding items_groups.simps by (blast intro: rel_Rep0)
  show ?case
  proof (cases "run_items (Do r # Again True r (length (snd q)) # ks) q g")
    case None
    then show ?thesis using 8 by (intro stop) auto
  next
    case (Some x)
    then show ?thesis using 8 by (intro step) auto
  qed
next
  case (9 r ks q g)
  have step: "items_groups (Do r # Again False r (length (snd q)) # ks) q g q' g' \<Longrightarrow> ?case"
    unfolding items_groups.simps by (blast intro: rel_Rep1)
  have stop: "items_groups ks q g q' g' \<Longrightarrow> ?case"
    unfolding items_groups.simps by (blast intro: rel_Rep0)
  show ?case
  proof (cases "run_items (ks) q g")
    case None
    then show ?thesis using 9 by (intro step) auto
  next
    case (Some x)
    then show ?thesis using 9 by (intro stop) auto
  qed
next
  case (11 r ks q g)
  obtain q1 g1 where 1: "run_items [Do r] q g = Some (q1, g1)" "run_items ks q g1 = Some (q', g')"
    using 11(3) by (auto split: option.splits)
  have "rx_rel r q q1" "g1 = g" using 11(1) [OF 1(1)] 11(4) by auto
  moreover have "items_groups ks q g q' g'" using 11(2) [OF 1(1)] 1(2) \<open>g1 = g\<close> 11(4) by auto
  ultimately show ?case unfolding items_groups.simps by (blast intro: rel_Look)
qed (fastforce simp: rx_rel_simps split: if_splits)+

text \<open>A match of a pattern that captures a first part: where the part ends, and what it holds.\<close>

lemma rx_match_head:
  assumes "rx_match (Seq (Grp 1 h) t) s = Some g" "no_groups h" "no_groups t"
  shows "\<exists>p r b q'. s = p @ r \<and> rx_rel h (None, s) (b, r) \<and> rx_rel t (b, r) q' \<and> g = [(1, p)]"
proof -
  obtain q0 where x: "run_items [Do h, Close 1 (None, s), Do t] (None, s) [] = Some (q0, g)"
    using assms(1) by (auto simp: rx_match_def rx_at_def)
  obtain q q' where q: "rx_rel h (None, s) q" and q': "rx_rel t q q'" "g = [(1, taken (None, s) q)]"
    using run_items_groups [OF x] assms(2,3) by auto
  obtain p where "s = p @ snd q" using rx_rel_extends [OF q(1)] by auto
  moreover from this have "g = [(1, p)]" using q'(2) taken_append [of "(None, s)" p q] by simp
  ultimately show ?thesis using q q'(1)
    by (intro exI [of _ p] exI [of _ "snd q"] exI [of _ "fst q"] exI [of _ q']) simp
qed

end
