(* ===== verification/Redaction.thy ===== *)
theory Redaction
  imports Regex
begin

text \<open>
  What keeps secrets out of logs, the audit trail and configuration previews:
  \<open>backend/app/logging_config.py\<close> (\<open>register_secret\<close>, \<open>redact\<close>) and \<open>redact_config\<close> of
  \<open>backend/app/parsers/config_parser.py\<close>. The set of registered secrets is a list; every property
  holds for each order in which Python may iterate over it. Shown: a registered secret does not
  occur in redacted text, and of a configuration line with a known secret nothing after the
  keywords is kept.
\<close>

section \<open>Log redaction\<close>

definition redacted :: string where
  "redacted = ''<redacted>''"

definition quote_opt :: rx where
  "quote_opt = opt (chars_in [CHR 0x22, CHR 0x27])"

definition secret_patterns :: "rx list" where
  "secret_patterns =
     [Seq (Grp 1 (seqs [liti ''password'', star sp, chars_in '':='', star sp])) (plus1 nsp),
      Seq (Grp 1 (seqs [liti ''enable'', plus1 sp, Alt (liti ''secret'') (liti ''password''),
             opt (seqs [plus1 sp, plus1 dig]), plus1 sp])) (plus1 nsp),
      Seq (Grp 1 (seqs [liti ''secret'', star sp, chars_in '':='', star sp])) (plus1 nsp),
      Seq (Grp 1 (seqs [Alt (liti ''switchPassword'') (liti ''switchEnableSecret''), quote_opt,
             star sp, chars_in '':='', star sp, quote_opt]))
          (plus1 (One (\<lambda>c. \<not> py_isspace_char c \<and> c \<noteq> CHR 0x22 \<and> c \<noteq> CHR 0x27))),
      seqs [Bol, Grp 1 (seqs [star sp, liti ''description'', plus1 sp]), plus1 dot, Eol]]"

definition register_secret :: "string option \<Rightarrow> string list \<Rightarrow> string list" where
  "register_secret v secrets =
     (if length (or_empty v) \<ge> 4 \<and> or_empty v \<notin> set secrets then secrets @ [or_empty v] else secrets)"

fun redact_dynamic :: "string list \<Rightarrow> string \<Rightarrow> string" where
  "redact_dynamic [] out = out"
| "redact_dynamic (s # ss) out =
     redact_dynamic ss (if s \<noteq> [] \<and> py_contains s out then py_replace out s redacted else out)"

definition redact :: "string list \<Rightarrow> string \<Rightarrow> string" where
  "redact secrets text =
     (if text = [] then text
      else redact_dynamic secrets
             (fold (\<lambda>pat out. rx_sub pat (\<lambda>g. group_text g 1 @ redacted) out) secret_patterns text))"

section \<open>Configuration preview\<close>

definition kw_number :: rx where
  "kw_number = opt (seqs [plus1 sp, plus1 dig])"

definition rest_of_line :: rx where
  "rest_of_line = seqs [nsp, star nsp, star dot, Eod]"

definition full_line_heads :: "rx list" where
  "full_line_heads =
     [seqs [star sp, liti ''enable'', plus1 sp, Alt (liti ''secret'') (liti ''password''), kw_number, plus1 sp],
      seqs [star sp, liti ''username'', plus1 sp, plus1 nsp, star_lazy dot, plus1 sp,
            Alt (liti ''secret'') (liti ''password''), kw_number, plus1 sp],
      seqs [star sp, liti ''password'', kw_number, plus1 sp],
      seqs [star sp, Alt (liti ''tacacs-server'') (liti ''radius-server''), plus1 sp, liti ''key'',
            kw_number, plus1 sp],
      seqs [star sp, liti ''key-string'', kw_number, plus1 sp],
      seqs [star sp, liti ''ppp'', plus1 sp, liti ''chap'', plus1 sp, liti ''password'', kw_number, plus1 sp]]"

definition full_line_pattern :: "rx \<Rightarrow> rx" where
  "full_line_pattern h = Seq Sos (Seq (Grp 1 h) rest_of_line)"

definition token_patterns :: "rx list" where
  "token_patterns =
     [seqs [Sos, Grp 1 (seqs [star sp, liti ''snmp-server'', plus1 sp, liti ''community'', plus1 sp]),
            plus1 nsp, Grp 2 (star dot), Eod],
      seqs [Sos, Grp 1 (seqs [star sp, liti ''crypto'', plus1 sp, liti ''isakmp'', plus1 sp, liti ''key'', plus1 sp]),
            plus1 nsp, Grp 2 (seqs [plus1 sp, liti ''address'', plus1 sp, star dot]), Eod],
      seqs [Sos, Grp 1 (seqs [star sp, liti ''ntp'', plus1 sp, liti ''authentication-key'', plus1 sp, plus1 dig,
              plus1 sp, plus1 nsp, opt (seqs [plus1 sp, plus1 dig]), plus1 sp]),
            plus1 nsp, Grp 2 (star dot), Eod]]"

fun redact_full :: "rx list \<Rightarrow> string \<Rightarrow> string option" where
  "redact_full [] line = None"
| "redact_full (h # hs) line =
     (case rx_match (full_line_pattern h) line of
        Some g \<Rightarrow> Some (group_text g 1 @ redacted)
      | None \<Rightarrow> redact_full hs line)"

text \<open>\<open>pattern.subn\<close> counts its replacements; the first pattern that makes one ends the loop.\<close>

fun redact_tokens :: "rx list \<Rightarrow> string \<Rightarrow> string" where
  "redact_tokens [] line = line"
| "redact_tokens (p # ps) line =
     (if rx_search p line \<noteq> None
      then rx_sub p (\<lambda>g. group_text g 1 @ redacted @ group_text g 2) line
      else redact_tokens ps line)"

definition redact_line :: "string \<Rightarrow> string" where
  "redact_line line =
     (case redact_full full_line_heads line of
        Some out \<Rightarrow> out
      | None \<Rightarrow> redact_tokens token_patterns line)"

definition redact_config :: "string \<Rightarrow> string" where
  "redact_config text = py_join [CHR 0x0A] (map redact_line (py_splitlines text))"

section \<open>Lemmas\<close>

text \<open>
  Strings that an inserted marker cannot complete: no end of one is the beginning of the marker or
  continues it, and no end of the marker is the beginning of one or continues it. In particular such a
  string neither holds the marker nor lies in it; an angle bracket inside it does no harm.
\<close>

fun tails :: "'a list \<Rightarrow> 'a list list" where
  "tails [] = []"
| "tails (x # xs) = (x # xs) # tails xs"

definition marker_free :: "string \<Rightarrow> bool" where
  "marker_free s \<longleftrightarrow> s \<noteq> [] \<and> list_all (\<lambda>u. parallel u redacted) (tails s) \<and>
     list_all (\<lambda>u. parallel u s) (tails redacted)"

lemma prefix_replace:
  "list_all (\<lambda>u. parallel u redacted) (tails s) \<Longrightarrow> prefix s (py_replace_n n t redacted x) \<Longrightarrow> prefix s x"
proof (induction n t redacted x arbitrary: s rule: py_replace_n.induct)
  case (2 n t c cs)
  show ?case
  proof (cases s)
    case (Cons d ds)
    then have "\<not> prefix s (redacted @ y)" for y
      using 2(3) prefix_same_cases [of s "redacted @ y" redacted] by (auto simp: parallel_def)
    then show ?thesis using 2 Cons by (auto split: if_splits)
  qed simp
qed simp

lemma py_contains_iff: "py_contains p s \<longleftrightarrow> (\<exists>u v. s = u @ p @ v)"
proof (induction s)
  case (Cons c cs)
  show ?case
  proof
    assume "py_contains p (c # cs)"
    then consider "prefix p (c # cs)" | "\<exists>u v. cs = u @ p @ v" using Cons by auto
    then show "\<exists>u v. c # cs = u @ p @ v"
    proof cases
      case 1
      then obtain v where "c # cs = p @ v" by (rule prefixE)
      then have "c # cs = [] @ p @ v" by simp
      then show ?thesis by blast
    next
      case 2
      then obtain u v where "cs = u @ p @ v" by blast
      then have "c # cs = (c # u) @ p @ v" by simp
      then show ?thesis by blast
    qed
  next
    assume "\<exists>u v. c # cs = u @ p @ v"
    then obtain u v where uv: "c # cs = u @ p @ v" by blast
    show "py_contains p (c # cs)"
    proof (cases u)
      case Nil
      then have "prefix p (c # cs)" using uv by (simp only: append_Nil prefix_def) blast
      then show ?thesis by simp
    next
      case (Cons d u')
      then have "cs = u' @ p @ v" using uv by simp
      then show ?thesis using \<open>py_contains p cs = _\<close> by auto
    qed
  qed
qed auto

lemma contains_after:
  assumes "s \<noteq> []" "list_all (\<lambda>u. parallel u s) (tails m)" "py_contains s (m @ y)"
  shows "py_contains s y"
  using assms(2,3)
proof (induction m)
  case (Cons c m)
  then have "\<not> prefix s ((c # m) @ y)"
    using prefix_same_cases [of s "(c # m) @ y" "c # m"] by (auto simp: parallel_def)
  then show ?case using Cons by auto
qed simp

lemma contains_redacted: "marker_free s \<Longrightarrow> py_contains s (redacted @ y) \<Longrightarrow> py_contains s y"
  using contains_after by (auto simp: marker_free_def)

lemma contains_replace:
  "marker_free s \<Longrightarrow> s = t \<or> \<not> py_contains s x \<Longrightarrow> \<not> py_contains s (py_replace_n None t redacted x)"
proof (induction "None :: nat option" t redacted x rule: py_replace_n.induct)
  case (1 t)
  then show ?case by (auto simp: marker_free_def)
next
  case (2 t c cs)
  show ?case
  proof (cases "t \<noteq> [] \<and> prefix t (c # cs)")
    case True
    have "\<not> py_contains s (py_replace_n None t redacted (drop (length t - 1) cs))"
    proof (rule 2(1))
      show "s = t \<or> \<not> py_contains s (drop (length t - 1) cs)"
        using 2(4) by (auto simp: py_contains_iff) (metis append_Cons append_assoc append_take_drop_id)
    qed (use True 2 in auto)
    then show ?thesis using True contains_redacted [OF 2(3)] by auto
  next
    case False
    have "\<not> py_contains s (py_replace_n None t redacted cs)"
      using False 2 by auto
    moreover have "\<not> prefix s (c # py_replace_n None t redacted cs)"
    proof
      assume a: "prefix s (c # py_replace_n None t redacted cs)"
      have "prefix s (py_replace_n None t redacted (c # cs))" using a False by auto
      then have "prefix s (c # cs)" by (rule prefix_replace [rotated]) (use 2(3) in \<open>simp add: marker_free_def\<close>)
      then show False using False 2(3,4) by (auto simp: marker_free_def)
    qed
    ultimately show ?thesis using False by auto
  qed
qed

lemma redact_dynamic_keeps:
  "marker_free s \<Longrightarrow> \<not> py_contains s x \<Longrightarrow> \<not> py_contains s (redact_dynamic ss x)"
proof (induction ss arbitrary: x)
  case (Cons t ss)
  then show ?case using contains_replace [of s t x] by (auto simp: py_replace_def)
qed simp

lemma redact_dynamic_removes:
  "marker_free s \<Longrightarrow> s \<in> set ss \<Longrightarrow> \<not> py_contains s (redact_dynamic ss x)"
proof (induction ss arbitrary: x)
  case (Cons t ss)
  show ?case
  proof (cases "s = t")
    case True
    have "\<not> py_contains s (if t \<noteq> [] \<and> py_contains t x then py_replace x t redacted else x)"
      using contains_replace [OF Cons.prems(1), of t x] Cons.prems(1) True
      by (auto simp: py_replace_def marker_free_def)
    then show ?thesis using redact_dynamic_keeps [OF Cons.prems(1)] by simp
  next
    case False
    then show ?thesis using Cons by simp
  qed
qed simp

lemma rx_match_Sos: "rx_match (Seq Sos r) s = rx_match r s"
  by (simp add: rx_match_def rx_at_def)

lemma no_groups_liti [simp]: "no_groups (liti w)"
  by (induction w rule: liti.induct) simp_all

lemma heads_no_groups: "h \<in> set full_line_heads \<Longrightarrow> no_groups h"
  by (auto simp: full_line_heads_def star_def sp_def nsp_def dot_def dig_def plus1_def star_lazy_def
      kw_number_def opt_def)

lemma rest_no_groups: "no_groups rest_of_line"
  by (simp add: rest_of_line_def nsp_def star_def dot_def)

lemma rest_of_line_start:
  assumes "rx_rel rest_of_line (b, r) q"
  shows "r \<noteq> [] \<and> \<not> py_isspace_char (hd r)"
  using assms by (auto simp: rest_of_line_def rx_rel_simps(2) nsp_def rel_One_iff)

lemma redact_full_Some:
  assumes "redact_full hs line = Some out" "\<forall>h \<in> set hs. no_groups h"
  shows "\<exists>h p s b. h \<in> set hs \<and> line = p @ s \<and> rx_rel h (None, line) (b, s) \<and> s \<noteq> [] \<and>
    \<not> py_isspace_char (hd s) \<and> out = p @ redacted"
  using assms
proof (induction hs)
  case (Cons h hs)
  show ?case
  proof (cases "rx_match (full_line_pattern h) line")
    case None
    then show ?thesis using Cons by auto
  next
    case (Some g)
    then have "rx_match (Seq (Grp 1 h) rest_of_line) line = Some g"
      by (simp add: full_line_pattern_def rx_match_Sos)
    then obtain p r b q where m: "line = p @ r" "rx_rel h (None, line) (b, r)"
      "rx_rel rest_of_line (b, r) q" "g = [(1, p)]"
      using rx_match_head [of h rest_of_line line g] rest_no_groups Cons.prems(2) by auto
    then have "out = p @ redacted" using Some Cons.prems(1) by (simp add: group_text_def)
    then show ?thesis using m(1,2) rest_of_line_start [OF m(3)] by auto
  qed
qed simp

lemma rel_star_fwd: "list_all p t \<Longrightarrow> rx_rel (star (One p)) (b, t @ r) (adv b t r)"
  by (simp add: star_def rel_Rep_One_fwd)

lemma rel_plus_fwd: "t \<noteq> [] \<Longrightarrow> list_all p t \<Longrightarrow> rx_rel (plus1 (One p)) (b, t @ r) (adv b t r)"
  by (auto simp: rel_plus1_One)

lemma rel_liti_fwd: "py_lower t = py_lower w \<Longrightarrow> rx_rel (liti w) (b, t @ r) (adv b t r)"
  by (auto simp: rel_liti)

text \<open>The text after the keywords of an \<open>enable\<close> line: white space, at most one number, white space.\<close>

definition secret_gap :: "string \<Rightarrow> bool" where
  "secret_gap t = list_all (\<lambda>c. py_isspace_char c \<or> is_decimal_char c) t"

definition enable_head :: rx where
  "enable_head = seqs [star sp, liti ''enable'', plus1 sp, Alt (liti ''secret'') (liti ''password''),
     kw_number, plus1 sp]"

lemma rest_of_line_fwd:
  assumes "r \<noteq> []" "\<not> py_isspace_char (hd r)" "newline \<notin> set r"
  shows "\<exists>q. rx_rel rest_of_line (b, r) q"
proof -
  obtain c cs where r: "r = c # cs" using assms(1) by (cases r) auto
  have "rx_rel nsp (b, r) (Some c, cs)" using assms(2) r by (auto simp: nsp_def intro: rel_One)
  moreover have "rx_rel (star nsp) (Some c, cs) (Some c, cs)" by (simp add: star_def rel_Rep0)
  moreover have "rx_rel (star dot) (Some c, cs) (adv (Some c) cs [])"
    using rel_star_fwd [of "\<lambda>c. c \<noteq> newline" cs "Some c" "[]"] assms(3) r
    by (auto simp: dot_def list_all_iff)
  moreover have "rx_rel Eod (adv (Some c) cs []) (adv (Some c) cs [])" by (rule rel_Eod) simp
  ultimately show ?thesis unfolding rest_of_line_def seqs.simps by (blast intro: rel_Seq)
qed

lemma rest_of_strip: "py_strip s \<noteq> [] \<Longrightarrow>
  \<exists>t r. s = t @ r \<and> list_all py_isspace_char t \<and> r \<noteq> [] \<and> \<not> py_isspace_char (hd r)"
proof -
  assume a: "py_strip s \<noteq> []"
  have ne: "dropWhile py_isspace_char s \<noteq> []"
  proof
    assume "dropWhile py_isspace_char s = []"
    then have "py_strip s = []" unfolding py_strip_def py_lstrip_def by (simp only: rev.simps dropWhile.simps)
    with a show False ..
  qed
  then have "\<not> py_isspace_char (hd (dropWhile py_isspace_char s))" by (rule hd_dropWhile)
  moreover have "list_all py_isspace_char (takeWhile py_isspace_char s)"
    by (auto simp: list_all_iff dest: set_takeWhileD)
  ultimately show ?thesis using ne takeWhile_dropWhile_id [of py_isspace_char s] by metis
qed

lemma enable_head_matches:
  assumes "kw = ''secret'' \<or> kw = ''password''" "py_strip s \<noteq> []" "newline \<notin> set s"
  shows "rx_match (full_line_pattern enable_head) (''enable '' @ kw @ '' '' @ s) \<noteq> None"
proof -
  obtain t r where s: "s = t @ r" "list_all py_isspace_char t" "r \<noteq> []" "\<not> py_isspace_char (hd r)"
    using rest_of_strip [OF assms(2)] by blast
  let ?l = "''enable '' @ kw @ '' '' @ s"
  have 1: "rx_rel (star sp) (None, ?l) (None, ?l)" by (simp add: star_def rel_Rep0)
  have 2: "rx_rel (liti ''enable'') (None, ?l) (Some CHR ''e'', '' '' @ kw @ '' '' @ s)"
    using rel_liti_fwd [of "''enable''" "''enable''" None "'' '' @ kw @ '' '' @ s"] by (simp add: adv_def)
  have 3: "rx_rel (plus1 sp) (Some CHR ''e'', '' '' @ kw @ '' '' @ s) (Some CHR '' '', kw @ '' '' @ s)"
    using rel_plus_fwd [of "'' ''" py_isspace_char "Some CHR ''e''" "kw @ '' '' @ s"]
    by (simp add: adv_def sp_def)
  have 4: "rx_rel (Alt (liti ''secret'') (liti ''password'')) (Some CHR '' '', kw @ '' '' @ s)
      (adv (Some CHR '' '') kw ('' '' @ s))"
    using assms(1) rel_liti_fwd [of kw kw "Some CHR '' ''" "'' '' @ s"] by (auto intro: rel_Alt1 rel_Alt2)
  have 5: "rx_rel kw_number q q" for q by (simp add: kw_number_def opt_def rel_Alt2 rel_Eps)
  have "rx_rel (plus1 sp) (fst (adv (Some CHR '' '') kw ('' '' @ s)), ('' '' @ t) @ r) (adv (fst (adv (Some CHR '' '') kw ('' '' @ s))) ('' '' @ t) r)"
    using s(2) by (simp only: sp_def) (intro rel_plus_fwd, auto)
  then have "rx_rel (plus1 sp) (adv (Some CHR '' '') kw ('' '' @ s)) (adv (fst (adv (Some CHR '' '') kw ('' '' @ s))) ('' '' @ t) r)"
    using s(1) by (simp add: adv_def)
  then have 6: "\<exists>b. rx_rel (plus1 sp) (adv (Some CHR '' '') kw ('' '' @ s)) (b, r)"
    by (auto simp: adv_def)
  then obtain b where b: "rx_rel (plus1 sp) (adv (Some CHR '' '') kw ('' '' @ s)) (b, r)" ..
  have h: "rx_rel enable_head (None, ?l) (b, r)"
    unfolding enable_head_def seqs.simps using 1 2 3 4 5 b by (blast intro: rel_Seq)
  have "newline \<notin> set r" using assms(3) s(1) by auto
  from rest_of_line_fwd [OF s(3,4) this] obtain q where "rx_rel rest_of_line (b, r) q" by blast
  then have "rx_rel (Seq (Grp 1 enable_head) rest_of_line) (None, ?l) q"
    using h by (blast intro: rel_Seq rel_Grp)
  then show ?thesis using rx_match_iff by (simp only: full_line_pattern_def rx_match_Sos) blast
qed

lemma rel_kw_number:
  "rx_rel kw_number (b, s) q \<Longrightarrow> \<exists>t r. s = t @ r \<and> secret_gap t \<and> snd q = r"
  by (auto simp: kw_number_def opt_def rx_rel_simps(1-3) sp_def dig_def rel_plus1_One adv_def secret_gap_def
      list_all_iff split: if_splits)

lemma lower_prefix_eq:
  assumes "t @ r = w @ s" "py_lower t = py_lower w"
  shows "t = w \<and> r = s"
proof -
  have "length t = length w" using arg_cong [OF assms(2), of length] by simp
  then show ?thesis using assms(1) by simp
qed

text \<open>What a part of a pattern consumes.\<close>

lemma inv_star: "rx_rel (star (One p)) q q' \<Longrightarrow> \<exists>t. snd q = t @ snd q' \<and> list_all p t"
  by (cases q) (auto simp: star_def rel_Rep_One)

lemma inv_plus: "rx_rel (plus1 (One p)) q q' \<Longrightarrow> \<exists>t. snd q = t @ snd q' \<and> t \<noteq> [] \<and> list_all p t"
  by (cases q) (auto simp: rel_plus1_One)

lemma inv_liti: "rx_rel (liti w) q q' \<Longrightarrow> \<exists>t. snd q = t @ snd q' \<and> py_lower t = py_lower w"
  by (cases q) (auto simp: rel_liti)

lemma enable_head_parts:
  assumes "rx_rel enable_head q q'"
  obtains t0 t1 t2 t3 t4 t5 where "snd q = t0 @ t1 @ t2 @ t3 @ t4 @ t5 @ snd q'"
    "list_all py_isspace_char t0" "py_lower t1 = ''enable''" "t2 \<noteq> []" "list_all py_isspace_char t2"
    "py_lower t3 = ''secret'' \<or> py_lower t3 = ''password''" "secret_gap t4"
    "t5 \<noteq> []" "list_all py_isspace_char t5"
proof -
  from assms obtain q0 q1 q2 q3 q4 where r: "rx_rel (star sp) q q0" "rx_rel (liti ''enable'') q0 q1"
    "rx_rel (plus1 sp) q1 q2" "rx_rel (Alt (liti ''secret'') (liti ''password'')) q2 q3"
    "rx_rel kw_number q3 q4" "rx_rel (plus1 sp) q4 q'"
    unfolding enable_head_def seqs.simps by (elim rx_SeqE) blast
  obtain t0 where 0: "snd q = t0 @ snd q0" "list_all py_isspace_char t0"
    using inv_star r(1) unfolding sp_def by blast
  obtain t1 where 1: "snd q0 = t1 @ snd q1" "py_lower t1 = py_lower ''enable''"
    using inv_liti [OF r(2)] by blast
  obtain t2 where 2: "snd q1 = t2 @ snd q2" "t2 \<noteq> []" "list_all py_isspace_char t2"
    using inv_plus r(3) unfolding sp_def by blast
  obtain t3 where 3: "snd q2 = t3 @ snd q3" "py_lower t3 = py_lower ''secret'' \<or> py_lower t3 = py_lower ''password''"
    using r(4) inv_liti by (elim rx_AltE) blast+
  obtain t4 where 4: "snd q3 = t4 @ snd q4" "secret_gap t4"
    using rel_kw_number [of "fst q3" "snd q3" q4] r(5) by auto
  obtain t5 where 5: "snd q4 = t5 @ snd q'" "t5 \<noteq> []" "list_all py_isspace_char t5"
    using inv_plus r(6) unfolding sp_def by blast
  have low: "py_lower ''enable'' = ''enable''" "py_lower ''secret'' = ''secret''"
    "py_lower ''password'' = ''password''" by code_simp+
  show thesis
    by (rule that [of t0 t1 t2 t3 t4 t5]) (use 0 1 2 3 4 5 low in simp_all)
qed

lemma enable_head_inv:
  assumes "kw = ''secret'' \<or> kw = ''password''"
    "rx_rel enable_head (None, ''enable '' @ kw @ '' '' @ s) (b, r)"
  shows "\<exists>t. ''enable '' @ kw @ '' '' @ s = (''enable '' @ kw @ t) @ r \<and> secret_gap t"
proof -
  obtain t0 t1 t2 t3 t4 t5 where p: "''enable '' @ kw @ '' '' @ s = t0 @ t1 @ t2 @ t3 @ t4 @ t5 @ r"
    "list_all py_isspace_char t0" "py_lower t1 = ''enable''" "t2 \<noteq> []" "list_all py_isspace_char t2"
    "py_lower t3 = ''secret'' \<or> py_lower t3 = ''password''" "secret_gap t4"
    "t5 \<noteq> []" "list_all py_isspace_char t5"
    using assms(2) by (elim enable_head_parts) simp
  have low: "py_lower ''enable'' = ''enable''" "py_lower ''secret'' = ''secret''"
    "py_lower ''password'' = ''password''" by code_simp+
  have "t0 = []" using p(1,2) by (cases t0) (auto simp: py_isspace_char_def cp_def)
  then have 1: "'' '' @ kw @ '' '' @ s = t2 @ t3 @ t4 @ t5 @ r"
    using lower_prefix_eq [of t1 "t2 @ t3 @ t4 @ t5 @ r" "''enable''" "'' '' @ kw @ '' '' @ s"] p(1,3) low by simp
  obtain k ks where k: "kw = k # ks" "\<not> py_isspace_char k" "py_lower_char k = k"
    using assms(1) by (elim disjE) (simp_all add: py_isspace_char_def cp_def py_lower_char_def is_upper_char_def)
  obtain c t2' where t2: "t2 = c # t2'" using p(4) by (cases t2) auto
  have "t2' = []"
    using 1 p(5) k by (cases t2') (auto simp: t2)
  then have 2: "kw @ '' '' @ s = t3 @ t4 @ t5 @ r" using 1 t2 by auto
  obtain d t3' where t3: "t3 = d # t3'" using p(6) by (cases t3) auto
  then have "hd (py_lower t3) = hd kw" using 2 k by (simp add: py_lower_def)
  then have "py_lower t3 = kw" using p(6) assms(1) by auto
  then have "'' '' @ s = t4 @ t5 @ r"
    using lower_prefix_eq [of t3 "t4 @ t5 @ r" kw "'' '' @ s"] 2 assms(1) low by auto
  then show ?thesis
    using p(7,9) by (intro exI [of _ "t4 @ t5"]) (auto simp: secret_gap_def list_all_iff)
qed

section \<open>Properties\<close>

text \<open>C14: Redaction removes every registered secret that does not overlap the marker it inserts: such a
  secret occurs nowhere in the redacted text, whatever the text and in whatever order the registered
  secrets are replaced. The condition is needed: of the secrets that lie in the marker, as
  \<open>redacted\<close> does, or that begin or end like it, the marker itself shows or completes an occurrence.\<close>

theorem redact_hides_secrets:
  assumes "marker_free s" "s \<in> set secrets"
  shows "\<not> py_contains s (redact secrets text)"
proof (cases "text = []")
  case True
  then show ?thesis using assms(1) by (simp add: redact_def marker_free_def)
next
  case False
  then show ?thesis using redact_dynamic_removes [OF assms] by (simp add: redact_def)
qed

lemma marker_shows_itself: "py_contains ''redacted'' (redact [''redacted''] ''redacted'')"
  by code_simp

theorem redact_hides_secrets_witness:
  "\<not> py_contains ''hun<ter>2'' (redact (register_secret (Some ''hun<ter>2'') [''other-secret''])
     ''login with hun<ter>2 then hun<ter>2hun<ter>2'')"
  by (rule redact_hides_secrets) (code_simp, simp add: register_secret_def or_empty_def)

text \<open>Of a configuration line \<open>enable secret ...\<close> or \<open>enable password ...\<close> the preview keeps
  nothing after the keywords but white space and digits (the type number), then the marker.\<close>

theorem redact_enable_line:
  assumes "kw = ''secret'' \<or> kw = ''password''" "py_strip s \<noteq> []" "newline \<notin> set s"
  shows "\<exists>t. redact_line (''enable '' @ kw @ '' '' @ s) = ''enable '' @ kw @ t @ redacted \<and> secret_gap t"
proof -
  let ?l = "''enable '' @ kw @ '' '' @ s"
  obtain g where g: "rx_match (full_line_pattern enable_head) ?l = Some g"
    using enable_head_matches [OF assms] by blast
  have h: "enable_head \<in> set full_line_heads" "hd full_line_heads = enable_head"
    by (simp_all add: full_line_heads_def enable_head_def)
  from g have "rx_match (Seq (Grp 1 enable_head) rest_of_line) ?l = Some g"
    by (simp only: full_line_pattern_def rx_match_Sos)
  then obtain p r b q where m: "?l = p @ r" "rx_rel enable_head (None, ?l) (b, r)" "g = [(1, p)]"
    using rx_match_head [of enable_head rest_of_line ?l g] rest_no_groups heads_no_groups [OF h(1)] by blast
  obtain t where t: "?l = (''enable '' @ kw @ t) @ r" "secret_gap t"
    using enable_head_inv [OF assms(1) m(2)] by blast
  have "p = ''enable '' @ kw @ t" using m(1) t(1) by (metis append_same_eq)
  moreover have "redact_line ?l = group_text g 1 @ redacted"
    using h(2) g by (cases full_line_heads) (simp_all add: redact_line_def full_line_heads_def enable_head_def)
  ultimately show ?thesis using t(2) m(3) by (intro exI [of _ t]) (simp add: group_text_def)
qed

theorem redact_enable_line_witness:
  "\<exists>t. redact_line ''enable secret 5 $1$abcd'' = ''enable secret'' @ t @ ''<redacted>'' \<and> secret_gap t"
proof -
  have "py_strip ''5 $1$abcd'' \<noteq> []" "newline \<notin> set ''5 $1$abcd''"
    by (simp_all add: py_strip_def py_lstrip_def newline_def py_isspace_char_def cp_def)
  from redact_enable_line [OF _ this, of "''secret''"] show ?thesis by (simp add: redacted_def)
qed

end
