(* ===== verification/Errors.thy ===== *)
theory Errors
  imports Prelude
begin

text \<open>
  The typed errors of \<open>backend/app/errors.py\<close> and results that may raise. An exception is a value
  of \<open>exn\<close>: the subclasses of \<open>SwitchOpsError\<close> by their class with their message, the
  exceptions of Python and of third-party code that the program only sees through
  \<open>except Exception\<close> by their class name. A function that may raise returns \<open>exn + 'a\<close>.
\<close>

datatype exn =
    SwitchOpsError string
  | CommandNotAllowedError string
  | ProtectedInterfaceError string
  | WriteActionsDisabledError string
  | CredentialsMissingError string
  | SwitchConnectionError string
  | HostKeyChangedError string
  | LegacySshNegotiationError string
  | PyError string

type_synonym 'a result = "exn + 'a"

text \<open>Which exceptions \<open>except SwitchOpsError\<close> catches.\<close>

fun is_switchops_error :: "exn \<Rightarrow> bool" where
  "is_switchops_error (PyError _) = False"
| "is_switchops_error _ = True"

fun is_command_not_allowed :: "exn \<Rightarrow> bool" where
  "is_command_not_allowed (CommandNotAllowedError _) = True"
| "is_command_not_allowed _ = False"

fun exn_message :: "exn \<Rightarrow> string" where
  "exn_message (SwitchOpsError m) = m"
| "exn_message (CommandNotAllowedError m) = m"
| "exn_message (ProtectedInterfaceError m) = m"
| "exn_message (WriteActionsDisabledError m) = m"
| "exn_message (CredentialsMissingError m) = m"
| "exn_message (SwitchConnectionError m) = m"
| "exn_message (HostKeyChangedError m) = m"
| "exn_message (LegacySshNegotiationError m) = m"
| "exn_message (PyError m) = m"

text \<open>The class attribute \<open>code\<close>; \<open>HostKeyChangedError\<close> overrides its parent's.\<close>

fun exn_code :: "exn \<Rightarrow> string" where
  "exn_code (CommandNotAllowedError _) = ''command_not_allowed''"
| "exn_code (ProtectedInterfaceError _) = ''protected_interface''"
| "exn_code (WriteActionsDisabledError _) = ''write_actions_disabled''"
| "exn_code (CredentialsMissingError _) = ''credentials_missing''"
| "exn_code (SwitchConnectionError _) = ''switch_connection_error''"
| "exn_code (HostKeyChangedError _) = ''host_key_changed''"
| "exn_code (LegacySshNegotiationError _) = ''legacy_ssh_negotiation_failed''"
| "exn_code _ = ''switchops_error''"

fun http_status :: "exn \<Rightarrow> nat" where
  "http_status (CommandNotAllowedError _) = 400"
| "http_status (ProtectedInterfaceError _) = 403"
| "http_status (WriteActionsDisabledError _) = 403"
| "http_status (CredentialsMissingError _) = 412"
| "http_status (SwitchConnectionError _) = 502"
| "http_status (HostKeyChangedError _) = 502"
| "http_status (LegacySshNegotiationError _) = 502"
| "http_status _ = 500"

definition and_then :: "'a result \<Rightarrow> ('a \<Rightarrow> 'b result) \<Rightarrow> 'b result" where
  "and_then r f = (case r of Inl e \<Rightarrow> Inl e | Inr x \<Rightarrow> f x)"

lemma and_then_simps [simp]:
  "and_then (Inl e) f = Inl e"
  "and_then (Inr x) f = f x"
  by (simp_all add: and_then_def)

lemma and_then_Inr_iff: "and_then r f = Inr y \<longleftrightarrow> (\<exists>x. r = Inr x \<and> f x = Inr y)"
  by (cases r) auto

lemma and_then_Inl_iff:
  "and_then r f = Inl e \<longleftrightarrow> r = Inl e \<or> (\<exists>x. r = Inr x \<and> f x = Inl e)"
  by (cases r) auto

text \<open>A loop that applies a raising function to every element and stops at the first error.\<close>

fun map_result :: "('a \<Rightarrow> 'b result) \<Rightarrow> 'a list \<Rightarrow> 'b list result" where
  "map_result f [] = Inr []"
| "map_result f (x # xs) =
     and_then (f x) (\<lambda>y. and_then (map_result f xs) (\<lambda>ys. Inr (y # ys)))"

lemma map_result_Inr_length: "map_result f xs = Inr ys \<Longrightarrow> length ys = length xs"
  by (induction xs arbitrary: ys) (auto simp: and_then_Inr_iff)

lemma map_result_Inr_nth: "map_result f xs = Inr ys \<Longrightarrow> list_all2 (\<lambda>x y. f x = Inr y) xs ys"
  by (induction xs arbitrary: ys) (auto simp: and_then_Inr_iff)

end
