(* ===== verification/Models.thy ===== *)
theory Models
  imports Errors Complex_Main
begin

text \<open>
  The value objects of \<open>backend/app/models.py\<close> that the modelled components exchange: a Pydantic
  class is a record, a \<open>Literal\<close> of names a datatype. A \<open>datetime\<close> is an integer time stamp
  (\<open>time\<close>), a \<open>float\<close> the rational number its decimal text denotes; rounding of binary floating
  point is not modelled.
\<close>

type_synonym time = int

text \<open>Rounding to the nearest integer with halves to even, and the formats \<open>.0f\<close> and \<open>.1f\<close>.\<close>

definition round_even :: "rat \<Rightarrow> int" where
  "round_even y =
     (let low = \<lfloor>y\<rfloor>; part = y - of_int low in
      if part < 1 / 2 then low else if part > 1 / 2 then low + 1 else if even low then low else low + 1)"

definition round_to :: "nat \<Rightarrow> rat \<Rightarrow> rat" where
  "round_to places x = of_int (round_even (10 ^ places * x)) / 10 ^ places"

definition format_0f :: "rat \<Rightarrow> string" where
  "format_0f x = (if x < 0 then ''-'' else []) @ py_str_int \<bar>round_even x\<bar>"

definition format_1f :: "rat \<Rightarrow> string" where
  "format_1f x =
     (let n = \<bar>round_even (10 * x)\<bar> in
      (if x < 0 then ''-'' else []) @ py_str_int (n div 10) @ ''.'' @ py_str_int (n mod 10))"

section \<open>Interfaces and counters\<close>

datatype policy_state = PROTECTED | OPERABLE | UNMANAGED

record interface_status =
  ifs_port :: string
  ifs_name :: string
  ifs_status :: string
  ifs_vlan :: string
  ifs_duplex :: string
  ifs_speed :: string
  ifs_type :: string
  ifs_protected :: bool
  ifs_policy_state :: policy_state

record mac_table_entry =
  mac_vlan :: string
  mac_addr :: string
  mac_type :: string
  mac_port :: string

record poe_port =
  pp_interface :: string
  pp_admin :: string
  pp_oper :: string
  pp_power_watts :: rat
  pp_device :: string
  pp_class :: string
  pp_max_watts :: rat

record poe_response =
  pr_available_watts :: rat
  pr_used_watts :: rat
  pr_remaining_watts :: rat
  pr_ports :: "poe_port list"

record interface_error_counters =
  ec_port :: string
  ec_align_err :: int
  ec_fcs_err :: int
  ec_xmit_err :: int
  ec_rcv_err :: int
  ec_under_size :: int
  ec_single_col :: int
  ec_multi_col :: int
  ec_late_col :: int
  ec_excess_col :: int
  ec_total :: int

section \<open>Operations\<close>

datatype operation_kind = Admin_up | Admin_down | Poe_auto | Poe_never | Set_description

datatype stage_name = Precheck | Backup | Execute | Verify | Audit | Rollback

datatype stage_status = Pending | Running | Ok | Failed | Skipped

record operation_stage =
  st_name :: stage_name
  st_status :: stage_status
  st_detail :: string

datatype operation_status = Op_success | Op_failed | Op_blocked | Op_rolled_back

record operation_result =
  or_operation_id :: string
  or_kind :: operation_kind
  or_interface :: string
  or_status :: operation_status
  or_detail :: string
  or_stages :: "operation_stage list"
  or_before_state :: "string option"
  or_after_state :: "string option"
  or_commands :: "string list"
  or_rolled_back :: "bool option"
  or_backup_path :: "string option"
  or_requires_save :: bool
  or_at :: time

record config_save_state =
  cs_running_modified :: bool
  cs_last_change_at :: "time option"
  cs_last_saved_at :: "time option"
  cs_pending_operations :: int
  cs_detail :: string

text \<open>The row the audit trail keeps; durations and the row's own number are left out.\<close>

record audit_event =
  ae_actor :: string
  ae_action :: string
  ae_commands :: "string list"
  ae_success :: bool
  ae_output_path :: "string option"
  ae_error_type :: "string option"
  ae_error_message :: "string option"
  ae_before_state :: "string option"
  ae_after_state :: "string option"

end
