(* ===== verification/Command_Registry.thy ===== *)
theory Command_Registry
  imports Errors
begin

text \<open>
  \<open>backend/app/command_registry.py\<close>: the allowlists that map symbolic names to literal IOS
  commands, the canonical form of interface names, the sanitizer of descriptions and the builder
  of write actions. Shown: a canonical name is a fixed prefix and decimal numbers, normalising is
  idempotent and inverted by the short form, and no command of a built action can carry a control
  character or a name or value that was not validated.
\<close>

section \<open>The tables\<close>

definition read_only_commands :: "(string, string) dict" where
  "read_only_commands =
    [(''terminal_length_0'', ''terminal length 0''),
     (''show_version'', ''show version''),
     (''show_inventory'', ''show inventory''),
     (''show_running_config'', ''show running-config''),
     (''show_startup_config'', ''show startup-config''),
     (''show_ip_interface_brief'', ''show ip interface brief''),
     (''show_interfaces_status'', ''show interfaces status''),
     (''show_interfaces_counters_errors'', ''show interfaces counters errors''),
     (''show_power_inline'', ''show power inline''),
     (''show_env_all'', ''show env all''),
     (''show_processes_cpu'', ''show processes cpu''),
     (''show_memory_statistics'', ''show memory statistics''),
     (''show_mac_address_table'', ''show mac address-table''),
     (''show_logging'', ''show logging''),
     (''show_interfaces'', ''show interfaces''),
     (''show_processes_cpu_history'', ''show processes cpu history''),
     (''show_memory'', ''show memory''),
     (''show_interfaces_switchport'', ''show interfaces switchport''),
     (''show_vlan_brief'', ''show vlan brief''),
     (''show_spanning_tree'', ''show spanning-tree''),
     (''show_etherchannel_summary'', ''show etherchannel summary''),
     (''show_cdp_neighbors_detail'', ''show cdp neighbors detail''),
     (''show_lldp_neighbors'', ''show lldp neighbors''),
     (''show_lldp_neighbors_detail'', ''show lldp neighbors detail''),
     (''show_ip_arp'', ''show ip arp''),
     (''show_interfaces_trunk'', ''show interfaces trunk''),
     (''show_environment'', ''show environment''),
     (''show_environment_all'', ''show environment all''),
     (''show_ip_route'', ''show ip route''),
     (''show_ip_protocols'', ''show ip protocols''),
     (''show_ip_ospf_neighbor'', ''show ip ospf neighbor''),
     (''show_ip_eigrp_neighbors'', ''show ip eigrp neighbors''),
     (''show_bgp_ipv4_unicast_summary'', ''show bgp ipv4 unicast summary''),
     (''show_standby_brief'', ''show standby brief''),
     (''show_vrf'', ''show vrf''),
     (''show_bfd_neighbors'', ''show bfd neighbors''),
     (''show_ip_sla_summary'', ''show ip sla summary''),
     (''show_nve_peers'', ''show nve peers''),
     (''show_bgp_l2vpn_evpn_summary'', ''show bgp l2vpn evpn summary''),
     (''show_segment_routing_mpls_sid_map'',
      ''show segment-routing mpls connected-prefix-sid-map''),
     (''show_segment_routing_srv6_locator'', ''show segment-routing srv6 locator''),
     (''show_running_config_begin_vty'', ''show running-config | begin line vty'')]"

definition safe_write_actions :: "(string, string list) dict" where
  "safe_write_actions =
    [(''enable_port'', [''configure terminal'', ''interface {iface}'', ''no shutdown'', ''end'']),
     (''disable_port'', [''configure terminal'', ''interface {iface}'', ''shutdown'', ''end'']),
     (''set_port_description'',
      [''configure terminal'', ''interface {iface}'', ''description {value}'', ''end'']),
     (''enable_poe'',
      [''configure terminal'', ''interface {iface}'', ''power inline auto'', ''end'']),
     (''save_config'', [''write memory'']),
     (''backup_config'', [''terminal length 0'', ''show running-config''])]"

definition physical_prefixes :: "(string, string) dict" where
  "physical_prefixes =
    [(''fa'', ''FastEthernet''),
     (''fastethernet'', ''FastEthernet''),
     (''gi'', ''GigabitEthernet''),
     (''gigabitethernet'', ''GigabitEthernet''),
     (''te'', ''TenGigabitEthernet''),
     (''tengigabitethernet'', ''TenGigabitEthernet''),
     (''tw'', ''TwentyFiveGigE''),
     (''twe'', ''TwentyFiveGigE''),
     (''twentyfivegige'', ''TwentyFiveGigE''),
     (''fo'', ''FortyGigabitEthernet''),
     (''fortygigabitethernet'', ''FortyGigabitEthernet''),
     (''hu'', ''HundredGigE''),
     (''hundredgige'', ''HundredGigE'')]"

definition short_prefixes :: "(string, string) dict" where
  "short_prefixes =
    [(''FastEthernet'', ''Fa''),
     (''GigabitEthernet'', ''Gi''),
     (''TenGigabitEthernet'', ''Te''),
     (''TwentyFiveGigE'', ''Twe''),
     (''FortyGigabitEthernet'', ''Fo''),
     (''HundredGigE'', ''Hu'')]"

definition description_ok :: "string" where
  "description_ok =
     ''abcdefghijklmnopqrstuvwxyz'' @ ''ABCDEFGHIJKLMNOPQRSTUVWXYZ'' @ ''0123456789 -_./''"

section \<open>Interface names\<close>

text \<open>
  \<open>sorted(_PHYSICAL_PREFIXES, key=len, reverse=True)\<close>: Python keeps the order of equal keys
  when it sorts in reverse, which is sorting the reversed list and reversing the result.
\<close>

definition prefixes_longest_first :: "(string \<times> string) list" where
  "prefixes_longest_first = rev (sort_key (\<lambda>(p, _). length p) (rev physical_prefixes))"

text \<open>\<open>re.fullmatch(r"\<backslash>d+(?:/\<backslash>d+){1,2}", suffix)\<close>: two or three decimal numbers between slashes.\<close>

definition suffix_matches :: "string \<Rightarrow> bool" where
  "suffix_matches sfx \<longleftrightarrow>
     (let parts = py_split_char CHR ''/'' sfx
      in (length parts = 2 \<or> length parts = 3) \<and> list_all all_decimal parts)"

definition normalize_interface :: "string \<Rightarrow> string result" where
  "normalize_interface name =
     (if name = [] then Inl (CommandNotAllowedError ''Empty interface name.'')
      else if list_ex is_control_char name
      then Inl (CommandNotAllowedError ''Interface name contains control characters.'')
      else
        let stripped = py_strip name; lower = py_lower stripped in
        if py_startswith lower ''vlan'' then
          let sfx = drop 4 lower in
          if \<not> py_isdigit sfx
          then Inl (CommandNotAllowedError (''Invalid Vlan interface: '' @ py_repr name))
          else if \<not> all_decimal sfx then Inl (PyError ''ValueError'')
          else Inr (''Vlan'' @ py_str_nat (py_int sfx))
        else
          case find (\<lambda>(p, _). py_startswith lower p) prefixes_longest_first of
            None \<Rightarrow> Inl (CommandNotAllowedError (''Unsupported interface: '' @ py_repr name))
          | Some (p, full) \<Rightarrow>
              let sfx = drop (length p) stripped in
              if \<not> suffix_matches sfx
              then Inl (CommandNotAllowedError (''Malformed interface suffix: '' @ py_repr name))
              else Inr (full @ py_join ''/''
                     (map (\<lambda>part. py_str_nat (py_int part)) (py_split_char CHR ''/'' sfx))))"

definition is_physical_interface :: "string \<Rightarrow> bool result" where
  "is_physical_interface name =
     (case normalize_interface name of
        Inl e \<Rightarrow> if is_command_not_allowed e then Inr False else Inl e
      | Inr canonical \<Rightarrow> Inr (\<not> py_startswith canonical ''Vlan''))"

fun short_loop :: "(string \<times> string) list \<Rightarrow> string \<Rightarrow> string" where
  "short_loop [] canonical = canonical"
| "short_loop ((long_prefix, short_prefix) # rest) canonical =
     (if py_startswith canonical long_prefix
      then py_replace1 canonical long_prefix short_prefix
      else short_loop rest canonical)"

definition short_interface :: "string \<Rightarrow> string result" where
  "short_interface name =
     and_then (normalize_interface name) (\<lambda>canonical. Inr (short_loop short_prefixes canonical))"

definition assert_interface_writable :: "string \<Rightarrow> string result" where
  "assert_interface_writable name =
     and_then (normalize_interface name) (\<lambda>canonical.
     and_then (is_physical_interface canonical) (\<lambda>physical.
       if \<not> physical
       then Inl (CommandNotAllowedError
              (''Interface '' @ canonical @ '' is not a supported physical write target.''))
       else Inr canonical))"

definition assert_interface_readable :: "string \<Rightarrow> string result" where
  "assert_interface_readable name = normalize_interface name"

definition resolve_read_command :: "string \<Rightarrow> string result" where
  "resolve_read_command symbol =
     (case dict_get read_only_commands symbol of
        None \<Rightarrow> Inl (CommandNotAllowedError (''Unknown read-only command: '' @ py_repr symbol))
      | Some command \<Rightarrow> Inr command)"

section \<open>Descriptions and write actions\<close>

definition sanitize_description :: "string \<Rightarrow> string result" where
  "sanitize_description value0 =
     (if value0 = [] then Inl (CommandNotAllowedError ''Empty description.'')
      else
        let value = py_strip value0 in
        if 64 < length value
        then Inl (CommandNotAllowedError ''Description must be 64 characters or fewer.'')
        else
          let bad = filter (\<lambda>c. c \<notin> set description_ok) value in
          if bad \<noteq> []
          then Inl (CommandNotAllowedError
                 (''Description contains disallowed characters: '' @ py_repr (sorted_set bad)))
          else Inr value)"

record write_action =
  wa_name :: string
  wa_commands :: "string list"
  wa_interface :: "string option"

text \<open>The body of the loop that fills in a template line; the two assertions of the code hold because
  the values are present whenever a placeholder is.\<close>

definition resolve_line :: "string option \<Rightarrow> string option \<Rightarrow> string \<Rightarrow> string" where
  "resolve_line canonical_iface safe_value cmd =
     (let out = (if py_contains ''{iface}'' cmd
                 then py_replace cmd ''{iface}'' (or_empty canonical_iface) else cmd)
      in if py_contains ''{value}'' out
         then py_replace out ''{value}'' (or_empty safe_value) else out)"

definition build_write_action ::
  "string \<Rightarrow> string option \<Rightarrow> string option \<Rightarrow> write_action result" where
  "build_write_action action iface value =
     (case dict_get safe_write_actions action of
        None \<Rightarrow> Inl (CommandNotAllowedError (''Unknown write action: '' @ py_repr action))
      | Some template \<Rightarrow>
          and_then
            (if list_ex (py_contains ''{iface}'') template
             then (case iface of
                     None \<Rightarrow> Inl (CommandNotAllowedError
                               (''Action '' @ action @ '' requires an interface.''))
                   | Some i \<Rightarrow> and_then (assert_interface_writable i) (\<lambda>c. Inr (Some c)))
             else Inr None) (\<lambda>canonical_iface.
          and_then
            (if list_ex (py_contains ''{value}'') template
             then (case value of
                     None \<Rightarrow> Inl (CommandNotAllowedError
                               (''Action '' @ action @ '' requires a value.''))
                   | Some v \<Rightarrow> and_then (sanitize_description v) (\<lambda>c. Inr (Some c)))
             else Inr None) (\<lambda>safe_value.
          Inr \<lparr>wa_name = action,
               wa_commands = map (resolve_line canonical_iface safe_value) template,
               wa_interface = canonical_iface\<rparr>)))"

section \<open>Canonical names\<close>

text \<open>What \<open>normalize_interface\<close> promises: a fixed spelling followed by decimal numbers.\<close>

definition phys_fulls :: "string list" where
  "phys_fulls = remdups (map snd physical_prefixes)"

definition phys_name :: "string \<Rightarrow> nat list \<Rightarrow> string" where
  "phys_name full ns = full @ py_join ''/'' (map py_str_nat ns)"

definition vlan_name :: "nat \<Rightarrow> string" where
  "vlan_name n = ''Vlan'' @ py_str_nat n"

definition is_phys_name :: "string \<Rightarrow> bool" where
  "is_phys_name c \<longleftrightarrow>
     (\<exists>full ns. full \<in> set phys_fulls \<and> (length ns = 2 \<or> length ns = 3) \<and> c = phys_name full ns)"

definition is_vlan_name :: "string \<Rightarrow> bool" where
  "is_vlan_name c \<longleftrightarrow> (\<exists>n. c = vlan_name n)"

lemma prefixes_longest_first_eq:
  "prefixes_longest_first =
    [(''fortygigabitethernet'', ''FortyGigabitEthernet''),
     (''tengigabitethernet'', ''TenGigabitEthernet''),
     (''gigabitethernet'', ''GigabitEthernet''), (''twentyfivegige'', ''TwentyFiveGigE''),
     (''fastethernet'', ''FastEthernet''), (''hundredgige'', ''HundredGigE''),
     (''twe'', ''TwentyFiveGigE''), (''fa'', ''FastEthernet''), (''gi'', ''GigabitEthernet''),
     (''te'', ''TenGigabitEthernet''), (''tw'', ''TwentyFiveGigE''),
     (''fo'', ''FortyGigabitEthernet''), (''hu'', ''HundredGigE'')]"
  by code_simp

lemma phys_fulls_eq:
  "phys_fulls = [''FastEthernet'', ''GigabitEthernet'', ''TenGigabitEthernet'', ''TwentyFiveGigE'',
     ''FortyGigabitEthernet'', ''HundredGigE'']"
  by code_simp

lemma normalize_Inr:
  assumes "normalize_interface n = Inr c"
  shows "is_phys_name c \<or> is_vlan_name c"
proof -
  let ?s = "py_strip n"
  have base: "n \<noteq> []" "\<not> list_ex is_control_char n"
    using assms by (auto simp: normalize_interface_def split: if_splits)
  show ?thesis
  proof (cases "py_startswith (py_lower ?s) ''vlan''")
    case True
    then show ?thesis using assms base
      by (auto simp: normalize_interface_def Let_def is_vlan_name_def vlan_name_def split: if_splits)
  next
    case False
    then obtain p full where
      f: "find (\<lambda>(p, _). py_startswith (py_lower ?s) p) prefixes_longest_first = Some (p, full)"
      and m: "suffix_matches (drop (length p) ?s)"
      and c: "c = full @ py_join ''/'' (map (\<lambda>part. py_str_nat (py_int part))
                (py_split_char CHR ''/'' (drop (length p) ?s)))"
      using assms base
      by (auto simp: normalize_interface_def Let_def split: if_splits option.splits)
    have "(p, full) \<in> set prefixes_longest_first"
      using f by (auto simp: find_Some_iff in_set_conv_nth)
    then have "full \<in> set phys_fulls"
      by (auto simp: prefixes_longest_first_eq phys_fulls_eq)
    moreover have "c = phys_name full (map py_int (py_split_char CHR ''/'' (drop (length p) ?s)))"
      by (simp add: c phys_name_def comp_def)
    ultimately show ?thesis using m
      by (auto simp: is_phys_name_def suffix_matches_def Let_def intro!: exI)
  qed
qed

lemma decimal_ne_letter: "is_decimal_char d \<Longrightarrow> is_ascii_letter c \<Longrightarrow> c \<noteq> d"
  by auto

lemma decimal_ne_slash [simp]: "is_decimal_char c \<Longrightarrow> c \<noteq> CHR ''/''"
  by (auto simp: is_decimal_char_def cp_def)

lemma slash_notin_str_nat [simp]: "CHR ''/'' \<notin> set (py_str_nat n)"
  using all_decimal_set [OF all_decimal_str_nat] decimal_ne_slash by blast

lemma join_nums_split:
  "ns \<noteq> [] \<Longrightarrow> py_split_char CHR ''/'' (py_join ''/'' (map py_str_nat ns)) = map py_str_nat ns"
  by (rule split_char_join) auto

lemma join_nums_matches:
  "length ns = 2 \<or> length ns = 3 \<Longrightarrow> suffix_matches (py_join ''/'' (map py_str_nat ns))"
  by (cases "ns = []") (auto simp: suffix_matches_def Let_def join_nums_split list_all_iff)

lemma join_nums_chars:
  "c \<in> set (py_join ''/'' (map py_str_nat ns)) \<Longrightarrow> is_decimal_char c \<or> c = CHR ''/''"
  using set_py_join [of "''/''" "map py_str_nat ns"]
  by (auto dest: all_decimal_set [OF all_decimal_str_nat])

lemma join_nums_last:
  "ns \<noteq> [] \<Longrightarrow> py_join ''/'' (map py_str_nat ns) \<noteq> [] \<and>
     is_decimal_char (last (py_join ''/'' (map py_str_nat ns)))"
proof (induction ns)
  case (Cons n ns)
  show ?case
  proof (cases "ns = []")
    case True
    then show ?thesis
      using all_decimal_set [OF all_decimal_str_nat last_in_set [OF py_str_nat_nonempty]] by simp
  next
    case False
    then show ?thesis using Cons by (simp add: py_join_Cons)
  qed
qed simp

lemma join_nums_hd:
  assumes "ns \<noteq> []"
  obtains d t where "py_join ''/'' (map py_str_nat ns) = d # t" and "is_decimal_char d"
proof -
  obtain m ms where ns: "ns = m # ms" using assms by (cases ns) auto
  obtain d t where dt: "py_str_nat m = d # t" using py_str_nat_nonempty [of m] by (cases "py_str_nat m") auto
  then have "is_decimal_char d"
    using all_decimal_set [OF all_decimal_str_nat, of d m] by simp
  then show ?thesis
    using that [of d "if ms = [] then t else t @ ''/'' @ py_join ''/'' (map py_str_nat ms)"] dt ns
    by (simp add: py_join_Cons)
qed

lemma slash_not_control: "\<not> is_control_char CHR ''/''" and slash_not_space: "\<not> py_isspace_char CHR ''/''"
  by (simp_all add: is_control_char_def py_isspace_char_def cp_def)

lemma letter_not_control: "is_ascii_letter c \<Longrightarrow> \<not> is_control_char c"
  by (auto simp: is_ascii_letter_def is_control_char_def)

lemma letter_not_space: "is_ascii_letter c \<Longrightarrow> \<not> py_isspace_char c"
  by (auto simp: is_ascii_letter_def py_isspace_char_def Let_def)

text \<open>A spelling of letters followed by the numbers is read back as the prefix it selects.\<close>

lemma normalize_spelled:
  assumes letters: "q \<noteq> []" "list_all is_ascii_letter q"
    and ns: "length ns = 2 \<or> length ns = 3"
    and t: "t = py_join ''/'' (map py_str_nat ns)"
    and novlan: "\<not> py_startswith (py_lower q @ py_lower t) ''vlan''"
    and found: "find (\<lambda>(p, _). py_startswith (py_lower q @ py_lower t) p) prefixes_longest_first
                  = Some (p, full)"
    and len: "length p = length q"
  shows "normalize_interface (q @ t) = Inr (phys_name full ns)"
proof -
  have nne: "ns \<noteq> []" using ns by auto
  have tne: "t \<noteq> []" "is_decimal_char (last t)" using join_nums_last [OF nne] t by auto
  have strip: "py_strip (q @ t) = q @ t"
  proof (rule py_strip_id)
    have "is_ascii_letter (hd q)" using letters by (auto simp: list_all_iff)
    then show "\<not> py_isspace_char (hd (q @ t))" using letters(1) by (simp add: letter_not_space)
    show "\<not> py_isspace_char (last (q @ t))" using tne by simp
  qed (use tne in simp)
  have "\<not> is_control_char c" if "c \<in> set (q @ t)" for c
    using that letters(2) join_nums_chars [of c ns] slash_not_control
    by (auto simp: list_all_iff t letter_not_control)
  then have "\<not> list_ex is_control_char (q @ t)"
    by (auto simp: list_ex_iff)
  moreover have "suffix_matches t" using join_nums_matches [OF ns] t by simp
  moreover have "map (\<lambda>part. py_str_nat (py_int part)) (py_split_char CHR ''/'' t) = map py_str_nat ns"
    using join_nums_split [OF nne] by (simp add: t comp_def)
  ultimately show ?thesis using letters(1) novlan found len
    by (simp add: normalize_interface_def Let_def strip phys_name_def t [symmetric])
qed

lemma letter_simps [simp]:
  "is_decimal_char d \<Longrightarrow> CHR ''n'' \<noteq> d" "is_decimal_char d \<Longrightarrow> CHR ''s'' \<noteq> d"
  "is_decimal_char d \<Longrightarrow> CHR ''g'' \<noteq> d" "is_decimal_char d \<Longrightarrow> CHR ''r'' \<noteq> d"
  by (rule decimal_ne_letter, assumption, simp add: is_ascii_letter_def cp_def)+

definition short_of :: "string \<Rightarrow> string" where
  "short_of full = get_default short_prefixes full full"

lemma normalize_full_and_short:
  assumes "full \<in> set phys_fulls" and ns: "length ns = 2 \<or> length ns = 3"
  shows "normalize_interface (phys_name full ns) = Inr (phys_name full ns)"
    and "normalize_interface (phys_name (short_of full) ns) = Inr (phys_name full ns)"
    and "short_loop short_prefixes (phys_name full ns) = phys_name (short_of full) ns"
proof -
  let ?t = "py_join ''/'' (map py_str_nat ns)"
  have "ns \<noteq> []" using ns by auto
  then obtain d t where t: "?t = d # t" and d: "is_decimal_char d" by (rule join_nums_hd)
  have cases: "full = ''FastEthernet'' \<or> full = ''GigabitEthernet'' \<or> full = ''TenGigabitEthernet''
     \<or> full = ''TwentyFiveGigE'' \<or> full = ''FortyGigabitEthernet'' \<or> full = ''HundredGigE''"
    using assms(1) by (auto simp: phys_fulls_eq)
  have *: "normalize_interface (phys_name q ns) = Inr (phys_name full ns)"
    if "q \<noteq> []" "list_all is_ascii_letter q"
      "\<not> py_startswith (map py_lower_char q @ d # py_lower t) ''vlan''"
      "\<exists>p. find (\<lambda>(p, _). py_startswith (map py_lower_char q @ d # py_lower t) p) prefixes_longest_first
         = Some (p, full) \<and> length p = length q" for q
  proof -
    from that(4) obtain p where
      p: "find (\<lambda>(p, _). py_startswith (map py_lower_char q @ d # py_lower t) p) prefixes_longest_first
         = Some (p, full)" "length p = length q" by blast
    have low: "py_lower q @ py_lower (d # t) = map py_lower_char q @ d # py_lower t"
      using d by (simp add: py_lower_def)
    show ?thesis
      using normalize_spelled [OF that(1,2) ns t [symmetric], unfolded low, OF that(3) p]
      by (simp add: phys_name_def t)
  qed
  note ev = prefixes_longest_first_eq py_startswith_def py_lower_char_def is_upper_char_def
    cp_def is_ascii_letter_def
  show "normalize_interface (phys_name full ns) = Inr (phys_name full ns)"
    by (rule *; use cases d in \<open>elim disjE; simp add: ev\<close>)
  show "normalize_interface (phys_name (short_of full) ns) = Inr (phys_name full ns)"
    by (rule *; use cases d in \<open>elim disjE; simp add: ev short_of_def get_default_def
          short_prefixes_def\<close>)
  show "short_loop short_prefixes (phys_name full ns) = phys_name (short_of full) ns"
    using cases
    by (elim disjE)
      (simp_all add: phys_name_def short_of_def get_default_def short_prefixes_def py_startswith_def
         py_replace1_def)
qed

lemma normalize_vlan: "normalize_interface (vlan_name n) = Inr (vlan_name n)"
proof -
  have last: "\<not> py_isspace_char (last (''Vlan'' @ py_str_nat n))"
    using all_decimal_set [OF all_decimal_str_nat last_in_set [OF py_str_nat_nonempty]] by simp
  have strip: "py_strip (''Vlan'' @ py_str_nat n) = ''Vlan'' @ py_str_nat n"
    by (rule py_strip_id) (use last in \<open>simp_all add: py_isspace_char_def cp_def\<close>)
  have "\<not> list_ex is_control_char (py_str_nat n)"
    using py_str_nat_decimal [of n] by (auto simp: list_ex_iff list_all_iff)
  then have ctl: "\<not> list_ex is_control_char (''Vlan'' @ py_str_nat n)"
    by (simp add: is_control_char_def cp_def)
  have low: "py_lower (''Vlan'' @ py_str_nat n) = ''vlan'' @ py_str_nat n"
    using all_decimal_lower [OF py_str_nat_decimal, of n]
    by (simp add: py_lower_def py_lower_char_def is_upper_char_def cp_def)
  show ?thesis using ctl strip low
    by (simp add: normalize_interface_def vlan_name_def Let_def py_startswith_def
        all_decimal_isdigit del: py_lower_append)
qed

lemma is_phys_name_nonvlan: "is_phys_name c \<Longrightarrow> \<not> py_startswith c ''Vlan''"
  by (auto simp: is_phys_name_def phys_fulls_eq phys_name_def py_startswith_def)

lemma is_vlan_name_vlan: "is_vlan_name c \<Longrightarrow> py_startswith c ''Vlan''"
  by (auto simp: is_vlan_name_def vlan_name_def py_startswith_def)

lemma normalize_idem: "normalize_interface n = Inr c \<Longrightarrow> normalize_interface c = Inr c"
  by (drule normalize_Inr)
    (auto simp: is_phys_name_def is_vlan_name_def normalize_full_and_short(1) normalize_vlan)

lemma normalize_phys: "is_phys_name c \<Longrightarrow> normalize_interface c = Inr c"
  by (auto simp: is_phys_name_def normalize_full_and_short(1))

definition name_char :: "char \<Rightarrow> bool" where
  "name_char x \<longleftrightarrow> is_ascii_letter x \<or> is_decimal_char x \<or> x = CHR ''/''"

lemma name_chars:
  assumes "is_phys_name c \<or> is_vlan_name c"
  shows "list_all name_char c"
proof -
  have "list_all name_char (py_str_nat k)" for k
    using py_str_nat_decimal [of k] by (auto simp: list_all_iff name_char_def)
  moreover have "list_all name_char (py_join ''/'' (map py_str_nat ns))" for ns
    using join_nums_chars [of _ ns] by (auto simp: list_all_iff name_char_def)
  moreover have "list_all name_char full" if "full \<in> set (''Vlan'' # phys_fulls)" for full
    using that by (auto simp: phys_fulls_eq name_char_def is_ascii_letter_def cp_def)
  ultimately show ?thesis using assms
    by (fastforce simp: is_phys_name_def is_vlan_name_def phys_name_def vlan_name_def
        name_char_def is_ascii_letter_def cp_def)
qed

lemma assert_writable_Inr:
  "assert_interface_writable n = Inr c \<longleftrightarrow> normalize_interface n = Inr c \<and> is_phys_name c"
proof -
  have "is_physical_interface c = Inr (is_phys_name c)" if "normalize_interface n = Inr c" for c
    using normalize_Inr [OF that] normalize_idem [OF that] is_phys_name_nonvlan is_vlan_name_vlan
    by (auto simp: is_physical_interface_def)
  then show ?thesis
    by (auto simp: assert_interface_writable_def and_then_Inr_iff split: if_splits)
qed

text \<open>What \<open>sanitize_description\<close> lets through.\<close>

lemma sanitize_Inr_iff:
  "sanitize_description v = Inr w \<longleftrightarrow>
     v \<noteq> [] \<and> w = py_strip v \<and> length w \<le> 64 \<and> set w \<subseteq> set description_ok"
  by (auto simp: sanitize_description_def Let_def filter_empty_conv)

lemma sanitize_idem:
  "sanitize_description v = Inr w \<Longrightarrow> w \<noteq> [] \<Longrightarrow> sanitize_description w = Inr w"
  by (auto simp: sanitize_Inr_iff)

definition line_char :: "char \<Rightarrow> bool" where
  "line_char x \<longleftrightarrow> 32 \<le> cp x \<and> cp x \<le> 126"

lemma description_ok_line: "set description_ok \<subseteq> Collect line_char"
  by (simp add: description_ok_def line_char_def cp_def)

lemma name_char_line: "name_char x \<Longrightarrow> line_char x"
  by (auto simp: name_char_def line_char_def is_ascii_letter_def is_decimal_char_def cp_def)

lemma name_no_brace: "list_all name_char c \<Longrightarrow> \<not> py_contains ''{value}'' c"
proof (rule notI)
  assume "list_all name_char c" and "py_contains ''{value}'' c"
  then have "name_char CHR ''{''"
    using py_contains_set [of "''{value}''" c] by (auto simp: list_all_iff)
  then show False
    by (simp add: name_char_def is_ascii_letter_def is_decimal_char_def cp_def)
qed

lemma short_of_normalize:
  assumes "normalize_interface n = Inr c"
  obtains s where "short_interface n = Inr s" and "normalize_interface s = Inr c"
    and "short_interface c = Inr s"
proof -
  have nc: "normalize_interface c = Inr c" by (rule normalize_idem [OF assms])
  consider (phys) "is_phys_name c" | (vlan) "is_vlan_name c"
    using normalize_Inr [OF assms] by blast
  then show ?thesis
  proof cases
    case phys
    then obtain full ns where f: "full \<in> set phys_fulls" "length ns = 2 \<or> length ns = 3"
      and c: "c = phys_name full ns"
      by (auto simp: is_phys_name_def)
    show ?thesis
      using that [of "phys_name (short_of full) ns"] assms nc normalize_full_and_short [OF f]
      by (simp add: short_interface_def c)
  next
    case vlan
    then have "short_loop short_prefixes c = c"
      by (auto simp: is_vlan_name_def vlan_name_def short_prefixes_def py_startswith_def)
    then show ?thesis using that [of c] assms nc by (simp add: short_interface_def)
  qed
qed

lemma build_Inr:
  assumes "build_write_action a i v = Inr w"
  obtains t ci sv where "dict_get safe_write_actions a = Some t"
    and "wa_commands w = map (resolve_line ci sv) t" and "wa_interface w = ci"
    and "list_ex (py_contains ''{iface}'') t \<Longrightarrow>
           \<exists>c. assert_interface_writable (the i) = Inr c \<and> ci = Some c"
    and "list_ex (py_contains ''{value}'') t \<Longrightarrow>
           \<exists>d. sanitize_description (the v) = Inr d \<and> sv = Some d"
    and "ci = None \<or> list_ex (py_contains ''{iface}'') t"
    and "sv = None \<or> list_ex (py_contains ''{value}'') t"
proof -
  from assms obtain t where t: "dict_get safe_write_actions a = Some t"
    by (auto simp: build_write_action_def split: option.splits)
  with assms obtain ci sv where
    ci: "(if list_ex (py_contains ''{iface}'') t
             then (case i of
                     None \<Rightarrow> Inl (CommandNotAllowedError
                               (''Action '' @ a @ '' requires an interface.''))
                   | Some i \<Rightarrow> and_then (assert_interface_writable i) (\<lambda>c. Inr (Some c)))
             else Inr None) = Inr ci"
    and sv: "(if list_ex (py_contains ''{value}'') t
             then (case v of
                     None \<Rightarrow> Inl (CommandNotAllowedError
                               (''Action '' @ a @ '' requires a value.''))
                   | Some v \<Rightarrow> and_then (sanitize_description v) (\<lambda>c. Inr (Some c)))
             else Inr None) = Inr sv"
    and w: "w = \<lparr>wa_name = a, wa_commands = map (resolve_line ci sv) t, wa_interface = ci\<rparr>"
    by (simp only: build_write_action_def option.case and_then_Inr_iff sum.inject) blast
  show ?thesis
  proof (rule that [OF t])
    show "\<exists>c. assert_interface_writable (the i) = Inr c \<and> ci = Some c"
      if "list_ex (py_contains ''{iface}'') t"
      using ci unfolding if_P [OF that]
      by (cases i; simp only: option.case option.sel sum.distinct and_then_Inr_iff sum.inject; blast)
    show "\<exists>d. sanitize_description (the v) = Inr d \<and> sv = Some d"
      if "list_ex (py_contains ''{value}'') t"
      using sv unfolding if_P [OF that]
      by (cases v; simp only: option.case option.sel sum.distinct and_then_Inr_iff sum.inject; blast)
    show "ci = None \<or> list_ex (py_contains ''{iface}'') t"
      using ci by (simp only: sum.inject split: if_split_asm) blast+
    show "sv = None \<or> list_ex (py_contains ''{value}'') t"
      using sv by (simp only: sum.inject split: if_split_asm) blast+
  qed (simp_all only: w write_action.select_convs)
qed

lemma iface_names_char: "assert_interface_writable x = Inr c \<Longrightarrow> list_all name_char c"
  using name_chars by (auto simp: assert_writable_Inr)

lemma set_py_replace_n: "set (py_replace_n n old new s) \<subseteq> set s \<union> set new"
proof (induction n old new s rule: py_replace_n.induct)
  case (2 n old new c cs)
  have "set (drop (length old - 1) cs) \<subseteq> set cs" by (rule set_drop_subset)
  with 2 show ?case by auto
qed simp

lemma set_py_replace: "set (py_replace s old new) \<subseteq> set s \<union> set new"
  by (simp add: py_replace_def set_py_replace_n)

lemma set_resolve_line:
  "set (resolve_line ci sv l) \<subseteq> set l \<union> set (or_empty ci) \<union> set (or_empty sv)"
  using set_py_replace [of l "''{iface}''" "or_empty ci"]
    set_py_replace [of l "''{value}''" "or_empty sv"]
    set_py_replace [of "py_replace l ''{iface}'' (or_empty ci)" "''{value}''" "or_empty sv"]
  unfolding resolve_line_def Let_def by (simp split: if_split) blast

lemma templates_printable:
  "list_all (\<lambda>(_, t). list_all (list_all line_char) t) safe_write_actions"
  by code_simp

lemma template_printable:
  "dict_get safe_write_actions a = Some t \<Longrightarrow> l \<in> set t \<Longrightarrow> list_all line_char l"
  using templates_printable by (fastforce dest: map_of_SomeD simp: list_all_iff)

section \<open>Properties\<close>

text \<open>A name that \<open>normalize_interface\<close> accepts comes out in canonical form: made only of ASCII
  letters, decimal digits and slashes (so it cannot break out of the IOS line it is put in), of
  one of the fixed spellings followed by decimal numbers, and left alone by a second
  normalisation.\<close>
theorem normalize_interface_canonical:
  assumes "normalize_interface n = Inr c"
  shows "normalize_interface c = Inr c \<and> list_all name_char c \<and> (is_phys_name c \<or> is_vlan_name c)"
  using normalize_idem [OF assms] normalize_Inr [OF assms] name_chars by blast

theorem normalize_interface_canonical_witness:
  "normalize_interface '' Twe1/00/04'' = Inr ''TwentyFiveGigE1/0/4'' \<and>
   normalize_interface ''TwentyFiveGigE1/0/4'' = Inr ''TwentyFiveGigE1/0/4''"
proof -
  have h: "normalize_interface '' Twe1/00/04'' = Inr ''TwentyFiveGigE1/0/4''" by code_simp
  show ?thesis using h normalize_interface_canonical [OF h] by blast
qed

text \<open>The short form used for display and matching loses nothing: it exists for every accepted
  name, and normalising it gives the canonical name back.\<close>
theorem short_interface_roundtrip:
  assumes "normalize_interface n = Inr c"
  shows "\<exists>s. short_interface n = Inr s \<and> normalize_interface s = Inr c"
  using short_of_normalize [OF assms] by blast

theorem short_interface_roundtrip_witness:
  "\<exists>s. short_interface ''tengigabitethernet1/1/2'' = Inr s \<and>
     normalize_interface s = Inr ''TenGigabitEthernet1/1/2''"
proof -
  have h: "normalize_interface ''tengigabitethernet1/1/2'' = Inr ''TenGigabitEthernet1/1/2''"
    by code_simp
  show ?thesis by (rule short_interface_roundtrip [OF h])
qed

text \<open>C8: Every action that \<open>build_write_action\<close> builds consists of the lines of its template in the
  catalogue: a placeholder is filled only by a canonical physical interface name or a sanitized
  description, and every character sent is printable ASCII, so no input can add a line.\<close>
theorem build_write_action_safe:
  assumes "build_write_action a i v = Inr w"
  shows "\<exists>t sv. dict_get safe_write_actions a = Some t \<and>
    wa_commands w = map (resolve_line (wa_interface w) sv) t \<and>
    list_all (list_all line_char) (wa_commands w) \<and>
    (list_ex (py_contains ''{iface}'') t \<longrightarrow>
       (\<exists>c. wa_interface w = Some c \<and> assert_interface_writable (the i) = Inr c \<and> is_phys_name c)) \<and>
    (list_ex (py_contains ''{value}'') t \<longrightarrow>
       (\<exists>d. sv = Some d \<and> sanitize_description (the v) = Inr d))"
proof -
  obtain t ci sv where t: "dict_get safe_write_actions a = Some t"
    and w: "wa_commands w = map (resolve_line ci sv) t" "wa_interface w = ci"
    and ci: "list_ex (py_contains ''{iface}'') t \<Longrightarrow>
           \<exists>c. assert_interface_writable (the i) = Inr c \<and> ci = Some c"
    and sv: "list_ex (py_contains ''{value}'') t \<Longrightarrow>
           \<exists>d. sanitize_description (the v) = Inr d \<and> sv = Some d"
    and none: "ci = None \<or> list_ex (py_contains ''{iface}'') t"
      "sv = None \<or> list_ex (py_contains ''{value}'') t"
    using build_Inr [OF assms] by blast
  have "set (or_empty ci) \<subseteq> Collect line_char"
    using none(1) ci iface_names_char name_char_line
    by (fastforce simp: or_empty_def list_all_iff split: option.splits)
  moreover have "set (or_empty sv) \<subseteq> Collect line_char"
    using none(2) sv description_ok_line
    by (fastforce simp: or_empty_def sanitize_Inr_iff split: option.splits)
  ultimately have "list_all line_char (resolve_line ci sv l)" if "l \<in> set t" for l
    using set_resolve_line [of ci sv l] template_printable [OF t that] by (fastforce simp: list_all_iff)
  then have "list_all (list_all line_char) (wa_commands w)"
    by (simp add: w list_all_iff)
  then show ?thesis using t w ci sv by (auto simp: assert_writable_Inr)
qed

theorem build_write_action_safe_witness:
  "\<exists>w. build_write_action ''set_port_description'' (Some ''gi0/3'') (Some ''Lab AP'') = Inr w \<and>
     wa_commands w = [''configure terminal'', ''interface GigabitEthernet0/3'',
                      ''description Lab AP'', ''end''] \<and>
     list_all (list_all line_char) (wa_commands w)"
proof -
  let ?b = "build_write_action ''set_port_description'' (Some ''gi0/3'') (Some ''Lab AP'')"
  have h: "map_sum id wa_commands ?b =
     Inr [''configure terminal'', ''interface GigabitEthernet0/3'', ''description Lab AP'', ''end'']"
    by code_simp
  then obtain w where w: "?b = Inr w" by (cases ?b) auto
  then have "wa_commands w = [''configure terminal'', ''interface GigabitEthernet0/3'',
                      ''description Lab AP'', ''end'']" using h by simp
  then show ?thesis using w build_write_action_safe [OF w] by blast
qed

end
