(* ===== verification/Interface_Policy.thy ===== *)
theory Interface_Policy
  imports Command_Registry Models
begin

text \<open>
  \<open>backend/app/interface_policy.py\<close>: the local policy file that says which interface may be
  written. The state of the store is the file on disk, as \<open>json.loads\<close> sees it; every operation
  loads and validates it and writes it back as a whole. The digest of the device address
  (\<open>hashlib.sha256(...).hexdigest()\<close>) is the parameter \<open>H\<close> of the definitions; the lemmas that
  need it state that it gives 64 lower-case hexadecimal digits. Shown: the file written is read
  back as it was meant, a file that does not validate authorises nothing, the guard holds exactly
  for an explicit \<open>OPERABLE\<close> entry of a physical interface with controlled writes on, and
  protecting an interface never grants authority.
\<close>

section \<open>The file\<close>

text \<open>A value \<open>json.loads\<close> returns; an object keeps one value for each key.\<close>

datatype json =
    JNull
  | JBool bool
  | JNum rat
  | JStr string
  | JList "json list"
  | JObj "(string \<times> json) list"

datatype policy_file = NoFile | Unparsable | Doc json

record policy_data =
  pd_writes :: bool
  pd_devices :: "(string, (string, policy_state) dict) dict"

definition device_key :: "(string \<Rightarrow> string) \<Rightarrow> string \<Rightarrow> string" where
  "device_key H host = H (py_lower (py_strip host))"

definition is_device_key :: "string \<Rightarrow> bool" where
  "is_device_key s \<longleftrightarrow> length s = 64 \<and> list_all (\<lambda>c. c \<in> set ''0123456789abcdef'') s"

definition empty_policy :: policy_data where
  "empty_policy = \<lparr>pd_writes = False, pd_devices = []\<rparr>"

text \<open>Equality of a JSON value with the integer 1, where Python's \<open>True\<close> is equal to it too.\<close>

definition json_is_one :: "json option \<Rightarrow> bool" where
  "json_is_one j = (case j of Some (JNum q) \<Rightarrow> q = 1 | Some (JBool b) \<Rightarrow> b | _ \<Rightarrow> False)"

definition parse_state :: "json \<Rightarrow> policy_state result" where
  "parse_state j =
     (case j of
        JStr s \<Rightarrow>
          if s = ''PROTECTED'' then Inr PROTECTED
          else if s = ''OPERABLE'' then Inr OPERABLE
          else if s = ''UNMANAGED'' then Inr UNMANAGED
          else Inl (PyError ''ValueError'')
      | JList _ \<Rightarrow> Inl (PyError ''TypeError'')
      | JObj _ \<Rightarrow> Inl (PyError ''TypeError'')
      | _ \<Rightarrow> Inl (PyError ''ValueError''))"

fun load_interfaces ::
  "(string, policy_state) dict \<Rightarrow> (string \<times> json) list \<Rightarrow> (string, policy_state) dict result"
where
  "load_interfaces acc [] = Inr acc"
| "load_interfaces acc ((name, j) # rest) =
     and_then (normalize_interface name) (\<lambda>canonical.
     and_then (parse_state j) (\<lambda>state.
     and_then (is_physical_interface canonical) (\<lambda>physical.
       if state = OPERABLE \<and> \<not> physical then Inl (PyError ''ValueError'')
       else load_interfaces (dict_set canonical state acc) rest)))"

fun load_devices ::
  "(string, (string, policy_state) dict) dict \<Rightarrow> (string \<times> json) list
     \<Rightarrow> (string, (string, policy_state) dict) dict result"
where
  "load_devices acc [] = Inr acc"
| "load_devices acc ((key, device) # rest) =
     (if \<not> is_device_key key then Inl (PyError ''ValueError'')
      else case device of
        JObj flds \<Rightarrow>
          (case dict_get flds ''interfaces'' of
             Some (JObj entries) \<Rightarrow>
               and_then (load_interfaces [] entries) (\<lambda>interfaces.
                 load_devices (dict_set key interfaces acc) rest)
           | _ \<Rightarrow> Inl (PyError ''ValueError''))
      | _ \<Rightarrow> Inl (PyError ''ValueError''))"

definition validate_policy :: "json \<Rightarrow> policy_data result" where
  "validate_policy raw =
     (case raw of
        JObj flds \<Rightarrow>
          if \<not> json_is_one (dict_get flds ''schemaVersion'') then Inl (PyError ''ValueError'')
          else
            (case dict_get flds ''controlledWritesEnabled'' of
               Some (JBool writes) \<Rightarrow>
                 (case dict_get flds ''devices'' of
                    Some (JObj devices) \<Rightarrow>
                      and_then (load_devices [] devices) (\<lambda>validated.
                        Inr \<lparr>pd_writes = writes, pd_devices = validated\<rparr>)
                  | _ \<Rightarrow> Inl (PyError ''ValueError''))
             | _ \<Rightarrow> Inl (PyError ''ValueError''))
      | _ \<Rightarrow> Inl (PyError ''ValueError''))"

fun exn_name :: "exn \<Rightarrow> string" where
  "exn_name (SwitchOpsError _) = ''SwitchOpsError''"
| "exn_name (CommandNotAllowedError _) = ''CommandNotAllowedError''"
| "exn_name (ProtectedInterfaceError _) = ''ProtectedInterfaceError''"
| "exn_name (WriteActionsDisabledError _) = ''WriteActionsDisabledError''"
| "exn_name (CredentialsMissingError _) = ''CredentialsMissingError''"
| "exn_name (SwitchConnectionError _) = ''SwitchConnectionError''"
| "exn_name (HostKeyChangedError _) = ''HostKeyChangedError''"
| "exn_name (LegacySshNegotiationError _) = ''LegacySshNegotiationError''"
| "exn_name (PyError name) = name"

definition load_unlocked :: "policy_file \<Rightarrow> policy_data \<times> string option" where
  "load_unlocked f =
     (case f of
        NoFile \<Rightarrow> (empty_policy, None)
      | Unparsable \<Rightarrow> (empty_policy, Some ''JSONDecodeError'')
      | Doc raw \<Rightarrow>
          (case validate_policy raw of
             Inl e \<Rightarrow> (empty_policy, Some (exn_name e))
           | Inr data \<Rightarrow> (data, None)))"

text \<open>\<open>json.dumps(data, sort_keys=True)\<close> written over the file.\<close>

definition sort_keys :: "(string \<times> 'a) list \<Rightarrow> (string \<times> 'a) list" where
  "sort_keys d = sort_key fst d"

definition state_json :: "policy_state \<Rightarrow> json" where
  "state_json s =
     (case s of PROTECTED \<Rightarrow> JStr ''PROTECTED'' | OPERABLE \<Rightarrow> JStr ''OPERABLE''
      | UNMANAGED \<Rightarrow> JStr ''UNMANAGED'')"

definition device_json :: "(string, policy_state) dict \<Rightarrow> json" where
  "device_json interfaces =
     JObj [(''interfaces'', JObj (map (\<lambda>(n, s). (n, state_json s)) (sort_keys interfaces)))]"

definition write_unlocked :: "policy_data \<Rightarrow> policy_file" where
  "write_unlocked data =
     Doc (JObj
       [(''controlledWritesEnabled'', JBool (pd_writes data)),
        (''devices'', JObj (map (\<lambda>(k, d). (k, device_json d)) (sort_keys (pd_devices data)))),
        (''schemaVersion'', JNum 1)])"

section \<open>Reading\<close>

definition stored_interfaces :: "policy_data \<Rightarrow> string \<Rightarrow> (string, policy_state) dict" where
  "stored_interfaces data key = get_default (pd_devices data) key []"

definition controlled_writes_enabled :: "policy_file \<Rightarrow> bool" where
  "controlled_writes_enabled f =
     (let (data, load_error) = load_unlocked f in load_error = None \<and> pd_writes data)"

definition state_for ::
  "(string \<Rightarrow> string) \<Rightarrow> policy_file \<Rightarrow> string option \<Rightarrow> string \<Rightarrow> policy_state result"
where
  "state_for H f host iface =
     (if or_empty host = [] then Inr UNMANAGED
      else and_then (normalize_interface iface) (\<lambda>canonical.
        let (data, load_error) = load_unlocked f in
        if load_error \<noteq> None then Inr UNMANAGED
        else Inr (get_default (stored_interfaces data (device_key H (or_empty host)))
                    canonical UNMANAGED)))"

definition assert_operable ::
  "(string \<Rightarrow> string) \<Rightarrow> policy_file \<Rightarrow> string option \<Rightarrow> string \<Rightarrow> string result"
where
  "assert_operable H f host iface =
     and_then (assert_interface_writable iface) (\<lambda>canonical.
       if or_empty host = []
       then Inl (CommandNotAllowedError
              ''No configured device policy can authorize this interface.'')
       else
         let (data, load_error) = load_unlocked f in
         if load_error \<noteq> None
         then Inl (CommandNotAllowedError
                ''The local interface policy is invalid; all interfaces are read-only.'')
         else
           let state = get_default (stored_interfaces data (device_key H (or_empty host)))
                         canonical UNMANAGED in
           if state = PROTECTED
           then Inl (ProtectedInterfaceError
                  (''Interface '' @ canonical @ '' is protected and cannot be modified.''))
           else if state \<noteq> OPERABLE
           then Inl (CommandNotAllowedError
                  (''Interface '' @ canonical @ '' is unmanaged and cannot be modified.''))
           else Inr canonical)"

text \<open>
  Entering the context manager: the canonical name it yields, or the exception it raises. The lock
  it holds keeps the file unchanged until the block is left.
\<close>

definition policy_guard ::
  "(string \<Rightarrow> string) \<Rightarrow> policy_file \<Rightarrow> string option \<Rightarrow> string \<Rightarrow> string result"
where
  "policy_guard H f host iface =
     (let (data, load_error) = load_unlocked f in
      if load_error \<noteq> None \<or> \<not> pd_writes data
      then Inl (WriteActionsDisabledError
             ''Controlled writes are disabled in local SwitchOps settings.'')
      else assert_operable H f host iface)"

record policy_status =
  ps_device_configured :: bool
  ps_device_key :: "string option"
  ps_valid :: bool
  ps_writes :: bool
  ps_interfaces :: "(string, policy_state) dict"

fun status_names :: "string list \<Rightarrow> string list \<Rightarrow> string list result" where
  "status_names names [] = Inr names"
| "status_names names (i # rest) =
     (case normalize_interface i of
        Inr canonical \<Rightarrow> status_names (names @ [canonical]) rest
      | Inl e \<Rightarrow> if is_command_not_allowed e then status_names names rest else Inl e)"

fun status_states ::
  "(string, policy_state) dict \<Rightarrow> (string, policy_state) dict \<Rightarrow> string list
     \<Rightarrow> (string, policy_state) dict result"
where
  "status_states stored acc [] = Inr acc"
| "status_states stored acc (canonical # rest) =
     and_then (short_interface canonical) (\<lambda>short.
       status_states stored (dict_set short (get_default stored canonical UNMANAGED) acc) rest)"

definition policy_status ::
  "(string \<Rightarrow> string) \<Rightarrow> policy_file \<Rightarrow> string option \<Rightarrow> string list \<Rightarrow> policy_status result"
where
  "policy_status H f host observed =
     (let (data, load_error) = load_unlocked f;
          key = (if or_empty host = [] then None else Some (device_key H (or_empty host)));
          stored = (case key of
                      None \<Rightarrow> []
                    | Some k \<Rightarrow> if load_error = None then stored_interfaces data k else [])
      in and_then (status_names (dict_keys stored) observed) (\<lambda>names.
         and_then (status_states stored [] (sorted_set names)) (\<lambda>states.
           Inr \<lparr>ps_device_configured = (or_empty host \<noteq> []), ps_device_key = key,
                ps_valid = (load_error = None),
                ps_writes = (pd_writes data \<and> load_error = None),
                ps_interfaces = states\<rparr>)))"

text \<open>\<open>annotate\<close>: every interface of a list gets its policy state and the flag derived from it.\<close>

definition annotate ::
  "(string \<Rightarrow> string) \<Rightarrow> policy_file \<Rightarrow> string option \<Rightarrow> interface_status list
     \<Rightarrow> interface_status list result"
where
  "annotate H f host interfaces =
     map_result (\<lambda>i. and_then (state_for H f host (ifs_port i)) (\<lambda>state.
       Inr (i\<lparr>ifs_policy_state := state, ifs_protected := (state = PROTECTED)\<rparr>))) interfaces"

section \<open>Writing\<close>

text \<open>An operation returns its result and the file it leaves.\<close>

definition set_controlled_writes :: "policy_file \<Rightarrow> bool \<Rightarrow> unit result \<times> policy_file" where
  "set_controlled_writes f enabled =
     (let (data, load_error) = load_unlocked f in
      if load_error \<noteq> None
      then (Inl (CommandNotAllowedError
             ''The local interface policy is invalid. Repair or remove it before enabling writes.''), f)
      else (Inr (), write_unlocked (data\<lparr>pd_writes := enabled\<rparr>)))"

definition put_state ::
  "policy_data \<Rightarrow> string \<Rightarrow> string \<Rightarrow> policy_state \<Rightarrow> policy_data"
where
  "put_state data key canonical state =
     data\<lparr>pd_devices := dict_set key
       (if state = UNMANAGED then dict_pop canonical (stored_interfaces data key)
        else dict_set canonical state (stored_interfaces data key)) (pd_devices data)\<rparr>"

definition set_state ::
  "(string \<Rightarrow> string) \<Rightarrow> policy_file \<Rightarrow> string \<Rightarrow> string \<Rightarrow> policy_state
     \<Rightarrow> unit result \<times> policy_file"
where
  "set_state H f host iface state =
     (if host = [] then (Inl (CommandNotAllowedError ''No device is configured.''), f)
      else
        case normalize_interface iface of
          Inl e \<Rightarrow> (Inl e, f)
        | Inr canonical \<Rightarrow>
            (case (if state = OPERABLE then assert_interface_writable canonical else Inr canonical) of
               Inl e \<Rightarrow> (Inl e, f)
             | Inr _ \<Rightarrow>
                 let (data, load_error) = load_unlocked f in
                 if load_error \<noteq> None
                 then (Inl (CommandNotAllowedError
                   ''The local interface policy is invalid. Repair or remove it before editing policy.''), f)
                 else (Inr (), write_unlocked (put_state data (device_key H host) canonical state))))"

definition ensure_protected ::
  "(string \<Rightarrow> string) \<Rightarrow> policy_file \<Rightarrow> string option \<Rightarrow> string option
     \<Rightarrow> unit result \<times> policy_file"
where
  "ensure_protected H f host iface =
     (if or_empty host = [] \<or> or_empty iface = [] then (Inr (), f)
      else
        case normalize_interface (or_empty iface) of
          Inl e \<Rightarrow> (Inl e, f)
        | Inr canonical \<Rightarrow>
            let (data, load_error) = load_unlocked f; key = device_key H (or_empty host) in
            if load_error \<noteq> None then (Inr (), f)
            else if dict_get (stored_interfaces data key) canonical = Some PROTECTED then (Inr (), f)
            else (Inr (), write_unlocked (put_state data key canonical PROTECTED)))"

section \<open>Lemmas\<close>

text \<open>Data that the validation accepts: what every file the store itself writes holds.\<close>

definition interfaces_ok :: "(string, policy_state) dict \<Rightarrow> bool" where
  "interfaces_ok d \<longleftrightarrow> dict_ok d \<and>
     list_all (\<lambda>(n, s). normalize_interface n = Inr n \<and> (s = OPERABLE \<longrightarrow> is_phys_name n)) d"

definition policy_ok :: "policy_data \<Rightarrow> bool" where
  "policy_ok data \<longleftrightarrow> dict_ok (pd_devices data) \<and>
     list_all (\<lambda>(k, d). is_device_key k \<and> interfaces_ok d) (pd_devices data)"

text \<open>Two policies that answer every question alike; the order of the keys is not observed.\<close>

definition same_policy :: "policy_data \<Rightarrow> policy_data \<Rightarrow> bool" where
  "same_policy a b \<longleftrightarrow> pd_writes a = pd_writes b \<and>
     (\<forall>k n. dict_get (stored_interfaces a k) n = dict_get (stored_interfaces b k) n)"

lemma get_default_cong: "dict_get d = dict_get e \<Longrightarrow> get_default d k v = get_default e k v"
  by (simp add: get_default_def)

lemma is_physical_canonical:
  "normalize_interface n = Inr n \<Longrightarrow> is_physical_interface n = Inr (is_phys_name n)"
  using normalize_Inr [of n n] is_phys_name_nonvlan is_vlan_name_vlan
  by (auto simp: is_physical_interface_def)

lemma parse_state_json [simp]: "parse_state (state_json s) = Inr s"
  by (cases s) (simp_all add: parse_state_def state_json_def)

lemma set_sort_keys [simp]: "set (sort_keys d) = set d"
  by (simp add: sort_keys_def)

lemma dict_ok_sort_keys [simp]: "dict_ok (sort_keys d) = dict_ok d"
  by (simp add: dict_ok_def distinct_map sort_keys_def)

lemma get_sort_keys: "dict_ok d \<Longrightarrow> dict_get (sort_keys d) = dict_get d"
  by (rule dict_ok_append_same_set) simp_all

lemma interfaces_ok_alt:
  "interfaces_ok d \<longleftrightarrow> dict_ok d \<and>
     (\<forall>n s. (n, s) \<in> set d \<longrightarrow> normalize_interface n = Inr n \<and> (s = OPERABLE \<longrightarrow> is_phys_name n))"
  by (auto simp: interfaces_ok_def list_all_iff)

lemma interfaces_ok_Nil [simp]: "interfaces_ok []"
  by (simp add: interfaces_ok_alt)

lemma interfaces_ok_sort [simp]: "interfaces_ok (sort_keys d) = interfaces_ok d"
  by (simp add: interfaces_ok_alt)

lemma interfaces_ok_set:
  "\<lbrakk>interfaces_ok d; normalize_interface n = Inr n; s = OPERABLE \<longrightarrow> is_phys_name n\<rbrakk>
     \<Longrightarrow> interfaces_ok (dict_set n s d)"
  by (auto simp: interfaces_ok_alt dest!: set_dict_set)

lemma interfaces_ok_pop: "interfaces_ok d \<Longrightarrow> interfaces_ok (dict_pop n d)"
  using set_dict_pop [of n d] by (auto simp: interfaces_ok_alt)

lemma interfaces_ok_Cons:
  "interfaces_ok ((n, s) # d) \<longleftrightarrow>
     n \<notin> fst ` set d \<and> normalize_interface n = Inr n \<and> (s = OPERABLE \<longrightarrow> is_phys_name n) \<and>
     interfaces_ok d"
  by (auto simp: interfaces_ok_def dict_ok_def)

lemma policy_ok_alt:
  "policy_ok data \<longleftrightarrow> dict_ok (pd_devices data) \<and>
     (\<forall>k d. (k, d) \<in> set (pd_devices data) \<longrightarrow> is_device_key k \<and> interfaces_ok d)"
  by (auto simp: policy_ok_def list_all_iff)

lemma stored_ok: "policy_ok data \<Longrightarrow> interfaces_ok (stored_interfaces data key)"
  by (auto simp: policy_ok_alt stored_interfaces_def get_default_def dest: map_of_SomeD
      split: option.splits)

lemma load_interfaces_json:
  assumes "interfaces_ok d" "fst ` set acc \<inter> fst ` set d = {}"
  shows "load_interfaces acc (map (\<lambda>(n, s). (n, state_json s)) d) = Inr (acc @ d)"
  using assms
proof (induction d arbitrary: acc)
  case (Cons p d)
  obtain n s where p: "p = (n, s)" by (cases p)
  have "dict_set n s acc = acc @ [(n, s)]"
    using Cons.prems p by (intro dict_set_new) auto
  then show ?case
    using Cons p by (simp add: interfaces_ok_Cons is_physical_canonical)
qed simp

lemma load_devices_json:
  assumes "dict_ok ds" "\<forall>(k, d) \<in> set ds. is_device_key k \<and> interfaces_ok d"
    "fst ` set acc \<inter> fst ` set ds = {}"
  shows "load_devices acc (map (\<lambda>(k, d). (k, device_json d)) ds) =
    Inr (acc @ map (\<lambda>(k, d). (k, sort_keys d)) ds)"
  using assms
proof (induction ds arbitrary: acc)
  case (Cons p ds)
  obtain k d where p: "p = (k, d)" by (cases p)
  have ld: "load_interfaces [] (map (\<lambda>(n, s). (n, state_json s)) (sort_keys d)) = Inr (sort_keys d)"
    using Cons.prems p load_interfaces_json [of "sort_keys d" "[]"] by simp
  have "dict_set k (sort_keys d) acc = acc @ [(k, sort_keys d)]"
    using Cons.prems p by (intro dict_set_new) auto
  then show ?case
    using Cons.IH [of "acc @ [(k, sort_keys d)]"] Cons.prems p
    by (simp add: device_json_def ld dict_ok_Cons)
qed simp

definition written :: "policy_data \<Rightarrow> policy_data" where
  "written data =
     data\<lparr>pd_devices := map (\<lambda>(k, d). (k, sort_keys d)) (sort_keys (pd_devices data))\<rparr>"

lemma load_write: "policy_ok data \<Longrightarrow> load_unlocked (write_unlocked data) = (written data, None)"
  using load_devices_json [of "sort_keys (pd_devices data)" "[]"]
  by (simp add: load_unlocked_def write_unlocked_def validate_policy_def json_is_one_def
      policy_ok_def list_all_iff written_def)

lemma map_of_map_snd: "map_of (map (\<lambda>(k, d). (k, f d)) xs) k = map_option f (map_of xs k)"
  by (induction xs) auto

lemma same_policy_written:
  assumes "policy_ok data"
  shows "same_policy (written data) data"
proof -
  have "dict_get (stored_interfaces (written data) k) = dict_get (stored_interfaces data k)" for k
    using assms stored_ok [OF assms, of k]
    by (auto simp: stored_interfaces_def written_def get_default_def map_of_map_snd policy_ok_alt
        get_sort_keys interfaces_ok_alt split: option.splits)
  then show ?thesis by (simp add: same_policy_def written_def)
qed

lemma load_interfaces_ok:
  "load_interfaces acc es = Inr d \<Longrightarrow> interfaces_ok acc \<Longrightarrow> interfaces_ok d"
proof (induction acc es rule: load_interfaces.induct)
  case (2 acc name j rest)
  then obtain c s p where c: "normalize_interface name = Inr c" and s: "parse_state j = Inr s"
    and p: "is_physical_interface c = Inr p" and ok: "\<not> (s = OPERABLE \<and> \<not> p)"
    and l: "load_interfaces (dict_set c s acc) rest = Inr d"
    by (auto simp: and_then_Inr_iff split: if_splits)
  have "p = is_phys_name c"
    using is_physical_canonical [OF normalize_idem [OF c]] p by simp
  then have "interfaces_ok (dict_set c s acc)"
    using ok 2(3) normalize_idem [OF c] by (intro interfaces_ok_set) auto
  with 2(1) [OF ok l] show ?case .
qed simp

lemma load_devices_ok:
  "load_devices acc es = Inr ds \<Longrightarrow>
     dict_ok acc \<Longrightarrow> \<forall>(k, d) \<in> set acc. is_device_key k \<and> interfaces_ok d \<Longrightarrow>
     dict_ok ds \<and> (\<forall>(k, d) \<in> set ds. is_device_key k \<and> interfaces_ok d)"
proof (induction acc es rule: load_devices.induct)
  case (2 acc key device rest)
  then obtain flds entries d where dev: "device = JObj flds"
    and e: "dict_get flds ''interfaces'' = Some (JObj entries)"
    and d: "load_interfaces [] entries = Inr d" and key: "is_device_key key"
    and l: "load_devices (dict_set key d acc) rest = Inr ds"
    by (auto simp: and_then_Inr_iff split: if_splits json.splits option.splits)
  have "interfaces_ok d" using load_interfaces_ok [OF d] by simp
  then have "\<forall>(k, d) \<in> set (dict_set key d acc). is_device_key k \<and> interfaces_ok d"
    using 2(4) key by (auto dest!: set_dict_set)
  with 2(1) [OF _ dev e refl l] 2(3) key show ?case by simp
qed simp

lemma load_devices_empty:
  assumes "load_devices [] es = Inr ds"
  shows "dict_ok ds" and "(k, d) \<in> set ds \<Longrightarrow> is_device_key k \<and> interfaces_ok d"
  using load_devices_ok [OF assms] by auto

lemma load_ok: "policy_ok (fst (load_unlocked f))"
  by (auto simp: load_unlocked_def validate_policy_def empty_policy_def policy_ok_alt
      and_then_Inr_iff split: policy_file.splits sum.splits json.splits option.splits if_splits
      dest: load_devices_empty)

lemma put_state_ok:
  assumes "policy_ok data" "is_device_key key" "normalize_interface c = Inr c"
    "s = OPERABLE \<longrightarrow> is_phys_name c"
  shows "policy_ok (put_state data key c s)"
proof -
  have "interfaces_ok (if s = UNMANAGED then dict_pop c (stored_interfaces data key)
        else dict_set c s (stored_interfaces data key))"
    using stored_ok [OF assms(1)] assms(3,4) by (simp add: interfaces_ok_pop interfaces_ok_set)
  then show ?thesis using assms(1,2)
    by (auto simp: policy_ok_alt put_state_def dest!: set_dict_set)
qed

lemma stored_put_state:
  "dict_get (stored_interfaces (put_state data key c s) k) n =
     (if k = key \<and> n = c then (if s = UNMANAGED then None else Some s)
      else dict_get (stored_interfaces data k) n)"
  by (auto simp: stored_interfaces_def put_state_def get_default_def)

lemma stored_same:
  "same_policy a b \<Longrightarrow>
     get_default (stored_interfaces a k) n v = get_default (stored_interfaces b k) n v"
  by (simp add: same_policy_def get_default_def)

lemma get_put_state:
  "get_default (stored_interfaces (put_state data key c s) k) n UNMANAGED =
     (if k = key \<and> n = c then s else get_default (stored_interfaces data k) n UNMANAGED)"
  by (auto simp: get_default_def stored_put_state)

text \<open>What the file says about a device and a canonical name; nothing when it does not validate.\<close>

definition policy_of :: "policy_file \<Rightarrow> string \<Rightarrow> string \<Rightarrow> policy_state" where
  "policy_of f key n =
     (let (data, err) = load_unlocked f in
      if err \<noteq> None then UNMANAGED else get_default (stored_interfaces data key) n UNMANAGED)"

definition policy_valid :: "policy_file \<Rightarrow> bool" where
  "policy_valid f \<longleftrightarrow> snd (load_unlocked f) = None"

lemma state_for_policy_of:
  "or_empty host \<noteq> [] \<Longrightarrow> normalize_interface i = Inr c \<Longrightarrow>
     state_for H f host i = Inr (policy_of f (device_key H (or_empty host)) c)"
  by (simp add: state_for_def policy_of_def split: prod.split)

lemma policy_of_write:
  assumes "policy_ok data"
  shows "policy_of (write_unlocked data) key n = get_default (stored_interfaces data key) n UNMANAGED"
    and "policy_valid (write_unlocked data)"
    and "controlled_writes_enabled (write_unlocked data) = pd_writes data"
  using stored_same [OF same_policy_written [OF assms]]
  by (simp_all add: policy_of_def policy_valid_def controlled_writes_enabled_def load_write [OF assms])
    (simp add: written_def)

lemma assert_operable_Inr:
  "assert_operable H f host i = Inr c \<longleftrightarrow>
     or_empty host \<noteq> [] \<and> assert_interface_writable i = Inr c \<and>
     policy_of f (device_key H (or_empty host)) c = OPERABLE"
  by (auto simp: assert_operable_def and_then_Inr_iff policy_of_def Let_def
      split: prod.split if_splits)

lemma policy_guard_Inr:
  "policy_guard H f host i = Inr c \<longleftrightarrow>
     controlled_writes_enabled f \<and> assert_operable H f host i = Inr c"
  by (auto simp: policy_guard_def controlled_writes_enabled_def split: prod.split)

lemma policy_of_invalid: "\<not> policy_valid f \<Longrightarrow> policy_of f k n = UNMANAGED"
  by (auto simp: policy_of_def policy_valid_def split: prod.split)

lemma policy_of_valid:
  "policy_valid f \<Longrightarrow>
     policy_of f k n = get_default (stored_interfaces (fst (load_unlocked f)) k) n UNMANAGED"
  by (auto simp: policy_of_def policy_valid_def split: prod.split)

lemma writes_valid:
  "controlled_writes_enabled f \<longleftrightarrow> policy_valid f \<and> pd_writes (fst (load_unlocked f))"
  by (auto simp: controlled_writes_enabled_def policy_valid_def split: prod.split)

text \<open>What the store relies on of the digest: 64 lower-case hexadecimal digits.\<close>

definition hex_digest :: "(string \<Rightarrow> string) \<Rightarrow> bool" where
  "hex_digest H \<longleftrightarrow> (\<forall>s. is_device_key (H s))"

lemma put_state_effect:
  fixes host :: string
  assumes "hex_digest H" "policy_valid f" "normalize_interface c = Inr c"
    "s = OPERABLE \<longrightarrow> is_phys_name c"
  defines "f' \<equiv> write_unlocked (put_state (fst (load_unlocked f)) (device_key H host) c s)"
  shows "policy_valid f'" and "controlled_writes_enabled f' = controlled_writes_enabled f"
    and "policy_of f' k n = (if k = device_key H host \<and> n = c then s else policy_of f k n)"
proof -
  have "is_device_key (device_key H host)" using assms(1) by (simp add: hex_digest_def device_key_def)
  then have ok: "policy_ok (put_state (fst (load_unlocked f)) (device_key H host) c s)"
    using put_state_ok [OF load_ok] assms(3,4) by blast
  show "policy_valid f'" "controlled_writes_enabled f' = controlled_writes_enabled f"
    using policy_of_write [OF ok] assms(2) by (simp_all add: f'_def writes_valid put_state_def)
  show "policy_of f' k n = (if k = device_key H host \<and> n = c then s else policy_of f k n)"
    using policy_of_write(1) [OF ok] assms(2) by (simp add: f'_def get_put_state policy_of_valid)
qed

lemma ensure_protected_cases:
  fixes f :: policy_file and host iface :: "string option"
  assumes "hex_digest H"
  defines "f' \<equiv> snd (ensure_protected H f host iface)"
  shows "f' = f \<or>
    (\<exists>c. normalize_interface (or_empty iface) = Inr c \<and> policy_valid f \<and> policy_valid f' \<and>
       controlled_writes_enabled f' = controlled_writes_enabled f \<and>
       (\<forall>k n. policy_of f' k n =
          (if k = device_key H (or_empty host) \<and> n = c then PROTECTED else policy_of f k n)))"
proof (cases "normalize_interface (or_empty iface)")
  case (Inl e)
  then show ?thesis by (simp add: f'_def ensure_protected_def)
next
  case (Inr c)
  obtain data err where l: "load_unlocked f = (data, err)" by (cases "load_unlocked f")
  show ?thesis
  proof (cases "f' = f")
    case False
    then have v: "policy_valid f"
      and f': "f' = write_unlocked (put_state (fst (load_unlocked f)) (device_key H (or_empty host))
                 c PROTECTED)"
      using Inr l by (auto simp: f'_def ensure_protected_def policy_valid_def Let_def split: if_splits)
    show ?thesis
      using put_state_effect [OF assms(1) v normalize_idem [OF Inr], of PROTECTED "or_empty host"] Inr v
      by (auto simp: f')
  qed simp
qed

lemma ensure_protected_protects:
  assumes "hex_digest H" "or_empty host \<noteq> []" "normalize_interface i = Inr c" "policy_valid f"
  shows "policy_of (snd (ensure_protected H f host (Some i))) (device_key H (or_empty host)) c
           = PROTECTED"
proof -
  let ?k = "device_key H (or_empty host)"
  have i: "or_empty (Some i) = i" "i \<noteq> []"
    using assms(3) by (auto simp: normalize_interface_def or_empty_def)
  obtain data where l: "load_unlocked f = (data, None)"
    using assms(4) by (cases "load_unlocked f") (simp add: policy_valid_def)
  show ?thesis
  proof (cases "dict_get (stored_interfaces data ?k) c = Some PROTECTED")
    case True
    then show ?thesis
      by (simp add: ensure_protected_def i assms(2,3) l policy_of_def get_default_def)
  next
    case False
    have "snd (ensure_protected H f host (Some i)) = write_unlocked (put_state data ?k c PROTECTED)"
      using False by (simp add: ensure_protected_def i assms(2,3) l)
    then show ?thesis
      using put_state_effect(3) [OF assms(1,4) normalize_idem [OF assms(3)], of PROTECTED "or_empty host"]
      by (simp add: l)
  qed
qed

section \<open>The gate as the rest of the program relies on it\<close>

text \<open>
  A gate answers a request with the name it authorises, or refuses. Protecting a request's target
  refuses that target from then on and grants nothing.
\<close>

locale write_gate =
  fixes wf :: "'e \<Rightarrow> bool"
    and guard :: "'e \<Rightarrow> 'f \<Rightarrow> 'r \<Rightarrow> 'c result"
    and protect :: "'e \<Rightarrow> 'r \<Rightarrow> 'f \<Rightarrow> 'f"
  assumes protect_no_grant: "\<lbrakk>wf e; guard e (protect e p f) r = Inr c\<rbrakk> \<Longrightarrow> guard e f r = Inr c"
    and protect_denies: "wf e \<Longrightarrow> guard e (protect e r f) r \<noteq> Inr c"
begin

lemma protect_all_no_grant:
  "\<lbrakk>wf e; guard e (fold (protect e) ps f) r = Inr c\<rbrakk> \<Longrightarrow> guard e f r = Inr c"
  by (induction ps arbitrary: f) (auto intro: protect_no_grant)

lemma protect_all_denies:
  "wf e \<Longrightarrow> r \<in> set ps \<Longrightarrow> guard e (fold (protect e) ps f) r \<noteq> Inr c"
proof (induction ps arbitrary: f)
  case (Cons p ps)
  show ?case
  proof (cases "r = p")
    case True
    show ?thesis
    proof
      assume "guard e (fold (protect e) (p # ps) f) r = Inr c"
      then have "guard e (fold (protect e) ps (protect e p f)) r = Inr c" by simp
      then have "guard e (protect e p f) r = Inr c"
        by (rule protect_all_no_grant [OF Cons.prems(1)])
      then show False using True protect_denies [OF Cons.prems(1)] by blast
    qed
  next
    case False
    then show ?thesis using Cons by simp
  qed
qed simp

end

lemma ensure_protected_mono:
  assumes "hex_digest H"
  shows "controlled_writes_enabled (snd (ensure_protected H f h i)) = controlled_writes_enabled f"
    and "policy_of (snd (ensure_protected H f h i)) k n = OPERABLE \<Longrightarrow> policy_of f k n = OPERABLE"
  using ensure_protected_cases [OF assms, of f h i] by (metis policy_state.distinct(1))+

lemma guard_after_protect:
  assumes "hex_digest H" "policy_guard H (snd (ensure_protected H f hp (Some ip))) hr ir = Inr c"
  shows "policy_guard H f hr ir = Inr c"
  using ensure_protected_mono [OF assms(1), of f hp "Some ip"] assms(2)
  by (auto simp: policy_guard_Inr assert_operable_Inr)

lemma guard_own_protect:
  assumes "hex_digest H"
  shows "policy_guard H (snd (ensure_protected H f h (Some i))) h i \<noteq> Inr c"
proof
  assume g: "policy_guard H (snd (ensure_protected H f h (Some i))) h i = Inr c"
  have "policy_guard H f h i = Inr c" by (rule guard_after_protect [OF assms g])
  then have "policy_valid f" "or_empty h \<noteq> []" "normalize_interface i = Inr c"
    by (auto simp: policy_guard_Inr assert_operable_Inr writes_valid assert_writable_Inr)
  then have "policy_of (snd (ensure_protected H f h (Some i))) (device_key H (or_empty h)) c = PROTECTED"
    by (intro ensure_protected_protects assms)
  then show False using g by (simp add: policy_guard_Inr assert_operable_Inr)
qed

text \<open>The requests of the gate are pairs of a device address and an interface name.\<close>

interpretation policy_gate: write_gate hex_digest
  "\<lambda>H f r. policy_guard H f (fst r) (snd r)"
  "\<lambda>H r f. snd (ensure_protected H f (fst r) (Some (snd r)))"
  by unfold_locales (use guard_after_protect guard_own_protect in \<open>blast+\<close>)

section \<open>Properties\<close>

text \<open>A policy file that does not parse or does not validate authorises nothing and is left
  as it is: writes count as disabled, the guard and the assertion refuse every interface, every
  interface reads as unmanaged, and the operations that would edit the file refuse and leave it.\<close>

theorem policy_fail_closed:
  assumes "\<not> policy_valid f"
  shows "\<not> controlled_writes_enabled f \<and>
    assert_operable H f host i \<noteq> Inr c \<and>
    policy_guard H f host i =
      Inl (WriteActionsDisabledError ''Controlled writes are disabled in local SwitchOps settings.'') \<and>
    (state_for H f host i = Inr st \<longrightarrow> st = UNMANAGED) \<and>
    (\<exists>e. set_controlled_writes f b = (Inl e, f)) \<and>
    (\<exists>e. set_state H f h i new = (Inl e, f)) \<and>
    snd (ensure_protected H f host p) = f"
proof -
  obtain data e where l: "load_unlocked f = (data, Some e)"
    using assms by (cases "load_unlocked f") (auto simp: policy_valid_def)
  have "assert_operable H f host i \<noteq> Inr c"
    using policy_of_invalid [OF assms] by (simp add: assert_operable_Inr)
  moreover have "\<exists>e. set_state H f h i new = (Inl e, f)"
    by (cases "normalize_interface i"; cases "assert_interface_writable (projr (normalize_interface i))")
      (auto simp: set_state_def l)
  moreover have "snd (ensure_protected H f host p) = f"
    by (cases "normalize_interface (or_empty p)") (auto simp: ensure_protected_def l)
  ultimately show ?thesis
    by (auto simp: controlled_writes_enabled_def policy_guard_def state_for_def set_controlled_writes_def
        l and_then_Inr_iff split: if_splits)
qed

theorem policy_fail_closed_witness:
  "\<not> controlled_writes_enabled (Doc (JList [])) \<and>
   policy_guard (\<lambda>s. s) (Doc (JList [])) (Some ''10.0.0.1'') ''Gi1/0/1'' \<noteq> Inr ''x''"
proof -
  have "\<not> policy_valid (Doc (JList []))"
    by (simp add: policy_valid_def load_unlocked_def validate_policy_def)
  from policy_fail_closed [OF this, of "\<lambda>s. s" "Some ''10.0.0.1''" "''Gi1/0/1''"] show ?thesis by simp
qed

text \<open>C7: The write guard lets an interface through exactly when controlled writes are on, a device
  is configured, the name is that of a physical port, and the device's entry for its canonical name
  is \<open>OPERABLE\<close>; it then yields that canonical name.\<close>

theorem policy_guard_exact:
  "policy_guard H f host i = Inr c \<longleftrightarrow>
     controlled_writes_enabled f \<and> or_empty host \<noteq> [] \<and> normalize_interface i = Inr c \<and>
     is_phys_name c \<and> state_for H f host i = Inr OPERABLE"
proof (cases "or_empty host \<noteq> [] \<and> normalize_interface i = Inr c")
  case True
  then show ?thesis
    using state_for_policy_of [of host i c H f]
    by (simp add: policy_guard_Inr assert_operable_Inr assert_writable_Inr)
next
  case False
  then show ?thesis by (auto simp: policy_guard_Inr assert_operable_Inr assert_writable_Inr)
qed

text \<open>Setting the state of an interface succeeds only on a valid file and never makes a
  non-physical interface operable; the file it leaves validates, keeps the write switch, gives the
  new state for that interface of that device under every spelling of either, and gives every other
  interface the state it had.\<close>

theorem set_state_effect:
  assumes "hex_digest H" and "set_state H f host i s = (Inr (), f')"
  shows "policy_valid f \<and> policy_valid f' \<and>
    controlled_writes_enabled f' = controlled_writes_enabled f \<and>
    (s = OPERABLE \<longrightarrow> is_physical_interface i = Inr True) \<and>
    state_for H f' (Some h) n =
      (if h \<noteq> [] \<and> device_key H h = device_key H host \<and> normalize_interface n = normalize_interface i
       then Inr s else state_for H f (Some h) n)"
proof -
  obtain c where c: "normalize_interface i = Inr c"
    using assms(2) by (auto simp: set_state_def split: if_splits sum.splits)
  have v: "policy_valid f" and ph: "s = OPERABLE \<longrightarrow> is_phys_name c"
    and f': "f' = write_unlocked (put_state (fst (load_unlocked f)) (device_key H host) c s)"
    using assms(2) c normalize_idem [OF c]
    by (auto simp: set_state_def policy_valid_def assert_writable_Inr
        split: if_splits sum.splits prod.splits)
  note eff = put_state_effect [OF assms(1) v normalize_idem [OF c] ph, of host, folded f']
  have phys: "s = OPERABLE \<longrightarrow> is_physical_interface i = Inr True"
    using ph is_physical_canonical [OF normalize_idem [OF c]] c normalize_idem [OF c]
    by (simp add: is_physical_interface_def)
  have "state_for H f' (Some h) n =
      (if h \<noteq> [] \<and> device_key H h = device_key H host \<and> normalize_interface n = normalize_interface i
       then Inr s else state_for H f (Some h) n)"
  proof (cases "h \<noteq> [] \<and> (\<exists>d. normalize_interface n = Inr d)")
    case True
    then obtain d where d: "normalize_interface n = Inr d" "or_empty (Some h) = h" "h \<noteq> []"
      by (auto simp: or_empty_def)
    then show ?thesis
      using eff(3) [of "device_key H h" d] c state_for_policy_of [of "Some h" n d H] by simp
  next
    case False
    then show ?thesis using c
      by (cases "normalize_interface n") (auto simp: state_for_def or_empty_def)
  qed
  with v eff(1,2) phys show ?thesis by blast
qed

definition demo_digest :: "string \<Rightarrow> string" where
  "demo_digest s = replicate 64 (if s = ''10.0.0.2'' then CHR ''2'' else CHR ''0'')"

lemma demo_digest_ok: "hex_digest demo_digest"
  by (simp add: hex_digest_def is_device_key_def demo_digest_def numeral_eq_Suc)

theorem set_state_effect_witness:
  "state_for demo_digest (snd (set_state demo_digest NoFile ''10.0.0.2'' ''gi1/0/5'' PROTECTED))
     (Some '' 10.0.0.2 '') ''GigabitEthernet1/0/5'' = Inr PROTECTED"
proof -
  have "set_state demo_digest NoFile ''10.0.0.2'' ''gi1/0/5'' PROTECTED =
    (Inr (), snd (set_state demo_digest NoFile ''10.0.0.2'' ''gi1/0/5'' PROTECTED))"
    by code_simp
  moreover have "device_key demo_digest '' 10.0.0.2 '' = device_key demo_digest ''10.0.0.2''"
    "normalize_interface ''GigabitEthernet1/0/5'' = normalize_interface ''gi1/0/5''" by code_simp+
  ultimately show ?thesis using set_state_effect [OF demo_digest_ok] by simp
qed

text \<open>Once every interface of a list has been protected, the guard refuses each of them, and it
  grants no interface that it would not have granted before.\<close>

theorem protect_list_denies:
  fixes f :: policy_file and ps :: "(string option \<times> string) list"
  assumes "hex_digest H"
  defines "f' \<equiv> fold (\<lambda>r f. snd (ensure_protected H f (fst r) (Some (snd r)))) ps f"
  shows "(\<forall>r \<in> set ps. policy_guard H f' (fst r) (snd r) \<noteq> Inr c) \<and>
    (policy_guard H f' host i = Inr d \<longrightarrow> policy_guard H f host i = Inr d)"
  using policy_gate.protect_all_denies [OF assms(1), of _ ps f c]
    policy_gate.protect_all_no_grant [OF assms(1), of ps f "(host, i)" d]
  by (simp add: f'_def)

theorem protect_list_denies_witness:
  "policy_guard demo_digest
     (fold (\<lambda>r f. snd (ensure_protected demo_digest f (fst r) (Some (snd r))))
       [(Some ''10.0.0.1'', ''Gi1/0/1''), (Some ''10.0.0.2'', ''Te1/1/1'')] NoFile)
     (Some ''10.0.0.2'') ''Te1/1/1'' \<noteq> Inr ''TenGigabitEthernet1/1/1''"
  using protect_list_denies [OF demo_digest_ok, of "[(Some ''10.0.0.1'', ''Gi1/0/1''), (Some ''10.0.0.2'', ''Te1/1/1'')]"
      NoFile "''TenGigabitEthernet1/1/1''"] by simp

end
