(* ===== verification/Audit_Log.thy ===== *)
theory Audit_Log
  imports Redaction Models Interface_Policy
begin

text \<open>
  \<open>backend/app/audit_store.py\<close>: the trail of what was sent and decided. A row is stored with its
  texts redacted; the trail is the list of rows in the order of their numbers. Whether the storage
  accepts a row is a parameter, because SQLite and the file system may refuse it. Shown: the trail
  holds no registered secret.
\<close>

definition redact_opt :: "string list \<Rightarrow> string option \<Rightarrow> string option" where
  "redact_opt secrets m = (if or_empty m = [] then None else Some (redact secrets (or_empty m)))"

definition redact_event :: "string list \<Rightarrow> audit_event \<Rightarrow> audit_event" where
  "redact_event secrets ev =
     ev\<lparr>ae_commands := map (redact secrets) (ae_commands ev),
        ae_error_message := redact_opt secrets (ae_error_message ev),
        ae_before_state := redact_opt secrets (ae_before_state ev),
        ae_after_state := redact_opt secrets (ae_after_state ev)\<rparr>"

text \<open>\<open>record\<close>: the storage's exception, or the trail with the row at its end.\<close>

definition audit_record ::
  "(audit_event \<Rightarrow> bool) \<Rightarrow> string list \<Rightarrow> audit_event \<Rightarrow> audit_event list
     \<Rightarrow> unit result \<times> audit_event list"
where
  "audit_record accepts secrets ev trail =
     (let row = redact_event secrets ev in
      if accepts row then (Inr (), trail @ [row]) else (Inl (PyError ''OperationalError''), trail))"

definition audit_recent :: "nat \<Rightarrow> audit_event list \<Rightarrow> audit_event list" where
  "audit_recent limit trail = take limit (rev trail)"

section \<open>Secrets\<close>

text \<open>The texts of a row that may carry what an operator or a device wrote.\<close>

definition row_texts :: "audit_event \<Rightarrow> string list" where
  "row_texts ev = ae_commands ev @ map or_empty [ae_error_message ev, ae_before_state ev, ae_after_state ev]"

lemma redact_free: "marker_free s \<Longrightarrow> s \<in> set secrets \<Longrightarrow> \<not> py_contains s (redact secrets text)"
  using redact_dynamic_removes [of s secrets] by (auto simp: redact_def marker_free_def)

lemma redact_opt_free: "marker_free s \<Longrightarrow> s \<in> set secrets \<Longrightarrow> \<not> py_contains s (or_empty (redact_opt secrets m))"
  using redact_free [of s secrets] by (auto simp: redact_opt_def or_empty_def marker_free_def)

definition trail_free :: "string \<Rightarrow> audit_event list \<Rightarrow> bool" where
  "trail_free s trail = list_all (\<lambda>ev. list_all (\<lambda>t. \<not> py_contains s t) (row_texts ev)) trail"

lemma audit_record_free:
  assumes "marker_free s" "s \<in> set secrets" "trail_free s trail"
  shows "trail_free s (snd (audit_record accepts secrets ev trail))"
  using assms redact_free [OF assms(1,2)] redact_opt_free [OF assms(1,2)]
  by (auto simp: audit_record_def Let_def trail_free_def row_texts_def redact_event_def list_all_iff)

text \<open>C15: Whatever is recorded, and whether or not the storage accepts it, no row of the audit trail
  holds a registered secret that does not overlap the marker in its commands, its error message or
  its before and after states, and the audit view, which reads the most recent rows, shows none in
  them. The other texts of a row (actor, action, path of the output, type of the error) are stored as
  they are.\<close>

theorem audit_trail_secret_free:
  assumes "marker_free s" "s \<in> set secrets"
  shows "trail_free s (audit_recent n (fold (\<lambda>ev t. snd (audit_record accepts secrets ev t)) evs []))"
proof -
  have "trail_free s t \<Longrightarrow> trail_free s (fold (\<lambda>ev t. snd (audit_record accepts secrets ev t)) evs t)" for t
    by (induction evs arbitrary: t) (simp_all add: audit_record_free [OF assms])
  from this [of "[]"] show ?thesis
    by (auto simp: audit_recent_def trail_free_def list_all_iff dest: in_set_takeD)
qed

theorem audit_trail_secret_free_witness:
  "trail_free ''hunter22'' (audit_recent 5 (fold (\<lambda>ev t. snd (audit_record (\<lambda>_. True) [''hunter22''] ev t))
     [\<lparr>ae_actor = ''op'', ae_action = ''a'', ae_commands = [''description hunter22''], ae_success = True,
       ae_output_path = None, ae_error_type = None, ae_error_message = Some ''bad hunter22'',
       ae_before_state = None, ae_after_state = None\<rparr>] []))"
  by (rule audit_trail_secret_free) (code_simp, simp)

end
