(* ===== verification/Parse_Ports.thy ===== *)
theory Parse_Ports
  imports Regex Command_Registry Models
begin

text \<open>
  The parsers of the per-port tables under \<open>backend/app/parsers\<close>: \<open>interfaces.py\<close> (\<open>show interfaces
  status\<close>), \<open>poe.py\<close> (\<open>show power inline\<close>), \<open>errors.py\<close> (\<open>show interfaces counters errors\<close>),
  \<open>mac_table.py\<close> and \<open>arp.py\<close>. Each pattern is the pattern of the code, written with the
  constructors of \<open>Regex\<close>. A token that spells an IEEE infinity or a NaN, which \<open>float()\<close> accepts,
  is outside the model. Shown: only physical ports come out of the status table, and a table whose
  rows carry a status word is read back row by row.
\<close>

section \<open>Conversions\<close>

text \<open>Digits with single underscores between them.\<close>

definition digits_rx :: rx where
  "digits_rx = Seq dig (star (Seq (opt (lit ''_'')) dig))"

definition digits_value :: "string \<Rightarrow> nat" where
  "digits_value s = py_int (filter is_decimal_char s)"

definition digits_count :: "string \<Rightarrow> nat" where
  "digits_count s = length (filter is_decimal_char s)"

definition int_rx :: rx where
  "int_rx = seqs [star sp, Grp 1 (opt (chars_in ''+-'')), Grp 2 digits_rx, star sp]"

text \<open>\<open>int(s)\<close>, and \<open>None\<close> for its \<open>ValueError\<close>.\<close>

definition py_int_opt :: "string \<Rightarrow> int option" where
  "py_int_opt s =
     (case rx_fullmatch int_rx s of
        None \<Rightarrow> None
      | Some g \<Rightarrow> Some (if group_text g 1 = ''-'' then - int (digits_value (group_text g 2))
                       else int (digits_value (group_text g 2))))"

definition float_rx :: rx where
  "float_rx = seqs [star sp, Grp 1 (opt (chars_in ''+-'')),
     alts [seqs [Grp 2 digits_rx, opt (Seq (lit ''.'') (opt (Grp 3 digits_rx)))],
           seqs [lit ''.'', Grp 3 digits_rx]],
     opt (seqs [chars_in ''eE'', Grp 4 (opt (chars_in ''+-'')), Grp 5 digits_rx]), star sp]"

definition py_float_opt :: "string \<Rightarrow> rat option" where
  "py_float_opt s =
     (case rx_fullmatch float_rx s of
        None \<Rightarrow> None
      | Some g \<Rightarrow>
          let mantissa = of_nat (digits_value (group_text g 2)) +
                of_nat (digits_value (group_text g 3)) / 10 ^ digits_count (group_text g 3);
              scale = 10 ^ digits_value (group_text g 5);
              q = (if group_text g 4 = ''-'' then mantissa / scale else mantissa * scale)
          in Some (if group_text g 1 = ''-'' then - q else q))"

text \<open>\<open>s[i:j]\<close>: a negative bound counts from the end.\<close>

definition slice_bound :: "nat \<Rightarrow> int \<Rightarrow> nat" where
  "slice_bound n i = (if i < 0 then nat (int n + i) else min n (nat i))"

definition py_slice :: "string \<Rightarrow> int \<Rightarrow> int \<Rightarrow> string" where
  "py_slice s i j = drop (slice_bound (length s) i) (take (slice_bound (length s) j) s)"

definition py_slice_from :: "string \<Rightarrow> int \<Rightarrow> string" where
  "py_slice_from s i = drop (slice_bound (length s) i) s"

section \<open>show interfaces status\<close>

definition status_values :: "string list" where
  "status_values = [''connected'', ''notconnect'', ''disabled'', ''err-disabled'', ''inactive'',
     ''monitoring'', ''suspended'', ''faulty'', ''sfpabsent'']"

definition is_status_header :: "string \<Rightarrow> bool" where
  "is_status_header line \<longleftrightarrow> py_startswith (py_strip line) ''Port'' \<and> py_contains ''Name'' line \<and>
     py_contains ''Status'' line"

text \<open>The header and the lines after it.\<close>

fun find_header :: "string list \<Rightarrow> (string \<times> string list) option" where
  "find_header [] = None"
| "find_header (line # rest) = (if is_status_header line then Some (line, rest) else find_header rest)"

definition column_keys :: "string list" where
  "column_keys = [''Port'', ''Name'', ''Status'', ''Vlan'', ''Duplex'', ''Speed'', ''Type'']"

definition status_columns :: "string \<Rightarrow> int list" where
  "status_columns header = map (py_find header) column_keys"

definition slice_col :: "int list \<Rightarrow> string \<Rightarrow> nat \<Rightarrow> string" where
  "slice_col cols line idx =
     (if cols ! idx \<ge> 0
      then py_strip (if idx + 1 < length cols then py_slice line (cols ! idx) (cols ! (idx + 1))
                     else py_slice_from line (cols ! idx))
      else [])"

fun find_status :: "nat \<Rightarrow> string list \<Rightarrow> nat option" where
  "find_status i [] = None"
| "find_status i (t # ts) = (if py_lower t \<in> set status_values then Some i else find_status (i + 1) ts)"

text \<open>The seven columns of a row: by its tokens when one of them is a status word with enough
  tokens after it, by the position of the header's words otherwise.\<close>

definition status_cells :: "int list \<Rightarrow> string \<Rightarrow> string list" where
  "status_cells cols line =
     (let parts = py_split_ws line in
      case find_status 1 (tl parts) of
        Some i \<Rightarrow>
          if length parts \<ge> i + 5
          then [parts ! 0, py_join '' '' (take (i - 1) (drop 1 parts)), parts ! i, parts ! (i + 1),
                parts ! (i + 2), parts ! (i + 3), py_join '' '' (drop (i + 4) parts)]
          else map (slice_col cols line) [0, 1, 2, 3, 4, 5, 6]
      | None \<Rightarrow> map (slice_col cols line) [0, 1, 2, 3, 4, 5, 6])"

text \<open>A row of the loop over the lines; \<open>is_physical_interface\<close> does not raise for a canonical name
  (\<open>is_physical_normalized\<close>).\<close>

definition status_row :: "int list \<Rightarrow> string \<Rightarrow> interface_status list" where
  "status_row cols line =
     (if py_strip line = [] \<or> \<not> (line \<noteq> [] \<and> is_ascii_letter (hd line)) then []
      else
        let cells = status_cells cols line; port = cells ! 0 in
        if port = [] then []
        else case normalize_interface port of
          Inl _ \<Rightarrow> []
        | Inr canonical \<Rightarrow>
            (case is_physical_interface canonical of
               Inr True \<Rightarrow>
                 [\<lparr>ifs_port = port, ifs_name = cells ! 1, ifs_status = cells ! 2,
                   ifs_vlan = cells ! 3, ifs_duplex = cells ! 4, ifs_speed = cells ! 5,
                   ifs_type = cells ! 6, ifs_protected = False, ifs_policy_state = UNMANAGED\<rparr>]
             | _ \<Rightarrow> []))"

definition parse_interface_status :: "string \<Rightarrow> interface_status list" where
  "parse_interface_status text =
     (case find_header (py_splitlines text) of
        None \<Rightarrow> []
      | Some (header, rows) \<Rightarrow> concat (map (status_row (status_columns header)) rows))"

section \<open>show power inline\<close>

definition safe_float :: "string \<Rightarrow> rat" where
  "safe_float s = (case py_float_opt s of Some q \<Rightarrow> q | None \<Rightarrow> 0)"

definition watts_rx :: "nat \<Rightarrow> string \<Rightarrow> rx" where
  "watts_rx n label =
     seqs [liti label, star sp, Grp n (plus1 (One (\<lambda>c. is_decimal_char c \<or> c = CHR ''.''))), liti ''(w)'']"

definition poe_summary_rx :: rx where
  "poe_summary_rx = seqs [watts_rx 1 ''Available:'', plus1 sp, watts_rx 2 ''Used:'', plus1 sp,
     watts_rx 3 ''Remaining:'']"

definition gi_row_rx :: rx where
  "gi_row_rx = seqs [Sos, star sp, lit ''Gi'', dig]"

definition or_na :: "string \<Rightarrow> string" where
  "or_na s = (if s = [] then ''n/a'' else s)"

definition poe_row :: "string \<Rightarrow> poe_port list" where
  "poe_row line =
     (if rx_match gi_row_rx line = None then []
      else
        let parts = py_split_ws line; n = length parts in
        if n < 7 then []
        else [\<lparr>pp_interface = parts ! 0, pp_admin = parts ! 1, pp_oper = parts ! 2,
               pp_power_watts = safe_float (parts ! 3),
               pp_device = or_na (py_join '' '' (drop 4 (take (n - 2) parts))),
               pp_class = parts ! (n - 2), pp_max_watts = safe_float (parts ! (n - 1))\<rparr>])"

definition parse_poe :: "string \<Rightarrow> poe_response" where
  "parse_poe text =
     (let g = (case rx_search poe_summary_rx text of None \<Rightarrow> [] | Some g \<Rightarrow> g);
          watts = (\<lambda>n. case group g n of None \<Rightarrow> 0 | Some s \<Rightarrow> safe_float s)
      in \<lparr>pr_available_watts = watts 1, pr_used_watts = watts 2, pr_remaining_watts = watts 3,
          pr_ports = concat (map poe_row (py_splitlines text))\<rparr>)"

section \<open>show interfaces counters errors\<close>

definition safe_int :: "string \<Rightarrow> int" where
  "safe_int s = (case py_int_opt s of Some i \<Rightarrow> i | None \<Rightarrow> 0)"

datatype counter_mode = No_mode | First_block | Second_block

definition part_int :: "string list \<Rightarrow> nat \<Rightarrow> int" where
  "part_int parts i = (if i < length parts then safe_int (parts ! i) else safe_int ''0'')"

definition empty_counters :: "string \<Rightarrow> interface_error_counters" where
  "empty_counters port = \<lparr>ec_port = port, ec_align_err = 0, ec_fcs_err = 0, ec_xmit_err = 0,
     ec_rcv_err = 0, ec_under_size = 0, ec_single_col = 0, ec_multi_col = 0, ec_late_col = 0,
     ec_excess_col = 0, ec_total = 0\<rparr>"

definition fill_counters ::
  "counter_mode \<Rightarrow> string list \<Rightarrow> interface_error_counters \<Rightarrow> interface_error_counters"
where
  "fill_counters mode parts row =
     (case mode of
        First_block \<Rightarrow> row\<lparr>ec_align_err := part_int parts 1, ec_fcs_err := part_int parts 2,
          ec_xmit_err := part_int parts 3, ec_rcv_err := part_int parts 4,
          ec_under_size := part_int parts 5\<rparr>
      | Second_block \<Rightarrow> row\<lparr>ec_single_col := part_int parts 1, ec_multi_col := part_int parts 2,
          ec_late_col := part_int parts 3, ec_excess_col := part_int parts 4\<rparr>
      | No_mode \<Rightarrow> row)"

definition counters_sum :: "interface_error_counters \<Rightarrow> int" where
  "counters_sum row = ec_align_err row + ec_fcs_err row + ec_xmit_err row + ec_rcv_err row
     + ec_under_size row + ec_single_col row + ec_multi_col row + ec_late_col row + ec_excess_col row"

definition has_all :: "string list \<Rightarrow> string \<Rightarrow> bool" where
  "has_all toks line = list_all (\<lambda>t. py_contains t line) toks"

fun error_loop ::
  "counter_mode \<Rightarrow> (string, interface_error_counters) dict \<Rightarrow> string list
     \<Rightarrow> (string, interface_error_counters) dict"
where
  "error_loop mode rows [] = rows"
| "error_loop mode rows (line # rest) =
     (if py_strip line = [] then error_loop mode rows rest
      else if has_all [''Align-Err'', ''FCS-Err'', ''Xmit-Err'', ''Rcv-Err''] line
      then error_loop First_block rows rest
      else if has_all [''Single-Col'', ''Multi-Col'', ''Late-Col'', ''Excess-Col''] line
      then error_loop Second_block rows rest
      else if rx_match gi_row_rx line = None then error_loop mode rows rest
      else
        let parts = py_split_ws line; port = parts ! 0;
            row = fill_counters mode parts (get_default rows port (empty_counters port))
        in error_loop mode (dict_set port (row\<lparr>ec_total := counters_sum row\<rparr>) rows) rest)"

definition parse_interface_errors :: "string \<Rightarrow> interface_error_counters list" where
  "parse_interface_errors text = map snd (error_loop No_mode [] (py_splitlines text))"

section \<open>show mac address-table and show ip arp\<close>

definition mac_row_rx :: rx where
  "mac_row_rx = seqs [Sos, star sp, Grp 1 (Alt (plus1 dig) (lit ''All'')), plus1 sp,
     Grp 2 (repeat 14 (chars_in ''0123456789abcdefABCDEF.'')), plus1 sp, Grp 3 (plus1 nsp), plus1 sp,
     Grp 4 (Seq nsp (star dot)), Eod]"

definition mac_row :: "string \<Rightarrow> mac_table_entry list" where
  "mac_row line =
     (case rx_match mac_row_rx line of
        None \<Rightarrow> []
      | Some g \<Rightarrow> [\<lparr>mac_vlan = group_text g 1, mac_addr = group_text g 2, mac_type = group_text g 3,
                   mac_port = py_strip (group_text g 4)\<rparr>])"

definition parse_mac_table :: "string \<Rightarrow> mac_table_entry list" where
  "parse_mac_table text = concat (map mac_row (py_splitlines text))"

record arp_entry =
  arp_ip :: string
  arp_mac :: string
  arp_age :: "int option"
  arp_interface :: string

definition hex4 :: rx where "hex4 = repeat 4 hexd"

definition ip_rx :: rx where
  "ip_rx = seqs [between 1 3 dig, repeat 3 (seqs [lit ''.'', between 1 3 dig])]"

definition arp_rx :: rx where
  "arp_rx = seqs [Bol, star sp, lit ''Internet'', plus1 sp, Grp 1 ip_rx, plus1 sp,
     Grp 2 (Alt (lit ''-'') (plus1 dig)), plus1 sp,
     Grp 3 (seqs [hex4, lit ''.'', hex4, lit ''.'', hex4]), plus1 sp, Grp 4 (plus1 nsp),
     opt (seqs [plus1 sp, Grp 5 (plus1 nsp)]), star sp, Eol]"

definition arp_of :: "groups \<Rightarrow> arp_entry" where
  "arp_of g = \<lparr>arp_ip = group_text g 1, arp_mac = py_lower (group_text g 3),
     arp_age = (if group_text g 2 = ''-'' then None else Some (int (py_int (group_text g 2)))),
     arp_interface = group_text g 5\<rparr>"

definition parse_arp :: "string \<Rightarrow> arp_entry list" where
  "parse_arp text = (if text = [] then [] else map arp_of (rx_finditer arp_rx text))"

section \<open>Lemmas\<close>

lemma is_physical_normalized:
  assumes "normalize_interface n = Inr c"
  shows "is_physical_interface c = Inr (is_phys_name c)" "is_physical_interface n = Inr (is_phys_name c)"
proof -
  have "is_physical_interface c = is_physical_interface n"
    using assms normalize_idem [OF assms] by (simp add: is_physical_interface_def)
  moreover have "is_physical_interface c = Inr (is_phys_name c)"
    using normalize_Inr [OF assms] normalize_idem [OF assms] is_phys_name_nonvlan is_vlan_name_vlan
    by (auto simp: is_physical_interface_def)
  ultimately show "is_physical_interface c = Inr (is_phys_name c)"
    "is_physical_interface n = Inr (is_phys_name c)" by simp_all
qed

lemma status_row_physical:
  "i \<in> set (status_row cols line) \<Longrightarrow>
     is_physical_interface (ifs_port i) = Inr True \<and> \<not> ifs_protected i \<and> ifs_policy_state i = UNMANAGED"
  using is_physical_normalized [of "status_cells cols line ! 0"]
  by (cases "normalize_interface (status_cells cols line ! 0)")
    (auto simp: status_row_def Let_def split: if_splits)

text \<open>A table as the switch prints it: a row has a port, a name of any number of words none of which
  is a status word, and at least one word of type.\<close>

record status_line =
  sl_port :: string
  sl_name :: "string list"
  sl_status :: string
  sl_vlan :: string
  sl_duplex :: string
  sl_speed :: string
  sl_type :: "string list"

definition line_words :: "status_line \<Rightarrow> string list" where
  "line_words r = [sl_port r] @ sl_name r @ [sl_status r, sl_vlan r, sl_duplex r, sl_speed r] @ sl_type r"

definition line_text :: "status_line \<Rightarrow> string" where
  "line_text r = py_join '' '' (line_words r)"

definition line_ok :: "status_line \<Rightarrow> bool" where
  "line_ok r \<longleftrightarrow> list_all plain_word (line_words r) \<and> sl_type r \<noteq> [] \<and>
     is_ascii_letter (hd (sl_port r)) \<and> is_physical_interface (sl_port r) = Inr True \<and>
     list_all (\<lambda>w. py_lower w \<notin> set status_values) (sl_name r) \<and>
     py_lower (sl_status r) \<in> set status_values"

definition line_status :: "status_line \<Rightarrow> interface_status" where
  "line_status r = \<lparr>ifs_port = sl_port r, ifs_name = py_join '' '' (sl_name r),
     ifs_status = sl_status r, ifs_vlan = sl_vlan r, ifs_duplex = sl_duplex r,
     ifs_speed = sl_speed r, ifs_type = py_join '' '' (sl_type r),
     ifs_protected = False, ifs_policy_state = UNMANAGED\<rparr>"

lemma find_status_skip:
  "list_all (\<lambda>w. py_lower w \<notin> set status_values) ns \<Longrightarrow> py_lower t \<in> set status_values \<Longrightarrow>
     find_status k (ns @ t # ts) = Some (k + length ns)"
  by (induction ns arbitrary: k) auto

lemma status_cells_line:
  assumes "line_ok r"
  shows "status_cells cols (line_text r) =
    [sl_port r, py_join '' '' (sl_name r), sl_status r, sl_vlan r, sl_duplex r, sl_speed r,
     py_join '' '' (sl_type r)]"
proof -
  let ?i = "1 + length (sl_name r)"
  have words: "py_split_ws (line_text r) = line_words r"
    using assms by (simp add: line_ok_def line_text_def split_ws_join)
  have st: "find_status 1 (tl (line_words r)) = Some ?i"
    using assms find_status_skip [of "sl_name r" "sl_status r" 1] by (simp add: line_ok_def line_words_def)
  have len: "length (line_words r) \<ge> ?i + 5"
    using assms by (cases "sl_type r") (simp_all add: line_ok_def line_words_def)
  show ?thesis
    unfolding status_cells_def words Let_def st using len
    by (simp add: line_words_def nth_append numeral_eq_Suc)
qed

lemma is_physical_Inr: "is_physical_interface n = Inr True \<Longrightarrow> \<exists>c. normalize_interface n = Inr c"
  by (auto simp: is_physical_interface_def split: sum.splits if_splits)

lemma status_row_line:
  assumes "line_ok r"
  shows "status_row cols (line_text r) = [line_status r]"
proof -
  have port: "sl_port r \<noteq> []" "hd (line_text r) = hd (sl_port r)" "line_text r \<noteq> []"
    using assms by (auto simp: line_ok_def line_words_def plain_word_def line_text_def py_join_Cons)
  obtain c where c: "normalize_interface (sl_port r) = Inr c" "is_physical_interface c = Inr True"
    using assms is_physical_Inr is_physical_normalized by (fastforce simp: line_ok_def)
  have "\<not> py_isspace_char (hd (line_text r))"
    using assms port by (cases "sl_port r") (auto simp: line_ok_def line_words_def plain_word_def)
  then have "py_strip (line_text r) \<noteq> []"
    using port(3) by (cases "line_text r") (auto simp: py_strip_def py_lstrip_def)
  then show ?thesis
    using assms port c
    by (simp add: status_row_def status_cells_line line_status_def line_ok_def)
qed

lemma word_not_break: "plain_word w \<Longrightarrow> list_all (\<lambda>c. \<not> is_line_break c) w"
  by (auto simp: plain_word_def list_all_iff is_line_break_def py_isspace_char_def Let_def)

lemma line_text_plain: "line_ok r \<Longrightarrow> plain_line (line_text r)"
proof -
  assume r: "line_ok r"
  then have w: "list_all plain_word (line_words r)" by (simp add: line_ok_def)
  have "\<not> is_line_break c" if "c \<in> set (line_text r)" for c
  proof -
    have "\<not> is_line_break (CHR '' '')" by (simp add: is_line_break_def cp_def)
    moreover have "c = CHR '' '' \<or> (\<exists>v \<in> set (line_words r). c \<in> set v)"
      using set_py_join [of "'' ''" "line_words r"] that by (auto simp: line_text_def)
    ultimately show ?thesis using w word_not_break by (auto simp: list_all_iff)
  qed
  moreover have "line_text r \<noteq> []" using join_nonempty [OF w] by (simp add: line_text_def line_words_def)
  ultimately show ?thesis by (simp add: plain_line_def list_all_iff)
qed

section \<open>Properties\<close>

text \<open>C17: A status table is read back as it was printed: after its header line, each row with a
  physical port, a name of any number of words, a status word, VLAN, duplex, speed and type gives
  exactly one interface with those values, in order, unprotected and unmanaged.\<close>

theorem status_table_roundtrip:
  assumes "is_status_header h" "plain_line h" "list_all line_ok rows"
  shows "parse_interface_status (py_join [CHR 0x0A] (h # map line_text rows)) = map line_status rows"
proof -
  have "py_splitlines (py_join [CHR 0x0A] (h # map line_text rows)) = h # map line_text rows"
    using assms by (intro splitlines_join) (auto simp: list_all_iff line_text_plain)
  moreover have "concat (map (status_row cols) (map line_text rows)) = map line_status rows" for cols
    using assms(3) by (induction rows) (simp_all add: status_row_line)
  ultimately show ?thesis using assms(1) by (simp add: parse_interface_status_def)
qed

theorem status_table_roundtrip_witness:
  "parse_interface_status
     (''Port Name Status Vlan Duplex Speed Type'' @ [CHR 0x0A] @ ''Gi0/1 up link connected 1 a-full a-100 10/100'') =
   [\<lparr>ifs_port = ''Gi0/1'', ifs_name = ''up link'', ifs_status = ''connected'', ifs_vlan = ''1'',
     ifs_duplex = ''a-full'', ifs_speed = ''a-100'', ifs_type = ''10/100'',
     ifs_protected = False, ifs_policy_state = UNMANAGED\<rparr>]"
proof -
  let ?h = "''Port Name Status Vlan Duplex Speed Type''"
  let ?r = "\<lparr>sl_port = ''Gi0/1'', sl_name = [''up'', ''link''], sl_status = ''connected'', sl_vlan = ''1'',
    sl_duplex = ''a-full'', sl_speed = ''a-100'', sl_type = [''10/100'']\<rparr>"
  have "is_status_header ?h" "plain_line ?h" "list_all line_ok [?r]" by code_simp+
  from status_table_roundtrip [OF this] show ?thesis
    by (simp add: line_text_def line_words_def line_status_def)
qed

text \<open>Whatever the switch prints, only physical interfaces come out of the status table, and none
  of them carries a policy state that the policy store did not give it.\<close>

theorem parse_status_physical:
  "list_all (\<lambda>i. is_physical_interface (ifs_port i) = Inr True \<and> \<not> ifs_protected i \<and>
     ifs_policy_state i = UNMANAGED) (parse_interface_status text)"
  using status_row_physical
  by (fastforce simp: parse_interface_status_def list_all_iff split: option.splits)

definition counters_inv :: "(string, interface_error_counters) dict \<Rightarrow> bool" where
  "counters_inv rows \<longleftrightarrow> dict_ok rows \<and>
     (\<forall>p r. (p, r) \<in> set rows \<longrightarrow> ec_port r = p \<and> ec_total r = counters_sum r)"

lemma counters_sum_total [simp]: "counters_sum (row\<lparr>ec_total := t\<rparr>) = counters_sum row"
  by (simp add: counters_sum_def)

lemma ec_port_fill [simp]: "ec_port (fill_counters mode parts row) = ec_port row"
  by (cases mode) (simp_all add: fill_counters_def)

lemma counters_inv_set:
  "counters_inv rows \<Longrightarrow> ec_port row = p \<Longrightarrow>
     counters_inv (dict_set p (row\<lparr>ec_total := counters_sum row\<rparr>) rows)"
  by (auto simp: counters_inv_def dest!: set_dict_set)

lemma counters_inv_get:
  "counters_inv rows \<Longrightarrow> ec_port (get_default rows p (empty_counters p)) = p"
  by (auto simp: counters_inv_def get_default_def empty_counters_def dest: dict_get_mem split: option.splits)

lemma error_loop_inv: "counters_inv rows \<Longrightarrow> counters_inv (error_loop mode rows ls)"
proof (induction mode rows ls rule: error_loop.induct)
  case (2 mode rows line rest)
  then show ?case
    by (simp add: Let_def counters_inv_set counters_inv_get)
qed simp

text \<open>The error counters come out with one row for each port, and the total of a row is the sum of
  its nine counters, whatever order and number of counter blocks the switch prints.\<close>

theorem parse_errors_consistent:
  "distinct (map ec_port (parse_interface_errors text)) \<and>
   list_all (\<lambda>r. ec_total r = counters_sum r) (parse_interface_errors text)"
proof -
  let ?rows = "error_loop No_mode [] (py_splitlines text)"
  have inv: "counters_inv ?rows" by (rule error_loop_inv) (simp add: counters_inv_def)
  then have "map ec_port (parse_interface_errors text) = map fst ?rows"
    by (auto simp: counters_inv_def parse_interface_errors_def)
  with inv show ?thesis
    by (simp only: counters_inv_def dict_ok_def) (auto simp: parse_interface_errors_def list_all_iff)
qed

end
