(* ===== verification/Operations.thy ===== *)
theory Operations
  imports Audit_Log Parse_Ports
begin

text \<open>
  \<open>backend/app/operations.py\<close> with \<open>tools/read_only.py\<close> and \<open>tools/backup.py\<close>: the transaction
  around one configuration change (precheck, backup, execute, verify, audit, rollback), the session
  write lock, and the tracker of unsaved changes. The switch is a parameter: what a command does to
  it and what it answers are functions of \<open>env\<close>; so are the storage of the audit trail and of the
  backups, the clock and the operation's number. The world threads the state of the switch, the
  trail and the backup files; \<open>w_sent\<close> is the sequence of configuration sequences handed to the
  switch client.
\<close>

section \<open>The world\<close>

record 'd env =
  dev_run :: "string \<Rightarrow> 'd \<Rightarrow> string result \<times> 'd"
  dev_raw :: "string list \<Rightarrow> 'd \<Rightarrow> string result \<times> 'd"
  audit_up :: "audit_event \<Rightarrow> bool"
  disk_up :: "string \<Rightarrow> bool"
  env_secrets :: "string list"
  env_now :: time
  env_op_id :: string
  env_stamp :: string
  env_backup_dir :: string

record 'd world =
  w_dev :: 'd
  w_audit :: "audit_event list"
  w_backups :: "(string, string) dict"
  w_sent :: "string list list"

type_synonym ('d, 'a) act = "'d world \<Rightarrow> 'a result \<times> 'd world"

definition act_then :: "('d, 'a) act \<Rightarrow> ('a \<Rightarrow> ('d, 'b) act) \<Rightarrow> ('d, 'b) act" where
  "act_then m f w = (case m w of (Inl e, w') \<Rightarrow> (Inl e, w') | (Inr a, w') \<Rightarrow> f a w')"

definition act_return :: "'a \<Rightarrow> ('d, 'a) act" where
  "act_return a w = (Inr a, w)"

text \<open>\<open>client.run\<close> and \<open>client.run_raw_action\<close>.\<close>

definition client_run :: "'d env \<Rightarrow> string \<Rightarrow> ('d, string) act" where
  "client_run env symbol w =
     (case dev_run env symbol (w_dev w) of (r, d) \<Rightarrow> (r, w\<lparr>w_dev := d\<rparr>))"

definition client_raw :: "'d env \<Rightarrow> string list \<Rightarrow> ('d, string) act" where
  "client_raw env commands w =
     (case dev_raw env commands (w_dev w) of
        (r, d) \<Rightarrow> (r, w\<lparr>w_dev := d, w_sent := w_sent w @ [commands]\<rparr>))"

definition store_record :: "'d env \<Rightarrow> audit_event \<Rightarrow> ('d, unit) act" where
  "store_record env ev w =
     (case audit_record (audit_up env) (env_secrets env) ev (w_audit w) of
        (r, t) \<Rightarrow> (r, w\<lparr>w_audit := t\<rparr>))"

definition blank_event :: "string \<Rightarrow> string \<Rightarrow> string list \<Rightarrow> bool \<Rightarrow> audit_event" where
  "blank_event actor action commands success =
     \<lparr>ae_actor = actor, ae_action = action, ae_commands = commands, ae_success = success,
      ae_output_path = None, ae_error_type = None, ae_error_message = None, ae_before_state = None,
      ae_after_state = None\<rparr>"

text \<open>The \<open>finally\<close> of \<open>run_and_audit\<close>: an exception of the audit storage replaces the outcome.\<close>

definition run_and_audit :: "'d env \<Rightarrow> string \<Rightarrow> string \<Rightarrow> ('d, string) act" where
  "run_and_audit env symbol actor w =
     (case resolve_read_command symbol of
        Inl e \<Rightarrow> (Inl e, w)
      | Inr command \<Rightarrow>
          (case client_run env symbol w of
             (r, w1) \<Rightarrow>
               let ev = blank_event actor (''read:'' @ symbol) [command] (case r of Inl _ \<Rightarrow> False | Inr _ \<Rightarrow> True);
                   ev' = (case r of
                            Inl e \<Rightarrow> ev\<lparr>ae_error_type := Some (exn_name e), ae_error_message := Some (exn_message e)\<rparr>
                          | Inr _ \<Rightarrow> ev)
               in (case store_record env ev' w1 of
                     (Inl e, w2) \<Rightarrow> (Inl e, w2)
                   | (Inr _, w2) \<Rightarrow> (r, w2))))"

section \<open>The write lock\<close>

text \<open>The lock's state is the flag; the policy file decides whether it counts.\<close>

record write_lock =
  wl_unlocked :: bool
  wl_unlocked_at :: "time option"

definition initial_lock :: write_lock where
  "initial_lock = \<lparr>wl_unlocked = False, wl_unlocked_at = None\<rparr>"

definition lock_unlock :: "policy_file \<Rightarrow> time \<Rightarrow> write_lock \<Rightarrow> unit result \<times> write_lock" where
  "lock_unlock f now l =
     (if \<not> controlled_writes_enabled f
      then (Inl (WriteActionsDisabledError ''Controlled writes are disabled for this installation.''), l)
      else (Inr (), l\<lparr>wl_unlocked := True, wl_unlocked_at := Some now\<rparr>))"

definition lock_lock :: "write_lock \<Rightarrow> write_lock" where
  "lock_lock l = l\<lparr>wl_unlocked := False, wl_unlocked_at := None\<rparr>"

definition lock_unlocked :: "policy_file \<Rightarrow> write_lock \<Rightarrow> bool" where
  "lock_unlocked f l \<longleftrightarrow> wl_unlocked l \<and> controlled_writes_enabled f"

definition require_unlocked :: "policy_file \<Rightarrow> write_lock \<Rightarrow> unit result" where
  "require_unlocked f l =
     (if \<not> controlled_writes_enabled f
      then Inl (WriteActionsDisabledError ''Controlled writes are disabled for this installation.'')
      else if \<not> lock_unlocked f l
      then Inl (WriteActionsDisabledError
             ''Device control is locked. Unlock controlled writes for this session first.'')
      else Inr ())"

definition lock_guard :: "policy_file \<Rightarrow> write_lock \<Rightarrow> unit result" where
  "lock_guard f l =
     (if \<not> wl_unlocked l \<or> \<not> controlled_writes_enabled f
      then Inl (WriteActionsDisabledError
             ''Device control is locked. Unlock controlled writes for this session first.'')
      else Inr ())"

section \<open>The catalogue\<close>

definition config_lines :: "operation_kind \<Rightarrow> string list" where
  "config_lines kind =
     (case kind of
        Admin_up \<Rightarrow> [''interface {iface}'', ''no shutdown'']
      | Admin_down \<Rightarrow> [''interface {iface}'', ''shutdown'']
      | Poe_auto \<Rightarrow> [''interface {iface}'', ''power inline auto'']
      | Poe_never \<Rightarrow> [''interface {iface}'', ''power inline never'']
      | Set_description \<Rightarrow> [''interface {iface}'', ''description {value}''])"

definition kind_name :: "operation_kind \<Rightarrow> string" where
  "kind_name kind =
     (case kind of Admin_up \<Rightarrow> ''admin_up'' | Admin_down \<Rightarrow> ''admin_down'' | Poe_auto \<Rightarrow> ''poe_auto''
      | Poe_never \<Rightarrow> ''poe_never'' | Set_description \<Rightarrow> ''set_description'')"

definition needs_value :: "operation_kind \<Rightarrow> bool" where
  "needs_value kind \<longleftrightarrow> kind = Set_description"

definition is_poe :: "operation_kind \<Rightarrow> bool" where
  "is_poe kind \<longleftrightarrow> kind = Poe_auto \<or> kind = Poe_never"

section \<open>What IOS answers\<close>

definition ios_error_rx :: rx where
  "ios_error_rx = seqs [lit ''%'', star sp, alts
     [liti ''Invalid input'', liti ''Incomplete command'', liti ''Ambiguous command'',
      liti ''Unrecognized command'', liti ''Authorization failed'', liti ''Permission denied'',
      seqs [liti ''Command '', opt (liti ''authorization ''), liti ''failed''],
      liti ''Error'', liti ''Bad mask'', liti ''Cannot'', liti ''Not enough'', liti ''Unable to'']]"

definition classify_ios_response :: "string \<Rightarrow> string option" where
  "classify_ios_response output =
     map_option py_strip (find (\<lambda>line. rx_search ios_error_rx line \<noteq> None) (py_splitlines output))"

section \<open>The restorable part of an interface block\<close>

record iface_config =
  ic_description :: string
  ic_shutdown :: bool
  ic_poe_admin :: string

definition block_rx :: "string \<Rightarrow> rx" where
  "block_rx canonical =
     seqs [Bol, liti ''interface'', plus1 sp, liti canonical, star sp, Eol, lit [newline],
       Grp 1 (star_lazy anyc),
       Look (alts [seqs [Bol, lit ''!'', star sp, Eol], seqs [Bol, liti ''interface'', plus1 sp], Eos])]"

definition config_line :: "string \<Rightarrow> iface_config \<Rightarrow> iface_config" where
  "config_line raw ic =
     (let line = py_strip raw; lower = py_lower line in
      if py_startswith lower ''description '' then ic\<lparr>ic_description := drop 12 line\<rparr>
      else if lower = ''shutdown'' then ic\<lparr>ic_shutdown := True\<rparr>
      else if lower = ''no shutdown'' then ic\<lparr>ic_shutdown := False\<rparr>
      else if py_startswith lower ''power inline ''
      then ic\<lparr>ic_poe_admin := hd (py_split_ws (drop 13 lower))\<rparr>
      else ic)"

definition interface_config :: "string \<Rightarrow> string \<Rightarrow> iface_config option" where
  "interface_config config canonical =
     (case rx_search (block_rx canonical) config of
        None \<Rightarrow> None
      | Some g \<Rightarrow>
          Some (fold config_line (py_splitlines (group_text g 1))
            \<lparr>ic_description = [], ic_shutdown = False, ic_poe_admin = ''auto''\<rparr>))"

definition rollback_restore :: "operation_kind \<Rightarrow> iface_config \<Rightarrow> string option" where
  "rollback_restore kind prior =
     (if kind = Admin_up \<or> kind = Admin_down
      then Some (if ic_shutdown prior then ''shutdown'' else ''no shutdown'')
      else if is_poe kind
      then (if ic_poe_admin prior \<notin> {''auto'', ''never''} then None
            else Some (''power inline '' @ ic_poe_admin prior))
      else if ic_description prior = [] then Some ''no description''
      else case sanitize_description (ic_description prior) of
             Inl _ \<Rightarrow> None
           | Inr old \<Rightarrow> Some (''description '' @ old))"

definition rollback_commands :: "operation_kind \<Rightarrow> string \<Rightarrow> iface_config \<Rightarrow> string list option" where
  "rollback_commands kind canonical prior =
     map_option (\<lambda>restore. [''configure terminal'', ''interface '' @ canonical, restore, ''end''])
       (rollback_restore kind prior)"

definition rollback_verified ::
  "operation_kind \<Rightarrow> iface_config \<Rightarrow> interface_status option \<Rightarrow> string option \<Rightarrow> iface_config option \<Rightarrow> bool"
where
  "rollback_verified kind prior iface poe config =
     (case (iface, config) of
        (Some _, Some c) \<Rightarrow>
          if kind = Admin_up \<or> kind = Admin_down then ic_shutdown c = ic_shutdown prior
          else if is_poe kind
          then py_lower (py_strip (or_empty poe)) = ic_poe_admin prior \<and> ic_poe_admin c = ic_poe_admin prior
          else ic_description c = ic_description prior
      | _ \<Rightarrow> False)"

definition short_gi :: "string \<Rightarrow> string" where
  "short_gi canonical = py_replace canonical ''GigabitEthernet'' ''Gi''"

definition read_interface :: "'d env \<Rightarrow> string \<Rightarrow> string \<Rightarrow> ('d, interface_status option) act" where
  "read_interface env canonical actor =
     act_then (run_and_audit env ''show_interfaces_status'' actor) (\<lambda>output.
       act_return (find (\<lambda>i. py_lower (ifs_port i) = py_lower (short_gi canonical))
         (parse_interface_status output)))"

definition read_poe_state :: "'d env \<Rightarrow> string \<Rightarrow> string \<Rightarrow> ('d, string option) act" where
  "read_poe_state env canonical actor =
     act_then (run_and_audit env ''show_power_inline'' actor) (\<lambda>output.
       act_return (map_option pp_admin
         (find (\<lambda>p. py_lower (pp_interface p) = py_lower (short_gi canonical)) (pr_ports (parse_poe output)))))"

definition read_poe_if :: "bool \<Rightarrow> 'd env \<Rightarrow> string \<Rightarrow> string \<Rightarrow> ('d, string option) act" where
  "read_poe_if wanted env canonical actor =
     (if wanted then read_poe_state env canonical actor else act_return None)"

definition postcondition_met ::
  "operation_kind \<Rightarrow> interface_status option \<Rightarrow> string option \<Rightarrow> string option \<Rightarrow> iface_config option
     \<Rightarrow> bool \<times> string"
where
  "postcondition_met kind iface poe value config =
     (case iface of
        None \<Rightarrow> (False, ''The switch no longer reports a status row for this interface.'')
      | Some i \<Rightarrow>
          let status = py_lower (py_strip (ifs_status i)) in
          if kind = Admin_down
          then (let ok = (status = ''disabled'') in
                (ok, if ok then ''The interface reports administratively disabled.''
                     else ''Expected the interface to be disabled; it reports '' @ py_repr status @ ''.''))
          else if kind = Admin_up
          then (let ok = (status \<noteq> ''disabled'') in
                (ok, if ok then ''The interface is administratively enabled.'' @
                       (if status = ''notconnect''
                        then '' It has no link yet, which is expected with nothing attached.'' else [])
                     else ''The interface still reports administratively disabled.''))
          else if is_poe kind
          then (let want = (if kind = Poe_auto then ''auto'' else ''never'');
                    ok = (py_lower (py_strip (or_empty poe)) = want) in
                (ok, if ok then ''Power inline administrative policy is '' @ want @ ''.''
                     else ''Expected power inline '' @ want @ ''; the switch reports '' @
                       (if or_empty poe = [] then ''nothing'' else or_empty poe) @ ''.''))
          else (let observed = (case config of Some c \<Rightarrow> ic_description c | None \<Rightarrow> ifs_name i);
                    ok = (py_strip observed = py_strip (or_empty value)) in
                (ok, if ok then ''The interface description is now '' @ py_repr observed @ ''.''
                     else ''Expected description '' @
                       (case value of None \<Rightarrow> ''None'' | Some v \<Rightarrow> py_repr v) @
                       ''; the switch reports '' @ py_repr observed @ ''.'')))"

section \<open>Progress\<close>

text \<open>The list that is streamed to the user interface; a listener cannot change it.\<close>

definition st_begin :: "stage_name \<Rightarrow> operation_stage list \<Rightarrow> operation_stage list" where
  "st_begin name stages = stages @ [\<lparr>st_name = name, st_status = Running, st_detail = []\<rparr>]"

definition st_finish :: "stage_status \<Rightarrow> string \<Rightarrow> operation_stage list \<Rightarrow> operation_stage list" where
  "st_finish status detail stages =
     (if stages = [] then []
      else butlast stages @ [(last stages)\<lparr>st_status := status, st_detail := detail\<rparr>])"

definition st_skip :: "stage_name \<Rightarrow> string \<Rightarrow> operation_stage list \<Rightarrow> operation_stage list" where
  "st_skip name detail stages = stages @ [\<lparr>st_name = name, st_status = Skipped, st_detail = detail\<rparr>]"

section \<open>Backup\<close>

definition is_alnum :: "char \<Rightarrow> bool" where
  "is_alnum c \<longleftrightarrow> is_word_char c \<and> c \<noteq> CHR ''_''"

definition strip_underscores :: "string \<Rightarrow> string" where
  "strip_underscores s = rev (dropWhile ((=) CHR ''_'') (rev (dropWhile ((=) CHR ''_'') s)))"

definition safe_hostname :: "string \<Rightarrow> string" where
  "safe_hostname host =
     (let s = strip_underscores (map (\<lambda>c. if is_alnum c \<or> c \<in> set ''-_'' then c else CHR ''_'') host)
      in if s = [] then ''switch'' else s)"

record backup_result =
  br_filename :: string
  br_path :: string
  br_preview :: string

definition backup_preview :: "string \<Rightarrow> string" where
  "backup_preview config =
     (let preview = redact_config config in
      if length preview > 4000 then take 4000 preview @ [newline] @ ''... (truncated)'' else preview)"

text \<open>The file is opened with mode \<open>x\<close>: an existing name is an error.\<close>

definition write_backup :: "'d env \<Rightarrow> string \<Rightarrow> string \<Rightarrow> ('d, unit) act" where
  "write_backup env path config w =
     (if dict_get (w_backups w) path \<noteq> None then (Inl (PyError ''FileExistsError''), w)
      else if \<not> disk_up env path then (Inl (PyError ''OSError''), w)
      else (Inr (), w\<lparr>w_backups := dict_set path config (w_backups w)\<rparr>))"

definition backup_running_config ::
  "'d env \<Rightarrow> string \<Rightarrow> string \<Rightarrow> string option \<Rightarrow> ('d, backup_result) act"
where
  "backup_running_config env hostname actor config_text w =
     act_then (case config_text of None \<Rightarrow> client_run env ''show_running_config'' | Some t \<Rightarrow> act_return t)
       (\<lambda>config.
         let fname = safe_hostname hostname @ ''-running-config-'' @ env_stamp env @ ''.txt'';
             path = env_backup_dir env @ ''/'' @ fname
         in act_then (write_backup env path config) (\<lambda>_.
            act_then (store_record env
              ((blank_event actor ''backup_config'' [''terminal length 0'', ''show running-config''] True)
                 \<lparr>ae_output_path := Some path\<rparr>)) (\<lambda>_.
            act_return \<lparr>br_filename = fname, br_path = path, br_preview = backup_preview config\<rparr>)))
       (snd (client_run env ''terminal_length_0'' w))"

section \<open>The transaction\<close>

definition render_line :: "string \<Rightarrow> string option \<Rightarrow> string \<Rightarrow> string" where
  "render_line canonical value line =
     (let rendered = py_replace line ''{iface}'' canonical in
      if py_contains ''{value}'' rendered then py_replace rendered ''{value}'' (or_empty value) else rendered)"

definition forward_commands :: "operation_kind \<Rightarrow> string \<Rightarrow> string option \<Rightarrow> string list" where
  "forward_commands kind canonical value =
     [''configure terminal''] @ map (render_line canonical value) (config_lines kind) @ [''end'']"

definition state_text :: "interface_status \<Rightarrow> string option \<Rightarrow> string" where
  "state_text i poe = ''status='' @ ifs_status i @ '' description='' @ py_repr (ifs_name i) @
     (case poe of None \<Rightarrow> [] | Some p \<Rightarrow> '' poe='' @ p)"

text \<open>The closure \<open>result\<close>: it records the operation, whatever the storage does, and builds the
  answer. Its optional arguments are the fields of an outcome.\<close>

record outcome =
  oc_status :: operation_status
  oc_before :: "string option"
  oc_after :: "string option"
  oc_commands :: "string list"
  oc_detail :: string
  oc_rolled_back :: "bool option"
  oc_backup :: "string option"
  oc_requires_save :: bool

definition outcome_of :: "operation_status \<Rightarrow> string \<Rightarrow> outcome" where
  "outcome_of status detail = \<lparr>oc_status = status, oc_before = None, oc_after = None, oc_commands = [],
     oc_detail = detail, oc_rolled_back = None, oc_backup = None, oc_requires_save = False\<rparr>"

definition status_name :: "operation_status \<Rightarrow> string" where
  "status_name s = (case s of Op_success \<Rightarrow> ''success'' | Op_failed \<Rightarrow> ''failed'' | Op_blocked \<Rightarrow> ''blocked''
     | Op_rolled_back \<Rightarrow> ''rolled_back'')"

definition finish_operation ::
  "'d env \<Rightarrow> operation_kind \<Rightarrow> string \<Rightarrow> string \<Rightarrow> operation_stage list \<Rightarrow> outcome \<Rightarrow> ('d, operation_result) act"
where
  "finish_operation env kind iface actor stages oc w =
     (let ok = (oc_status oc = Op_success);
          ev = \<lparr>ae_actor = actor, ae_action = ''operation:'' @ kind_name kind, ae_commands = oc_commands oc,
                ae_success = ok, ae_output_path = None,
                ae_error_type = (if ok then None else Some (status_name (oc_status oc))),
                ae_error_message = (if oc_detail oc = [] then None else Some (oc_detail oc)),
                ae_before_state = oc_before oc, ae_after_state = oc_after oc\<rparr>;
          stages1 = st_begin Audit stages
      in case store_record env ev w of (r, w') \<Rightarrow>
        (Inr \<lparr>or_operation_id = ''op-'' @ env_op_id env, or_kind = kind, or_interface = iface,
              or_status = oc_status oc, or_detail = oc_detail oc,
              or_stages = (case r of
                  Inr _ \<Rightarrow> st_finish Ok ''Recorded in the audit trail.'' stages1
                | Inl _ \<Rightarrow> st_finish Failed ''The operation completed, but its audit record failed.'' stages1),
              or_before_state = oc_before oc, or_after_state = oc_after oc,
              or_commands = oc_commands oc, or_rolled_back = oc_rolled_back oc,
              or_backup_path = oc_backup oc, or_requires_save = oc_requires_save oc, or_at = env_now env\<rparr>,
         w'))"

text \<open>What the precheck establishes, or the details of the failed stage and of the blocked result.\<close>

record op_context =
  cx_canonical :: string
  cx_value :: "string option"
  cx_interface :: interface_status
  cx_poe :: "string option"
  cx_running :: string
  cx_config :: iface_config
  cx_rollback :: "string list"

datatype precheck = Refused string string | Raised exn | Passed op_context

definition precheck_target ::
  "operation_kind \<Rightarrow> string result \<Rightarrow> string option \<Rightarrow> precheck + (string \<times> string option)"
where
  "precheck_target kind operable value =
     (case operable of
        Inl e \<Rightarrow> Inl (if is_switchops_error e then Refused (exn_message e) (exn_message e) else Raised e)
      | Inr canonical \<Rightarrow>
          if needs_value kind
          then (case sanitize_description (or_empty value) of
                  Inl e \<Rightarrow> Inl (if is_switchops_error e then Refused (exn_message e) (exn_message e) else Raised e)
                | Inr v \<Rightarrow> Inr (canonical, Some v))
          else Inr (canonical, None))"

definition precheck_config ::
  "operation_kind \<Rightarrow> string \<Rightarrow> string option \<Rightarrow> interface_status \<Rightarrow> string option \<Rightarrow> string \<Rightarrow> precheck"
where
  "precheck_config kind canonical value iface poe running =
     (case interface_config running canonical of
        None \<Rightarrow> Refused (canonical @ '' has no running-configuration block.'')
                 ''The change was not attempted because exact rollback state is unavailable.''
      | Some config \<Rightarrow>
          (case rollback_commands kind canonical config of
             None \<Rightarrow> Refused ''The existing value cannot be restored by the bounded operation engine.''
                      ''The change was not attempted because exact bounded rollback is unavailable.''
           | Some rollback \<Rightarrow>
               Passed \<lparr>cx_canonical = canonical, cx_value = value, cx_interface = iface, cx_poe = poe,
                       cx_running = running, cx_config = config, cx_rollback = rollback\<rparr>))"

definition run_precheck ::
  "'d env \<Rightarrow> operation_kind \<Rightarrow> string result \<Rightarrow> string option \<Rightarrow> string \<Rightarrow> 'd world \<Rightarrow> precheck \<times> 'd world"
where
  "run_precheck env kind operable value actor w =
     (case precheck_target kind operable value of
        Inl p \<Rightarrow> (p, w)
      | Inr (canonical, safe_value) \<Rightarrow>
          (case act_then (read_interface env canonical actor) (\<lambda>i.
                  act_then (read_poe_if (is_poe kind) env canonical actor) (\<lambda>p. act_return (i, p))) w of
             (Inl e, w1) \<Rightarrow>
               (Refused (''Could not read the interface state ('' @ exn_name e @ '').'')
                  ''The change was not attempted because its original state could not be read.'', w1)
           | (Inr (None, _), w1) \<Rightarrow>
               (Refused (canonical @ '' is not present on this switch.'')
                  (canonical @ '' is not present on this switch.''), w1)
           | (Inr (Some iface, poe), w1) \<Rightarrow>
               (case run_and_audit env ''show_running_config'' actor w1 of
                  (Inl e, w2) \<Rightarrow>
                    (Refused (''Could not read the running configuration ('' @ exn_name e @ '').'')
                       ''The change was not attempted because its original state could not be captured.'', w2)
                | (Inr running, w2) \<Rightarrow> (precheck_config kind canonical safe_value iface poe running, w2))))"

text \<open>The backup stage: the new stages with the path, or with the name of the exception.\<close>

definition run_backup ::
  "'d env \<Rightarrow> bool \<Rightarrow> string \<Rightarrow> string \<Rightarrow> operation_stage list \<Rightarrow> 'd world
     \<Rightarrow> (operation_stage list + operation_stage list \<times> string option) \<times> 'd world"
where
  "run_backup env fresh running actor stages w =
     (if fresh
      then (Inr (st_skip Backup ''A backup from this transaction window is already on disk.'' stages, None), w)
      else
        (case backup_running_config env ''SWITCHOPS-TEST-SW1'' actor (Some running) w of
           (Inl e, w1) \<Rightarrow>
             (Inl (st_finish Failed (''Backup failed ('' @ exn_name e @ '').'') (st_begin Backup stages)), w1)
         | (Inr b, w1) \<Rightarrow>
             (Inr (st_finish Ok (''Running configuration saved to '' @ br_filename b @ ''.'')
                (st_begin Backup stages), Some (br_path b)), w1)))"

text \<open>Reading the state back after the change: whether the intent was met, the detail, the state.\<close>

definition run_verify ::
  "'d env \<Rightarrow> operation_kind \<Rightarrow> op_context \<Rightarrow> string \<Rightarrow> 'd world \<Rightarrow> (bool \<times> string \<times> string) \<times> 'd world"
where
  "run_verify env kind cx actor w =
     (case act_then (read_interface env (cx_canonical cx) actor) (\<lambda>i.
             act_then (read_poe_if (is_poe kind) env (cx_canonical cx) actor) (\<lambda>p.
             act_then (if kind = Set_description
                       then act_then (run_and_audit env ''show_running_config'' actor) (\<lambda>t.
                              act_return (interface_config t (cx_canonical cx)))
                       else act_return None) (\<lambda>c. act_return (i, p, c)))) w of
        (Inl e, w1) \<Rightarrow>
          ((False, ''Verification could not read the new state ('' @ exn_name e @ '').'', ''unavailable''), w1)
      | (Inr (i, p, c), w1) \<Rightarrow>
          (case postcondition_met kind i p (cx_value cx) c of (met, detail) \<Rightarrow>
            ((met, detail, case i of None \<Rightarrow> ''unavailable'' | Some r \<Rightarrow> state_text r p), w1)))"

text \<open>The rollback; any exception in it counts as not rolled back.\<close>

definition run_rollback ::
  "'d env \<Rightarrow> operation_kind \<Rightarrow> op_context \<Rightarrow> string \<Rightarrow> 'd world \<Rightarrow> bool \<times> 'd world"
where
  "run_rollback env kind cx actor w =
     (case act_then (client_raw env (cx_rollback cx)) (\<lambda>output.
             act_then (read_interface env (cx_canonical cx) actor) (\<lambda>i.
             act_then (read_poe_if (is_poe kind) env (cx_canonical cx) actor) (\<lambda>p.
             act_then (run_and_audit env ''show_running_config'' actor) (\<lambda>t.
               act_return (classify_ios_response output = None \<and>
                 rollback_verified kind (cx_config cx) i p (interface_config t (cx_canonical cx))))))) w of
        (Inl _, w1) \<Rightarrow> (False, w1)
      | (Inr ok, w1) \<Rightarrow> (ok, w1))"

text \<open>Execute, verify and roll back: from the moment the configuration sequence is sent.\<close>

definition run_change ::
  "'d env \<Rightarrow> operation_kind \<Rightarrow> string \<Rightarrow> string \<Rightarrow> op_context \<Rightarrow> string option \<Rightarrow> operation_stage list
     \<Rightarrow> ('d, operation_result) act"
where
  "run_change env kind iface actor cx backup stages w =
     (let commands = forward_commands kind (cx_canonical cx) (cx_value cx);
          prior = Some (state_text (cx_interface cx) (cx_poe cx));
          st = st_begin Execute stages;
          base = (\<lambda>status detail. (outcome_of status detail)
                   \<lparr>oc_before := prior, oc_commands := commands, oc_backup := backup\<rparr>)
      in case client_raw env commands w of
        (Inl e, w1) \<Rightarrow>
          finish_operation env kind iface actor
            (st_finish Failed (''The switch session failed during execution ('' @ exn_name e @ '').'') st)
            ((base Op_failed ''The change could not be sent. Verify the interface state before retrying.'')
               \<lparr>oc_requires_save := True\<rparr>) w1
      | (Inr output, w1) \<Rightarrow>
          (case classify_ios_response output of
             Some rejection \<Rightarrow>
               finish_operation env kind iface actor
                 (st_finish Failed (''IOS rejected the command: '' @ rejection) st)
                 (base Op_failed (''The switch rejected the configuration: '' @ rejection)) w1
           | None \<Rightarrow>
               (let st1 = st_begin Verify (st_finish Ok ''Configuration accepted by the device.'' st) in
                case run_verify env kind cx actor w1 of
                  ((met, detail, after), w2) \<Rightarrow>
                    if met
                    then finish_operation env kind iface actor (st_finish Ok detail st1)
                           ((base Op_success detail)\<lparr>oc_after := Some after, oc_requires_save := True\<rparr>) w2
                    else
                      (case run_rollback env kind cx actor w2 of
                         (back, w3) \<Rightarrow>
                           finish_operation env kind iface actor
                             (st_finish (if back then Ok else Failed)
                                (if back then ''The interface was returned to its previous state.''
                                 else ''Rollback did not restore the previous state; inspect the interface.'')
                                (st_begin Rollback (st_finish Failed detail st1)))
                             ((base (if back then Op_rolled_back else Op_failed) detail)
                                \<lparr>oc_after := Some after, oc_commands := commands @ cx_rollback cx,
                                 oc_rolled_back := Some back, oc_requires_save := \<not> back\<rparr>) w3))))"

definition run_authorized ::
  "'d env \<Rightarrow> operation_kind \<Rightarrow> string result \<Rightarrow> string \<Rightarrow> string option \<Rightarrow> string \<Rightarrow> bool
     \<Rightarrow> ('d, operation_result) act"
where
  "run_authorized env kind operable iface value actor fresh w =
     (let st0 = st_begin Precheck [] in
      case run_precheck env kind operable value actor w of
        (Raised e, w1) \<Rightarrow> (Inl e, w1)
      | (Refused stage detail, w1) \<Rightarrow>
          finish_operation env kind iface actor (st_finish Failed stage st0) (outcome_of Op_blocked detail) w1
      | (Passed cx, w1) \<Rightarrow>
          (let prior = state_text (cx_interface cx) (cx_poe cx);
               st1 = st_finish Ok (cx_canonical cx @ '' is operable. Current state: '' @ prior @ ''.'') st0
           in case postcondition_met kind (Some (cx_interface cx)) (cx_poe cx) (cx_value cx) (Some (cx_config cx)) of
             (met, detail) \<Rightarrow>
               if met
               then finish_operation env kind iface actor
                      (st_finish Ok detail (st_begin Verify
                        (st_skip Execute ''No command was sent; the operation is already satisfied.''
                          (st_skip Backup ''No backup is needed because the intended state already exists.'' st1))))
                      ((outcome_of Op_success (''No change was needed. '' @ detail))
                         \<lparr>oc_before := Some prior, oc_after := Some prior\<rparr>) w1
               else
                 (case run_backup env fresh (cx_running cx) actor st1 w1 of
                    (Inl st2, w2) \<Rightarrow>
                      finish_operation env kind iface actor st2
                        ((outcome_of Op_blocked
                            ''The change was not attempted because the configuration backup failed.'')
                           \<lparr>oc_before := Some prior\<rparr>) w2
                  | (Inr (st2, backup), w2) \<Rightarrow> run_change env kind iface actor cx backup st2 w2)))"

text \<open>
  \<open>run_operation\<close>: the gates are held open for the whole transaction, so the lock, the policy file
  and the configured host are constants of it; the precheck asks the policy again.
\<close>

definition run_operation ::
  "'d env \<Rightarrow> (string \<Rightarrow> string) \<Rightarrow> policy_file \<Rightarrow> string option \<Rightarrow> write_lock \<Rightarrow> operation_kind
     \<Rightarrow> string \<Rightarrow> string option \<Rightarrow> string \<Rightarrow> bool \<Rightarrow> ('d, operation_result) act"
where
  "run_operation env H f host lock kind iface value actor fresh w =
     (case lock_guard f lock of
        Inl e \<Rightarrow> (Inl e, w)
      | Inr _ \<Rightarrow>
          (case policy_guard H f host iface of
             Inl e \<Rightarrow> (Inl e, w)
           | Inr _ \<Rightarrow>
               run_authorized env kind (assert_operable H f host iface) iface value actor fresh w))"

section \<open>Unsaved changes\<close>

record save_tracker =
  sv_pending :: int
  sv_last_change :: "time option"
  sv_last_saved :: "time option"
  sv_differs :: "bool option"

definition tracker_reset :: save_tracker where
  "tracker_reset = \<lparr>sv_pending = 0, sv_last_change = None, sv_last_saved = None, sv_differs = None\<rparr>"

definition record_change :: "time \<Rightarrow> save_tracker \<Rightarrow> save_tracker" where
  "record_change now t = t\<lparr>sv_pending := sv_pending t + 1, sv_last_change := Some now, sv_differs := Some True\<rparr>"

definition record_save :: "time \<Rightarrow> save_tracker \<Rightarrow> save_tracker" where
  "record_save now t = t\<lparr>sv_pending := 0, sv_last_saved := Some now, sv_differs := Some False\<rparr>"

definition record_fingerprints :: "string \<Rightarrow> string \<Rightarrow> save_tracker \<Rightarrow> save_tracker" where
  "record_fingerprints running startup t =
     t\<lparr>sv_differs := Some (running \<noteq> startup),
       sv_pending := (if running \<noteq> startup then sv_pending t else 0)\<rparr>"

definition tracker_state :: "save_tracker \<Rightarrow> config_save_state" where
  "tracker_state t =
     (let modified = (sv_differs t = Some True \<or> sv_pending t > 0) in
      \<lparr>cs_running_modified = modified, cs_last_change_at = sv_last_change t,
       cs_last_saved_at = sv_last_saved t, cs_pending_operations = sv_pending t,
       cs_detail =
         (if modified \<and> sv_pending t \<noteq> 0
          then py_str_int (sv_pending t) @ '' change(s) are in the running configuration only. '' @
               ''They will be lost if the switch reboots.''
          else if modified
          then ''The running configuration differs from the startup configuration. '' @
               ''The change may have been made outside SwitchOps.''
          else if sv_differs t = None
          then ''SwitchOps has not compared the running and startup configurations yet.''
          else ''The running configuration matches the startup configuration.'')\<rparr>)"

definition volatile_line :: "string \<Rightarrow> bool" where
  "volatile_line stripped \<longleftrightarrow> stripped = [] \<or> py_startswith stripped ''!'' \<or>
     list_ex (py_startswith stripped)
       [''Current configuration'', ''Using '', ''Building configuration'', ''ntp clock-period'']"

definition fingerprint_text :: "string \<Rightarrow> string" where
  "fingerprint_text text =
     py_join [newline] (filter (\<lambda>l. \<not> volatile_line l) (map py_strip (py_splitlines text)))"

definition configuration_fingerprint :: "(string \<Rightarrow> string) \<Rightarrow> string \<Rightarrow> string" where
  "configuration_fingerprint digest text = digest (fingerprint_text text)"

definition config_fingerprints :: "'d env \<Rightarrow> (string \<Rightarrow> string) \<Rightarrow> string \<Rightarrow> ('d, string \<times> string) act" where
  "config_fingerprints env digest actor =
     act_then (run_and_audit env ''show_running_config'' actor) (\<lambda>running.
     act_then (run_and_audit env ''show_startup_config'' actor) (\<lambda>startup.
       act_return (configuration_fingerprint digest running, configuration_fingerprint digest startup)))"

definition save_authorized :: "'d env \<Rightarrow> string \<Rightarrow> ('d, bool \<times> string) act" where
  "save_authorized env actor =
     act_then (client_raw env [''write memory'']) (\<lambda>output.
       case classify_ios_response output of
         Some rejection \<Rightarrow>
           act_then (store_record env
             ((blank_event actor ''operation:save_config'' [''write memory''] False)
                \<lparr>ae_error_type := Some ''ios_rejection'', ae_error_message := Some rejection\<rparr>))
             (\<lambda>_. act_return (False, ''The switch rejected the save: '' @ rejection))
       | None \<Rightarrow>
           act_then (store_record env (blank_event actor ''operation:save_config'' [''write memory''] True))
             (\<lambda>_. act_return (True, ''The running configuration was written to the startup configuration.'')))"

definition save_running_config :: "'d env \<Rightarrow> policy_file \<Rightarrow> write_lock \<Rightarrow> string \<Rightarrow> ('d, bool \<times> string) act" where
  "save_running_config env f lock actor w =
     (case lock_guard f lock of Inl e \<Rightarrow> (Inl e, w) | Inr _ \<Rightarrow> save_authorized env actor w)"

section \<open>Lemmas: what reading does not do\<close>

text \<open>Reading sends no configuration, writes no backup and only adds to the trail.\<close>

named_theorems quiet_intros

definition quiet :: "'d world \<Rightarrow> 'd world \<Rightarrow> bool" where
  "quiet w w' \<longleftrightarrow> w_sent w' = w_sent w \<and> w_backups w' = w_backups w \<and> prefix (w_audit w) (w_audit w')"

definition quiet_act :: "('d, 'a) act \<Rightarrow> bool" where
  "quiet_act m \<longleftrightarrow> (\<forall>w. quiet w (snd (m w)))"

lemma quiet_refl [simp]: "quiet w w"
  by (simp add: quiet_def)

lemma quiet_trans: "quiet w w1 \<Longrightarrow> quiet w1 w2 \<Longrightarrow> quiet w w2"
  by (auto simp: quiet_def)

lemma quiet_actD: "quiet_act m \<Longrightarrow> m w = (r, w') \<Longrightarrow> quiet w w'"
  by (metis quiet_act_def snd_conv)

lemma quiet_then [quiet_intros]:
  "quiet_act m \<Longrightarrow> (\<And>a. quiet_act (f a)) \<Longrightarrow> quiet_act (act_then m f)"
  unfolding quiet_act_def act_then_def
  by (auto split: prod.splits sum.splits intro: quiet_trans)

lemma quiet_return [quiet_intros]: "quiet_act (act_return a)"
  by (simp add: quiet_act_def act_return_def)

lemma quiet_client_run [quiet_intros]: "quiet_act (client_run env symbol)"
  by (simp add: quiet_act_def client_run_def quiet_def split: prod.split)

lemma quiet_store [quiet_intros]: "quiet_act (store_record env ev)"
  by (simp add: quiet_act_def store_record_def quiet_def audit_record_def Let_def split: prod.split)

lemma quiet_run_and_audit [quiet_intros]: "quiet_act (run_and_audit env symbol actor)"
  unfolding quiet_act_def
proof
  fix w
  show "quiet w (snd (run_and_audit env symbol actor w))"
  proof (cases "resolve_read_command symbol")
    case (Inr c)
    obtain r w1 where 1: "client_run env symbol w = (r, w1)" by (cases "client_run env symbol w")
    define ev where "ev = (let ev = blank_event actor (''read:'' @ symbol) [c] (case r of Inl _ \<Rightarrow> False | Inr _ \<Rightarrow> True)
      in case r of Inl e \<Rightarrow> ev\<lparr>ae_error_type := Some (exn_name e), ae_error_message := Some (exn_message e)\<rparr>
                | Inr _ \<Rightarrow> ev)"
    obtain s w2 where 2: "store_record env ev w1 = (s, w2)" by (cases "store_record env ev w1")
    have "snd (run_and_audit env symbol actor w) = w2"
      using Inr 1 2 by (simp add: run_and_audit_def ev_def Let_def split: sum.split)
    moreover have "quiet w w2"
      using quiet_actD [OF quiet_client_run 1] quiet_actD [OF quiet_store 2] by (rule quiet_trans)
    ultimately show ?thesis by simp
  qed (simp add: run_and_audit_def)
qed

lemma quiet_read_interface [quiet_intros]: "quiet_act (read_interface env c actor)"
  unfolding read_interface_def by (intro quiet_intros)

lemma quiet_read_poe_if [quiet_intros]: "quiet_act (read_poe_if b env c actor)"
  unfolding read_poe_if_def read_poe_state_def by (cases b) (auto intro: quiet_intros)

lemma quiet_if [quiet_intros]: "quiet_act m \<Longrightarrow> quiet_act n \<Longrightarrow> quiet_act (if b then m else n)"
  by simp

lemma quiet_finish [quiet_intros]: "quiet_act (finish_operation env kind iface actor st oc)"
  unfolding quiet_act_def
proof
  fix w
  show "quiet w (snd (finish_operation env kind iface actor st oc w))"
    by (auto simp: finish_operation_def Let_def split: prod.split intro: quiet_actD [OF quiet_store])
qed

lemma finish_result:
  "finish_operation env kind iface actor st oc w = (r, w') \<Longrightarrow>
     \<exists>x. r = Inr x \<and> or_status x = oc_status oc \<and> or_commands x = oc_commands oc \<and>
         or_requires_save x = oc_requires_save oc \<and> or_rolled_back x = oc_rolled_back oc \<and>
         or_backup_path x = oc_backup oc \<and> or_kind x = kind \<and> or_interface x = iface"
  by (auto simp: finish_operation_def Let_def split: prod.splits)

lemma quiet_precheck:
  assumes "run_precheck env kind operable value actor w = (p, w')"
  shows "quiet w w'"
proof (cases "precheck_target kind operable value")
  case (Inl q)
  then show ?thesis using assms by (simp add: run_precheck_def)
next
  case (Inr t)
  obtain c v where t: "t = (c, v)" by (cases t)
  let ?m = "act_then (read_interface env c actor) (\<lambda>i.
                  act_then (read_poe_if (is_poe kind) env c actor) (\<lambda>p. act_return (i, p)))"
  obtain r w1 where 1: "?m w = (r, w1)" by (cases "?m w")
  have "quiet_act ?m" by (intro quiet_intros)
  then have q1: "quiet w w1" using 1 by (rule quiet_actD)
  obtain s w2 where 2: "run_and_audit env ''show_running_config'' actor w1 = (s, w2)"
    by (cases "run_and_audit env ''show_running_config'' actor w1")
  have q2: "quiet w1 w2" by (rule quiet_actD [OF quiet_run_and_audit 2])
  have "w' = w1 \<or> w' = w2"
    using assms Inr 1 2 by (auto simp: run_precheck_def t split: sum.splits option.splits prod.splits)
  then show ?thesis using q1 quiet_trans [OF q1 q2] by blast
qed

lemma quiet_verify:
  assumes "run_verify env kind cx actor w = (x, w')"
  shows "quiet w w'"
proof -
  let ?m = "act_then (read_interface env (cx_canonical cx) actor) (\<lambda>i.
             act_then (read_poe_if (is_poe kind) env (cx_canonical cx) actor) (\<lambda>p.
             act_then (if kind = Set_description
                       then act_then (run_and_audit env ''show_running_config'' actor) (\<lambda>t.
                              act_return (interface_config t (cx_canonical cx)))
                       else act_return None) (\<lambda>c. act_return (i, p, c))))"
  have "quiet_act ?m" by (intro quiet_intros)
  moreover have "snd (?m w) = w'"
    using assms by (auto simp: run_verify_def split: prod.splits sum.splits)
  ultimately show ?thesis by (auto simp: quiet_act_def)
qed

section \<open>Lemmas: what is sent\<close>

text \<open>A step that hands these sequences to the switch and otherwise only reads.\<close>

definition sends :: "string list list \<Rightarrow> 'd world \<Rightarrow> 'd world \<Rightarrow> bool" where
  "sends xs w w' \<longleftrightarrow> w_sent w' = w_sent w @ xs \<and> w_backups w' = w_backups w \<and>
     prefix (w_audit w) (w_audit w')"

lemma quiet_sends: "quiet w w' \<longleftrightarrow> sends [] w w'"
  by (simp add: quiet_def sends_def)

lemma sends_trans: "sends xs w w1 \<Longrightarrow> sends ys w1 w2 \<Longrightarrow> sends (xs @ ys) w w2"
  by (auto simp: sends_def)

lemma sends_raw: "client_raw env cs w = (r, w') \<Longrightarrow> sends [cs] w w'"
  by (auto simp: client_raw_def sends_def split: prod.splits)

lemma sends_then_quiet:
  assumes "client_raw env cs w = (r, w1)" "\<And>a. quiet_act (f a)"
  shows "sends [cs] w (snd (act_then (client_raw env cs) f w))"
proof (cases r)
  case (Inl e)
  then show ?thesis using sends_raw [OF assms(1)] by (simp add: act_then_def assms(1))
next
  case (Inr a)
  have "sends [] w1 (snd (f a w1))" using assms(2) [of a] by (simp add: quiet_act_def quiet_sends)
  then show ?thesis using sends_trans [OF sends_raw [OF assms(1)]] Inr by (fastforce simp: act_then_def assms(1))
qed

lemma sends_rollback:
  assumes "run_rollback env kind cx actor w = (b, w')"
  shows "sends [cx_rollback cx] w w'"
proof -
  let ?f = "\<lambda>output. act_then (read_interface env (cx_canonical cx) actor) (\<lambda>i.
             act_then (read_poe_if (is_poe kind) env (cx_canonical cx) actor) (\<lambda>p.
             act_then (run_and_audit env ''show_running_config'' actor) (\<lambda>t.
               act_return (classify_ios_response output = None \<and>
                 rollback_verified kind (cx_config cx) i p (interface_config t (cx_canonical cx))))))"
  have "snd (act_then (client_raw env (cx_rollback cx)) ?f w) = w'"
    using assms by (auto simp: run_rollback_def split: prod.splits sum.splits)
  moreover obtain r w1 where 1: "client_raw env (cx_rollback cx) w = (r, w1)"
    by (cases "client_raw env (cx_rollback cx) w")
  have "sends [cx_rollback cx] w (snd (act_then (client_raw env (cx_rollback cx)) ?f w))"
    by (rule sends_then_quiet [OF 1]) (intro quiet_intros)
  ultimately show ?thesis by simp
qed

text \<open>The sequences behind an outcome: nothing when blocked, the change alone, or the change and its
  rollback; and whether the running configuration must then be saved.\<close>

definition outcome_sent :: "operation_result \<Rightarrow> string list list \<Rightarrow> bool" where
  "outcome_sent r xs \<longleftrightarrow> concat xs = or_commands r \<and>
     (case or_status r of
        Op_blocked \<Rightarrow> xs = [] \<and> \<not> or_requires_save r \<and> or_rolled_back r = None
      | Op_success \<Rightarrow> (xs = [] \<and> \<not> or_requires_save r \<or> length xs = 1 \<and> or_requires_save r) \<and>
                      or_rolled_back r = None
      | Op_rolled_back \<Rightarrow> length xs = 2 \<and> \<not> or_requires_save r \<and> or_rolled_back r = Some True
      | Op_failed \<Rightarrow> length xs = 1 \<and> or_rolled_back r = None \<or>
                     length xs = 2 \<and> or_requires_save r \<and> or_rolled_back r = Some False)"

lemma finish_sends:
  assumes "finish_operation env kind iface actor st oc w1 = (r, w')" "sends xs w w1"
  shows "sends xs w w'"
proof -
  have "sends [] w1 w'" using quiet_actD [OF quiet_finish assms(1)] by (simp add: quiet_sends)
  then show ?thesis using sends_trans [OF assms(2)] by fastforce
qed

lemma run_change_result:
  assumes "run_change env kind iface actor cx backup stages w = (r, w')"
  shows "\<exists>x xs. r = Inr x \<and> sends xs w w' \<and> outcome_sent x xs \<and> or_backup_path x = backup \<and>
    or_interface x = iface \<and> or_kind x = kind \<and> or_status x \<noteq> Op_blocked \<and> xs \<noteq> [] \<and>
    set xs \<subseteq> {forward_commands kind (cx_canonical cx) (cx_value cx), cx_rollback cx}"
proof -
  let ?cs = "forward_commands kind (cx_canonical cx) (cx_value cx)"
  obtain out w1 where 1: "client_raw env ?cs w = (out, w1)" by (cases "client_raw env ?cs w")
  note s1 = sends_raw [OF 1]
  show ?thesis
  proof (cases out)
    case (Inl e)
    obtain st oc where f: "finish_operation env kind iface actor st oc w1 = (r, w')"
      "oc_status oc = Op_failed" "oc_commands oc = ?cs" "oc_rolled_back oc = None" "oc_backup oc = backup"
      using assms Inl by (auto simp: run_change_def Let_def 1 outcome_of_def)
    show ?thesis using finish_result [OF f(1)] finish_sends [OF f(1) s1] f
      by (auto simp: outcome_sent_def intro!: exI [of _ "[?cs]"])
  next
    case (Inr answer)
    show ?thesis
    proof (cases "classify_ios_response answer")
      case (Some rejection)
      obtain st oc where f: "finish_operation env kind iface actor st oc w1 = (r, w')"
        "oc_status oc = Op_failed" "oc_commands oc = ?cs" "oc_rolled_back oc = None" "oc_backup oc = backup"
        using assms Inr Some by (auto simp: run_change_def Let_def 1 outcome_of_def)
      show ?thesis using finish_result [OF f(1)] finish_sends [OF f(1) s1] f
        by (auto simp: outcome_sent_def intro!: exI [of _ "[?cs]"])
    next
      case None
      obtain met detail after w2 where 2: "run_verify env kind cx actor w1 = ((met, detail, after), w2)"
        by (cases "run_verify env kind cx actor w1") auto
      have s2: "sends [?cs] w w2"
        using sends_trans [OF s1, of "[]" w2] quiet_verify [OF 2] by (simp add: quiet_sends)
      show ?thesis
      proof (cases met)
        case True
        obtain st oc where f: "finish_operation env kind iface actor st oc w2 = (r, w')"
          "oc_status oc = Op_success" "oc_commands oc = ?cs" "oc_rolled_back oc = None"
          "oc_backup oc = backup" "oc_requires_save oc"
          using assms Inr None True by (auto simp: run_change_def Let_def 1 2 outcome_of_def)
        show ?thesis using finish_result [OF f(1)] finish_sends [OF f(1) s2] f
          by (auto simp: outcome_sent_def intro!: exI [of _ "[?cs]"])
      next
        case False
        obtain ok w3 where 3: "run_rollback env kind cx actor w2 = (ok, w3)"
          by (cases "run_rollback env kind cx actor w2")
        have s3: "sends [?cs, cx_rollback cx] w w3"
          using sends_trans [OF s2 sends_rollback [OF 3]] by simp
        obtain st oc where f: "finish_operation env kind iface actor st oc w3 = (r, w')"
          "oc_status oc = (if ok then Op_rolled_back else Op_failed)"
          "oc_commands oc = ?cs @ cx_rollback cx" "oc_rolled_back oc = Some ok"
          "oc_backup oc = backup" "oc_requires_save oc = (\<not> ok)"
          using assms Inr None False by (auto simp: run_change_def Let_def 1 2 3 outcome_of_def)
        show ?thesis using finish_result [OF f(1)] finish_sends [OF f(1) s3] f
          by (auto simp: outcome_sent_def intro!: exI [of _ "[?cs, cx_rollback cx]"])
      qed
    qed
  qed
qed

lemma run_and_audit_answer:
  "run_and_audit env s actor w = (Inr t, w') \<Longrightarrow> \<exists>d d'. dev_run env s d = (Inr t, d')"
  by (auto simp: run_and_audit_def client_run_def Let_def split: sum.splits prod.splits)

lemma precheck_passed:
  assumes "run_precheck env kind operable value actor w = (Passed cx, w')"
  shows "operable = Inr (cx_canonical cx)"
    "needs_value kind \<Longrightarrow> \<exists>v. cx_value cx = Some v \<and> sanitize_description (or_empty value) = Inr v"
    "\<not> needs_value kind \<Longrightarrow> cx_value cx = None"
    "interface_config (cx_running cx) (cx_canonical cx) = Some (cx_config cx)"
    "rollback_commands kind (cx_canonical cx) (cx_config cx) = Some (cx_rollback cx)"
  using assms
  by (auto simp: run_precheck_def precheck_target_def precheck_config_def
      split: sum.splits option.splits prod.splits if_splits)

section \<open>Lemmas: what the switch shows\<close>

text \<open>The running configuration of a precheck is an answer of the switch.\<close>

lemma precheck_target_fails: "precheck_target kind operable value \<noteq> Inl (Passed cx)"
  by (auto simp: precheck_target_def split: sum.splits if_splits)

lemma precheck_answer:
  assumes "run_precheck env kind operable value actor w = (Passed cx, w')"
  shows "\<exists>d d'. dev_run env ''show_running_config'' d = (Inr (cx_running cx), d')"
proof -
  obtain c v i p running w1 where 1: "run_and_audit env ''show_running_config'' actor w1 = (Inr running, w')"
    and cx: "precheck_config kind c v i p running = Passed cx"
    using assms
    by (auto simp: run_precheck_def precheck_target_fails split: sum.splits prod.splits option.splits)
  have "cx_running cx = running" using cx by (auto simp: precheck_config_def split: option.splits)
  then show ?thesis using run_and_audit_answer [OF 1] by simp
qed

text \<open>A switch whose answers to read commands depend on its state alone and do not change it.\<close>

definition reads_only :: "'d env \<Rightarrow> (string \<Rightarrow> 'd \<Rightarrow> string) \<Rightarrow> bool" where
  "reads_only env view \<longleftrightarrow> (\<forall>s d. dev_run env s d = (Inr (view s d), d))"

definition shown_interface :: "(string \<Rightarrow> 'd \<Rightarrow> string) \<Rightarrow> string \<Rightarrow> 'd \<Rightarrow> interface_status option" where
  "shown_interface view c d = find (\<lambda>i. py_lower (ifs_port i) = py_lower (short_gi c))
     (parse_interface_status (view ''show_interfaces_status'' d))"

definition shown_poe :: "operation_kind \<Rightarrow> (string \<Rightarrow> 'd \<Rightarrow> string) \<Rightarrow> string \<Rightarrow> 'd \<Rightarrow> string option" where
  "shown_poe kind view c d = (if is_poe kind then map_option pp_admin
     (find (\<lambda>p. py_lower (pp_interface p) = py_lower (short_gi c)) (pr_ports (parse_poe (view ''show_power_inline'' d))))
     else None)"

definition shown_config :: "(string \<Rightarrow> 'd \<Rightarrow> string) \<Rightarrow> string \<Rightarrow> 'd \<Rightarrow> iface_config option" where
  "shown_config view c d = interface_config (view ''show_running_config'' d) c"

lemma reads_run_and_audit:
  assumes "reads_only env view" "run_and_audit env s actor w = (r, w')"
  shows "w_dev w' = w_dev w" "r = Inr t \<Longrightarrow> t = view s (w_dev w)"
  using assms
  by (auto simp: run_and_audit_def client_run_def reads_only_def store_record_def audit_record_def Let_def
      split: sum.splits prod.splits if_splits)

lemma reads_interface:
  assumes "reads_only env view" "read_interface env c actor w = (r, w')"
  shows "w_dev w' = w_dev w" "r = Inr i \<Longrightarrow> i = shown_interface view c (w_dev w)"
  using assms reads_run_and_audit [OF assms(1)]
  by (auto simp: read_interface_def act_then_def act_return_def shown_interface_def
      split: prod.splits sum.splits)

lemma reads_poe:
  assumes "reads_only env view" "read_poe_if (is_poe kind) env c actor w = (r, w')"
  shows "w_dev w' = w_dev w" "r = Inr p \<Longrightarrow> p = shown_poe kind view c (w_dev w)"
  using assms reads_run_and_audit [OF assms(1)]
  by (auto simp: read_poe_if_def read_poe_state_def act_then_def act_return_def shown_poe_def
      split: prod.splits sum.splits if_splits)

lemma act_then_Inr:
  "act_then m f w = (Inr b, w') \<longleftrightarrow> (\<exists>a w1. m w = (Inr a, w1) \<and> f a w1 = (Inr b, w'))"
  by (auto simp: act_then_def split: prod.splits sum.splits)

lemma act_return_eq [simp]: "act_return a w = (r, w') \<longleftrightarrow> r = Inr a \<and> w' = w"
  by (auto simp: act_return_def)

lemma precheck_shown:
  assumes "reads_only env view" "run_precheck env kind operable value actor w = (Passed cx, w')"
  shows "w_dev w' = w_dev w" "Some (cx_interface cx) = shown_interface view (cx_canonical cx) (w_dev w)"
    "cx_poe cx = shown_poe kind view (cx_canonical cx) (w_dev w)"
    "shown_config view (cx_canonical cx) (w_dev w) = Some (cx_config cx)"
    "cx_running cx = view ''show_running_config'' (w_dev w)"
proof -
  obtain c v i p w1 running where
    1: "act_then (read_interface env c actor) (\<lambda>i.
          act_then (read_poe_if (is_poe kind) env c actor) (\<lambda>p. act_return (i, p))) w = (Inr (Some i, p), w1)"
    and 2: "run_and_audit env ''show_running_config'' actor w1 = (Inr running, w')"
    and cx: "precheck_config kind c v i p running = Passed cx"
    using assms(2)
    by (auto simp: run_precheck_def precheck_target_fails split: sum.splits prod.splits option.splits)
  obtain w0 where 3: "read_interface env c actor w = (Inr (Some i), w0)"
    and 4: "read_poe_if (is_poe kind) env c actor w0 = (Inr p, w1)"
    using 1 by (auto simp: act_then_Inr)
  note d = reads_interface [OF assms(1) 3] reads_poe [OF assms(1) 4] reads_run_and_audit [OF assms(1) 2]
  have "cx_canonical cx = c" "cx_interface cx = i" "cx_poe cx = p" "cx_running cx = running"
    using cx by (auto simp: precheck_config_def split: option.splits)
  then show "w_dev w' = w_dev w" "Some (cx_interface cx) = shown_interface view (cx_canonical cx) (w_dev w)"
    "cx_poe cx = shown_poe kind view (cx_canonical cx) (w_dev w)"
    "shown_config view (cx_canonical cx) (w_dev w) = Some (cx_config cx)"
    "cx_running cx = view ''show_running_config'' (w_dev w)"
    using d precheck_passed(4) [OF assms(2)] by (simp_all add: shown_config_def)
qed

section \<open>Lemmas: the transaction\<close>

lemma backup_grows:
  assumes "run_backup env fresh running actor stages w = (res, w')"
  shows "w_sent w' = w_sent w" "prefix (w_audit w) (w_audit w')"
    "map_of (w_backups w) \<subseteq>\<^sub>m map_of (w_backups w')"
    "res = Inr (st, p) \<Longrightarrow> \<not> fresh \<Longrightarrow>
       \<exists>path. p = Some path \<and> dict_get (w_backups w) path = None \<and>
         dict_get (w_backups w') path = Some running"
proof -
  have quiet_record: "store_record env ev v = (x, v') \<Longrightarrow> quiet v v'" for ev v x v'
    by (rule quiet_actD [OF quiet_store])
  obtain t0 w0 where 0: "client_run env ''terminal_length_0'' w = (t0, w0)"
    by (cases "client_run env ''terminal_length_0'' w")
  have q0: "quiet w w0" by (rule quiet_actD [OF quiet_client_run 0])
  show "w_sent w' = w_sent w" "prefix (w_audit w) (w_audit w')"
    "map_of (w_backups w) \<subseteq>\<^sub>m map_of (w_backups w')"
    "res = Inr (st, p) \<Longrightarrow> \<not> fresh \<Longrightarrow>
       \<exists>path. p = Some path \<and> dict_get (w_backups w) path = None \<and>
         dict_get (w_backups w') path = Some running"
    using assms q0
    by (auto simp: run_backup_def backup_running_config_def 0 act_then_def act_return_def Let_def
        write_backup_def quiet_def map_le_def
        split: if_splits prod.splits sum.splits dest!: quiet_record)
qed

text \<open>A transaction past its precheck whose intent is not met yet.\<close>

lemma run_authorized_change:
  assumes "run_precheck env kind operable value actor w = (Passed cx, w1)"
    "\<not> fst (postcondition_met kind (Some (cx_interface cx)) (cx_poe cx) (cx_value cx) (Some (cx_config cx)))"
  obtains st1 where "run_authorized env kind operable iface value actor fresh w =
    (case run_backup env fresh (cx_running cx) actor st1 w1 of
       (Inl st2, w2) \<Rightarrow> finish_operation env kind iface actor st2
         ((outcome_of Op_blocked ''The change was not attempted because the configuration backup failed.'')
           \<lparr>oc_before := Some (state_text (cx_interface cx) (cx_poe cx))\<rparr>) w2
     | (Inr (st2, backup), w2) \<Rightarrow> run_change env kind iface actor cx backup st2 w2)"
proof -
  obtain detail where "postcondition_met kind (Some (cx_interface cx)) (cx_poe cx) (cx_value cx)
      (Some (cx_config cx)) = (False, detail)"
    using assms(2) by (cases "postcondition_met kind (Some (cx_interface cx)) (cx_poe cx) (cx_value cx)
      (Some (cx_config cx))") auto
  then show thesis using assms(1) that by (simp add: run_authorized_def Let_def)
qed

text \<open>What holds of the sequences of an authorised change: they are the change and perhaps its
  rollback, computed from a running configuration that the switch answered with and whose text was
  backed up under a new name first.\<close>

definition value_ok :: "operation_kind \<Rightarrow> string option \<Rightarrow> string option \<Rightarrow> bool" where
  "value_ok kind value v \<longleftrightarrow>
     (if needs_value kind then \<exists>d. v = Some d \<and> sanitize_description (or_empty value) = Inr d else v = None)"

definition backed_change ::
  "'d env \<Rightarrow> operation_kind \<Rightarrow> string \<Rightarrow> string option \<Rightarrow> bool \<Rightarrow> 'd world \<Rightarrow> 'd world \<Rightarrow> operation_result
     \<Rightarrow> string list list \<Rightarrow> bool"
where
  "backed_change env kind c value fresh w w' x xs \<longleftrightarrow>
     (\<exists>v config rollback running. value_ok kind value v \<and>
       (\<exists>d d'. dev_run env ''show_running_config'' d = (Inr running, d')) \<and>
       (\<forall>view. reads_only env view \<longrightarrow> running = view ''show_running_config'' (w_dev w)) \<and>
       interface_config running c = Some config \<and> rollback_commands kind c config = Some rollback \<and>
       set xs \<subseteq> {forward_commands kind c v, rollback} \<and>
       (\<not> fresh \<longrightarrow> (\<exists>path. or_backup_path x = Some path \<and> dict_get (w_backups w) path = None \<and>
           dict_get (w_backups w') path = Some running)))"

lemma run_authorized_result:
  assumes "run_authorized env kind operable iface value actor fresh w = (Inr x, w')"
  obtains xs where "w_sent w' = w_sent w @ xs" "outcome_sent x xs" "prefix (w_audit w) (w_audit w')"
    "map_of (w_backups w) \<subseteq>\<^sub>m map_of (w_backups w')" "or_interface x = iface" "or_kind x = kind"
    "xs \<noteq> [] \<Longrightarrow> \<exists>c. operable = Inr c \<and> backed_change env kind c value fresh w w' x xs"
proof -
  note fin = finish_result finish_sends quiet_actD [OF quiet_finish]
  obtain p w1 where 1: "run_precheck env kind operable value actor w = (p, w1)"
    by (cases "run_precheck env kind operable value actor w")
  have q1: "quiet w w1" by (rule quiet_precheck [OF 1])
  show thesis
  proof (cases p)
    case (Refused stage detail)
    then obtain st oc where f: "finish_operation env kind iface actor st oc w1 = (Inr x, w')"
      "oc = outcome_of Op_blocked detail"
      using assms 1 by (auto simp: run_authorized_def Let_def)
    show thesis
      by (rule that [of "[]"])
        (use fin(1) [OF f(1)] quiet_trans [OF q1 fin(3) [OF f(1)]] f(2)
          in \<open>auto simp: quiet_def outcome_sent_def outcome_of_def\<close>)
  next
    case (Raised e)
    then show thesis using assms 1 by (simp add: run_authorized_def Let_def)
  next
    case (Passed cx)
    note pc = precheck_passed [OF 1 [unfolded Passed]]
    let ?post = "postcondition_met kind (Some (cx_interface cx)) (cx_poe cx) (cx_value cx) (Some (cx_config cx))"
    obtain met detail where met: "?post = (met, detail)" by (cases ?post)
    show thesis
    proof (cases met)
      case True
      then obtain st oc where f: "finish_operation env kind iface actor st oc w1 = (Inr x, w')"
        "oc_status oc = Op_success" "oc_commands oc = []" "oc_rolled_back oc = None" "\<not> oc_requires_save oc"
        using assms 1 Passed met by (auto simp: run_authorized_def Let_def outcome_of_def)
      show thesis
        by (rule that [of "[]"])
          (use fin(1) [OF f(1)] quiet_trans [OF q1 fin(3) [OF f(1)]] f(2-)
            in \<open>auto simp: quiet_def outcome_sent_def\<close>)
    next
      case False
      then have nm: "\<not> fst ?post" using met by simp
      obtain st1 where st1: "run_authorized env kind operable iface value actor fresh w =
          (case run_backup env fresh (cx_running cx) actor st1 w1 of
             (Inl st2, w2) \<Rightarrow> finish_operation env kind iface actor st2
               ((outcome_of Op_blocked ''The change was not attempted because the configuration backup failed.'')
                 \<lparr>oc_before := Some (state_text (cx_interface cx) (cx_poe cx))\<rparr>) w2
           | (Inr (st2, backup), w2) \<Rightarrow> run_change env kind iface actor cx backup st2 w2)"
        by (rule run_authorized_change [OF 1 [unfolded Passed] nm])
      obtain res w2 where 2: "run_backup env fresh (cx_running cx) actor st1 w1 = (res, w2)"
        by (cases "run_backup env fresh (cx_running cx) actor st1 w1")
      note b = backup_grows [OF 2]
      show thesis
      proof (cases res)
        case (Inl st2)
        then obtain oc where f: "finish_operation env kind iface actor st2 oc w2 = (Inr x, w')"
          "oc_status oc = Op_blocked" "oc_commands oc = []" "oc_rolled_back oc = None" "\<not> oc_requires_save oc"
          using assms st1 2 by (auto simp: outcome_of_def)
        show thesis
          by (rule that [of "[]"])
            (use fin(1) [OF f(1)] q1 fin(3) [OF f(1)] b(1-3) f(2-)
              in \<open>auto simp: quiet_def outcome_sent_def intro: prefix_order.trans\<close>)
      next
        case (Inr sb)
        obtain st2 backup where sb: "sb = (st2, backup)" by (cases sb)
        have ch: "run_change env kind iface actor cx backup st2 w2 = (Inr x, w')"
          using assms st1 2 Inr sb by simp
        obtain xs where xs: "sends xs w2 w'" "outcome_sent x xs" "or_backup_path x = backup"
          "or_interface x = iface" "or_kind x = kind"
          "set xs \<subseteq> {forward_commands kind (cx_canonical cx) (cx_value cx), cx_rollback cx}"
          using run_change_result [OF ch] by auto
        show thesis
        proof (rule that [of xs])
          show "w_sent w' = w_sent w @ xs" "prefix (w_audit w) (w_audit w')"
            "map_of (w_backups w) \<subseteq>\<^sub>m map_of (w_backups w')"
            using xs(1) b(1-3) q1 by (auto simp: sends_def quiet_def intro: prefix_order.trans)
          show "\<exists>c. operable = Inr c \<and> backed_change env kind c value fresh w w' x xs"
          proof -
            have "\<exists>path. or_backup_path x = Some path \<and> dict_get (w_backups w) path = None \<and>
               dict_get (w_backups w') path = Some (cx_running cx)" if "\<not> fresh"
              using b(4) [of st2 backup] Inr sb xs(1,3) q1 that by (auto simp: sends_def quiet_def)
            moreover have "value_ok kind value (cx_value cx)" using pc(2,3) by (auto simp: value_ok_def)
            moreover have "\<exists>d d'. dev_run env ''show_running_config'' d = (Inr (cx_running cx), d')"
              by (rule precheck_answer [OF 1 [unfolded Passed]])
            moreover have "\<forall>view. reads_only env view \<longrightarrow> cx_running cx = view ''show_running_config'' (w_dev w)"
              using precheck_shown(5) [OF _ 1 [unfolded Passed]] by blast
            ultimately have "backed_change env kind (cx_canonical cx) value fresh w w' x xs"
              using pc(4,5) xs(6) unfolding backed_change_def by blast
            then show ?thesis using pc(1) by blast
          qed
        qed (use xs in auto)
      qed
    qed
  qed
qed

section \<open>A simulated switch\<close>

text \<open>One port, \<open>Gi0/3\<close>: whether it is shut down, and its description. Its reads have no effect.\<close>

record demo_switch =
  ds_shutdown :: bool
  ds_description :: string

definition demo_view :: "string \<Rightarrow> demo_switch \<Rightarrow> string" where
  "demo_view symbol d =
     (if symbol = ''show_interfaces_status''
      then py_join [newline] [''Port Name Status Vlan Duplex Speed Type'',
             ''Gi0/3 '' @ ds_description d @ (if ds_shutdown d then '' disabled'' else '' connected'') @ '' 1 full 100 T'']
      else if symbol = ''show_running_config''
      then py_join [newline] ([''interface GigabitEthernet0/3'', '' description '' @ ds_description d] @
             (if ds_shutdown d then ['' shutdown''] else []) @ [''!''])
      else [])"

definition demo_raw :: "string list \<Rightarrow> demo_switch \<Rightarrow> string result \<times> demo_switch" where
  "demo_raw commands d =
     (case commands of
        [_, _, line, _] \<Rightarrow>
          (Inr [], if line = ''shutdown'' then d\<lparr>ds_shutdown := True\<rparr>
                   else if line = ''no shutdown'' then d\<lparr>ds_shutdown := False\<rparr>
                   else if py_startswith line ''description '' then d\<lparr>ds_description := drop 12 line\<rparr> else d)
      | _ \<Rightarrow> (Inr [], d))"

definition demo_env :: "demo_switch env" where
  "demo_env = \<lparr>dev_run = (\<lambda>s d. (Inr (demo_view s d), d)), dev_raw = demo_raw, audit_up = (\<lambda>_. True),
     disk_up = (\<lambda>_. True), env_secrets = [], env_now = 7, env_op_id = ''1'', env_stamp = ''t'',
     env_backup_dir = ''b''\<rparr>"

definition demo_world :: "demo_switch world" where
  "demo_world = \<lparr>w_dev = \<lparr>ds_shutdown = False, ds_description = ''lab''\<rparr>, w_audit = [], w_backups = [], w_sent = []\<rparr>"

definition demo_policy :: policy_file where
  "demo_policy = write_unlocked \<lparr>pd_writes = True,
     pd_devices = [(demo_digest ''10.0.0.1'', [(''GigabitEthernet0/3'', OPERABLE)])]\<rparr>"

definition demo_lock :: write_lock where
  "demo_lock = snd (lock_unlock demo_policy 5 initial_lock)"

definition demo_run :: "operation_kind \<Rightarrow> string option \<Rightarrow> operation_result result \<times> demo_switch world" where
  "demo_run kind value =
     run_operation demo_env demo_digest demo_policy (Some ''10.0.0.1'') demo_lock kind ''gi0/3'' value ''op'' False demo_world"

section \<open>Lemmas: the lines that are sent\<close>

definition one_interface_change :: "string \<Rightarrow> string list \<Rightarrow> bool" where
  "one_interface_change c cmds \<longleftrightarrow>
     (\<exists>line. cmds = [''configure terminal'', ''interface '' @ c, line, ''end''] \<and> list_all line_char line)"

definition change_line :: "operation_kind \<Rightarrow> string option \<Rightarrow> string" where
  "change_line kind v =
     (case kind of Admin_up \<Rightarrow> ''no shutdown'' | Admin_down \<Rightarrow> ''shutdown''
      | Poe_auto \<Rightarrow> ''power inline auto'' | Poe_never \<Rightarrow> ''power inline never''
      | Set_description \<Rightarrow> ''description '' @ or_empty v)"

lemma render_interface:
  assumes "list_all name_char c"
  shows "render_line c v ''interface {iface}'' = ''interface '' @ c"
proof -
  have "py_replace ''interface {iface}'' ''{iface}'' c = ''interface '' @ c"
    by (simp add: py_replace_def)
  moreover have "\<not> py_contains ''{value}'' (''interface '' @ c)"
  proof
    assume "py_contains ''{value}'' (''interface '' @ c)"
    from py_contains_set [OF this] have "CHR ''{'' \<in> set c" by auto
    then have "name_char (CHR ''{'')" using assms by (auto simp: list_all_iff)
    then show False by (simp add: name_char_def is_ascii_letter_def is_decimal_char_def cp_def)
  qed
  ultimately show ?thesis by (simp add: render_line_def)
qed

lemma forward_commands_shape:
  assumes "list_all name_char c"
  shows "forward_commands kind c v = [''configure terminal'', ''interface '' @ c, change_line kind v, ''end'']"
proof -
  have "render_line c v l = l" if "l \<in> {''no shutdown'', ''shutdown'', ''power inline auto'', ''power inline never''}" for l
    using that by (auto simp: render_line_def py_replace_def)
  moreover have "render_line c v ''description {value}'' = ''description '' @ or_empty v"
    by (simp add: render_line_def py_replace_def)
  ultimately show ?thesis
    by (cases kind) (simp_all add: forward_commands_def config_lines_def change_line_def render_interface [OF assms])
qed

lemma line_chars: "list_all line_char ''no shutdown''" "list_all line_char ''shutdown''"
    "list_all line_char ''power inline auto''" "list_all line_char ''power inline never''"
    "list_all line_char ''description ''" "list_all line_char ''no description''"
  by (simp_all add: line_char_def cp_def)

lemma sanitized_line: "sanitize_description v = Inr d \<Longrightarrow> list_all line_char d"
  using description_ok_line by (auto simp: sanitize_Inr_iff list_all_iff)

lemma forward_confined:
  assumes "is_phys_name c" "value_ok kind value v"
  shows "one_interface_change c (forward_commands kind c v)"
proof -
  have "list_all name_char c" using assms(1) name_chars by blast
  moreover have "list_all line_char (change_line kind v)"
    using assms(2) line_chars sanitized_line
    by (cases kind) (auto simp: change_line_def or_empty_def needs_value_def value_ok_def)
  ultimately show ?thesis by (simp add: one_interface_change_def forward_commands_shape)
qed

lemma rollback_confined:
  assumes "rollback_commands kind c config = Some cmds"
  shows "one_interface_change c cmds"
proof -
  obtain line where "rollback_restore kind config = Some line"
    "cmds = [''configure terminal'', ''interface '' @ c, line, ''end'']"
    using assms by (auto simp: rollback_commands_def)
  moreover from this(1) have "list_all line_char line"
    using line_chars sanitized_line
    by (auto simp: rollback_restore_def split: if_splits sum.splits)
  ultimately show ?thesis by (simp add: one_interface_change_def)
qed

lemma run_operation_cases:
  assumes "run_operation env H f host lock kind iface value actor fresh w = (r, w')"
  obtains (refused) e where "r = Inl e" "w' = w"
  | (allowed) c where "lock_guard f lock = Inr ()" "policy_guard H f host iface = Inr c"
      "run_authorized env kind (Inr c) iface value actor fresh w = (r, w')"
proof (cases "lock_guard f lock")
  case (Inl e)
  then have "r = Inl e" "w' = w" using assms by (simp_all add: run_operation_def)
  then show thesis by (rule that(1))
next
  case (Inr u)
  show thesis
  proof (cases "policy_guard H f host iface")
    case (Inl e)
    then have "r = Inl e" "w' = w"
      using assms \<open>lock_guard f lock = Inr u\<close> by (simp_all add: run_operation_def)
    then show thesis by (rule that(1))
  next
    case 2: (Inr c)
    then have "assert_operable H f host iface = Inr c" by (simp add: policy_guard_Inr)
    then have "run_authorized env kind (Inr c) iface value actor fresh w = (r, w')"
      using assms Inr 2 by (simp add: run_operation_def)
    then show thesis using that(2) [of c] Inr 2 by simp
  qed
qed

lemma run_authorized_returns: "\<exists>x. fst (run_authorized env kind (Inr c) iface value actor fresh w) = Inr x"
proof -
  obtain p w1 where 1: "run_precheck env kind (Inr c) value actor w = (p, w1)"
    by (cases "run_precheck env kind (Inr c) value actor w")
  have "p \<noteq> Raised e" for e
    using 1 by (auto simp: run_precheck_def precheck_target_def precheck_config_def sanitize_description_def Let_def
        split: sum.splits option.splits prod.splits if_splits)
  moreover have "\<exists>x. fst (finish_operation env kind iface actor st oc v) = Inr x" for st oc v
    by (simp add: finish_operation_def Let_def split: prod.split)
  moreover have "\<exists>x. fst (run_change env kind iface actor cx b st v) = Inr x" for cx b st v
    using run_change_result by (metis prod.collapse)
  ultimately show ?thesis
    using 1 by (cases p) (auto simp: run_authorized_def Let_def split: prod.splits sum.splits)
qed

section \<open>Lemmas: what the switch shows after an operation\<close>

definition intent_shown ::
  "(string \<Rightarrow> 'd \<Rightarrow> string) \<Rightarrow> operation_kind \<Rightarrow> string \<Rightarrow> string option \<Rightarrow> 'd \<Rightarrow> bool"
where
  "intent_shown view kind c v d =
     fst (postcondition_met kind (shown_interface view c d) (shown_poe kind view c d) v
       (if kind = Set_description then shown_config view c d else None))"

lemma verify_shown:
  assumes "reads_only env view" "run_verify env kind cx actor w = ((True, detail, after), w')"
  shows "w_dev w' = w_dev w \<and> intent_shown view kind (cx_canonical cx) (cx_value cx) (w_dev w')"
proof -
  let ?c = "cx_canonical cx"
  obtain i p c where r: "act_then (read_interface env ?c actor) (\<lambda>i.
             act_then (read_poe_if (is_poe kind) env ?c actor) (\<lambda>p.
             act_then (if kind = Set_description
                       then act_then (run_and_audit env ''show_running_config'' actor) (\<lambda>t.
                              act_return (interface_config t ?c))
                       else act_return None) (\<lambda>c. act_return (i, p, c)))) w = (Inr (i, p, c), w')"
    and post: "fst (postcondition_met kind i p (cx_value cx) c)"
    using assms(2) unfolding run_verify_def by (auto split: prod.splits sum.splits)
  from r obtain w1 w2 where 1: "read_interface env ?c actor w = (Inr i, w1)"
    and 2: "read_poe_if (is_poe kind) env ?c actor w1 = (Inr p, w2)"
    and 3: "(if kind = Set_description
             then act_then (run_and_audit env ''show_running_config'' actor) (\<lambda>t.
                    act_return (interface_config t ?c)) else act_return None) w2 = (Inr c, w')"
    by (auto simp: act_then_Inr)
  have d: "w_dev w1 = w_dev w" "w_dev w2 = w_dev w1"
    "i = shown_interface view ?c (w_dev w)" "p = shown_poe kind view ?c (w_dev w1)"
    using reads_interface [OF assms(1) 1] reads_poe [OF assms(1) 2] by simp_all
  have "w_dev w' = w_dev w2 \<and> c = (if kind = Set_description then shown_config view ?c (w_dev w2) else None)"
  proof (cases "kind = Set_description")
    case True
    then obtain t where "run_and_audit env ''show_running_config'' actor w2 = (Inr t, w')" "c = interface_config t ?c"
      using 3 by (auto simp: act_then_Inr)
    then show ?thesis using reads_run_and_audit [OF assms(1)] True by (simp add: shown_config_def)
  qed (use 3 in simp)
  then show ?thesis using d post by (cases "kind = Set_description") (simp_all add: intent_shown_def)
qed

lemma rollback_shown:
  assumes "reads_only env view" "run_rollback env kind cx actor w = (True, w')"
  shows "rollback_verified kind (cx_config cx) (shown_interface view (cx_canonical cx) (w_dev w'))
       (shown_poe kind view (cx_canonical cx) (w_dev w')) (shown_config view (cx_canonical cx) (w_dev w'))"
proof -
  let ?c = "cx_canonical cx"
  obtain out w1 i w2 p w3 t where "client_raw env (cx_rollback cx) w = (Inr out, w1)"
    and 1: "read_interface env ?c actor w1 = (Inr i, w2)"
    and 2: "read_poe_if (is_poe kind) env ?c actor w2 = (Inr p, w3)"
    and 3: "run_and_audit env ''show_running_config'' actor w3 = (Inr t, w')"
    and v: "rollback_verified kind (cx_config cx) i p (interface_config t ?c)"
    using assms(2) by (auto simp: run_rollback_def act_then_Inr split: prod.splits sum.splits)
  show ?thesis
    using v reads_interface [OF assms(1) 1] reads_poe [OF assms(1) 2] reads_run_and_audit [OF assms(1) 3]
    by (simp add: shown_config_def)
qed

lemma finish_dev:
  "finish_operation env kind iface actor st oc w = (r, w') \<Longrightarrow> w_dev w' = w_dev w"
  by (auto simp: finish_operation_def store_record_def Let_def split: prod.splits)

lemma backup_shown:
  assumes "reads_only env view" "run_backup env fresh running actor stages w = (res, w')"
  shows "w_dev w' = w_dev w"
  using assms
  by (auto simp: run_backup_def backup_running_config_def act_then_def act_return_def Let_def
      write_backup_def client_run_def reads_only_def store_record_def
      split: if_splits prod.splits sum.splits)

definition restored_shown ::
  "(string \<Rightarrow> 'd \<Rightarrow> string) \<Rightarrow> operation_kind \<Rightarrow> string \<Rightarrow> 'd \<Rightarrow> 'd \<Rightarrow> bool"
where
  "restored_shown view kind c d d' =
     (\<exists>prior. shown_config view c d = Some prior \<and>
        rollback_verified kind prior (shown_interface view c d') (shown_poe kind view c d') (shown_config view c d'))"

lemma postcondition_config_irrelevant:
  "kind \<noteq> Set_description \<Longrightarrow> postcondition_met kind i p v c = postcondition_met kind i p v None"
  by (cases kind) (auto simp: postcondition_met_def is_poe_def Let_def split: option.split)

lemma run_change_shown:
  assumes "reads_only env view" "run_change env kind iface actor cx backup stages w = (Inr x, w')"
  shows "or_status x = Op_success \<Longrightarrow> intent_shown view kind (cx_canonical cx) (cx_value cx) (w_dev w')"
    and "or_status x = Op_rolled_back \<Longrightarrow>
      rollback_verified kind (cx_config cx) (shown_interface view (cx_canonical cx) (w_dev w'))
       (shown_poe kind view (cx_canonical cx) (w_dev w')) (shown_config view (cx_canonical cx) (w_dev w'))"
proof -
  let ?cs = "forward_commands kind (cx_canonical cx) (cx_value cx)"
  obtain out w1 where 1: "client_raw env ?cs w = (out, w1)" by (cases "client_raw env ?cs w")
  obtain met detail after w2 where 2: "run_verify env kind cx actor w1 = ((met, detail, after), w2)"
    by (cases "run_verify env kind cx actor w1") auto
  obtain ok w3 where 3: "run_rollback env kind cx actor w2 = (ok, w3)"
    by (cases "run_rollback env kind cx actor w2")
  have fin: "\<lbrakk>finish_operation env kind iface actor st oc v = (Inr x, w'); oc_status oc = s\<rbrakk>
      \<Longrightarrow> or_status x = s \<and> w_dev w' = w_dev v" for st oc v s
    using finish_result finish_dev by fastforce
  show "intent_shown view kind (cx_canonical cx) (cx_value cx) (w_dev w')" if "or_status x = Op_success"
  proof -
    have "met \<and> w_dev w' = w_dev w2"
      using assms(2) that
      by (auto simp: run_change_def Let_def 1 2 3 outcome_of_def dest!: fin split: sum.splits option.splits if_splits)
    then show ?thesis
      using verify_shown [OF assms(1), of kind cx actor w1 detail after w2] 2 by auto
  qed
  show "rollback_verified kind (cx_config cx) (shown_interface view (cx_canonical cx) (w_dev w'))
       (shown_poe kind view (cx_canonical cx) (w_dev w')) (shown_config view (cx_canonical cx) (w_dev w'))"
    if "or_status x = Op_rolled_back"
  proof -
    have "ok \<and> w_dev w' = w_dev w3"
      using assms(2) that
      by (auto simp: run_change_def Let_def 1 2 3 outcome_of_def dest!: fin split: sum.splits option.splits if_splits)
    then show ?thesis using rollback_shown [OF assms(1)] 3 by auto
  qed
qed

lemma run_authorized_shown:
  assumes "reads_only env view" "run_authorized env kind (Inr c) iface value actor fresh w = (Inr x, w')"
  shows "or_status x = Op_success \<Longrightarrow>
      \<exists>v. value_ok kind value v \<and> intent_shown view kind c v (w_dev w')"
    and "or_status x = Op_rolled_back \<Longrightarrow> restored_shown view kind c (w_dev w) (w_dev w')"
proof -
  obtain p w1 where 1: "run_precheck env kind (Inr c) value actor w = (p, w1)"
    by (cases "run_precheck env kind (Inr c) value actor w")
  have fin: "\<lbrakk>finish_operation env kind iface actor st oc v = (Inr x, w'); oc_status oc = s\<rbrakk>
      \<Longrightarrow> or_status x = s \<and> w_dev w' = w_dev v" for st oc v s
    using finish_result finish_dev by fastforce
  have "(or_status x = Op_success \<longrightarrow>
      (\<exists>v. value_ok kind value v \<and> intent_shown view kind c v (w_dev w'))) \<and>
     (or_status x = Op_rolled_back \<longrightarrow> restored_shown view kind c (w_dev w) (w_dev w'))"
  proof (cases p)
    case (Refused stage detail)
    then obtain st oc where f: "finish_operation env kind iface actor st oc w1 = (Inr x, w')"
      "oc_status oc = Op_blocked"
      using assms(2) 1 by (auto simp: run_authorized_def Let_def outcome_of_def)
    from fin [OF f] show ?thesis by simp
  next
    case (Raised e)
    then show ?thesis using assms(2) 1 by (simp add: run_authorized_def Let_def)
  next
    case (Passed cx)
    note pc = precheck_passed [OF 1 [unfolded Passed]]
    note sh = precheck_shown [OF assms(1) 1 [unfolded Passed]]
    have c: "cx_canonical cx = c" using pc(1) by simp
    let ?post = "postcondition_met kind (Some (cx_interface cx)) (cx_poe cx) (cx_value cx) (Some (cx_config cx))"
    obtain met detail where met: "?post = (met, detail)" by (cases ?post)
    show ?thesis
    proof (cases met)
      case True
      then obtain st oc where f: "finish_operation env kind iface actor st oc w1 = (Inr x, w')"
        "oc_status oc = Op_success"
        using assms(2) 1 Passed met by (auto simp: run_authorized_def Let_def outcome_of_def)
      have x: "or_status x = Op_success \<and> w_dev w' = w_dev w1" by (rule fin [OF f])
      have "intent_shown view kind c (cx_value cx) (w_dev w1)"
      proof (cases "kind = Set_description")
        case desc: True
        then show ?thesis using met True by (simp add: intent_shown_def c sh(1,3,4) [unfolded c] flip: sh(2) [unfolded c])
      next
        case False
        then show ?thesis
          using met True postcondition_config_irrelevant [of kind _ _ _ "Some (cx_config cx)"]
          by (simp add: intent_shown_def c sh(1,3) [unfolded c] flip: sh(2) [unfolded c])
      qed
      then show ?thesis using x pc(2,3) by (auto simp: value_ok_def)
    next
      case False
      then have nm: "\<not> fst ?post" using met by simp
      obtain st1 where st1: "run_authorized env kind (Inr c) iface value actor fresh w =
          (case run_backup env fresh (cx_running cx) actor st1 w1 of
             (Inl st2, w2) \<Rightarrow> finish_operation env kind iface actor st2
               ((outcome_of Op_blocked ''The change was not attempted because the configuration backup failed.'')
                 \<lparr>oc_before := Some (state_text (cx_interface cx) (cx_poe cx))\<rparr>) w2
           | (Inr (st2, backup), w2) \<Rightarrow> run_change env kind iface actor cx backup st2 w2)"
        by (rule run_authorized_change [OF 1 [unfolded Passed] nm])
      obtain res w2 where 2: "run_backup env fresh (cx_running cx) actor st1 w1 = (res, w2)"
        by (cases "run_backup env fresh (cx_running cx) actor st1 w1")
      have d: "w_dev w2 = w_dev w" using backup_shown [OF assms(1) 2] sh(1) by simp
      show ?thesis
      proof (cases res)
        case (Inl st2)
        then have "or_status x = Op_blocked"
          using assms(2) st1 2 by (auto simp: outcome_of_def dest!: fin)
        then show ?thesis by simp
      next
        case (Inr sb)
        then obtain st2 backup where "run_change env kind iface actor cx backup st2 w2 = (Inr x, w')"
          using assms(2) st1 2 by (cases sb) auto
        note ch = run_change_shown [OF assms(1) this]
        show ?thesis using ch pc(2,3) c sh(4) d by (auto simp: restored_shown_def value_ok_def)
      qed
    qed
  qed
  then show "or_status x = Op_success \<Longrightarrow>
      \<exists>v. value_ok kind value v \<and> intent_shown view kind c v (w_dev w')"
    and "or_status x = Op_rolled_back \<Longrightarrow> restored_shown view kind c (w_dev w) (w_dev w')" by blast+
qed

section \<open>The operation on a well-behaved switch\<close>

text \<open>
  The abstract operation: what its status and the switch's state are when reads have no effect and
  the storage and the disk accept what is written. It says nothing of stages, trail or backups.
\<close>

definition spec_change ::
  "(string \<Rightarrow> 'd \<Rightarrow> string) \<Rightarrow> (string list \<Rightarrow> 'd \<Rightarrow> string result \<times> 'd) \<Rightarrow> operation_kind \<Rightarrow> string
     \<Rightarrow> string option \<Rightarrow> iface_config \<Rightarrow> string list \<Rightarrow> 'd \<Rightarrow> operation_status \<times> 'd"
where
  "spec_change view raw kind c v prior rollback d =
     (case raw (forward_commands kind c v) d of
        (Inl _, d1) \<Rightarrow> (Op_failed, d1)
      | (Inr answer, d1) \<Rightarrow>
          if classify_ios_response answer \<noteq> None then (Op_failed, d1)
          else if intent_shown view kind c v d1 then (Op_success, d1)
          else
            (case raw rollback d1 of
               (Inl _, d2) \<Rightarrow> (Op_failed, d2)
             | (Inr answer2, d2) \<Rightarrow>
                 (if classify_ios_response answer2 = None \<and>
                     rollback_verified kind prior (shown_interface view c d2) (shown_poe kind view c d2)
                       (shown_config view c d2)
                  then Op_rolled_back else Op_failed, d2)))"

definition spec_value :: "operation_kind \<Rightarrow> string option \<Rightarrow> string option result" where
  "spec_value kind value =
     (if needs_value kind then map_sum id Some (sanitize_description (or_empty value)) else Inr None)"

definition spec_operation ::
  "(string \<Rightarrow> 'd \<Rightarrow> string) \<Rightarrow> (string list \<Rightarrow> 'd \<Rightarrow> string result \<times> 'd) \<Rightarrow> operation_kind \<Rightarrow> string
     \<Rightarrow> string option \<Rightarrow> 'd \<Rightarrow> operation_status \<times> 'd"
where
  "spec_operation view raw kind c value d =
     (case spec_value kind value of
        Inl _ \<Rightarrow> (Op_blocked, d)
      | Inr v \<Rightarrow>
          (case (shown_interface view c d, shown_config view c d) of
             (Some _, Some prior) \<Rightarrow>
               (case rollback_commands kind c prior of
                  None \<Rightarrow> (Op_blocked, d)
                | Some rollback \<Rightarrow>
                    if intent_shown view kind c v d then (Op_success, d)
                    else spec_change view raw kind c v prior rollback d)
           | _ \<Rightarrow> (Op_blocked, d)))"

definition well_behaved :: "'d env \<Rightarrow> (string \<Rightarrow> 'd \<Rightarrow> string) \<Rightarrow> bool" where
  "well_behaved env view \<longleftrightarrow> reads_only env view \<and> (\<forall>ev. audit_up env ev) \<and> (\<forall>p. disk_up env p)"

definition backup_path :: "'d env \<Rightarrow> string" where
  "backup_path env = env_backup_dir env @ ''/'' @ safe_hostname ''SWITCHOPS-TEST-SW1'' @
     ''-running-config-'' @ env_stamp env @ ''.txt''"

text \<open>An action that returns this value and leaves the switch and the backups alone.\<close>

definition yields :: "('d, 'a) act \<Rightarrow> 'd world \<Rightarrow> 'a \<Rightarrow> 'd world \<Rightarrow> bool" where
  "yields m w a w' \<longleftrightarrow> m w = (Inr a, w') \<and> w_dev w' = w_dev w \<and> w_backups w' = w_backups w"

lemma yields_return: "yields (act_return a) w a w"
  by (simp add: yields_def)

lemma yields_then: "yields m w a w1 \<Longrightarrow> yields (f a) w1 b w2 \<Longrightarrow> yields (act_then m f) w b w2"
  by (auto simp: yields_def act_then_def)

lemma read_symbols:
  "\<exists>c. resolve_read_command ''show_interfaces_status'' = Inr c"
  "\<exists>c. resolve_read_command ''show_power_inline'' = Inr c"
  "\<exists>c. resolve_read_command ''show_running_config'' = Inr c"
  by (simp_all add: resolve_read_command_def read_only_commands_def)

lemma yields_run:
  assumes "well_behaved env view" "\<exists>c. resolve_read_command s = Inr c"
  shows "\<exists>w'. yields (run_and_audit env s actor) w (view s (w_dev w)) w'"
  using assms
  by (auto simp: yields_def run_and_audit_def client_run_def well_behaved_def reads_only_def
      store_record_def audit_record_def Let_def)

lemma yields_interface:
  assumes "well_behaved env view"
  shows "\<exists>w'. yields (read_interface env c actor) w (shown_interface view c (w_dev w)) w'"
  using yields_run [OF assms read_symbols(1), of actor w]
  by (auto simp: read_interface_def shown_interface_def intro: yields_then yields_return)

lemma yields_poe:
  assumes "well_behaved env view"
  shows "\<exists>w'. yields (read_poe_if (is_poe kind) env c actor) w (shown_poe kind view c (w_dev w)) w'"
  using yields_run [OF assms read_symbols(2), of actor w]
  by (auto simp: read_poe_if_def read_poe_state_def shown_poe_def intro: yields_then yields_return)

lemma yields_config:
  assumes "well_behaved env view"
  shows "\<exists>w'. yields (run_and_audit env ''show_running_config'' actor) w (view ''show_running_config'' (w_dev w)) w'"
  by (rule yields_run [OF assms read_symbols(3)])

lemma verify_behaved:
  assumes "well_behaved env view"
  shows "\<exists>detail after w'. run_verify env kind cx actor w =
    ((intent_shown view kind (cx_canonical cx) (cx_value cx) (w_dev w), detail, after), w') \<and> w_dev w' = w_dev w"
proof -
  let ?c = "cx_canonical cx" and ?d = "w_dev w"
  let ?conf = "if kind = Set_description
     then act_then (run_and_audit env ''show_running_config'' actor) (\<lambda>t. act_return (interface_config t ?c))
     else act_return None"
  obtain w1 where 1: "yields (read_interface env ?c actor) w (shown_interface view ?c ?d) w1"
    using yields_interface [OF assms] by blast
  obtain w2 where 2: "yields (read_poe_if (is_poe kind) env ?c actor) w1 (shown_poe kind view ?c ?d) w2"
    using yields_poe [OF assms, of kind ?c actor w1] 1 by (auto simp: yields_def)
  have d2: "w_dev w2 = ?d" using 1 2 by (simp add: yields_def)
  obtain w3 where "yields (run_and_audit env ''show_running_config'' actor) w2 (view ''show_running_config'' ?d) w3"
    using yields_config [OF assms, of actor w2] d2 by auto
  then have 3: "\<exists>w3. yields ?conf w2 (if kind = Set_description then shown_config view ?c ?d else None) w3"
    by (auto simp: shown_config_def intro: yields_then yields_return)
  then obtain w4 where 4: "yields ?conf w2 (if kind = Set_description then shown_config view ?c ?d else None) w4" ..
  have "yields (act_then (read_interface env ?c actor) (\<lambda>i. act_then (read_poe_if (is_poe kind) env ?c actor)
      (\<lambda>p. act_then ?conf (\<lambda>c. act_return (i, p, c))))) w
      (shown_interface view ?c ?d, shown_poe kind view ?c ?d,
       if kind = Set_description then shown_config view ?c ?d else None) w4"
    by (rule yields_then [OF 1], rule yields_then [OF 2], rule yields_then [OF 4], rule yields_return)
  then show ?thesis
    by (auto simp: run_verify_def yields_def intent_shown_def split: prod.split)
qed

lemma rollback_behaved:
  assumes "well_behaved env view"
  shows "case dev_raw env (cx_rollback cx) (w_dev w) of
      (Inl _, d2) \<Rightarrow> \<exists>w'. run_rollback env kind cx actor w = (False, w') \<and> w_dev w' = d2
    | (Inr answer, d2) \<Rightarrow> \<exists>w'. run_rollback env kind cx actor w =
        (classify_ios_response answer = None \<and>
         rollback_verified kind (cx_config cx) (shown_interface view (cx_canonical cx) d2)
           (shown_poe kind view (cx_canonical cx) d2) (shown_config view (cx_canonical cx) d2), w') \<and> w_dev w' = d2"
proof -
  let ?c = "cx_canonical cx"
  obtain out d2 where 0: "dev_raw env (cx_rollback cx) (w_dev w) = (out, d2)" by (cases "dev_raw env (cx_rollback cx) (w_dev w)")
  define w0 where "w0 = w\<lparr>w_dev := d2, w_sent := w_sent w @ [cx_rollback cx]\<rparr>"
  have raw: "client_raw env (cx_rollback cx) w = (out, w0)" "w_dev w0 = d2"
    using 0 by (simp_all add: client_raw_def w0_def)
  show ?thesis
  proof (cases out)
    case (Inl e)
    then show ?thesis using 0 raw by (simp add: run_rollback_def act_then_def)
  next
    case (Inr answer)
    obtain w1 where 1: "yields (read_interface env ?c actor) w0 (shown_interface view ?c d2) w1"
      using yields_interface [OF assms, of ?c actor w0] raw by auto
    obtain w2 where 2: "yields (read_poe_if (is_poe kind) env ?c actor) w1 (shown_poe kind view ?c d2) w2"
      using yields_poe [OF assms, of kind ?c actor w1] 1 raw by (auto simp: yields_def)
    have d: "w_dev w2 = d2" using 1 2 raw by (simp add: yields_def)
    obtain w3 where 3: "yields (run_and_audit env ''show_running_config'' actor) w2 (view ''show_running_config'' d2) w3"
      using yields_config [OF assms, of actor w2] d by auto
    have "yields (act_then (read_interface env ?c actor) (\<lambda>i. act_then (read_poe_if (is_poe kind) env ?c actor)
        (\<lambda>p. act_then (run_and_audit env ''show_running_config'' actor) (\<lambda>t.
           act_return (classify_ios_response answer = None \<and>
             rollback_verified kind (cx_config cx) i p (interface_config t ?c)))))) w0
        (classify_ios_response answer = None \<and> rollback_verified kind (cx_config cx) (shown_interface view ?c d2)
           (shown_poe kind view ?c d2) (shown_config view ?c d2)) w3"
      unfolding shown_config_def
      by (rule yields_then [OF 1], rule yields_then [OF 2], rule yields_then [OF 3], rule yields_return)
    then have "run_rollback env kind cx actor w =
        (classify_ios_response answer = None \<and> rollback_verified kind (cx_config cx) (shown_interface view ?c d2)
           (shown_poe kind view ?c d2) (shown_config view ?c d2), w3) \<and> w_dev w3 = d2"
      using raw Inr by (simp add: run_rollback_def act_then_def [of "client_raw env (cx_rollback cx)"] yields_def)
    then show ?thesis using 0 Inr by auto
  qed
qed

lemma finish_total:
  "\<exists>x w'. finish_operation env kind iface actor st oc w = (Inr x, w') \<and> or_status x = oc_status oc \<and>
     w_dev w' = w_dev w"
  by (simp add: finish_operation_def store_record_def Let_def split: prod.split)

lemma change_behaved:
  assumes "well_behaved env view"
  shows "\<exists>x w'. run_change env kind iface actor cx backup stages w = (Inr x, w') \<and>
    (or_status x, w_dev w') = spec_change view (dev_raw env) kind (cx_canonical cx) (cx_value cx) (cx_config cx)
      (cx_rollback cx) (w_dev w)"
proof -
  let ?cs = "forward_commands kind (cx_canonical cx) (cx_value cx)"
  obtain out d1 where 0: "dev_raw env ?cs (w_dev w) = (out, d1)" by (cases "dev_raw env ?cs (w_dev w)")
  define w1 where "w1 = w\<lparr>w_dev := d1, w_sent := w_sent w @ [?cs]\<rparr>"
  have raw: "client_raw env ?cs w = (out, w1)" "w_dev w1 = d1" using 0 by (simp_all add: client_raw_def w1_def)
  obtain r w' where R: "run_change env kind iface actor cx backup stages w = (r, w')"
    by (cases "run_change env kind iface actor cx backup stages w")
  have fin: ?thesis
    if "finish_operation env kind iface actor st oc v = (r, w')" "oc_status oc = s" "w_dev v = d"
      "spec_change view (dev_raw env) kind (cx_canonical cx) (cx_value cx) (cx_config cx) (cx_rollback cx) (w_dev w) = (s, d)"
    for st oc v s d
    using finish_total [of env kind iface actor st oc v] that R by auto
  show ?thesis
  proof (cases out)
    case (Inl e)
    obtain st oc where f: "finish_operation env kind iface actor st oc w1 = (r, w')" "oc_status oc = Op_failed"
      using R raw Inl by (auto simp: run_change_def Let_def outcome_of_def)
    show ?thesis by (rule fin [OF f raw(2)]) (use 0 Inl in \<open>simp add: spec_change_def\<close>)
  next
    case (Inr answer)
    show ?thesis
    proof (cases "classify_ios_response answer")
      case (Some rejection)
      obtain st oc where f: "finish_operation env kind iface actor st oc w1 = (r, w')" "oc_status oc = Op_failed"
        using R raw Inr Some by (auto simp: run_change_def Let_def outcome_of_def)
      show ?thesis by (rule fin [OF f raw(2)]) (use 0 Inr Some in \<open>simp add: spec_change_def\<close>)
    next
      case None
      obtain detail after w2 where 2: "run_verify env kind cx actor w1 =
          ((intent_shown view kind (cx_canonical cx) (cx_value cx) d1, detail, after), w2)" "w_dev w2 = d1"
        using verify_behaved [OF assms, of kind cx actor w1] raw by auto
      show ?thesis
      proof (cases "intent_shown view kind (cx_canonical cx) (cx_value cx) d1")
        case True
        obtain st oc where f: "finish_operation env kind iface actor st oc w2 = (r, w')" "oc_status oc = Op_success"
          using R raw Inr None 2 True by (auto simp: run_change_def Let_def outcome_of_def)
        show ?thesis by (rule fin [OF f 2(2)]) (use 0 Inr None True in \<open>simp add: spec_change_def\<close>)
      next
        case False
        obtain ok w3 where 3: "run_rollback env kind cx actor w2 = (ok, w3)"
          by (cases "run_rollback env kind cx actor w2")
        have "spec_change view (dev_raw env) kind (cx_canonical cx) (cx_value cx) (cx_config cx)
            (cx_rollback cx) (w_dev w) = (if ok then Op_rolled_back else Op_failed, w_dev w3)"
          using rollback_behaved [OF assms, where cx = cx and w = w2 and kind = kind and actor = actor] 0 Inr None False 2 3
          by (auto simp: spec_change_def split: prod.splits sum.splits)
        moreover obtain st oc where "finish_operation env kind iface actor st oc w3 = (r, w')"
          "oc_status oc = (if ok then Op_rolled_back else Op_failed)"
          using R raw Inr None 2 3 False by (auto simp: run_change_def Let_def outcome_of_def)
        ultimately show ?thesis by (intro fin) auto
      qed
    qed
  qed
qed

lemma precheck_behaved:
  assumes "well_behaved env view"
  shows "(case spec_value kind value of
        Inl _ \<Rightarrow> \<exists>s t w'. run_precheck env kind (Inr c) value actor w = (Refused s t, w') \<and> w_dev w' = w_dev w
      | Inr v \<Rightarrow>
          (case (shown_interface view c (w_dev w), shown_config view c (w_dev w)) of
             (Some i, Some prior) \<Rightarrow>
               (case rollback_commands kind c prior of
                  None \<Rightarrow> \<exists>s t w'. run_precheck env kind (Inr c) value actor w = (Refused s t, w') \<and> w_dev w' = w_dev w
                | Some rollback \<Rightarrow> \<exists>w'. run_precheck env kind (Inr c) value actor w =
                    (Passed \<lparr>cx_canonical = c, cx_value = v, cx_interface = i, cx_poe = shown_poe kind view c (w_dev w),
                       cx_running = view ''show_running_config'' (w_dev w), cx_config = prior, cx_rollback = rollback\<rparr>, w') \<and>
                    w_dev w' = w_dev w \<and> w_backups w' = w_backups w)
           | _ \<Rightarrow> \<exists>s t w'. run_precheck env kind (Inr c) value actor w = (Refused s t, w') \<and> w_dev w' = w_dev w))"
proof -
  let ?d = "w_dev w"
  obtain w1 where 1: "yields (read_interface env c actor) w (shown_interface view c ?d) w1"
    using yields_interface [OF assms] by blast
  obtain w2 where 2: "yields (read_poe_if (is_poe kind) env c actor) w1 (shown_poe kind view c ?d) w2"
    using yields_poe [OF assms, of kind c actor w1] 1 by (auto simp: yields_def)
  have 12: "yields (act_then (read_interface env c actor) (\<lambda>i. act_then (read_poe_if (is_poe kind) env c actor)
      (\<lambda>p. act_return (i, p)))) w (shown_interface view c ?d, shown_poe kind view c ?d) w2"
    by (rule yields_then [OF 1], rule yields_then [OF 2], rule yields_return)
  obtain w3 where 3: "yields (run_and_audit env ''show_running_config'' actor) w2 (view ''show_running_config'' ?d) w3"
    using yields_config [OF assms, of actor w2] 12 by (auto simp: yields_def)
  show ?thesis
  proof (cases "spec_value kind value")
    case (Inl e)
    then show ?thesis
      by (auto simp: spec_value_def run_precheck_def precheck_target_def sanitize_description_def Let_def
          split: if_splits sum.splits)
  next
    case (Inr v)
    then have t: "precheck_target kind (Inr c) value = Inr (c, v)"
      by (auto simp: spec_value_def precheck_target_def split: if_splits sum.splits)
    show ?thesis
      using 12 3 Inr
      by (auto simp: run_precheck_def t yields_def precheck_config_def shown_config_def split: option.splits)
  qed
qed

lemma backup_behaved:
  assumes "well_behaved env view" "fresh \<or> dict_get (w_backups w) (backup_path env) = None"
  shows "\<exists>st p w'. run_backup env fresh running actor stages w = (Inr (st, p), w') \<and> w_dev w' = w_dev w"
  using assms
  by (auto simp: run_backup_def backup_running_config_def act_then_def act_return_def Let_def backup_path_def
      write_backup_def client_run_def reads_only_def store_record_def well_behaved_def audit_record_def
      split: prod.splits)

lemma authorized_behaved:
  assumes "well_behaved env view" "fresh \<or> dict_get (w_backups w) (backup_path env) = None"
  shows "\<exists>x w'. run_authorized env kind (Inr c) iface value actor fresh w = (Inr x, w') \<and>
    (or_status x, w_dev w') = spec_operation view (dev_raw env) kind c value (w_dev w) \<and>
    (w_dev w' \<noteq> w_dev w \<longrightarrow> w_sent w' \<noteq> w_sent w)"
proof -
  let ?d = "w_dev w" and ?v = "spec_value kind value"
  obtain r w' where R: "run_authorized env kind (Inr c) iface value actor fresh w = (r, w')"
    by (cases "run_authorized env kind (Inr c) iface value actor fresh w")
  have fin: ?thesis
    if "finish_operation env kind iface actor st oc v = (r, w')" "oc_status oc = s" "w_dev v = ?d"
      "spec_operation view (dev_raw env) kind c value ?d = (s, ?d)"
    for st oc v s
    using finish_total [of env kind iface actor st oc v] that R by auto
  note pre = precheck_behaved [OF assms(1), of kind c "value" actor w]
  have refused: ?thesis
    if p: "run_precheck env kind (Inr c) value actor w = (Refused s t, w1)" "w_dev w1 = ?d"
      and sp: "spec_operation view (dev_raw env) kind c value ?d = (Op_blocked, ?d)" for s t w1
  proof -
    obtain st oc where f: "finish_operation env kind iface actor st oc w1 = (r, w')" "oc_status oc = Op_blocked"
      using R p(1) by (auto simp: run_authorized_def Let_def outcome_of_def)
    show ?thesis by (rule fin [OF f p(2) sp])
  qed
  show ?thesis
  proof (cases "\<exists>v i prior rollback. ?v = Inr v \<and> shown_interface view c ?d = Some i \<and>
      shown_config view c ?d = Some prior \<and> rollback_commands kind c prior = Some rollback")
    case False
    then have "spec_operation view (dev_raw env) kind c value ?d = (Op_blocked, ?d)"
      by (auto simp: spec_operation_def split: sum.split option.split)
    moreover have "\<exists>s t w'. run_precheck env kind (Inr c) value actor w = (Refused s t, w') \<and> w_dev w' = ?d"
      using pre False by (auto split: sum.splits option.splits)
    ultimately show ?thesis using refused by blast
  next
    case True
    then obtain v i prior rollback where v: "?v = Inr v" and i: "shown_interface view c ?d = Some i"
      and prior: "shown_config view c ?d = Some prior" and rb: "rollback_commands kind c prior = Some rollback"
      by blast
    define cx where "cx = \<lparr>cx_canonical = c, cx_value = v, cx_interface = i, cx_poe = shown_poe kind view c ?d,
       cx_running = view ''show_running_config'' ?d, cx_config = prior, cx_rollback = rollback\<rparr>"
    obtain w1 where p: "run_precheck env kind (Inr c) value actor w = (Passed cx, w1)"
      "w_dev w1 = ?d" "w_backups w1 = w_backups w"
      using pre v i prior rb by (auto simp: cx_def)
    have post: "fst (postcondition_met kind (Some (cx_interface cx)) (cx_poe cx) (cx_value cx) (Some (cx_config cx)))
        = intent_shown view kind c v ?d"
      using postcondition_config_irrelevant [of kind _ _ _ "Some prior"]
      by (cases "kind = Set_description") (simp_all add: cx_def intent_shown_def i prior)
    have sp: "spec_operation view (dev_raw env) kind c value ?d =
        (if intent_shown view kind c v ?d then (Op_success, ?d)
         else spec_change view (dev_raw env) kind c v prior rollback ?d)"
      using v i prior rb by (simp add: spec_operation_def)
    show ?thesis
    proof (cases "intent_shown view kind c v ?d")
      case True
      then obtain detail where "postcondition_met kind (Some (cx_interface cx)) (cx_poe cx) (cx_value cx)
          (Some (cx_config cx)) = (True, detail)"
        using post by (cases "postcondition_met kind (Some (cx_interface cx)) (cx_poe cx) (cx_value cx)
          (Some (cx_config cx))") auto
      then obtain st oc where f: "finish_operation env kind iface actor st oc w1 = (r, w')" "oc_status oc = Op_success"
        using R p(1) by (auto simp: run_authorized_def Let_def outcome_of_def)
      show ?thesis by (rule fin [OF f p(2)]) (use sp True in simp)
    next
      case False
      then have nm: "\<not> fst (postcondition_met kind (Some (cx_interface cx)) (cx_poe cx) (cx_value cx) (Some (cx_config cx)))"
        using post by simp
      obtain st1 where st1: "run_authorized env kind (Inr c) iface value actor fresh w =
          (case run_backup env fresh (cx_running cx) actor st1 w1 of
             (Inl st2, w2) \<Rightarrow> finish_operation env kind iface actor st2
               ((outcome_of Op_blocked ''The change was not attempted because the configuration backup failed.'')
                 \<lparr>oc_before := Some (state_text (cx_interface cx) (cx_poe cx))\<rparr>) w2
           | (Inr (st2, backup), w2) \<Rightarrow> run_change env kind iface actor cx backup st2 w2)"
        by (rule run_authorized_change [OF p(1) nm])
      obtain st2 b w2 where 2: "run_backup env fresh (cx_running cx) actor st1 w1 = (Inr (st2, b), w2)" "w_dev w2 = ?d"
        using backup_behaved [OF assms(1), where fresh = fresh and w = w1 and running = "cx_running cx" and actor = actor and stages = st1] assms(2) p(2,3) by auto
      have "w_sent w2 = w_sent w"
        using backup_grows(1) [OF 2(1)] quiet_precheck [OF p(1)] by (simp add: quiet_def)
      moreover have "w_sent w' \<noteq> w_sent w2" if "run_change env kind iface actor cx b st2 w2 = (Inr x, w')" for x w'
        using run_change_result [OF that] by (auto simp: sends_def)
      ultimately show ?thesis
        using change_behaved [OF assms(1), where kind = kind and iface = iface and actor = actor and cx = cx and backup = b and stages = st2 and w = w2] st1 2 sp False
        by (fastforce simp: cx_def)
    qed
  qed
qed

lemma operation_behaved:
  assumes "well_behaved env view" "fresh \<or> dict_get (w_backups w) (backup_path env) = None"
    "lock_guard f lock = Inr ()" "policy_guard H f host iface = Inr c"
  shows "\<exists>x w'. run_operation env H f host lock kind iface req actor fresh w = (Inr x, w') \<and>
    (or_status x, w_dev w') = spec_operation view (dev_raw env) kind c req (w_dev w) \<and>
    (w_dev w' \<noteq> w_dev w \<longrightarrow> w_sent w' \<noteq> w_sent w)"
proof -
  have "assert_operable H f host iface = Inr c" using assms(4) by (simp add: policy_guard_Inr)
  then show ?thesis using authorized_behaved [OF assms(1,2)] assms(3,4) by (simp add: run_operation_def)
qed

definition stuck_env :: "demo_switch env" where
  "stuck_env = demo_env\<lparr>dev_raw := (\<lambda>_ d. (Inr [], d))\<rparr>"

end
