(* ===== verification/Operation_Properties.thy ===== *)
theory Operation_Properties
  imports Operations
begin

text \<open>
  What an operation guarantees, whatever the switch and the storage do, and what it amounts to on a
  switch whose reads have no effect: the refinement of the abstract operation \<open>spec_operation\<close>.
\<close>

section \<open>Outcomes on the demonstration switch\<close>

definition stuck_run :: "operation_kind \<Rightarrow> string option \<Rightarrow> operation_result result \<times> demo_switch world" where
  "stuck_run kind value =
     run_operation stuck_env demo_digest demo_policy (Some ''10.0.0.1'') demo_lock kind ''gi0/3'' value ''op'' False demo_world"

lemma demo_row:
  "shown_interface demo_view ''GigabitEthernet0/3'' (w_dev demo_world) =
     Some \<lparr>ifs_port = ''Gi0/3'', ifs_name = ''lab'', ifs_status = ''connected'', ifs_vlan = ''1'',
       ifs_duplex = ''full'', ifs_speed = ''100'', ifs_type = ''T'', ifs_protected = False,
       ifs_policy_state = UNMANAGED\<rparr>"
  by code_simp

lemma demo_config:
  "shown_config demo_view ''GigabitEthernet0/3'' (w_dev demo_world) =
     Some \<lparr>ic_description = ''lab'', ic_shutdown = False, ic_poe_admin = ''auto''\<rparr>"
  by code_simp

lemma demo_row_down:
  "shown_interface demo_view ''GigabitEthernet0/3'' (w_dev demo_world\<lparr>ds_shutdown := True\<rparr>) =
     Some \<lparr>ifs_port = ''Gi0/3'', ifs_name = ''lab'', ifs_status = ''disabled'', ifs_vlan = ''1'',
       ifs_duplex = ''full'', ifs_speed = ''100'', ifs_type = ''T'', ifs_protected = False,
       ifs_policy_state = UNMANAGED\<rparr>"
  by code_simp

lemma demo_commands:
  "forward_commands Admin_down ''GigabitEthernet0/3'' None =
     [''configure terminal'', ''interface GigabitEthernet0/3'', ''shutdown'', ''end'']"
  by code_simp

lemma demo_words: "py_lower (py_strip ''connected'') = ''connected''" "py_lower (py_strip ''disabled'') = ''disabled''"
  by code_simp+

lemma no_error: "classify_ios_response [] = None"
  by code_simp

lemma demo_raw_down:
  "dev_raw demo_env [''configure terminal'', ''interface GigabitEthernet0/3'', ''shutdown'', ''end''] d =
     (Inr [], d\<lparr>ds_shutdown := True\<rparr>)"
  by (simp add: demo_env_def demo_raw_def)

lemma demo_spec:
  "spec_operation demo_view (dev_raw demo_env) Admin_down ''GigabitEthernet0/3'' None (w_dev demo_world) =
     (Op_success, w_dev demo_world\<lparr>ds_shutdown := True\<rparr>)"
  "spec_operation demo_view (dev_raw stuck_env) Admin_down ''GigabitEthernet0/3'' None (w_dev demo_world) =
     (Op_rolled_back, w_dev demo_world)"
  by (simp_all add: spec_operation_def spec_value_def needs_value_def demo_row demo_config demo_row_down
      rollback_commands_def rollback_restore_def intent_shown_def postcondition_met_def is_poe_def
      spec_change_def demo_commands demo_raw_down no_error stuck_env_def rollback_verified_def
      shown_poe_def demo_words)

lemma demo_well_behaved: "well_behaved demo_env demo_view" "well_behaved stuck_env demo_view"
  by (simp_all add: well_behaved_def reads_only_def demo_env_def stuck_env_def)

text \<open>What an operation sends, whatever the switch and the storage do.\<close>

lemma operation_sends:
  assumes "run_operation env H f host lock kind iface value actor fresh w = (r, w')"
  shows "\<exists>xs. w_sent w' = w_sent w @ xs \<and>
    (xs \<noteq> [] \<longrightarrow> wl_unlocked lock \<and> controlled_writes_enabled f \<and>
      (\<exists>c. normalize_interface iface = Inr c \<and> is_phys_name c \<and>
        policy_of f (device_key H (or_empty host)) c = OPERABLE \<and> list_all (one_interface_change c) xs))"
  using assms
proof (cases rule: run_operation_cases)
  case (allowed c)
  have u: "wl_unlocked lock" "controlled_writes_enabled f"
    using allowed(1) by (auto simp: lock_guard_def split: if_splits)
  have c: "normalize_interface iface = Inr c" "is_phys_name c"
    "policy_of f (device_key H (or_empty host)) c = OPERABLE"
    using allowed(2) by (auto simp: policy_guard_Inr assert_operable_Inr assert_writable_Inr)
  obtain x where "r = Inr x"
    using run_authorized_returns [of env kind c iface "value" actor fresh w] allowed(3) by auto
  then have "run_authorized env kind (Inr c) iface value actor fresh w = (Inr x, w')" using allowed(3) by simp
  then obtain xs where xs: "w_sent w' = w_sent w @ xs"
    and sent: "xs \<noteq> [] \<Longrightarrow> \<exists>c'. Inr c = (Inr c' :: string result) \<and> backed_change env kind c' value fresh w w' x xs"
    by (rule run_authorized_result) blast
  have "list_all (one_interface_change c) xs" if ne: "xs \<noteq> []"
  proof -
    obtain v config rollback where "value_ok kind value v"
      "rollback_commands kind c config = Some rollback" "set xs \<subseteq> {forward_commands kind c v, rollback}"
      using sent [OF ne] by (auto simp: backed_change_def)
    then show ?thesis
      using forward_confined [OF c(2)] rollback_confined by (fastforce simp: list_all_iff)
  qed
  then show ?thesis using xs u c by blast
qed simp

text \<open>C1: Whatever the switch, the storage and the disk do, an operation sends configuration only when
  the session is unlocked, controlled writes are on and the policy marks the interface operable; and
  then every sequence it sends, the rollback included, configures that one interface with one line
  of printable characters.\<close>

theorem operation_confined:
  assumes "run_operation env H f host lock kind iface value actor fresh w = (r, w')"
  shows "\<exists>xs. w_sent w' = w_sent w @ xs \<and>
    (xs \<noteq> [] \<longrightarrow> wl_unlocked lock \<and> controlled_writes_enabled f \<and>
      (\<exists>c. normalize_interface iface = Inr c \<and> is_phys_name c \<and>
        policy_of f (device_key H (or_empty host)) c = OPERABLE \<and> list_all (one_interface_change c) xs))"
  using assms by (rule operation_sends)

theorem operation_confined_witness:
  "\<exists>xs. w_sent (snd (demo_run Admin_down None)) = w_sent demo_world @ xs \<and>
    (xs \<noteq> [] \<longrightarrow> wl_unlocked demo_lock \<and> controlled_writes_enabled demo_policy \<and>
      (\<exists>c. normalize_interface ''gi0/3'' = Inr c \<and> is_phys_name c \<and>
        policy_of demo_policy (device_key demo_digest (or_empty (Some ''10.0.0.1''))) c = OPERABLE \<and>
        list_all (one_interface_change c) xs))"
  using operation_confined [OF prod.collapse [symmetric], of demo_env demo_digest demo_policy
      "Some ''10.0.0.1''" demo_lock Admin_down "''gi0/3''" None "''op''" False demo_world]
  by (simp add: demo_run_def)

lemma run_operation_Inr:
  assumes "run_operation env H f host lock kind iface value actor fresh w = (Inr x, w')"
  obtains c where "normalize_interface iface = Inr c" "is_phys_name c"
    "run_authorized env kind (Inr c) iface value actor fresh w = (Inr x, w')"
  using assms
proof (cases rule: run_operation_cases)
  case (allowed c)
  then show ?thesis using that [of c] by (simp add: policy_guard_Inr assert_operable_Inr assert_writable_Inr)
qed simp

lemma demo_gates:
  "policy_guard demo_digest demo_policy (Some ''10.0.0.1'') ''gi0/3'' = Inr ''GigabitEthernet0/3''"
  "lock_guard demo_policy demo_lock = Inr ()"
proof -
  show p: "policy_guard demo_digest demo_policy (Some ''10.0.0.1'') ''gi0/3'' = Inr ''GigabitEthernet0/3''"
    by code_simp
  then show "lock_guard demo_policy demo_lock = Inr ()"
    by (simp add: policy_guard_Inr lock_guard_def demo_lock_def lock_unlock_def)
qed

lemma demo_reads: "reads_only demo_env demo_view" "reads_only stuck_env demo_view"
  using demo_well_behaved by (simp_all add: well_behaved_def)

lemma demo_succeeds:
  obtains x w' where "demo_run Admin_down None = (Inr x, w')" "or_status x = Op_success"
    "w_dev w' = w_dev demo_world\<lparr>ds_shutdown := True\<rparr>" "w_sent w' \<noteq> w_sent demo_world"
  using operation_behaved [OF demo_well_behaved(1) _ demo_gates(2,1), where fresh = False and w = demo_world
      and kind = Admin_down and actor = "''op''" and req = None] demo_spec(1)
  unfolding demo_run_def by (auto simp: demo_world_def)

lemma demo_sends:
  obtains x w' where "demo_run Admin_down None = (Inr x, w')" "w_sent w' \<noteq> w_sent demo_world"
  by (rule demo_succeeds)

lemma run_operation_open:
  assumes "lock_guard f lock = Inr ()" "policy_guard H f host iface = Inr c"
  shows "\<exists>x. fst (run_operation env H f host lock kind iface value actor fresh w) = Inr x"
proof -
  have "assert_operable H f host iface = Inr c" using assms(2) by (simp add: policy_guard_Inr)
  then show ?thesis using assms run_authorized_returns by (simp add: run_operation_def)
qed

lemma operation_outcome_sent:
  assumes "run_operation env H f host lock kind iface value actor fresh w = (Inr x, w')"
  shows "\<exists>xs. w_sent w' = w_sent w @ xs \<and> outcome_sent x xs \<and> or_kind x = kind \<and> or_interface x = iface"
  using assms
proof (rule run_operation_Inr)
  fix c
  assume "run_authorized env kind (Inr c) iface value actor fresh w = (Inr x, w')"
  then show ?thesis by (rule run_authorized_result) blast
qed

lemma stuck_rolls_back:
  obtains x w' where "stuck_run Admin_down None = (Inr x, w')" "or_status x = Op_rolled_back" "length (w_sent w') = 2"
proof -
  obtain x w' where r: "stuck_run Admin_down None = (Inr x, w')" "or_status x = Op_rolled_back"
    using operation_behaved [OF demo_well_behaved(2) _ demo_gates(2,1), where fresh = False and w = demo_world
        and kind = Admin_down and actor = "''op''" and req = None] demo_spec(2)
    unfolding stuck_run_def by (auto simp: demo_world_def)
  then have "length (w_sent w') = 2"
    using operation_outcome_sent [OF r(1) [unfolded stuck_run_def]] by (auto simp: outcome_sent_def demo_world_def)
  then show thesis using that r by blast
qed

text \<open>What the code's check of a rollback establishes, field by field.\<close>

lemma restored_rows:
  assumes "restored_shown view kind c d d'"
  shows "\<exists>prior present. shown_interface view c d' \<noteq> None \<and>
    shown_config view c d = Some prior \<and> shown_config view c d' = Some present \<and>
    (kind \<in> {Admin_up, Admin_down} \<longrightarrow> ic_shutdown present = ic_shutdown prior) \<and>
    (kind \<in> {Poe_auto, Poe_never} \<longrightarrow> ic_poe_admin present = ic_poe_admin prior \<and>
       py_lower (py_strip (or_empty (shown_poe kind view c d'))) = ic_poe_admin prior) \<and>
    (kind = Set_description \<longrightarrow> ic_description present = ic_description prior)"
  using assms
  by (cases kind) (auto simp: restored_shown_def rollback_verified_def is_poe_def split: option.splits)

lemma demo_run_Inr: "\<exists>x w'. demo_run kind value = (Inr x, w')"
  using run_operation_open [OF demo_gates(2,1), of demo_env kind "value" "''op''" False demo_world]
  unfolding demo_run_def by (metis prod.collapse)

text \<open>C11: Once its gates are open an operation always returns a result: no failure of the switch, of
  the disk or of the audit storage, and no invalid value, makes it raise. With a gate closed it raises
  the gate's error and changes nothing.\<close>

theorem operation_total:
  "(case (lock_guard f lock, policy_guard H f host iface) of
      (Inr _, Inr _) \<Rightarrow> \<exists>x. fst (run_operation env H f host lock kind iface value actor fresh w) = Inr x
    | (Inl e, _) \<Rightarrow> run_operation env H f host lock kind iface value actor fresh w = (Inl e, w)
    | (Inr _, Inl e) \<Rightarrow> run_operation env H f host lock kind iface value actor fresh w = (Inl e, w))"
  by (cases "lock_guard f lock"; cases "policy_guard H f host iface")
    (simp_all add: run_operation_open, simp_all add: run_operation_def)

text \<open>The result of an operation tells what was sent: a blocked one sent nothing; a successful one
  nothing (and needs no save) or the change (and needs one); a failed one the change, with its rollback
  when one was tried; a rolled-back one both. The commands it reports are those that were sent.\<close>

theorem operation_outcome:
  assumes "run_operation env H f host lock kind iface value actor fresh w = (Inr x, w')"
  shows "\<exists>xs. w_sent w' = w_sent w @ xs \<and> outcome_sent x xs \<and> or_kind x = kind \<and> or_interface x = iface"
  using assms by (rule operation_outcome_sent)

theorem operation_outcome_witness:
  "\<exists>x xs. fst (demo_run Admin_down None) = Inr x \<and> w_sent (snd (demo_run Admin_down None)) = xs \<and> outcome_sent x xs"
proof -
  obtain x w' where r: "demo_run Admin_down None = (Inr x, w')" using demo_run_Inr by blast
  from operation_outcome [OF r [unfolded demo_run_def]] r show ?thesis by (auto simp: demo_world_def)
qed

text \<open>C6: Unless the caller says a backup is already fresh, an operation that sends anything has first
  stored, under a name no backup had, the text the switch answered \<open>show running-config\<close> with, which
  contains the interface's block, and reports the path; on a switch whose reads have no effect this is
  its running configuration before the operation. No operation changes or removes an earlier backup.\<close>

theorem backup_before_change:
  assumes "run_operation env H f host lock kind iface value actor fresh w = (Inr x, w')"
  shows "map_of (w_backups w) \<subseteq>\<^sub>m map_of (w_backups w') \<and>
    (w_sent w' \<noteq> w_sent w \<and> \<not> fresh \<longrightarrow>
      (\<exists>path text c. or_backup_path x = Some path \<and> dict_get (w_backups w) path = None \<and>
         dict_get (w_backups w') path = Some text \<and>
         (\<exists>d d'. dev_run env ''show_running_config'' d = (Inr text, d')) \<and>
         (\<forall>view. reads_only env view \<longrightarrow> text = view ''show_running_config'' (w_dev w)) \<and>
         normalize_interface iface = Inr c \<and> interface_config text c \<noteq> None))"
  using assms
proof (rule run_operation_Inr)
  fix c
  assume c: "normalize_interface iface = Inr c"
  assume "run_authorized env kind (Inr c) iface value actor fresh w = (Inr x, w')"
  then obtain xs where xs: "w_sent w' = w_sent w @ xs" "map_of (w_backups w) \<subseteq>\<^sub>m map_of (w_backups w')"
    "xs \<noteq> [] \<Longrightarrow> \<exists>c'. Inr c = (Inr c' :: string result) \<and> backed_change env kind c' value fresh w w' x xs"
    by (rule run_authorized_result) blast
  then show ?thesis using c by (fastforce simp: backed_change_def)
qed

text \<open>The demonstration run sends the change, so the running configuration it had is on disk.\<close>

theorem backup_before_change_witness:
  "\<exists>x path. fst (demo_run Admin_down None) = Inr x \<and> w_sent (snd (demo_run Admin_down None)) \<noteq> [] \<and>
    or_backup_path x = Some path \<and>
    dict_get (w_backups (snd (demo_run Admin_down None))) path =
      Some (demo_view ''show_running_config'' (w_dev demo_world))"
proof -
  obtain x w' where r: "demo_run Admin_down None = (Inr x, w')" "w_sent w' \<noteq> w_sent demo_world"
    by (rule demo_sends)
  obtain path t where "or_backup_path x = Some path" "dict_get (w_backups w') path = Some t"
    "\<forall>view. reads_only demo_env view \<longrightarrow> t = view ''show_running_config'' (w_dev demo_world)"
    using backup_before_change [OF r(1) [unfolded demo_run_def]] r(2) by blast
  then show ?thesis using r demo_reads(1) by (auto simp: demo_world_def)
qed

text \<open>On a switch whose reads have no effect, success means that the switch shows the intended state
  at the end: its status row, power row and, for a description, its configuration meet the
  postcondition of the operation for the sanitised value.\<close>

theorem operation_success_observed:
  assumes "reads_only env view"
    and "run_operation env H f host lock kind iface value actor fresh w = (Inr x, w')"
    and "or_status x = Op_success"
  shows "\<exists>c v. normalize_interface iface = Inr c \<and> value_ok kind value v \<and> intent_shown view kind c v (w_dev w')"
  using assms(2)
proof (rule run_operation_Inr)
  fix c
  assume "normalize_interface iface = Inr c"
    and "run_authorized env kind (Inr c) iface value actor fresh w = (Inr x, w')"
  then show ?thesis using run_authorized_shown(1) [OF assms(1)] assms(3) by blast
qed

theorem operation_success_observed_witness:
  "\<exists>x w'. demo_run Admin_down None = (Inr x, w') \<and> or_status x = Op_success \<and>
     (\<exists>c v. normalize_interface ''gi0/3'' = Inr c \<and> value_ok Admin_down None v \<and>
        intent_shown demo_view Admin_down c v (w_dev w'))"
proof -
  obtain x w' where r: "demo_run Admin_down None = (Inr x, w')" "or_status x = Op_success"
    by (rule demo_succeeds)
  show ?thesis
    using operation_success_observed [OF demo_reads(1) r(1) [unfolded demo_run_def] r(2)] r by blast
qed

text \<open>C5: On a switch whose reads have no effect, a result of \<open>rolled_back\<close> means that the switch still
  shows the interface and that the property the operation was about is again what the running
  configuration had before it: the \<open>shutdown\<close> line for an administrative change, the power policy, in
  the configuration and in the power table, for a power change, the description for a description.\<close>

theorem operation_rollback_restores:
  assumes "reads_only env view"
    and "run_operation env H f host lock kind iface value actor fresh w = (Inr x, w')"
    and "or_status x = Op_rolled_back"
  shows "\<exists>c prior present. normalize_interface iface = Inr c \<and> shown_interface view c (w_dev w') \<noteq> None \<and>
    shown_config view c (w_dev w) = Some prior \<and> shown_config view c (w_dev w') = Some present \<and>
    (kind \<in> {Admin_up, Admin_down} \<longrightarrow> ic_shutdown present = ic_shutdown prior) \<and>
    (kind \<in> {Poe_auto, Poe_never} \<longrightarrow> ic_poe_admin present = ic_poe_admin prior \<and>
       py_lower (py_strip (or_empty (shown_poe kind view c (w_dev w')))) = ic_poe_admin prior) \<and>
    (kind = Set_description \<longrightarrow> ic_description present = ic_description prior)"
  using assms(2)
proof (rule run_operation_Inr)
  fix c
  assume "normalize_interface iface = Inr c"
    and "run_authorized env kind (Inr c) iface value actor fresh w = (Inr x, w')"
  then show ?thesis using restored_rows [OF run_authorized_shown(2) [OF assms(1)]] assms(3) by blast
qed

theorem operation_rollback_restores_witness:
  "\<exists>x w' present. stuck_run Admin_down None = (Inr x, w') \<and> or_status x = Op_rolled_back \<and>
     length (w_sent w') = 2 \<and>
     shown_config demo_view ''GigabitEthernet0/3'' (w_dev w') = Some present \<and> \<not> ic_shutdown present"
proof -
  obtain x w' where r: "stuck_run Admin_down None = (Inr x, w')" "or_status x = Op_rolled_back" "length (w_sent w') = 2"
    by (rule stuck_rolls_back)
  have "normalize_interface ''gi0/3'' = Inr ''GigabitEthernet0/3''"
    using demo_gates(1) by (simp add: policy_guard_Inr assert_operable_Inr assert_writable_Inr)
  then show ?thesis
    using operation_rollback_restores [OF demo_reads(2) r(1) [unfolded stuck_run_def] r(2)] demo_config r
    by auto
qed

text \<open>C3: When the storage and the disk accept what is written and the reads of the switch have no effect,
  an operation whose gates are open computes the abstract operation: its status and the state it leaves
  the switch in are those of \<open>spec_operation\<close>, which knows of no stages, audit trail or backups.\<close>

theorem operation_refines_spec:
  assumes "well_behaved env view" "fresh \<or> dict_get (w_backups w) (backup_path env) = None"
    and "lock_guard f lock = Inr ()" "policy_guard H f host iface = Inr c"
  shows "map_sum id or_status (fst (run_operation env H f host lock kind iface req actor fresh w)) =
      Inr (fst (spec_operation view (dev_raw env) kind c req (w_dev w))) \<and>
    w_dev (snd (run_operation env H f host lock kind iface req actor fresh w)) =
      snd (spec_operation view (dev_raw env) kind c req (w_dev w))"
  using operation_behaved [OF assms, of kind req actor] by (auto simp: prod_eq_iff)

theorem operation_refines_spec_witness:
  "w_dev (snd (demo_run Admin_down None)) = w_dev demo_world\<lparr>ds_shutdown := True\<rparr>"
  using operation_refines_spec [OF demo_well_behaved(1) _ demo_gates(2,1), where fresh = False and w = demo_world
      and kind = Admin_down and actor = "''op''" and req = None] demo_spec(1)
  by (simp add: demo_run_def demo_world_def)

end
