(* ===== verification/Change_Models.thy ===== *)
theory Change_Models
  imports Operations
begin

text \<open>
  The contracts of \<open>backend/app/change_models.py\<close>: a change plan, its preflight, the normalised
  snapshots around it, their comparison, and the session that carries them. A Pydantic class is a
  record, a validator a function to \<open>result\<close>.
\<close>

datatype change_status =
    Planned | Preflighting | Blocked | Ready | Executing | Verifying | Rolling_back | Rolled_back
  | Succeeded | Succeeded_with_warnings | Indeterminate

datatype check_status = Check_pass | Check_warn | Check_info | Check_block

section \<open>Plans\<close>

record change_step =
  cst_interface :: string
  cst_kind :: operation_kind
  cst_value :: "string option"

definition validate_interface :: "string \<Rightarrow> string result" where
  "validate_interface v =
     (let s = py_strip v in
      if s = [] \<or> length s > 64 \<or> list_ex (\<lambda>c. cp c < 32) s then Inl (PyError ''ValueError'') else Inr s)"

text \<open>A step of a request: the interface is stripped and bounded, the value at most 64 characters.\<close>

definition validate_step :: "change_step \<Rightarrow> change_step result" where
  "validate_step s =
     and_then (validate_interface (cst_interface s)) (\<lambda>i.
       if length (or_empty (cst_value s)) > 64 then Inl (PyError ''ValueError'')
       else Inr (s\<lparr>cst_interface := i\<rparr>))"

record plan_request =
  rq_steps :: "change_step list"
  rq_summary :: "string option"

definition validate_request :: "plan_request \<Rightarrow> plan_request result" where
  "validate_request r =
     (if length (rq_steps r) \<noteq> 1 \<or> length (or_empty (rq_summary r)) > 240 then Inl (PyError ''ValueError'')
      else and_then (map_result validate_step (rq_steps r)) (\<lambda>steps. Inr (r\<lparr>rq_steps := steps\<rparr>)))"

record expected_effect =
  ee_category :: string
  ee_field :: string
  ee_expectation :: string
  ee_required :: bool

record declared_intent =
  di_summary :: string
  di_expected :: "expected_effect list"
  di_unacceptable :: "string list"

record change_plan =
  cp_id :: string
  cp_device_id :: string
  cp_target :: string
  cp_steps :: "change_step list"
  cp_intent :: declared_intent
  cp_created_at :: time

definition enforce_scope :: "change_plan \<Rightarrow> change_plan result" where
  "enforce_scope p =
     (if length (cp_steps p) \<noteq> 1 then Inl (PyError ''ValueError'')
      else if cst_interface (cp_steps p ! 0) \<noteq> cp_target p then Inl (PyError ''ValueError'')
      else Inr p)"

section \<open>Snapshots\<close>

record iface_snapshot =
  is_port :: string
  is_present :: bool
  is_admin :: string
  is_oper :: string
  is_description :: string
  is_vlan :: string
  is_speed :: string
  is_duplex :: string
  is_poe_admin :: string
  is_poe_oper :: string
  is_errors :: int
  is_macs :: int

definition absent_interface :: "string \<Rightarrow> iface_snapshot" where
  "absent_interface port =
     \<lparr>is_port = port, is_present = False, is_admin = ''unknown'', is_oper = ''unknown'',
      is_description = [], is_vlan = [], is_speed = [], is_duplex = [], is_poe_admin = ''unknown'',
      is_poe_oper = ''unknown'', is_errors = 0, is_macs = 0\<rparr>"

record config_snapshot =
  cf_running :: string
  cf_startup :: string
  cf_differs :: bool
  cf_rollback :: bool

record topology_snapshot =
  ts_relationships :: "string list"
  ts_attached :: "string list"
  ts_learned :: "string list"
  ts_expected :: "string option"
  ts_reconciliation :: "string option"
  ts_role :: string
  ts_local_host :: bool
  ts_other :: string

record health_snapshot =
  hs_connection :: string
  hs_device :: string
  hs_target :: string
  hs_errors :: int

record evidence_snapshot =
  es_observed_at :: "time option"
  es_freshness :: string
  es_ids :: "string list"

record assurance_snapshot =
  as_captured_at :: time
  as_device_id :: string
  as_target_interface :: string
  as_config :: config_snapshot
  as_target :: iface_snapshot
  as_others :: "iface_snapshot list"
  as_topology :: topology_snapshot
  as_health :: health_snapshot
  as_evidence :: evidence_snapshot

section \<open>Preflight, comparison, session\<close>

record preflight_check =
  pc_code :: string
  pc_label :: string
  pc_status :: check_status
  pc_detail :: string
  pc_evidence :: "string list"

datatype control_path = Path_clear | Path_possible | Path_confirmed | Path_unknown

record blast_radius =
  bl_target :: string
  bl_attached :: nat
  bl_learned :: nat
  bl_expected :: "string option"
  bl_control :: control_path
  bl_detail :: string
  bl_limitations :: "string list"

record preflight =
  pf_evaluated_at :: time
  pf_ready :: bool
  pf_checks :: "preflight_check list"
  pf_impact :: blast_radius
  pf_snapshot :: "assurance_snapshot option"

datatype diff_scope = Target_scope | Unrelated_scope | Config_scope | Topology_scope | Health_scope
datatype assessment = Expected | Warning | Info
datatype diff_value = Text string | Number int | Flag bool | Texts "string list"

record difference =
  df_scope :: diff_scope
  df_field :: string
  df_old :: diff_value
  df_new :: diff_value
  df_assessment :: assessment
  df_detail :: string
  df_interface :: "string option"

datatype postcondition = Met | Not_met | Unknown_post

record comparison =
  cm_evaluated_at :: time
  cm_direct :: postcondition
  cm_differences :: "difference list"
  cm_warnings :: "string list"
  cm_summary :: string

record change_session =
  se_id :: string
  se_plan :: change_plan
  se_status :: change_status
  se_preflight :: "preflight option"
  se_before :: "assurance_snapshot option"
  se_after :: "assurance_snapshot option"
  se_comparison :: "comparison option"
  se_result :: "operation_result option"
  se_stages :: "operation_stage list"
  se_detail :: string
  se_created_at :: time
  se_updated_at :: time

lemma validate_interface_Inr:
  "validate_interface v = Inr s \<longleftrightarrow>
     s = py_strip v \<and> s \<noteq> [] \<and> length s \<le> 64 \<and> (\<forall>c\<in>set s. 32 \<le> cp c)"
  by (fastforce simp: validate_interface_def Let_def list_ex_iff split: if_splits)

lemma enforce_scope_Inr:
  "enforce_scope p = Inr q \<longleftrightarrow> q = p \<and> (\<exists>s. cp_steps p = [s] \<and> cst_interface s = cp_target p)"
  by (auto simp: enforce_scope_def length_Suc_conv)

end
