(* ===== verification/Change_Store.thy ===== *)
theory Change_Store
  imports Change_Models
begin

text \<open>
  \<open>backend/app/change_store.py\<close>: the durable sessions. The table is a dictionary from the session's
  number to its document, in the order of first insertion; writing a document and reading it back is
  the identity (the JSON round trip of the models). Whether a write succeeds is a parameter. Times
  are compared as numbers: the table orders them by their ISO text in UTC, which agrees with it.
\<close>

type_synonym session_table = "(string, change_session) dict"

definition in_flight :: "change_status \<Rightarrow> bool" where
  "in_flight st \<longleftrightarrow> st \<in> {Executing, Verifying, Rolling_back}"

definition write_session :: "change_session \<Rightarrow> session_table \<Rightarrow> session_table" where
  "write_session s t = dict_set (se_id s) s t"

definition session_save ::
  "(change_session \<Rightarrow> bool) \<Rightarrow> time \<Rightarrow> change_session \<Rightarrow> session_table \<Rightarrow> change_session result \<times> session_table"
where
  "session_save up now s t =
     (let s' = s\<lparr>se_updated_at := now\<rparr> in
      if up s' then (Inr s', write_session s' t) else (Inl (PyError ''OperationalError''), t))"

definition session_get :: "session_table \<Rightarrow> string \<Rightarrow> change_session option" where
  "session_get t i = dict_get t i"

text \<open>\<open>recent\<close>: newest first, at most \<open>limit\<close> rows and never more than 200; an empty device filter
  is no filter.\<close>

definition newest_first :: "change_session list \<Rightarrow> change_session list" where
  "newest_first ss = sort_key (\<lambda>s. - se_updated_at s) ss"

definition session_recent :: "int \<Rightarrow> string option \<Rightarrow> session_table \<Rightarrow> change_session list" where
  "session_recent limit device t =
     (let bounded = max 1 (min limit 200);
          rows = map snd t;
          chosen = (if or_empty device = [] then rows
                    else filter (\<lambda>s. cp_device_id (se_plan s) = or_empty device) rows)
      in take (nat bounded) (newest_first chosen))"

text \<open>Opening the store turns every interrupted session into an indeterminate one.\<close>

definition recovered :: "time \<Rightarrow> change_session \<Rightarrow> change_session" where
  "recovered now s = s
     \<lparr>se_status := Indeterminate,
      se_detail := ''SwitchOps stopped while this change was in progress. The device state '' @
        ''must be inspected before another change is attempted.'',
      se_updated_at := now\<rparr>"

definition recover_incomplete :: "time \<Rightarrow> session_table \<Rightarrow> session_table" where
  "recover_incomplete now t =
     fold (\<lambda>s t'. write_session (recovered now s) t') (filter (\<lambda>s. in_flight (se_status s)) (map snd t)) t"

section \<open>The table as a keyed store\<close>

text \<open>Every document is stored under its own number.\<close>

definition table_ok :: "session_table \<Rightarrow> bool" where
  "table_ok t \<longleftrightarrow> dict_ok t \<and> (\<forall>(i, s) \<in> set t. se_id s = i)"

lemma table_ok_Nil [simp]: "table_ok []"
  by (simp add: table_ok_def)

lemma table_ok_write [simp]: "table_ok t \<Longrightarrow> table_ok (write_session s t)"
  by (auto simp: table_ok_def write_session_def dest: set_dict_set)

lemma get_write: "session_get (write_session s t) i = (if i = se_id s then Some s else session_get t i)"
  by (simp add: session_get_def write_session_def)

lemma table_docs: "table_ok t \<Longrightarrow> v \<in> set (map snd t) \<longleftrightarrow> session_get t (se_id v) = Some v"
  unfolding table_ok_def session_get_def by (rule dict_doc_iff) simp_all

lemma table_key: "table_ok t \<Longrightarrow> session_get t i = Some s \<Longrightarrow> se_id s = i"
  unfolding table_ok_def session_get_def by (rule dict_doc_key) simp_all

interpretation session_docs: document_store se_id session_get write_session "map snd" table_ok
  by unfold_locales (rule get_write table_ok_write table_docs table_key; assumption)+

lemma recover_rewrite:
  "recover_incomplete now t = session_docs.rewrite (\<lambda>s. in_flight (se_status s)) (recovered now) t"
  by (simp add: recover_incomplete_def session_docs.rewrite_def)

lemma table_ok_recover [simp]: "table_ok t \<Longrightarrow> table_ok (recover_incomplete now t)"
  by (simp add: recover_rewrite session_docs.wf_rewrite)

lemma get_recover:
  "table_ok t \<Longrightarrow> session_get (recover_incomplete now t) i =
     map_option (\<lambda>s. if in_flight (se_status s) then recovered now s else s) (session_get t i)"
  unfolding recover_rewrite by (rule session_docs.lookup_rewrite) (simp_all add: recovered_def)

section \<open>Properties\<close>

text \<open>C16: Opening the store leaves no session in flight: each interrupted one becomes indeterminate with
  its plan and evidence kept, and every other session is untouched.\<close>

theorem recovery_settles:
  assumes "table_ok t" "session_get t i = Some s"
  shows "\<exists>s'. session_get (recover_incomplete now t) i = Some s' \<and> \<not> in_flight (se_status s') \<and>
    (if in_flight (se_status s) then se_status s' = Indeterminate \<and> se_plan s' = se_plan s \<and> se_result s' = se_result s
     else s' = s)"
  using assms by (auto simp: get_recover recovered_def in_flight_def)

definition demo_plan :: change_plan where
  "demo_plan = \<lparr>cp_id = ''plan-1'', cp_device_id = ''device-0123456789abcdef'', cp_target = ''Gi0/3'',
     cp_steps = [\<lparr>cst_interface = ''Gi0/3'', cst_kind = Admin_down, cst_value = None\<rparr>],
     cp_intent = \<lparr>di_summary = [], di_expected = [], di_unacceptable = []\<rparr>, cp_created_at = 1\<rparr>"

definition demo_session :: "string \<Rightarrow> change_status \<Rightarrow> time \<Rightarrow> change_session" where
  "demo_session i st now = \<lparr>se_id = i, se_plan = demo_plan, se_status = st, se_preflight = None,
     se_before = None, se_after = None, se_comparison = None, se_result = None, se_stages = [],
     se_detail = [], se_created_at = 1, se_updated_at = now\<rparr>"

definition demo_table :: session_table where
  "demo_table = write_session (demo_session ''b'' Ready 2) (write_session (demo_session ''a'' Executing 1) [])"

lemma demo_table_ok: "table_ok demo_table"
  by (simp add: demo_table_def)

theorem recovery_settles_witness:
  "\<exists>s'. session_get (recover_incomplete 5 demo_table) ''a'' = Some s' \<and> se_status s' = Indeterminate"
  using recovery_settles [OF demo_table_ok, of "''a''" "demo_session ''a'' Executing 1" 5]
  by (auto simp: demo_table_def get_write demo_session_def in_flight_def)

lemma sorted_newest: "sorted_wrt (\<lambda>a b. se_updated_at b \<le> se_updated_at a) (newest_first ss)"
  using sorted_sort_key [of "\<lambda>s. - se_updated_at s" ss] by (simp add: newest_first_def sorted_map)

lemma sorted_take_drop:
  "sorted_wrt r xs \<Longrightarrow> x \<in> set (take n xs) \<Longrightarrow> y \<in> set (drop n xs) \<Longrightarrow> r x y"
  by (metis append_take_drop_id sorted_wrt_append)

text \<open>The list of recent sessions is sorted newest first, holds at most the asked number of sessions
  and never more than 200, each of them stored and of the asked device, and leaves out no such
  session newer than one it shows.\<close>

theorem recent_sessions_newest:
  "let rs = session_recent limit device t;
       asked = (\<lambda>s. s \<in> snd ` set t \<and> (or_empty device = [] \<or> cp_device_id (se_plan s) = or_empty device))
   in sorted_wrt (\<lambda>a b. se_updated_at b \<le> se_updated_at a) rs \<and>
      int (length rs) \<le> max 1 (min limit 200) \<and> (\<forall>s\<in>set rs. asked s) \<and>
      (\<forall>s r. asked s \<and> s \<notin> set rs \<and> r \<in> set rs \<longrightarrow> se_updated_at s \<le> se_updated_at r)"
proof -
  define all where "all = newest_first (if or_empty device = [] then map snd t
    else filter (\<lambda>s. cp_device_id (se_plan s) = or_empty device) (map snd t))"
  define n where "n = nat (max 1 (min limit 200))"
  have rs: "session_recent limit device t = take n all"
    by (simp add: session_recent_def all_def n_def Let_def)
  have "set all = {s \<in> snd ` set t. or_empty device = [] \<or> cp_device_id (se_plan s) = or_empty device}"
    by (auto simp: all_def newest_first_def)
  moreover have "sorted_wrt (\<lambda>a b. se_updated_at b \<le> se_updated_at a) all"
    by (simp add: all_def sorted_newest)
  moreover have "y \<in> set (drop n all)" if "y \<in> set all" "y \<notin> set (take n all)" for y
    using that by (metis Un_iff append_take_drop_id set_append)
  ultimately show ?thesis
    using sorted_take_drop [of "\<lambda>a b. se_updated_at b \<le> se_updated_at a" all _ n] in_set_takeD [of _ n all]
    unfolding Let_def rs by (auto simp: n_def sorted_wrt_take)
qed

theorem recent_sessions_newest_witness:
  "map se_id (session_recent 1 None demo_table) = [''b''] \<and>
    length (session_recent 1 None demo_table) \<le> 1 \<and>
    sorted_wrt (\<lambda>a b. se_updated_at b \<le> se_updated_at a) (session_recent 1 None demo_table)"
proof
  show "map se_id (session_recent 1 None demo_table) = [''b'']" by code_simp
qed (use recent_sessions_newest [of 1 None demo_table] in \<open>auto simp: Let_def\<close>)

end
