(* ===== verification/Topology_Names.thy ===== *)
theory Topology_Names
  imports Parse_Ports
begin

text \<open>
  The leaf functions of \<open>backend/app/topology.py\<close>: slugs, the states a status word stands for, and the
  readings of an interface description (device category, vendor, model, interface role).
\<close>

section \<open>Names and states\<close>

definition slug_char :: "char \<Rightarrow> bool" where
  "slug_char c \<longleftrightarrow> is_decimal_char c \<or> (97 \<le> cp c \<and> cp c \<le> 122)"

definition strip_dashes :: "string \<Rightarrow> string" where
  "strip_dashes s = rev (dropWhile ((=) CHR ''-'') (rev (dropWhile ((=) CHR ''-'') s)))"

definition slug :: "string \<Rightarrow> string" where
  "slug v =
     (let s = strip_dashes (rx_sub (plus1 (One (\<lambda>c. \<not> slug_char c))) (\<lambda>_. ''-'') (py_lower v))
      in if s = [] then ''unknown'' else s)"

definition switch_device_id :: "string \<Rightarrow> string \<Rightarrow> string" where
  "switch_device_id hostname namespace = ''switch-'' @ slug namespace @ ''-'' @ slug hostname"

definition interface_admin_state :: "string \<Rightarrow> string" where
  "interface_admin_state status =
     (let v = py_lower (py_strip status) in
      if v = ''disabled'' then ''down'' else if v \<noteq> [] then ''up'' else ''unknown'')"

definition interface_oper_state :: "string \<Rightarrow> string" where
  "interface_oper_state status =
     (let v = py_lower (py_strip status) in
      if v = ''connected'' then ''up'' else if v \<noteq> [] then ''down'' else ''unknown'')"

section \<open>Reading a description\<close>

definition category_rules :: "(string \<times> string list) list" where
  "category_rules =
     [(''access-point'', [''access point'', ''wireless'', ''wifi'', ''wi-fi'', '' ap'', ''mr44'']),
      (''router'', [''router'', ''gateway'', ''firewall'', ''uplink'', ''modem'', ''isp'', ''wan'']),
      (''server'', [''server'', ''nas'', ''hypervisor'']),
      (''desktop'', [''desktop'', ''workstation'', '' pc'']),
      (''laptop'', [''laptop'', ''notebook'']),
      (''phone'', [''phone'', ''voip'', ''iphone'', ''android'']),
      (''tv-media'', ['' tv'', ''television'', ''media'', ''streaming'']),
      (''printer'', [''printer'']),
      (''camera'', [''camera'', ''cctv''])]"

definition uplink_tokens :: "string list" where
  "uplink_tokens = [''uplink'', ''trunk'', ''wan'', ''isp'', ''modem'', ''router'', ''gateway'', ''upstream'']"

definition any_in :: "string list \<Rightarrow> string \<Rightarrow> bool" where
  "any_in tokens text \<longleftrightarrow> list_ex (\<lambda>t. py_contains t text) tokens"

text \<open>The first category with a token in the text.\<close>

definition first_category :: "string \<Rightarrow> string option" where
  "first_category text = map_option fst (find (\<lambda>(c, needles). any_in needles text) category_rules)"

definition padded :: "string \<Rightarrow> string" where
  "padded s = '' '' @ py_lower (py_strip s) @ '' ''"

record classification =
  cl_category :: string
  cl_vendor :: "string option"
  cl_model :: "string option"
  cl_stage :: string
  cl_evidence :: "string list"

definition mr_model_rx :: rx where
  "mr_model_rx = seqs [Wordb, Grp 1 (seqs [liti ''MR'', between 2 3 dig]), Wordb]"

text \<open>\<open>str.upper\<close>; the three Latin-1 letters whose upper case is not one Latin-1 letter stay.\<close>

definition py_upper_char :: "char \<Rightarrow> char" where
  "py_upper_char c =
     (if (97 \<le> cp c \<and> cp c \<le> 122) \<or> (224 \<le> cp c \<and> cp c \<le> 254 \<and> cp c \<noteq> 247)
      then char_of (cp c - 32) else c)"

definition py_upper :: "string \<Rightarrow> string" where
  "py_upper s = map py_upper_char s"

definition classify_device :: "string \<Rightarrow> string option \<Rightarrow> classification" where
  "classify_device description vendor_hint =
     (let text = padded description;
          category = first_category text;
          named = (if vendor_hint \<noteq> None then vendor_hint
                   else if py_contains ''meraki'' text then Some ''Cisco Meraki''
                   else if py_contains ''cisco'' text then Some ''Cisco'' else None);
          model = map_option (\<lambda>g. py_upper (group_text g 1)) (rx_search mr_model_rx description);
          vendor = (if model \<noteq> None \<and> named = None then Some ''Cisco Meraki'' else named)
      in \<lparr>cl_category = (case category of None \<Rightarrow> ''unknown'' | Some c \<Rightarrow> c),
          cl_vendor = vendor, cl_model = model,
          cl_stage =
            (if or_empty model \<noteq> [] then ''model'' else if or_empty vendor \<noteq> [] then ''vendor''
             else if category \<noteq> None then ''category'' else ''unknown''),
          cl_evidence =
            (if category \<noteq> None then [''interface description suggests device category''] else []) @
            (if or_empty named \<noteq> [] then [''vendor named by observed metadata''] else []) @
            (if model \<noteq> None then [''model named by observed metadata''] else []) @
            (if model \<noteq> None \<and> named = None then [''vendor identified from the model family''] else [])\<rparr>)"

datatype iface_role = Role_uplink | Role_access | Role_unknown

definition classify_interface_role :: "string \<Rightarrow> string \<Rightarrow> iface_role" where
  "classify_interface_role description vlan =
     (if py_lower (py_strip vlan) = ''trunk'' then Role_uplink
      else
        (let text = padded description in
         if py_strip text = [] then Role_unknown
         else if py_contains ''spare'' text \<or> py_contains ''unused'' text then Role_unknown
         else if any_in uplink_tokens text then Role_uplink
         else Role_access))"

definition meaningful_description :: "string \<Rightarrow> bool" where
  "meaningful_description description \<longleftrightarrow>
     (let v = py_lower (py_strip description) in
      v \<noteq> [] \<and> \<not> any_in [''spare'', ''unused'', ''access port'', ''reserved''] v)"

end
