(* ===== verification/Change_Assurance.thy ===== *)
theory Change_Assurance
  imports Change_Store Topology_Names
begin

text \<open>
  \<open>backend/app/change_assurance.py\<close>: plans, the snapshot of normalised evidence, the preflight, the
  comparison of two snapshots, and the service that runs a session through them around the bounded
  operation. The live dashboard state the service is given is a record of what it reads of it; the
  digests and the parser of ISO times are parameters.
\<close>

section \<open>The surroundings\<close>

record topo_link =
  tl_from :: "string option"
  tl_to :: "string option"
  tl_relationship :: "string option"
  tl_evidence :: "string list"

record topo_device =
  td_id :: "string option"
  td_connected :: "string option"
  td_existence :: "string option"
  td_identity :: "string option"
  td_name :: "string option"

record topo_interface =
  ti_port :: "string option"
  ti_expected_name :: "string option"
  ti_role :: "string option"
  ti_freshness :: "string option"
  ti_evidence :: "string list"

record health_reason =
  hr_interface :: "string option"
  hr_severity :: "string option"

record health_context =
  hc_state :: "string option"
  hc_reasons :: "health_reason list"

text \<open>The context: \<open>None\<close> for an absent or empty health section.\<close>

record live_context =
  lc_interfaces :: "topo_interface list"
  lc_links :: "topo_link list"
  lc_devices :: "topo_device list"
  lc_generated_at :: "string option"
  lc_reconciliation :: "(string option \<times> string option) list"
  lc_health :: "health_context option"
  lc_connection :: "string option"

record 'd site =
  si_env :: "'d env"
  si_digest :: "string \<Rightarrow> string"
  si_topology_digest :: "topo_link list \<Rightarrow> topo_device list \<Rightarrow> string"
  si_iso :: "string \<Rightarrow> time option"
  si_save_up :: "change_session \<Rightarrow> bool"
  si_host :: "string option"
  si_policy :: policy_file
  si_lock :: write_lock

section \<open>Plans\<close>

definition canonical_and_short :: "string \<Rightarrow> (string \<times> string) result" where
  "canonical_and_short iface =
     and_then (normalize_interface iface) (\<lambda>c. and_then (short_interface c) (\<lambda>s. Inr (c, s)))"

definition entity_key :: "(string \<Rightarrow> string) \<Rightarrow> string \<Rightarrow> string" where
  "entity_key digest mac =
     ''learned-'' @ take 16 (digest (filter (\<lambda>c. c \<in> set ''0123456789abcdef'') (py_lower mac)))"

definition effect_of :: "string \<Rightarrow> string \<Rightarrow> string \<Rightarrow> bool \<Rightarrow> expected_effect" where
  "effect_of category field expectation required =
     \<lparr>ee_category = category, ee_field = field, ee_expectation = expectation, ee_required = required\<rparr>"

definition unacceptable :: "string list" where
  "unacceptable =
     [''A different bounded property on the target interface changes unexpectedly.'',
      ''Any unrelated interface changes during the assurance window.'',
      ''The startup configuration changes without an explicit save action.'']"

fun py_repr_opt :: "string option \<Rightarrow> string" where
  "py_repr_opt None = ''None''"
| "py_repr_opt (Some s) = py_repr s"

definition intent_for :: "operation_kind \<Rightarrow> string \<Rightarrow> string option \<Rightarrow> declared_intent" where
  "intent_for kind iface value =
     (let (summary, effects) =
        (case kind of
           Admin_down \<Rightarrow>
             (''Administratively disable '' @ iface @ ''.'',
              [effect_of ''interface'' ''adminState'' ''down'' True,
               effect_of ''interface'' ''operState'' ''may become down'' False,
               effect_of ''topology'' ''target attachment'' ''may disappear or age'' False,
               effect_of ''topology'' ''learned addresses'' ''may disappear or age'' False])
         | Admin_up \<Rightarrow>
             (''Administratively enable '' @ iface @ ''.'',
              [effect_of ''interface'' ''adminState'' ''up'' True,
               effect_of ''interface'' ''operState'' ''may remain down until a link exists'' False,
               effect_of ''topology'' ''target attachment'' ''may appear if a device is connected'' False])
         | Poe_auto \<Rightarrow>
             (''Set Power over Ethernet policy to auto on '' @ iface @ ''.'',
              [effect_of ''interface'' ''poeAdmin'' ''auto'' True,
               effect_of ''interface'' ''poeOper'' ''may begin supplying power'' False,
               effect_of ''topology'' ''target attachment'' ''may appear after a powered device starts'' False])
         | Poe_never \<Rightarrow>
             (''Disable Power over Ethernet on '' @ iface @ ''.'',
              [effect_of ''interface'' ''poeAdmin'' ''never'' True,
               effect_of ''interface'' ''poeOper'' ''may stop supplying power'' False,
               effect_of ''topology'' ''target attachment''
                 ''may disappear if the endpoint depends on PoE'' False])
         | Set_description \<Rightarrow>
             (''Set the interface description on '' @ iface @ '' to '' @ py_repr_opt value @ ''.'',
              [effect_of ''interface'' ''description'' (or_empty value) True,
               effect_of ''topology'' ''expected intent''
                 ''may be reclassified after discovery refresh'' False]))
      in \<lparr>di_summary = summary, di_expected = effects, di_unacceptable = unacceptable\<rparr>)"

definition safe_value :: "operation_kind \<Rightarrow> string option \<Rightarrow> string option result" where
  "safe_value kind value =
     (if needs_value kind then and_then (sanitize_description (or_empty value)) (\<lambda>v. Inr (Some v))
      else if or_empty value \<noteq> []
      then Inl (CommandNotAllowedError (py_repr (kind_name kind) @ '' does not accept a value.''))
      else Inr None)"

section \<open>The snapshot\<close>

definition severity_rank :: "string \<Rightarrow> int" where
  "severity_rank s =
     (if s = ''HEALTHY'' then 0 else if s = ''NOTICE'' then 1 else if s = ''ATTENTION'' then 2
      else if s = ''CRITICAL'' then 3 else -1)"

definition or_default :: "string option \<Rightarrow> string \<Rightarrow> string" where
  "or_default v d = (if or_empty v = [] then d else or_empty v)"

definition same_port :: "string option \<Rightarrow> string \<Rightarrow> bool" where
  "same_port v port \<longleftrightarrow> py_lower (or_empty v) = py_lower port"

definition worst_reason :: "string \<Rightarrow> health_reason list \<Rightarrow> string" where
  "worst_reason port reasons =
     fold (\<lambda>r state.
         if \<not> same_port (hr_interface r) port then state
         else (let candidate = py_upper (or_default (hr_severity r) ''UNKNOWN'') in
               if severity_rank candidate > severity_rank state then candidate else state))
       reasons ''HEALTHY''"

definition target_health :: "live_context \<Rightarrow> string \<Rightarrow> string" where
  "target_health ctx port =
     (case lc_health ctx of None \<Rightarrow> ''UNKNOWN'' | Some h \<Rightarrow> worst_reason port (hc_reasons h))"

text \<open>What the switch was asked for: the six texts, in this order.\<close>

record raw_evidence =
  rw_status :: string
  rw_poe :: string
  rw_errors :: string
  rw_macs :: string
  rw_running :: string
  rw_startup :: string

definition read_evidence :: "'d env \<Rightarrow> string \<Rightarrow> ('d, raw_evidence) act" where
  "read_evidence env actor =
     act_then (run_and_audit env ''show_interfaces_status'' actor) (\<lambda>status.
     act_then (run_and_audit env ''show_power_inline'' actor) (\<lambda>poe.
     act_then (run_and_audit env ''show_interfaces_counters_errors'' actor) (\<lambda>errors.
     act_then (run_and_audit env ''show_mac_address_table'' actor) (\<lambda>macs.
     act_then (run_and_audit env ''show_running_config'' actor) (\<lambda>running.
     act_then (run_and_audit env ''show_startup_config'' actor) (\<lambda>startup.
       act_return \<lparr>rw_status = status, rw_poe = poe, rw_errors = errors, rw_macs = macs,
         rw_running = running, rw_startup = startup\<rparr>))))))"

text \<open>The addresses learned on a port, as their keys; the rows of the switch itself do not count.\<close>

definition learned_on :: "(string \<Rightarrow> string) \<Rightarrow> mac_table_entry list \<Rightarrow> string \<Rightarrow> string list" where
  "learned_on digest entries port =
     map (\<lambda>e. entity_key digest (mac_addr e))
       (filter (\<lambda>e. py_upper (mac_port e) \<noteq> ''CPU'' \<and> py_lower (mac_vlan e) \<noteq> ''all'' \<and>
           py_lower (mac_port e) = py_lower port) entries)"

definition interface_snapshot ::
  "(string \<Rightarrow> string) \<Rightarrow> string \<Rightarrow> iface_config option \<Rightarrow> poe_port list \<Rightarrow> interface_error_counters list
     \<Rightarrow> mac_table_entry list \<Rightarrow> interface_status \<Rightarrow> iface_snapshot result"
where
  "interface_snapshot digest target config ports errors macs item =
     and_then (canonical_and_short (ifs_port item)) (\<lambda>(_, port).
       let poe = last_row (\<lambda>p. py_lower (pp_interface p)) (py_lower port) ports;
           target_config = (if py_lower port = py_lower target then config else None)
       in Inr \<lparr>is_port = port, is_present = True, is_admin = interface_admin_state (ifs_status item),
            is_oper = (if py_lower (py_strip (ifs_status item)) = ''connected'' then ''up'' else ''down''),
            is_description = (case target_config of Some c \<Rightarrow> ic_description c | None \<Rightarrow> ifs_name item),
            is_vlan = ifs_vlan item, is_speed = ifs_speed item, is_duplex = ifs_duplex item,
            is_poe_admin =
              (case target_config of Some c \<Rightarrow> ic_poe_admin c
               | None \<Rightarrow> (case poe of Some p \<Rightarrow> pp_admin p | None \<Rightarrow> ''unknown'')),
            is_poe_oper = (case poe of Some p \<Rightarrow> pp_oper p | None \<Rightarrow> ''unknown''),
            is_errors =
              (case last_row (\<lambda>e. py_lower (ec_port e)) (py_lower port) errors of
                 Some e \<Rightarrow> ec_total e | None \<Rightarrow> 0),
            is_macs = int (length (dedup (learned_on digest macs port)))\<rparr>)"

text \<open>The devices of the topology that count as attached to the target.\<close>

definition here_now :: "string \<Rightarrow> topo_device \<Rightarrow> bool" where
  "here_now target d \<longleftrightarrow> same_port (td_connected d) target \<and> td_existence d \<noteq> Some ''historical''"

definition topology_part ::
  "(topo_link list \<Rightarrow> topo_device list \<Rightarrow> string) \<Rightarrow> live_context \<Rightarrow> string \<Rightarrow> string list \<Rightarrow> topology_snapshot"
where
  "topology_part digest ctx target learned_macs =
     (let links = filter (\<lambda>l. same_port (tl_from l) target) (lc_links ctx);
          iface = find (\<lambda>i. same_port (ti_port i) target) (lc_interfaces ctx);
          attached =
            map (\<lambda>l. or_empty (tl_to l))
              (filter (\<lambda>l. tl_relationship l \<in> {Some ''attached-endpoint'', Some ''direct-neighbour''} \<and>
                 or_empty (tl_to l) \<noteq> []) links) @
            map (\<lambda>d. or_empty (td_id d))
              (filter (\<lambda>d. here_now target d \<and> or_empty (td_id d) \<noteq> []) (lc_devices ctx));
          learned = learned_macs @
            map (\<lambda>l. or_empty (tl_to l))
              (filter (\<lambda>l. tl_relationship l = Some ''learned-behind'' \<and> or_empty (tl_to l) \<noteq> []) links)
      in \<lparr>ts_relationships = sorted_set (map (\<lambda>l. or_default (tl_relationship l) ''unknown'') links),
          ts_attached = sorted_set attached,
          ts_learned = sorted_set (filter (\<lambda>x. x \<notin> set attached) learned),
          ts_expected = (case iface of Some i \<Rightarrow> ti_expected_name i | None \<Rightarrow> None),
          ts_reconciliation =
            (case find (\<lambda>(i, _). same_port i target) (lc_reconciliation ctx) of
               Some (_, status) \<Rightarrow> status | None \<Rightarrow> None),
          ts_role = (case iface of Some i \<Rightarrow> or_default (ti_role i) ''unknown'' | None \<Rightarrow> ''unknown''),
          ts_local_host = list_ex (\<lambda>d. here_now target d \<and>
             (or_empty (td_identity d) = ''local-host'' \<or>
              py_lower (py_strip (or_empty (td_name d))) = ''this switchops pc'')) (lc_devices ctx),
          ts_other = digest (filter (\<lambda>l. \<not> same_port (tl_from l) target) (lc_links ctx))
            (filter (\<lambda>d. \<not> same_port (td_connected d) target) (lc_devices ctx))\<rparr>)"

definition evidence_part :: "(string \<Rightarrow> time option) \<Rightarrow> live_context \<Rightarrow> string \<Rightarrow> evidence_snapshot" where
  "evidence_part parse_time ctx target =
     (let links = filter (\<lambda>l. same_port (tl_from l) target) (lc_links ctx);
          iface = find (\<lambda>i. same_port (ti_port i) target) (lc_interfaces ctx)
      in \<lparr>es_observed_at =
            (if or_empty (lc_generated_at ctx) = [] then None
             else parse_time (py_replace (or_empty (lc_generated_at ctx)) ''Z'' ''+00:00'')),
          es_freshness = (case iface of Some i \<Rightarrow> or_default (ti_freshness i) ''unknown'' | None \<Rightarrow> ''unknown''),
          es_ids = sorted_set ((case iface of Some i \<Rightarrow> ti_evidence i | None \<Rightarrow> []) @
            concat (map tl_evidence links))\<rparr>)"

definition build_snapshot ::
  "'d site \<Rightarrow> string \<Rightarrow> string \<Rightarrow> string \<Rightarrow> operation_kind \<Rightarrow> live_context \<Rightarrow> raw_evidence
     \<Rightarrow> assurance_snapshot result"
where
  "build_snapshot site device canonical target kind ctx raw =
     (let config = interface_config (rw_running raw) canonical;
          macs = parse_mac_table (rw_macs raw);
          running = configuration_fingerprint (si_digest site) (rw_running raw);
          startup = configuration_fingerprint (si_digest site) (rw_startup raw)
      in and_then (map_result
             (interface_snapshot (si_digest site) target config (pr_ports (parse_poe (rw_poe raw)))
                (parse_interface_errors (rw_errors raw)) macs)
             (parse_interface_status (rw_status raw))) (\<lambda>rows.
           let shown = (case find (\<lambda>i. py_lower (is_port i) = py_lower target) rows of
                          Some i \<Rightarrow> i | None \<Rightarrow> absent_interface target)
           in Inr \<lparr>as_captured_at = env_now (si_env site), as_device_id = device,
                as_target_interface = target,
                as_config = \<lparr>cf_running = running, cf_startup = startup, cf_differs = (running \<noteq> startup),
                  cf_rollback = (case config of None \<Rightarrow> False
                                 | Some c \<Rightarrow> rollback_commands kind canonical c \<noteq> None)\<rparr>,
                as_target = shown,
                as_others = filter (\<lambda>i. py_lower (is_port i) \<noteq> py_lower target) rows,
                as_topology = topology_part (si_topology_digest site) ctx target
                  (learned_on (si_digest site) macs target),
                as_health = \<lparr>hs_connection = or_default (lc_connection ctx) ''unknown'',
                  hs_device = (case lc_health ctx of None \<Rightarrow> ''UNKNOWN''
                               | Some h \<Rightarrow> or_default (hc_state h) ''UNKNOWN''),
                  hs_target = target_health ctx target, hs_errors = is_errors shown\<rparr>,
                as_evidence = evidence_part (si_iso site) ctx target\<rparr>))"

definition capture_snapshot ::
  "'d site \<Rightarrow> string \<Rightarrow> string \<Rightarrow> operation_kind \<Rightarrow> string option \<Rightarrow> live_context
     \<Rightarrow> ('d, assurance_snapshot) act"
where
  "capture_snapshot site device iface kind value ctx w =
     (case and_then (canonical_and_short iface) (\<lambda>names. and_then (safe_value kind value) (\<lambda>_. Inr names)) of
        Inl e \<Rightarrow> (Inl e, w)
      | Inr (canonical, target) \<Rightarrow>
          (case read_evidence (si_env site) ''operator'' w of
             (Inl e, w1) \<Rightarrow> (Inl e, w1)
           | (Inr raw, w1) \<Rightarrow> (build_snapshot site device canonical target kind ctx raw, w1)))"

section \<open>The preflight\<close>

definition check :: "string \<Rightarrow> string \<Rightarrow> check_status \<Rightarrow> string \<Rightarrow> string list \<Rightarrow> preflight_check" where
  "check code label status detail evidence =
     \<lparr>pc_code = code, pc_label = label, pc_status = status, pc_detail = detail, pc_evidence = evidence\<rparr>"

text \<open>A check that passes or blocks, with the detail of each case.\<close>

definition gate_check :: "string \<Rightarrow> string \<Rightarrow> bool \<Rightarrow> string \<Rightarrow> string \<Rightarrow> preflight_check" where
  "gate_check code label ok yes no =
     check code label (if ok then Check_pass else Check_block) (if ok then yes else no) []"

definition plan_step :: "change_plan \<Rightarrow> change_step" where
  "plan_step plan = hd (cp_steps plan)"

definition current_device_id :: "(string \<Rightarrow> string) \<Rightarrow> string option \<Rightarrow> string option" where
  "current_device_id digest host =
     (if or_empty host = [] then None else Some (''device-'' @ take 16 (device_key digest (or_empty host))))"

definition policy_state_name :: "policy_state \<Rightarrow> string" where
  "policy_state_name s = (case s of PROTECTED \<Rightarrow> ''PROTECTED'' | OPERABLE \<Rightarrow> ''OPERABLE'' | UNMANAGED \<Rightarrow> ''UNMANAGED'')"

definition disruptive :: "operation_kind \<Rightarrow> bool" where
  "disruptive kind \<longleftrightarrow> kind \<in> {Admin_down, Poe_never}"

definition confirmed_path :: "operation_kind \<Rightarrow> topology_snapshot \<Rightarrow> bool" where
  "confirmed_path kind t \<longleftrightarrow> disruptive kind \<and> (''gateway-path'' \<in> set (ts_relationships t) \<or> ts_local_host t)"

definition possible_path :: "topology_snapshot \<Rightarrow> bool" where
  "possible_path t \<longleftrightarrow> ts_role t = ''uplink'' \<or> ts_learned t \<noteq> []"

definition path_detail :: "operation_kind \<Rightarrow> topology_snapshot \<Rightarrow> string" where
  "path_detail kind t =
     (if confirmed_path kind t
      then ''Current evidence places the local control or gateway path through this target.''
      else if possible_path t
      then ''The target looks like an uplink or carries learned-behind entities; '' @
        ''SwitchOps cannot prove the control path is elsewhere.''
      else ''No current evidence places the SwitchOps control or gateway path through this target.'')"

text \<open>The checks that can block, for a target whose policy state is known.\<close>

definition gate_checks :: "'d site \<Rightarrow> change_plan \<Rightarrow> assurance_snapshot \<Rightarrow> policy_state \<Rightarrow> preflight_check list" where
  "gate_checks site plan snap state =
     (let device_ok = (current_device_id (si_digest site) (si_host site) = Some (cp_device_id plan));
          connection = py_lower (hs_connection (as_health snap));
          target = cp_target plan;
          writes = controlled_writes_enabled (si_policy site);
          unlocked = lock_unlocked (si_policy site) (si_lock site)
      in [check ''operation_allowlisted'' ''Bounded operation'' Check_pass
            (kind_name (cst_kind (plan_step plan)) @ '' is in the fixed operation catalogue.'') [],
          gate_check ''device_target'' ''Plan device'' device_ok
            ''The plan is bound to the currently configured device.''
            (''The configured device changed after this plan was created. '' @
             ''Create a new plan for the current device.''),
          gate_check ''device_live'' ''Device session'' (connection = ''live'')
            ''The serialized device session is LIVE.''
            (''The serialized device session is '' @ connection @ ''; execution requires LIVE state.''),
          gate_check ''interface_exists'' ''Interface exists'' (is_present (as_target snap))
            (target @ '' is currently reported by the switch.'')
            (target @ '' is not in the current switch interface table.''),
          gate_check ''interface_policy'' ''Interface policy'' (state = OPERABLE)
            (target @ '' is explicitly OPERABLE.'')
            (target @ '' is '' @ policy_state_name state @ ''; discovery evidence cannot grant write authority.''),
          gate_check ''controlled_writes'' ''Controlled writes'' writes
            ''Controlled writes are enabled for this installation.''
            ''Controlled writes are disabled in local settings. Preflight remains read-only.'',
          check ''session_unlock'' ''Process-local unlock'' (if unlocked then Check_pass else Check_info)
            (if unlocked then ''Control is unlocked for this process.''
             else ''Control remains locked. Unlock is required only when the operator chooses Execute.'') [],
          gate_check ''rollback_representable'' ''Bounded rollback'' (cf_rollback (as_config snap))
            ''The current property can be restored using the bounded operation vocabulary.''
            ''The current property cannot be represented safely by the bounded rollback vocabulary.''])"

definition evidence_checks :: "change_plan \<Rightarrow> assurance_snapshot \<Rightarrow> preflight_check list" where
  "evidence_checks plan snap =
     (let t = as_topology snap;
          kind = cst_kind (plan_step plan);
          fresh = es_freshness (as_evidence snap);
          ids = es_ids (as_evidence snap);
          attached = length (ts_attached t);
          learned = length (ts_learned t)
      in [check ''evidence_freshness'' ''Evidence freshness'' (if fresh = ''current'' then Check_pass else Check_warn)
            (if fresh = ''current'' then ''Target topology evidence is current.''
             else ''Target topology evidence is '' @ fresh @ ''; impact analysis may be incomplete.'') ids,
          check ''attached_endpoints'' ''Observed attachment'' Check_info
            (''Current evidence identifies '' @ py_str_nat attached @ '' attached endpoint(s) on the target.'')
            (ts_attached t),
          check ''learned_behind'' ''Learned through target'' (if learned \<noteq> 0 then Check_warn else Check_pass)
            (if learned \<noteq> 0
             then py_str_nat learned @ '' entity identifier(s) are learned through this interface; '' @
               ''they are not proof of direct attachment.''
             else ''No learned-behind entities are currently attributed to the target.'') (ts_learned t),
          check ''control_path'' ''Control path''
            (if confirmed_path kind t then Check_block
             else if disruptive kind \<and> possible_path t then Check_warn else Check_pass)
            (path_detail kind t) ids,
          (if ts_reconciliation t = Some ''uncertain''
           then check ''topology_uncertainty'' ''Topology reconciliation'' Check_warn
             ''The target currently has conflicting or insufficient topology evidence.'' []
           else check ''topology_uncertainty'' ''Topology reconciliation'' Check_pass
             (''Target reconciliation is '' @ or_default (ts_reconciliation t) ''not yet applicable'' @ ''.'') []),
          check ''running_startup'' ''Running versus startup''
            (if cf_differs (as_config snap) then Check_warn else Check_pass)
            (if cf_differs (as_config snap)
             then ''Running configuration already differs from startup before this change.''
             else ''Running and startup configuration fingerprints currently match.'') []])"

definition impact_of :: "change_plan \<Rightarrow> assurance_snapshot \<Rightarrow> blast_radius" where
  "impact_of plan snap =
     (let t = as_topology snap; kind = cst_kind (plan_step plan) in
      \<lparr>bl_target = cp_target plan, bl_attached = length (ts_attached t), bl_learned = length (ts_learned t),
       bl_expected = ts_expected t,
       bl_control = (if confirmed_path kind t then Path_confirmed
                     else if possible_path t then Path_possible else Path_clear),
       bl_detail = path_detail kind t,
       bl_limitations =
         (if es_freshness (as_evidence snap) \<noteq> ''current'' then [''Target discovery evidence is not current.'']
          else []) @
         (if ts_attached t \<noteq> [] \<and> es_ids (as_evidence snap) = []
          then [''An attachment exists, but no identifying evidence IDs are available.''] else []) @
         (if ts_attached t = [] then [''No current attached endpoint identity is established.''] else [])\<rparr>)"

definition preflight_of :: "'d site \<Rightarrow> change_plan \<Rightarrow> assurance_snapshot \<Rightarrow> preflight result" where
  "preflight_of site plan snap =
     and_then (state_for (si_digest site) (si_policy site) (si_host site) (cp_target plan)) (\<lambda>state.
       let checks = gate_checks site plan snap state @ evidence_checks plan snap in
       Inr \<lparr>pf_evaluated_at = env_now (si_env site),
         pf_ready = list_all (\<lambda>c. pc_status c \<noteq> Check_block) checks,
         pf_checks = checks, pf_impact = impact_of plan snap, pf_snapshot = Some snap\<rparr>)"

section \<open>Comparing two snapshots\<close>

text \<open>A difference is recorded only when the values differ.\<close>

definition diff ::
  "diff_scope \<Rightarrow> string \<Rightarrow> diff_value \<Rightarrow> diff_value \<Rightarrow> assessment \<Rightarrow> string \<Rightarrow> string option \<Rightarrow> difference list"
where
  "diff scope field old new assess detail iface =
     (if old = new then []
      else [\<lparr>df_scope = scope, df_field = field, df_old = old, df_new = new, df_assessment = assess,
             df_detail = detail, df_interface = iface\<rparr>])"

definition direct_postcondition :: "change_step \<Rightarrow> iface_snapshot \<Rightarrow> postcondition" where
  "direct_postcondition step target =
     (let met = (\<lambda>b. if b then Met else Not_met) in
      if \<not> is_present target then Unknown_post
      else (case cst_kind step of
              Admin_down \<Rightarrow> met (is_admin target = ''down'')
            | Admin_up \<Rightarrow> met (is_admin target = ''up'')
            | Poe_auto \<Rightarrow> met (py_lower (is_poe_admin target) = ''auto'')
            | Poe_never \<Rightarrow> met (py_lower (is_poe_admin target) = ''never'')
            | Set_description \<Rightarrow> met (is_description target = or_empty (cst_value step))))"

text \<open>The compared fields, with their labels.\<close>

definition labels :: "(string \<times> string \<times> (iface_snapshot \<Rightarrow> diff_value)) list" where
  "labels =
     [(''admin_state'', ''administrative state'', Text \<circ> is_admin),
      (''oper_state'', ''link state'', Text \<circ> is_oper),
      (''description'', ''description'', Text \<circ> is_description),
      (''vlan'', ''VLAN'', Text \<circ> is_vlan),
      (''speed'', ''speed'', Text \<circ> is_speed),
      (''duplex'', ''duplex'', Text \<circ> is_duplex),
      (''poe_admin'', ''PoE policy'', Text \<circ> is_poe_admin),
      (''poe_oper'', ''PoE operational state'', Text \<circ> is_poe_oper),
      (''error_total'', ''error counter'', Number \<circ> is_errors),
      (''learned_mac_count'', ''learned-address count'', Number \<circ> is_macs)]"

definition allowed_fields :: "operation_kind \<Rightarrow> string list" where
  "allowed_fields kind =
     (case kind of
        Admin_up \<Rightarrow> [''admin_state'', ''oper_state'', ''learned_mac_count'']
      | Admin_down \<Rightarrow> [''admin_state'', ''oper_state'', ''learned_mac_count'']
      | Poe_auto \<Rightarrow> [''poe_admin'', ''poe_oper'', ''oper_state'', ''learned_mac_count'']
      | Poe_never \<Rightarrow> [''poe_admin'', ''poe_oper'', ''oper_state'', ''learned_mac_count'']
      | Set_description \<Rightarrow> [''description''])"

definition target_differences :: "change_plan \<Rightarrow> iface_snapshot \<Rightarrow> iface_snapshot \<Rightarrow> difference list" where
  "target_differences plan old new =
     concat (map (\<lambda>(field, label, get).
         let expected = field \<in> set (allowed_fields (cst_kind (plan_step plan))) in
         diff Target_scope field (get old) (get new) (if expected then Expected else Warning)
           (if expected then ''The target '' @ label @ '' changed as an expected consequence of the plan.''
            else ''The target '' @ label @ '' changed outside the plan's declared effects.'')
           (Some (cp_target plan))) labels)"

definition other_differences :: "iface_snapshot list \<Rightarrow> iface_snapshot list \<Rightarrow> string \<Rightarrow> difference list" where
  "other_differences olds news port =
     (case (last_row is_port port olds, last_row is_port port news) of
        (Some old, Some new) \<Rightarrow>
          concat (map (\<lambda>(field, label, get).
            diff Unrelated_scope field (get old) (get new) Warning
              (''Unrelated interface '' @ port @ '' changed '' @ label @ '' during the assurance window. '' @
               ''Temporal proximity does not prove the requested change caused it.'') (Some port)) labels)
      | (old, new) \<Rightarrow>
          diff Unrelated_scope ''presence'' (Flag (old \<noteq> None)) (Flag (new \<noteq> None)) Warning
            (''Unrelated interface '' @ port @ '' appeared or disappeared during the assurance window.'')
            (Some port))"

definition all_other_differences :: "iface_snapshot list \<Rightarrow> iface_snapshot list \<Rightarrow> difference list" where
  "all_other_differences olds news =
     concat (map (other_differences olds news) (sorted_set (map is_port olds @ map is_port news)))"

definition context_differences ::
  "change_plan \<Rightarrow> bool \<Rightarrow> assurance_snapshot \<Rightarrow> assurance_snapshot \<Rightarrow> difference list"
where
  "context_differences plan requires_save old new =
     (let port_change = cst_kind (plan_step plan) \<noteq> Set_description;
          target = Some (cp_target plan)
      in diff Config_scope ''runningFingerprint'' (Text (cf_running (as_config old)))
           (Text (cf_running (as_config new))) (if requires_save then Expected else Info)
           (if requires_save then ''The running configuration fingerprint changed.''
            else ''The running configuration fingerprint changed even though no change was required.'') None @
         diff Config_scope ''startupFingerprint'' (Text (cf_startup (as_config old)))
           (Text (cf_startup (as_config new))) Warning
           ''The startup configuration changed without an explicit save action.'' None @
         diff Topology_scope ''targetAttachments'' (Texts (sorted_set (ts_attached (as_topology old))))
           (Texts (sorted_set (ts_attached (as_topology new)))) (if port_change then Expected else Warning)
           (if port_change
            then ''Target attachment evidence changed consistently with a potentially disruptive port operation.''
            else ''Target attachment evidence changed during a description-only operation.'') target @
         diff Topology_scope ''learnedBehindEntities'' (Texts (ts_learned (as_topology old)))
           (Texts (ts_learned (as_topology new))) (if port_change then Expected else Warning)
           (if port_change
            then ''Learned-behind evidence changed consistently with a potentially disruptive port operation.''
            else ''Learned-behind evidence changed during a description-only operation.'') target @
         diff Topology_scope ''otherTopologyFingerprint'' (Text (ts_other (as_topology old)))
           (Text (ts_other (as_topology new))) Warning
           (''Topology away from the target changed during the assurance window. '' @
            ''SwitchOps records correlation, not causation.'') None @
         diff Health_scope ''deviceHealth'' (Text (hs_device (as_health old))) (Text (hs_device (as_health new)))
           Warning ''The device health classification changed during the assurance window.'' None @
         diff Health_scope ''targetHealth'' (Text (hs_target (as_health old))) (Text (hs_target (as_health new)))
           Warning ''The target interface health classification changed during the assurance window.'' target @
         diff Health_scope ''connectionState'' (Text (hs_connection (as_health old)))
           (Text (hs_connection (as_health new))) Warning
           ''The device connection classification changed during the assurance window.'' None @
         (if is_errors (as_target new) > is_errors (as_target old)
          then diff Health_scope ''targetErrorTotal'' (Number (is_errors (as_target old)))
             (Number (is_errors (as_target new))) Warning
             ''The target cumulative error counter increased during the assurance window.'' target
          else []))"

definition comparison_summary :: "postcondition \<Rightarrow> bool \<Rightarrow> string" where
  "comparison_summary direct warned =
     (case direct of
        Met \<Rightarrow> if \<not> warned
          then ''The declared postcondition was observed and no unrelated differences were detected.''
          else ''The declared postcondition was observed, but independent differences need attention.''
      | Not_met \<Rightarrow> ''The assurance snapshot does not show the declared postcondition.''
      | Unknown_post \<Rightarrow> ''The final target state could not be established.'')"

definition compare_snapshots ::
  "time \<Rightarrow> change_plan \<Rightarrow> assurance_snapshot \<Rightarrow> assurance_snapshot \<Rightarrow> operation_result \<Rightarrow> comparison"
where
  "compare_snapshots now plan old new operation =
     (let direct = direct_postcondition (plan_step plan) (as_target new);
          differences = target_differences plan (as_target old) (as_target new) @
            all_other_differences (as_others old) (as_others new) @
            context_differences plan (or_requires_save operation) old new;
          warnings = map df_detail (filter (\<lambda>d. df_assessment d = Warning) differences)
      in \<lparr>cm_evaluated_at = now, cm_direct = direct, cm_differences = differences,
          cm_warnings = dedup warnings, cm_summary = comparison_summary direct (warnings \<noteq> [])\<rparr>)"

end
