(* ===== verification/Change_Service.thy ===== *)
theory Change_Service
  imports Change_Assurance
begin

text \<open>
  The service of \<open>backend/app/change_assurance.py\<close>: \<open>ChangeAssuranceService\<close> with its store. The
  world holds the world of the bounded operation, the table of sessions, and \<open>cw_saved\<close>, the
  sequence of documents written. Progress listeners of the user interface change nothing and are
  left out. The gates are held for a whole execution, so the policy file, the lock and the host are
  constants of the site. The context of the live dashboard is a result: collecting it may raise.
\<close>

record 'd cworld =
  cw_world :: "'d world"
  cw_table :: session_table
  cw_saved :: "change_session list"

type_synonym 'd service = "'d cworld \<Rightarrow> change_session result \<times> 'd cworld"

definition site_now :: "'d site \<Rightarrow> time" where
  "site_now site = env_now (si_env site)"

definition save :: "'d site \<Rightarrow> change_session \<Rightarrow> 'd service" where
  "save site s w =
     (case session_save (si_save_up site) (site_now site) s (cw_table w) of
        (Inl e, t) \<Rightarrow> (Inl e, w)
      | (Inr s', t) \<Rightarrow> (Inr s', w\<lparr>cw_table := t, cw_saved := cw_saved w @ [s']\<rparr>))"

definition on_switch :: "('d, 'a) act \<Rightarrow> 'd cworld \<Rightarrow> 'a result \<times> 'd cworld" where
  "on_switch m w = (case m (cw_world w) of (r, d) \<Rightarrow> (r, w\<lparr>cw_world := d\<rparr>))"

definition unknown_session :: exn where
  "unknown_session = CommandNotAllowedError ''Unknown Change Assurance session.''"

section \<open>Planning\<close>

definition create_plan :: "'d site \<Rightarrow> string \<Rightarrow> string \<Rightarrow> plan_request \<Rightarrow> string \<Rightarrow> 'd service" where
  "create_plan site plan_id session_id request device w =
     (let step = hd (rq_steps request) in
      case and_then (canonical_and_short (cst_interface step)) (\<lambda>(_, iface).
             and_then (safe_value (cst_kind step) (cst_value step)) (\<lambda>value.
               and_then (validate_step (step\<lparr>cst_interface := iface, cst_value := value\<rparr>)) (\<lambda>step'.
                 enforce_scope
                   \<lparr>cp_id = ''plan-'' @ plan_id, cp_device_id = device, cp_target = iface, cp_steps = [step'],
                    cp_intent = intent_for (cst_kind step) iface value, cp_created_at = site_now site\<rparr>))) of
        Inl e \<Rightarrow> (Inl e, w)
      | Inr plan \<Rightarrow>
          let noted = (if or_empty (rq_summary request) = [] then plan
                       else plan\<lparr>cp_intent := (cp_intent plan)
                              \<lparr>di_summary := di_summary (cp_intent plan) @ '' Operator note: '' @
                                 py_strip (or_empty (rq_summary request))\<rparr>\<rparr>)
          in save site \<lparr>se_id = ''change-'' @ session_id, se_plan = noted, se_status = Planned,
               se_preflight = None, se_before = None, se_after = None, se_comparison = None,
               se_result = None, se_stages = [],
               se_detail = ''Plan created. No device change has been attempted.'',
               se_created_at = site_now site, se_updated_at = site_now site\<rparr> w)"

section \<open>Preflight\<close>

definition with_status :: "change_status \<Rightarrow> string \<Rightarrow> change_session \<Rightarrow> change_session" where
  "with_status st detail s = s\<lparr>se_status := st, se_detail := detail\<rparr>"

definition failed_preflight :: "'d site \<Rightarrow> change_session \<Rightarrow> preflight_check \<Rightarrow> string \<Rightarrow> string \<Rightarrow> preflight" where
  "failed_preflight site s c path limitation =
     \<lparr>pf_evaluated_at = site_now site, pf_ready = False, pf_checks = [c],
      pf_impact = \<lparr>bl_target = cp_target (se_plan s), bl_attached = 0, bl_learned = 0, bl_expected = None,
        bl_control = Path_unknown, bl_detail = path, bl_limitations = [limitation]\<rparr>,
      pf_snapshot = None\<rparr>"

definition capture :: "'d site \<Rightarrow> change_session \<Rightarrow> live_context result \<Rightarrow> ('d, assurance_snapshot) act" where
  "capture site s ctx w =
     (case ctx of
        Inl e \<Rightarrow> (Inl e, w)
      | Inr c \<Rightarrow> capture_snapshot site (cp_device_id (se_plan s)) (cp_target (se_plan s))
          (cst_kind (plan_step (se_plan s))) (cst_value (plan_step (se_plan s))) c w)"

text \<open>The outcome of a preflight on a session whose collection has been announced.\<close>

definition preflight_outcome :: "'d site \<Rightarrow> change_session \<Rightarrow> preflight result \<Rightarrow> change_session" where
  "preflight_outcome site s r =
     (case r of
        Inr p \<Rightarrow>
          if pf_ready p
          then with_status Ready ''Preflight passed. Unlock remains a separate requirement for execution.''
                 (s\<lparr>se_preflight := Some p\<rparr>)
          else with_status Blocked
                 ''Preflight found one or more blocking conditions. No change was attempted.''
                 (s\<lparr>se_preflight := Some p\<rparr>)
      | Inl _ \<Rightarrow>
          with_status Blocked ''Preflight evidence could not be captured. No change was attempted.''
            (s\<lparr>se_preflight := Some (failed_preflight site s
               (check ''snapshot_capture'' ''Assurance snapshot'' Check_block
                 (''SwitchOps could not capture the read-only evidence required '' @ ''for a safe change.'') [])
               ''Control-path evidence is unavailable because preflight capture failed.''
               ''No complete assurance snapshot is available.'')\<rparr>))"

definition run_preflight :: "'d site \<Rightarrow> string \<Rightarrow> live_context \<Rightarrow> 'd service" where
  "run_preflight site sid ctx w =
     (case session_get (cw_table w) sid of
        None \<Rightarrow> (Inl unknown_session, w)
      | Some s \<Rightarrow>
          if in_flight (se_status s)
          then (Inl (CommandNotAllowedError ''This change session is already in progress.''), w)
          else if se_status s \<in> {Rolled_back, Succeeded, Succeeded_with_warnings, Indeterminate}
          then (Inl (CommandNotAllowedError (''Completed or indeterminate change sessions are immutable. '' @
                  ''Create a new plan.'')), w)
          else
            (let s1 = with_status Preflighting ''Read-only preflight is collecting current evidence.'' s in
             case save site s1 w of
               (Inl e, w1) \<Rightarrow> (Inl e, w1)
             | (Inr s2, w1) \<Rightarrow>
                 (case on_switch (capture site s2 (Inr ctx)) w1 of
                    (r, w2) \<Rightarrow>
                      save site (preflight_outcome site s2 (and_then r (preflight_of site (se_plan s2)))) w2)))"

definition block_before_execution :: "'d site \<Rightarrow> string \<Rightarrow> string \<Rightarrow> 'd service" where
  "block_before_execution site sid detail w =
     (case session_get (cw_table w) sid of
        None \<Rightarrow> (Inl unknown_session, w)
      | Some s \<Rightarrow>
          if se_status s \<notin> {Planned, Preflighting, Ready} then (Inr s, w)
          else save site (with_status Blocked detail s) w)"

definition block_preflight_unavailable :: "'d site \<Rightarrow> string \<Rightarrow> 'd service" where
  "block_preflight_unavailable site sid w =
     (case session_get (cw_table w) sid of
        None \<Rightarrow> (Inl unknown_session, w)
      | Some s \<Rightarrow>
          save site (with_status Blocked ''Preflight could not reach the device. No change was attempted.''
            (s\<lparr>se_preflight := Some (failed_preflight site s
               (check ''device_live'' ''Device session'' Check_block
                 (''The serialized device session is unavailable, so current assurance '' @
                  ''evidence cannot be collected.'') [])
               ''Control-path evidence is unavailable while the device session is offline.''
               ''No current assurance snapshot is available.'')\<rparr>)) w)"

section \<open>Execution\<close>

text \<open>
  The stage lists the bounded operation streams: one with the stage running (not for a skipped one)
  and one with the stage finished, for each stage of its result. The session is saved with each; the
  stream swallows a failed save.
\<close>

fun streamed :: "operation_stage list \<Rightarrow> operation_stage list \<Rightarrow> operation_stage list list" where
  "streamed done [] = []"
| "streamed done (s # ss) =
     (if st_status s = Skipped then [] else [done @ [s\<lparr>st_status := Running, st_detail := []\<rparr>]]) @
     [done @ [s]] @ streamed (done @ [s]) ss"

definition stage_session_status :: "operation_stage list \<Rightarrow> change_status \<Rightarrow> change_status" where
  "stage_session_status stages st =
     (if stages = [] then st
      else if st_name (last stages) = Verify then Verifying
      else if st_name (last stages) = Rollback then Rolling_back else Executing)"

fun stream_saves :: "'d site \<Rightarrow> operation_stage list list \<Rightarrow> change_session \<Rightarrow> 'd cworld \<Rightarrow> change_session \<times> 'd cworld" where
  "stream_saves site [] s w = (s, w)"
| "stream_saves site (stages # rest) s w =
     (let s' = s\<lparr>se_stages := stages, se_status := stage_session_status stages (se_status s)\<rparr> in
      case save site s' w of
        (Inl _, w') \<Rightarrow> stream_saves site rest s' w'
      | (Inr s'', w') \<Rightarrow> stream_saves site rest s'' w')"

text \<open>The verdict on a finished operation.\<close>

definition verdict :: "operation_result \<Rightarrow> comparison \<Rightarrow> change_session \<Rightarrow> change_session" where
  "verdict result cmp s =
     (if or_status result = Op_rolled_back \<and> or_rolled_back result = Some True
      then with_status Rolled_back
             ''The intended state was not verified and the bounded rollback was observed.'' s
      else if or_status result \<noteq> Op_success
      then with_status Indeterminate
             (''The requested state was not proven. SwitchOps cannot claim a successful '' @
              ''change or rollback.'') s
      else if cm_direct cmp \<noteq> Met
      then with_status Indeterminate
             (''The primitive verification and assurance snapshot do not establish the '' @
              ''same final state.'') s
      else if cm_warnings cmp \<noteq> []
      then with_status Succeeded_with_warnings
             (''The requested state was achieved, but unrelated or unexpected observations '' @
              ''need attention.'') s
      else with_status Succeeded
             ''The requested state was achieved and observed effects matched the declared change.'' s)"

definition exec_after ::
  "'d site \<Rightarrow> live_context result \<Rightarrow> assurance_snapshot \<Rightarrow> operation_result \<Rightarrow> change_session \<Rightarrow> 'd service"
where
  "exec_after site ctx prior result s w =
     (case save site (with_status Verifying
             ''Capturing normalized after-state and checking collateral observations.''
             (s\<lparr>se_result := Some result\<rparr>)) w of
        (Inl e, w1) \<Rightarrow> (Inl e, w1)
      | (Inr s1, w1) \<Rightarrow>
          (case on_switch (capture site s1 ctx) w1 of
             (Inl _, w2) \<Rightarrow>
               save site (with_status Indeterminate
                 (''The operation returned, but SwitchOps could not prove the final device '' @
                  ''state. Inspect the target before another change.'') s1) w2
           | (Inr shown, w2) \<Rightarrow>
               (let cmp = compare_snapshots (site_now site) (se_plan s1) prior shown result in
                save site (verdict result cmp (s1\<lparr>se_after := Some shown, se_comparison := Some cmp\<rparr>)) w2)))"

definition exec_operation ::
  "'d site \<Rightarrow> live_context result \<Rightarrow> assurance_snapshot \<Rightarrow> change_session \<Rightarrow> 'd service"
where
  "exec_operation site ctx prior s w =
     (let step = plan_step (se_plan s) in
      case on_switch (run_operation (si_env site) (si_digest site) (si_policy site) (si_host site)
             (si_lock site) (cst_kind step) (cp_target (se_plan s)) (cst_value step) ''operator'' False) w of
        (Inl _, w1) \<Rightarrow>
          save site (with_status Indeterminate
            (''The bounded executor did not return a conclusive result. Inspect the '' @
             ''target before another change.'') s) w1
      | (Inr result, w1) \<Rightarrow>
          (case stream_saves site (streamed [] (or_stages result)) s w1 of
             (s1, w2) \<Rightarrow> exec_after site ctx prior result s1 w2))"

definition exec_authorized ::
  "'d site \<Rightarrow> live_context result \<Rightarrow> live_context result \<Rightarrow> change_session \<Rightarrow> 'd service"
where
  "exec_authorized site ctx1 ctx2 s w =
     (case save site (with_status Executing
             ''Capturing the final before-state under stable write authorization.'' s) w of
        (Inl e, w1) \<Rightarrow> (Inl e, w1)
      | (Inr s1, w1) \<Rightarrow>
          (case on_switch (capture site s1 ctx1) w1 of
             (Inl _, w2) \<Rightarrow>
               save site (with_status Blocked
                 (''The final before-state could not be captured under stable authorization. '' @
                  ''No IOS configuration was attempted.'') s1) w2
           | (Inr prior, w2) \<Rightarrow>
               (case preflight_of site (se_plan s1) prior of
                  Inl e \<Rightarrow> (Inl e, w2)
                | Inr p \<Rightarrow>
                    let s2 = s1\<lparr>se_before := Some prior, se_preflight := Some p\<rparr> in
                    if \<not> pf_ready p
                    then save site (with_status Blocked
                           (''Conditions changed after review; execution was blocked before IOS '' @
                            ''configuration.'') s2) w2
                    else
                      (case save site s2 w2 of
                         (Inl e, w3) \<Rightarrow> (Inl e, w3)
                       | (Inr s3, w3) \<Rightarrow> exec_operation site ctx2 prior s3 w3))))"

definition execute :: "'d site \<Rightarrow> string \<Rightarrow> live_context result \<Rightarrow> live_context result \<Rightarrow> 'd service" where
  "execute site sid ctx1 ctx2 w =
     (case session_get (cw_table w) sid of
        None \<Rightarrow> (Inl unknown_session, w)
      | Some s \<Rightarrow>
          if se_status s \<noteq> Ready
          then (Inl (CommandNotAllowedError ''Run a successful read-only preflight before execution.''), w)
          else
            (case lock_guard (si_policy site) (si_lock site) of
               Inl e \<Rightarrow> (Inl e, w)
             | Inr _ \<Rightarrow>
                 (case policy_guard (si_digest site) (si_policy site) (si_host site) (cp_target (se_plan s)) of
                    Inl e \<Rightarrow> (Inl e, w)
                  | Inr _ \<Rightarrow> exec_authorized site ctx1 ctx2 s w)))"

end
