(* ===== verification/Change_Sessions.thy ===== *)
theory Change_Sessions
  imports Change_Service Operation_Properties
begin

text \<open>
  The life of a change session: the transitions its documents take, what a final status means, and
  the invariant of the store over every sequence of service calls and restarts.
\<close>

section \<open>The transitions\<close>

text \<open>The status of a session from one written document to the next.\<close>

inductive session_step :: "change_status \<Rightarrow> change_status \<Rightarrow> bool" where
  collect: "a \<in> {Planned, Preflighting, Ready, Blocked} \<Longrightarrow> session_step a Preflighting"
| conclude: "b \<in> {Ready, Blocked} \<Longrightarrow> session_step Preflighting b"
| give_up: "a \<in> {Planned, Preflighting, Ready} \<Longrightarrow> session_step a Blocked"
| start: "session_step Ready Executing"
| go_on: "in_flight a \<Longrightarrow> in_flight b \<Longrightarrow> session_step a b"
| stop: "session_step Executing Blocked"
| lose: "in_flight a \<Longrightarrow> session_step a Indeterminate"
| finish: "b \<in> {Rolled_back, Succeeded, Succeeded_with_warnings} \<Longrightarrow> session_step Verifying b"

lemma in_flight_simps [simp]:
  "in_flight Executing" "in_flight Verifying" "in_flight Rolling_back" "\<not> in_flight Planned"
  "\<not> in_flight Preflighting" "\<not> in_flight Blocked" "\<not> in_flight Ready" "\<not> in_flight Rolled_back"
  "\<not> in_flight Succeeded" "\<not> in_flight Succeeded_with_warnings" "\<not> in_flight Indeterminate"
  by (simp_all add: in_flight_def)

inductive_simps from_final: "session_step Rolled_back b" "session_step Succeeded b"
  "session_step Succeeded_with_warnings b" "session_step Indeterminate b"

definition final :: "change_status \<Rightarrow> bool" where
  "final st \<longleftrightarrow> st \<in> {Rolled_back, Succeeded, Succeeded_with_warnings, Indeterminate}"

lemma final_stays: "final a \<Longrightarrow> \<not> session_step a b"
  by (auto simp: final_def from_final in_flight_def)

text \<open>A sequence of documents written for one session, after the document it started from.\<close>

definition path :: "change_session \<Rightarrow> change_session list \<Rightarrow> bool" where
  "path s ds \<longleftrightarrow> successively session_step (map se_status (s # ds)) \<and>
     (\<forall>d\<in>set ds. se_id d = se_id s \<and> se_plan d = se_plan s)"

definition journal :: "change_session list \<Rightarrow> 'd cworld \<Rightarrow> 'd cworld \<Rightarrow> bool" where
  "journal ds w w' \<longleftrightarrow> cw_saved w' = cw_saved w @ ds \<and> cw_table w' = fold write_session ds (cw_table w)"

lemma journal_refl [simp]: "journal [] w w"
  by (simp add: journal_def)

lemma journal_trans: "journal xs w w1 \<Longrightarrow> journal ys w1 w2 \<Longrightarrow> journal (xs @ ys) w w2"
  by (simp add: journal_def)

lemma journal_switch: "on_switch m w = (r, w') \<Longrightarrow> journal [] w w'"
  by (auto simp: on_switch_def journal_def split: prod.splits)

lemma path_Nil [simp]: "path s []"
  by (simp add: path_def)

lemma path_Cons:
  "path s (d # ds) \<longleftrightarrow> session_step (se_status s) (se_status d) \<and> se_id d = se_id s \<and> se_plan d = se_plan s \<and> path d ds"
  by (auto simp: path_def)

lemma path_append: "path s (xs @ ys) \<longleftrightarrow> path s xs \<and> path (last (s # xs)) ys"
  by (induction xs arbitrary: s) (auto simp: path_Cons)

text \<open>The two outcomes of a save.\<close>

definition stamp :: "'d site \<Rightarrow> change_session \<Rightarrow> change_session" where
  "stamp site s = s\<lparr>se_updated_at := site_now site\<rparr>"

lemma stamp_simps [simp]:
  "se_status (stamp site s) = se_status s" "se_id (stamp site s) = se_id s"
  "se_plan (stamp site s) = se_plan s" "se_result (stamp site s) = se_result s"
  "se_comparison (stamp site s) = se_comparison s" "se_preflight (stamp site s) = se_preflight s"
  by (simp_all add: stamp_def)

lemma save_cases:
  assumes "save site s w = (r, w')"
  obtains (failed) e where "r = Inl e" "w' = w"
  | (saved) s' where "r = Inr s'" "s' = stamp site s" "journal [s'] w w'"
      "cw_world w' = cw_world w"
  using assms
  by (auto simp: save_def session_save_def journal_def Let_def stamp_def split: if_splits prod.splits)

lemma save_up: "(\<And>s. si_save_up site s) \<Longrightarrow> \<exists>s' w'. save site s w = (Inr s', w')"
  by (simp add: save_def session_save_def Let_def)

text \<open>One save, as a step of the session.\<close>

lemma save_step:
  assumes "save site s w = (r, w')" "session_step (se_status s0) (se_status s)" "se_id s = se_id s0" "se_plan s = se_plan s0"
  obtains ds where "journal ds w w'" "path s0 ds" "cw_world w' = cw_world w"
    "\<And>s'. r = Inr s' \<Longrightarrow> ds = [s'] \<and> s' = stamp site s" "\<And>e. r = Inl e \<Longrightarrow> ds = []"
  using assms(1)
proof (cases rule: save_cases)
  case (failed e)
  show ?thesis by (rule that [of "[]"]) (use failed in simp_all)
next
  case (saved s')
  show ?thesis by (rule that [of "[s']"]) (use saved assms(2-) in \<open>simp_all add: path_Cons\<close>)
qed

section \<open>An execution\<close>

lemma stage_status_in_flight: "in_flight st \<Longrightarrow> in_flight (stage_session_status stages st)"
  by (auto simp: stage_session_status_def in_flight_def)

lemma path_in_flight:
  assumes "in_flight (se_status s)" "\<forall>d\<in>set ds. in_flight (se_status d) \<and> se_id d = se_id s \<and> se_plan d = se_plan s"
  shows "path s ds"
proof -
  have "\<forall>x\<in>set xs. in_flight x \<Longrightarrow> successively session_step xs" for xs
    by (induction xs) (auto simp: successively_Cons intro: go_on)
  then show ?thesis using assms by (auto simp: path_def)
qed

lemma stream_docs:
  assumes "stream_saves site stages s w = (s', w')" "in_flight (se_status s)"
  shows "\<exists>ds. journal ds w w' \<and> cw_world w' = cw_world w \<and>
    (\<forall>d\<in>insert s' (set ds). in_flight (se_status d) \<and> se_id d = se_id s \<and> se_plan d = se_plan s)"
  using assms
proof (induction stages arbitrary: s w)
  case (Cons st rest)
  define t where "t = s\<lparr>se_stages := st, se_status := stage_session_status st (se_status s)\<rparr>"
  have t: "in_flight (se_status t)" "se_id t = se_id s" "se_plan t = se_plan s"
    using Cons.prems(2) by (simp_all add: t_def stage_status_in_flight)
  obtain r w1 where r: "save site t w = (r, w1)" by (cases "save site t w")
  show ?case
    using r
  proof (cases rule: save_cases)
    case (failed e)
    then have "stream_saves site rest t w = (s', w')" using Cons.prems(1) r by (simp add: t_def)
    from Cons.IH [OF this t(1)] show ?thesis using t by simp
  next
    case (saved t')
    then have "stream_saves site rest t' w1 = (s', w')" using Cons.prems(1) r by (simp add: t_def)
    moreover have t': "in_flight (se_status t')" "se_id t' = se_id s" "se_plan t' = se_plan s"
      using t saved(2) by simp_all
    ultimately obtain ds where ds: "journal ds w1 w'" "cw_world w' = cw_world w1"
      "\<forall>d\<in>insert s' (set ds). in_flight (se_status d) \<and> se_id d = se_id s \<and> se_plan d = se_plan s"
      using Cons.IH by fastforce
    show ?thesis
      by (rule exI [of _ "t' # ds"]) (use journal_trans [OF saved(3) ds(1)] ds(2,3) t' saved(4) in simp)
  qed
qed (auto intro: exI [of _ "[]"])

text \<open>What the documents of a session promise by their status.\<close>

definition evidence_ok :: "change_session \<Rightarrow> bool" where
  "evidence_ok s \<longleftrightarrow>
     (se_status s = Ready \<longrightarrow> (\<exists>p. se_preflight s = Some p \<and> pf_ready p)) \<and>
     (se_status s \<in> {Succeeded, Succeeded_with_warnings} \<longrightarrow>
        (\<exists>r c. se_result s = Some r \<and> or_status r = Op_success \<and> se_comparison s = Some c \<and>
           cm_direct c = Met \<and> (cm_warnings c = [] \<longleftrightarrow> se_status s = Succeeded))) \<and>
     (se_status s = Rolled_back \<longrightarrow> (\<exists>r. se_result s = Some r \<and> or_status r = Op_rolled_back))"

lemma evidence_in_flight: "in_flight (se_status s) \<Longrightarrow> evidence_ok s"
  by (auto simp: evidence_ok_def in_flight_def)

lemma evidence_blocked: "se_status s \<in> {Planned, Preflighting, Blocked, Indeterminate} \<Longrightarrow> evidence_ok s"
  by (auto simp: evidence_ok_def)

lemma with_status_simps [simp]:
  "se_status (with_status st d s) = st" "se_id (with_status st d s) = se_id s"
  "se_plan (with_status st d s) = se_plan s" "se_result (with_status st d s) = se_result s"
  "se_comparison (with_status st d s) = se_comparison s" "se_preflight (with_status st d s) = se_preflight s"
  by (simp_all add: with_status_def)

lemma verdict_ok:
  assumes "se_result s = Some result" "se_comparison s = Some cmp"
  shows "evidence_ok (verdict result cmp s)" "final (se_status (verdict result cmp s))"
    "se_status (verdict result cmp s) = Indeterminate \<or>
     se_status (verdict result cmp s) \<in> {Rolled_back, Succeeded, Succeeded_with_warnings}"
    "se_id (verdict result cmp s) = se_id s" "se_plan (verdict result cmp s) = se_plan s"
    "se_result (verdict result cmp s) = Some result"
  using assms by (auto simp: verdict_def evidence_ok_def final_def)

lemma evidence_stamp [simp]: "evidence_ok (stamp site s) = evidence_ok s"
  by (simp add: evidence_ok_def)

text \<open>A service call on a session: the documents it writes form a path from \<open>s0\<close>, keep their promises,
  and the last of them is the session it returns.\<close>

definition writes :: "change_session \<Rightarrow> change_session list \<Rightarrow> change_session result \<Rightarrow> 'd cworld \<Rightarrow> 'd cworld \<Rightarrow> bool" where
  "writes s0 ds r w w' \<longleftrightarrow> journal ds w w' \<and> path s0 ds \<and> (\<forall>d\<in>set ds. evidence_ok d) \<and>
     (\<forall>x. r = Inr x \<longrightarrow> ds \<noteq> [] \<and> x = last ds)"

lemma writes_save:
  assumes "save site s w = (r, w')" "session_step (se_status s0) (se_status s)" "evidence_ok s"
    "se_id s = se_id s0" "se_plan s = se_plan s0"
  shows "\<exists>ds. writes s0 ds r w w' \<and> cw_world w' = cw_world w \<and>
    (\<forall>x. r = Inr x \<longrightarrow> x = stamp site s)"
  using assms(1,2,4,5)
proof (rule save_step)
  fix ds
  assume j: "journal ds w w'" "path s0 ds" "cw_world w' = cw_world w"
    and r: "\<And>s'. r = Inr s' \<Longrightarrow> ds = [s'] \<and> s' = stamp site s" "\<And>e. r = Inl e \<Longrightarrow> ds = []"
  have "(\<forall>d\<in>set ds. evidence_ok d) \<and> (\<forall>x. r = Inr x \<longrightarrow> ds \<noteq> [] \<and> x = last ds)"
    using r assms(3) by (cases r) auto
  then show ?thesis using j r by (auto simp: writes_def)
qed

lemma writes_prepend:
  assumes "journal ds w w1" "path s0 ds" "\<forall>d\<in>set ds. evidence_ok d" "writes (last (s0 # ds)) es r w1 w'"
  shows "writes s0 (ds @ es) r w w'"
  using assms by (auto simp: writes_def path_append intro: journal_trans)

lemma writes_trans:
  assumes "writes s0 ds (Inr s1) w w1" "writes s1 es r w1 w'"
  shows "writes s0 (ds @ es) r w w'"
  by (rule writes_prepend) (use assms in \<open>auto simp: writes_def\<close>)

lemma writes_error: "journal [] w w' \<Longrightarrow> writes s0 [] (Inl e) w w'"
  by (simp add: writes_def)

lemma writes_after:
  assumes "writes s0 ds (Inr s1) w w1" "writes s1 es r w1 w'"
  obtains fs where "writes s0 fs r w w'"
  using writes_trans [OF assms] by blast

lemma writes_switch: "on_switch m w = (a, w1) \<Longrightarrow> writes s0 ds r w1 w' \<Longrightarrow> writes s0 ds r w w'"
  using journal_trans [OF journal_switch] by (fastforce simp: writes_def)

lemma exec_after_writes:
  assumes "exec_after site ctx prior result s w = (r, w')" "in_flight (se_status s0)" "in_flight (se_status s)"
    "se_id s = se_id s0" "se_plan s = se_plan s0"
  shows "\<exists>ds. writes s0 ds r w w' \<and> (\<forall>x. r = Inr x \<longrightarrow> final (se_status x) \<and> se_result x = Some result)"
proof -
  define t where "t = with_status Verifying ''Capturing normalized after-state and checking collateral observations.''
    (s\<lparr>se_result := Some result\<rparr>)"
  have t: "se_status t = Verifying" "in_flight (se_status t)" "se_id t = se_id s0" "se_plan t = se_plan s0" "se_result t = Some result"
    using assms by (simp_all add: t_def in_flight_def)
  obtain r1 w1 where 1: "save site t w = (r1, w1)" by (cases "save site t w")
  obtain ds where ds: "writes s0 ds r1 w w1" "\<forall>x. r1 = Inr x \<longrightarrow> x = stamp site t"
    using writes_save [OF 1, of s0] go_on [OF assms(2) t(2)] evidence_in_flight [OF t(2)] t by auto
  show ?thesis
  proof (cases r1)
    case (Inl e)
    then show ?thesis using assms(1) 1 ds by (auto simp: exec_after_def t_def)
  next
    case (Inr s1)
    then have s1: "se_status s1 = Verifying" "se_id s1 = se_id s0" "se_plan s1 = se_plan s0" "se_result s1 = Some result"
      using ds(2) t by auto
    obtain a w2 where 2: "on_switch (capture site s1 ctx) w1 = (a, w2)" by (cases "on_switch (capture site s1 ctx) w1")
    define u where "u = (case a of
        Inl _ \<Rightarrow> with_status Indeterminate (''The operation returned, but SwitchOps could not prove the final device '' @
           ''state. Inspect the target before another change.'') s1
      | Inr shown \<Rightarrow> let cmp = compare_snapshots (site_now site) (se_plan s1) prior shown result in
           verdict result cmp (s1\<lparr>se_after := Some shown, se_comparison := Some cmp\<rparr>))"
    have final: "save site u w2 = (r, w')"
      using assms(1) 1 2 Inr by (cases a) (simp_all add: exec_after_def t_def u_def Let_def)
    have u: "evidence_ok u" "final (se_status u)" "se_id u = se_id s1" "se_plan u = se_plan s1" "se_result u = Some result"
        "se_status u = Indeterminate \<or> se_status u \<in> {Rolled_back, Succeeded, Succeeded_with_warnings}"
      using s1 verdict_ok [of "s1\<lparr>se_after := x, se_comparison := Some y\<rparr>" result y for x y]
      by (cases a; simp add: u_def Let_def evidence_blocked final_def)+
    have "session_step (se_status s1) (se_status u)"
      using s1(1) u(6) finish lose [of Verifying] by auto
    from writes_save [OF final this u(1,3,4)] obtain es where
      es: "writes s1 es r w2 w'" "\<forall>x. r = Inr x \<longrightarrow> x = stamp site u" by blast
    have "writes s0 (ds @ es) r w w'"
      by (rule writes_trans [OF ds(1) [unfolded Inr] writes_switch [OF 2 es(1)]])
    moreover have "\<forall>x. r = Inr x \<longrightarrow> final (se_status x) \<and> se_result x = Some result"
      using es(2) u(2,5) by (cases r) simp_all
    ultimately show ?thesis by blast
  qed
qed

lemma exec_operation_writes:
  assumes "exec_operation site ctx prior s w = (r, w')" "in_flight (se_status s)"
  shows "\<exists>ds. writes s ds r w w' \<and> (\<forall>x. r = Inr x \<longrightarrow> final (se_status x))"
proof -
  define m where "m = run_operation (si_env site) (si_digest site) (si_policy site) (si_host site) (si_lock site)
    (cst_kind (plan_step (se_plan s))) (cp_target (se_plan s)) (cst_value (plan_step (se_plan s))) ''operator'' False"
  obtain a w1 where 1: "on_switch m w = (a, w1)" by (cases "on_switch m w")
  show ?thesis
  proof (cases a)
    case (Inl e)
    define u where "u = with_status Indeterminate (''The bounded executor did not return a conclusive result. Inspect the '' @
        ''target before another change.'') s"
    have sv: "save site u w1 = (r, w')" using assms(1) 1 Inl by (simp add: exec_operation_def m_def u_def Let_def)
    have u: "session_step (se_status s) (se_status u)" "evidence_ok u" "se_id u = se_id s" "se_plan u = se_plan s"
        "final (se_status u)"
      using lose [OF assms(2)] by (simp_all add: u_def evidence_blocked final_def)
    from writes_save [OF sv u(1-4)] obtain ds where
      ds: "writes s ds r w1 w'" "\<forall>x. r = Inr x \<longrightarrow> x = stamp site u" by blast
    have "\<forall>x. r = Inr x \<longrightarrow> final (se_status x)" using ds(2) u(5) by (cases r) simp_all
    then show ?thesis using writes_switch [OF 1 ds(1)] by blast
  next
    case (Inr result)
    obtain s1 w2 where 2: "stream_saves site (streamed [] (or_stages result)) s w1 = (s1, w2)"
      by (cases "stream_saves site (streamed [] (or_stages result)) s w1")
    then have after: "exec_after site ctx prior result s1 w2 = (r, w')"
      using assms(1) 1 Inr by (simp add: exec_operation_def m_def Let_def)
    from stream_docs [OF 2 assms(2)] obtain ds where
      ds: "journal ds w1 w2" "\<forall>d\<in>insert s1 (set ds). in_flight (se_status d) \<and> se_id d = se_id s \<and> se_plan d = se_plan s"
      by blast
    define l where "l = last (s # ds)"
    have l: "l = s \<or> l \<in> set ds" by (cases ds) (simp_all add: l_def)
    have docs: "\<And>d. d \<in> set ds \<Longrightarrow> in_flight (se_status d) \<and> se_id d = se_id s \<and> se_plan d = se_plan s"
      using ds(2) by blast
    have last: "in_flight (se_status l)" "se_id l = se_id s" "se_plan l = se_plan s"
      using l assms(2) docs [of l] by auto
    have s1: "in_flight (se_status s1)" "se_id s1 = se_id s" "se_plan s1 = se_plan s" using ds(2) by simp_all
    have p: "path s ds" "\<forall>d\<in>set ds. evidence_ok d"
      using path_in_flight [OF assms(2)] docs evidence_in_flight by blast+
    obtain es where
      es: "writes (last (s # ds)) es r w2 w'" "\<forall>x. r = Inr x \<longrightarrow> final (se_status x)"
      using exec_after_writes [OF after last(1) s1(1)] last s1 unfolding l_def [symmetric] by auto
    have "writes s (ds @ es) r w w'"
      by (rule writes_switch [OF 1 writes_prepend [OF ds(1) p es(1)]])
    then show ?thesis using es(2) by blast
  qed
qed

lemma exec_authorized_writes:
  assumes "exec_authorized site ctx1 ctx2 s w = (r, w')" "se_status s = Ready"
  shows "\<exists>ds. writes s ds r w w' \<and> (\<forall>x. r = Inr x \<longrightarrow> final (se_status x) \<or> se_status x = Blocked)"
proof -
  define t where "t = with_status Executing ''Capturing the final before-state under stable write authorization.'' s"
  have t: "se_status t = Executing" "se_id t = se_id s" "se_plan t = se_plan s" by (simp_all add: t_def)
  obtain r1 w1 where 1: "save site t w = (r1, w1)" by (cases "save site t w")
  obtain ds where ds: "writes s ds r1 w w1" "\<forall>x. r1 = Inr x \<longrightarrow> x = stamp site t"
    using writes_save [OF 1, of s] start assms(2) t by (auto simp: evidence_in_flight)
  show ?thesis
  proof (cases r1)
    case (Inl e)
    then show ?thesis using assms(1) 1 ds by (auto simp: exec_authorized_def t_def)
  next
    case (Inr s1)
    then have s1: "se_status s1 = Executing" "se_id s1 = se_id s" "se_plan s1 = se_plan s" using ds(2) t by auto
    note ds1 = ds(1) [unfolded Inr]
    obtain a w2 where 2: "on_switch (capture site s1 ctx1) w1 = (a, w2)" by (cases "on_switch (capture site s1 ctx1) w1")
    have blocked: ?thesis if sv: "save site (with_status Blocked d v) w2 = (r, w')"
      and v: "se_id v = se_id s1" "se_plan v = se_plan s1" for v d
    proof -
      define u where "u = with_status Blocked d v"
      have u: "se_status u = Blocked" "se_id u = se_id s1" "se_plan u = se_plan s1" using v by (simp_all add: u_def)
      from writes_save [OF sv [folded u_def], of s1] obtain es where
        es: "writes s1 es r w2 w'" "\<forall>x. r = Inr x \<longrightarrow> x = stamp site u"
        using s1 u stop by (auto simp: evidence_blocked)
      then show ?thesis using writes_trans [OF ds1 writes_switch [OF 2 es(1)]] u(1) by fastforce
    qed
    show ?thesis
    proof (cases a)
      case (Inl e)
      show ?thesis
        by (rule blocked [of _ s1]) (use Inl assms(1) 1 2 Inr in \<open>simp_all add: exec_authorized_def t_def\<close>)
    next
      case a: (Inr prior)
      show ?thesis
      proof (cases "preflight_of site (se_plan s1) prior")
        case (Inl e)
        then have "r = Inl e" "w' = w2" using assms(1) 1 2 Inr a by (simp_all add: exec_authorized_def t_def \<open>r1 = Inr s1\<close>)
        then show ?thesis
          using writes_trans [OF ds1 writes_switch [OF 2 writes_error [OF journal_refl]], of e] by blast
      next
        case p: (Inr p)
        define s2 where "s2 = s1\<lparr>se_before := Some prior, se_preflight := Some p\<rparr>"
        show ?thesis
        proof (cases "pf_ready p")
          case False
          show ?thesis
            by (rule blocked [of _ s2])
              (use False assms(1) 1 2 Inr a p in \<open>simp_all add: exec_authorized_def t_def Let_def s2_def\<close>)
        next
          case True
          obtain r3 w3 where 3: "save site s2 w2 = (r3, w3)" by (cases "save site s2 w2")
          have fl: "in_flight (se_status s1)" "in_flight (se_status s2)" using s1 by (simp_all add: s2_def)
          from writes_save [OF 3, of s1] obtain es where
            es: "writes s1 es r3 w2 w3" "\<forall>x. r3 = Inr x \<longrightarrow> x = stamp site s2"
            using go_on [OF fl] evidence_in_flight [OF fl(2)] by (auto simp: s2_def)
          have w3: "writes s (ds @ es) r3 w w3" by (rule writes_trans [OF ds1 writes_switch [OF 2 es(1)]])
          show ?thesis
          proof (cases r3)
            case (Inl e)
            then show ?thesis using w3 assms(1) 1 2 \<open>r1 = Inr s1\<close> a p True 3
              by (auto simp: exec_authorized_def t_def Let_def s2_def)
          next
            case r3: (Inr s3)
            have "in_flight (se_status s3)" using es(2) r3 fl(2) by simp
            have op: "exec_operation site ctx2 prior s3 w3 = (r, w')"
              using assms(1) 1 2 Inr a p True 3 r3 by (simp add: exec_authorized_def t_def Let_def s2_def)
            obtain fs where fs: "writes s3 fs r w3 w'" "\<forall>x. r = Inr x \<longrightarrow> final (se_status x)"
              using exec_operation_writes [OF op \<open>in_flight (se_status s3)\<close>] by (elim exE conjE)
            show ?thesis using writes_trans [OF w3 [unfolded r3] fs(1)] fs(2) by blast
          qed
        qed
      qed
    qed
  qed
qed

section \<open>The other calls\<close>

lemma execute_writes:
  assumes "execute site sid ctx1 ctx2 w = (r, w')"
  obtains (refused) e where "r = Inl e" "w' = w"
  | (ran) s ds where "session_get (cw_table w) sid = Some s" "se_status s = Ready"
      "lock_guard (si_policy site) (si_lock site) = Inr ()"
      "\<exists>c. policy_guard (si_digest site) (si_policy site) (si_host site) (cp_target (se_plan s)) = Inr c"
      "exec_authorized site ctx1 ctx2 s w = (r, w')" "writes s ds r w w'"
      "\<forall>x. r = Inr x \<longrightarrow> final (se_status x) \<or> se_status x = Blocked"
proof -
  consider "\<exists>e. r = Inl e \<and> w' = w"
    | s where "session_get (cw_table w) sid = Some s" "se_status s = Ready"
      "lock_guard (si_policy site) (si_lock site) = Inr ()"
      "\<exists>c. policy_guard (si_digest site) (si_policy site) (si_host site) (cp_target (se_plan s)) = Inr c"
      "exec_authorized site ctx1 ctx2 s w = (r, w')"
    using assms by (auto simp: execute_def split: option.splits if_splits sum.splits)
  then show thesis
  proof cases
    case 1
    then show ?thesis using refused by blast
  next
    case 2
    then show ?thesis using exec_authorized_writes [OF 2(5,2)] ran by blast
  qed
qed

lemma preflight_writes:
  assumes "run_preflight site sid ctx w = (r, w')"
  obtains (refused) e where "r = Inl e" "w' = w"
  | (ran) s ds where "session_get (cw_table w) sid = Some s" "se_status s \<in> {Planned, Preflighting, Ready, Blocked}"
      "writes s ds r w w'" "\<forall>x. r = Inr x \<longrightarrow> se_status x \<in> {Ready, Blocked}"
proof (cases "session_get (cw_table w) sid")
  case None
  then show ?thesis using assms refused by (auto simp: run_preflight_def)
next
  case (Some s)
  define t where "t = with_status Preflighting ''Read-only preflight is collecting current evidence.'' s"
  obtain r1 w1 where 1: "save site t w = (r1, w1)" by (cases "save site t w")
  show ?thesis
  proof (cases "se_status s \<in> {Planned, Preflighting, Ready, Blocked}")
    case False
    then have "in_flight (se_status s) \<or> se_status s \<in> {Rolled_back, Succeeded, Succeeded_with_warnings, Indeterminate}"
      by (cases "se_status s") simp_all
    then show ?thesis using assms Some refused by (auto simp: run_preflight_def)
  next
    case True
    then have st: "\<not> in_flight (se_status s)" "se_status s \<notin> {Rolled_back, Succeeded, Succeeded_with_warnings, Indeterminate}"
      by auto
    have step: "session_step (se_status s) (se_status t)" "evidence_ok t" "se_id t = se_id s" "se_plan t = se_plan s"
      using collect [OF True] by (simp_all add: t_def evidence_blocked)
    from writes_save [OF 1 step] obtain ds where ds: "writes s ds r1 w w1" "\<forall>x. r1 = Inr x \<longrightarrow> x = stamp site t"
      by blast
    show ?thesis
    proof (cases r1)
      case (Inl e)
      then have "r = Inl e" "w' = w1" using assms Some st 1 by (auto simp: run_preflight_def t_def)
      then show ?thesis using ran [OF Some True, of ds] ds Inl by simp
    next
      case (Inr s1)
      then have s1: "se_status s1 = Preflighting" "se_id s1 = se_id s" "se_plan s1 = se_plan s"
        using ds(2) by (simp_all add: t_def)
      obtain a w2 where 2: "on_switch (capture site s1 (Inr ctx)) w1 = (a, w2)"
        by (cases "on_switch (capture site s1 (Inr ctx)) w1")
      define u where "u = preflight_outcome site s1 (and_then a (preflight_of site (se_plan s1)))"
      have sv: "save site u w2 = (r, w')"
        using assms Some st 1 2 Inr by (auto simp: run_preflight_def t_def u_def)
      have u: "se_status u \<in> {Ready, Blocked}" "evidence_ok u" "se_id u = se_id s1" "se_plan u = se_plan s1"
        by (auto simp: u_def preflight_outcome_def evidence_ok_def split: sum.split)
      have step: "session_step (se_status s1) (se_status u)" using conclude [OF u(1)] s1 by simp
      from writes_save [OF sv step u(2-)] obtain es where
        es: "writes s1 es r w2 w'" "\<forall>x. r = Inr x \<longrightarrow> x = stamp site u" by blast
      have "\<forall>x. r = Inr x \<longrightarrow> se_status x \<in> {Ready, Blocked}" using es(2) u(1) by (cases r) simp_all
      then show ?thesis
        using ran [OF Some True writes_trans [OF ds(1) [unfolded Inr] writes_switch [OF 2 es(1)]]] by blast
    qed
  qed
qed

lemma block_writes:
  assumes "block_before_execution site sid detail w = (r, w')"
  obtains (kept) "w' = w"
  | (ran) s ds where "session_get (cw_table w) sid = Some s" "writes s ds r w w'"
proof (cases "session_get (cw_table w) sid")
  case None
  then show ?thesis using assms kept by (simp add: block_before_execution_def)
next
  case (Some s)
  show ?thesis
  proof (cases "se_status s \<in> {Planned, Preflighting, Ready}")
    case True
    then have sv: "save site (with_status Blocked detail s) w = (r, w')"
      using assms Some by (auto simp: block_before_execution_def)
    from writes_save [OF sv, of s] show ?thesis
      using ran [OF Some] give_up [OF True] by (auto simp: evidence_blocked)
  next
    case False
    then show ?thesis using assms Some kept by (auto simp: block_before_execution_def)
  qed
qed

section \<open>The store over every sequence of calls\<close>

definition scope_ok :: "change_plan \<Rightarrow> bool" where
  "scope_ok p \<longleftrightarrow> (\<exists>s. cp_steps p = [s] \<and> cst_interface s = cp_target p)"

definition session_ok :: "change_session \<Rightarrow> bool" where
  "session_ok s \<longleftrightarrow> scope_ok (se_plan s) \<and> evidence_ok s"

definition store_ok :: "session_table \<Rightarrow> bool" where
  "store_ok t \<longleftrightarrow> table_ok t \<and> (\<forall>i s. session_get t i = Some s \<longrightarrow> session_ok s)"

lemma fold_write_get:
  "\<forall>d\<in>set ds. se_id d = i \<Longrightarrow>
     session_get (fold write_session ds t) j = (if ds \<noteq> [] \<and> j = i then Some (last ds) else session_get t j)"
  by (induction ds arbitrary: t) (auto simp: get_write)

lemma fold_write_ok: "table_ok t \<Longrightarrow> table_ok (fold write_session ds t)"
  by (induction ds arbitrary: t) auto

lemma path_same: "path s ds \<Longrightarrow> d \<in> set ds \<Longrightarrow> se_id d = se_id s \<and> se_plan d = se_plan s"
  by (auto simp: path_def)

lemma path_steps: "path s ds \<Longrightarrow> session_step\<^sup>*\<^sup>* (se_status s) (se_status (last (s # ds)))"
proof (induction ds arbitrary: s)
  case (Cons d ds)
  then have "session_step (se_status s) (se_status d)" "path d ds" by (simp_all add: path_Cons)
  with Cons.IH [of d] show ?case by (auto intro: converse_rtranclp_into_rtranclp)
qed simp

lemma writes_get:
  assumes "writes s ds r w w'" "table_ok (cw_table w)" "session_get (cw_table w) i = Some s"
  shows "session_get (cw_table w') j = (if j = i then Some (last (s # ds)) else session_get (cw_table w) j)"
proof -
  have i: "se_id s = i" using table_key [OF assms(2,3)] .
  then have "\<forall>d\<in>set ds. se_id d = i" using assms(1) path_same by (auto simp: writes_def)
  then show ?thesis using assms(1,3) fold_write_get [of ds i] by (auto simp: writes_def journal_def)
qed

lemma writes_store_ok:
  assumes "writes s ds r w w'" "store_ok (cw_table w)" "session_get (cw_table w) i = Some s"
  shows "store_ok (cw_table w')"
proof -
  have t: "table_ok (cw_table w)" "session_ok s" using assms(2,3) by (auto simp: store_ok_def)
  have "session_ok d" if "d = s \<or> d \<in> set ds" for d
  proof (cases "d \<in> set ds")
    case True
    then have "se_plan d = se_plan s" "evidence_ok d"
      using assms(1) path_same [of s ds d] by (auto simp: writes_def)
    then show ?thesis using t(2) by (simp add: session_ok_def)
  qed (use that t in auto)
  then have "session_ok (last (s # ds))" by (cases ds) auto
  moreover have "table_ok (cw_table w')" using assms(1) t(1) fold_write_ok by (auto simp: writes_def journal_def)
  ultimately show ?thesis
    using assms(2) writes_get [OF assms(1) t(1) assms(3)] by (auto simp: store_ok_def split: if_splits)
qed

datatype call = Create | Preflight_call | Execute_call | Block_call | Unavailable_call | Restart | Elsewhere

text \<open>
  One call of the service, with whatever site it finds (policy, lock, clock and switch move on
  between calls); a new plan gets a number no session has; a restart reopens the store; elsewhere
  the switch and its trail may change.
\<close>

inductive service_step :: "call \<Rightarrow> 'd cworld \<Rightarrow> 'd cworld \<Rightarrow> bool" where
  created: "session_get (cw_table w) (''change-'' @ n) = None \<Longrightarrow>
     create_plan site p n request device w = (r, w') \<Longrightarrow> service_step Create w w'"
| preflighted: "run_preflight site sid ctx w = (r, w') \<Longrightarrow> service_step Preflight_call w w'"
| executed: "execute site sid ctx1 ctx2 w = (r, w') \<Longrightarrow> service_step Execute_call w w'"
| blocked: "block_before_execution site sid detail w = (r, w') \<Longrightarrow> service_step Block_call w w'"
| unavailable: "block_preflight_unavailable site sid w = (r, w') \<Longrightarrow> service_step Unavailable_call w w'"
| restarted: "service_step Restart w (w\<lparr>cw_table := recover_incomplete now (cw_table w)\<rparr>)"
| elsewhere: "service_step Elsewhere w (w\<lparr>cw_world := d\<rparr>)"

inductive reachable :: "'d cworld \<Rightarrow> bool" where
  opened: "cw_table w = [] \<Longrightarrow> reachable w"
| stepped: "reachable w \<Longrightarrow> service_step c w w' \<Longrightarrow> reachable w'"

lemma create_writes:
  assumes "create_plan site p n request device w = (r, w')"
  obtains (refused) e where "r = Inl e" "w' = w"
  | (saved) s where "r = Inr s" "journal [s] w w'" "session_ok s" "se_id s = ''change-'' @ n" "se_status s = Planned"
proof -
  define step where "step = hd (rq_steps request)"
  define made where "made = and_then (canonical_and_short (cst_interface step)) (\<lambda>(_, iface).
     and_then (safe_value (cst_kind step) (cst_value step)) (\<lambda>value.
       and_then (validate_step (step\<lparr>cst_interface := iface, cst_value := value\<rparr>)) (\<lambda>step'.
         enforce_scope
           \<lparr>cp_id = ''plan-'' @ p, cp_device_id = device, cp_target = iface, cp_steps = [step'],
            cp_intent = intent_for (cst_kind step) iface value, cp_created_at = site_now site\<rparr>)))"
  show thesis
  proof (cases made)
    case (Inl e)
    then show ?thesis using assms refused by (auto simp: create_plan_def made_def step_def Let_def)
  next
    case (Inr plan)
    then have ok: "scope_ok plan"
      by (auto simp: made_def and_then_Inr_iff enforce_scope_Inr scope_ok_def split: prod.splits)
    define noted where "noted = (if or_empty (rq_summary request) = [] then plan
      else plan\<lparr>cp_intent := (cp_intent plan)\<lparr>di_summary := di_summary (cp_intent plan) @ '' Operator note: '' @
         py_strip (or_empty (rq_summary request))\<rparr>\<rparr>)"
    define s where "s = \<lparr>se_id = ''change-'' @ n, se_plan = noted, se_status = Planned,
       se_preflight = None, se_before = None, se_after = None, se_comparison = None, se_result = None, se_stages = [],
       se_detail = ''Plan created. No device change has been attempted.'',
       se_created_at = site_now site, se_updated_at = site_now site\<rparr>"
    have sv: "save site s w = (r, w')"
      using assms Inr by (simp add: create_plan_def made_def step_def Let_def s_def noted_def)
    have "session_ok s"
      using ok by (simp add: session_ok_def scope_ok_def s_def noted_def evidence_blocked)
    with sv show ?thesis
    proof (cases rule: save_cases)
      case failed
      then show ?thesis using refused by blast
    next
      case (saved s')
      have "session_ok s'" using \<open>session_ok s\<close> saved(2) by (simp add: session_ok_def)
      then show ?thesis using that(2) [OF saved(1,3)] saved(2) by (simp add: s_def)
    qed
  qed
qed

lemma unavailable_saves:
  assumes "block_preflight_unavailable site sid w = (r, w')" "session_get (cw_table w) sid = Some s"
  obtains (failed) e where "r = Inl e" "w' = w"
  | (saved) s' where "r = Inr s'" "journal [s'] w w'" "se_status s' = Blocked" "se_id s' = se_id s" "se_plan s' = se_plan s"
proof -
  obtain c path limit detail where "save site (with_status Blocked detail
      (s\<lparr>se_preflight := Some (failed_preflight site s c path limit)\<rparr>)) w = (r, w')"
    using assms by (simp add: block_preflight_unavailable_def)
  then show thesis
  proof (cases rule: save_cases)
    case (saved s')
    then show ?thesis using that(2) [OF saved(1,3)] by simp
  qed (use that in blast)
qed

text \<open>What a call does to one stored session: nothing, or a path of documents.\<close>

lemma call_on_session:
  assumes "service_step c w w'" "table_ok (cw_table w)" "session_get (cw_table w) i = Some s"
    "c \<notin> {Unavailable_call, Restart}"
  shows "\<exists>ds. path s ds \<and> session_get (cw_table w') i = Some (last (s # ds))"
  using assms(1)
proof cases
  case (created n site p request device r)
  from created(3) show ?thesis
  proof (cases rule: create_writes)
    case (saved d)
    have "i \<noteq> ''change-'' @ n" using created(2) assms(3) by auto
    then have "session_get (cw_table w') i = Some s" using saved assms(3) by (simp add: journal_def get_write)
    then show ?thesis by (intro exI [of _ "[]"]) simp
  qed (use assms(3) in \<open>auto intro: exI [of _ "[]"]\<close>)
next
  case (preflighted site sid ctx r)
  from preflighted(2) show ?thesis
  proof (cases rule: preflight_writes)
    case (ran t ds)
    then show ?thesis
      using writes_get [OF ran(3) assms(2) ran(1), of i] assms(3)
      by (cases "i = sid") (auto simp: writes_def intro: exI [of _ "[]"])
  qed (use assms(3) in \<open>auto intro: exI [of _ "[]"]\<close>)
next
  case (executed site sid ctx1 ctx2 r)
  from executed(2) show ?thesis
  proof (cases rule: execute_writes)
    case (ran t ds)
    then show ?thesis
      using writes_get [OF ran(6) assms(2) ran(1), of i] assms(3)
      by (cases "i = sid") (auto simp: writes_def intro: exI [of _ "[]"])
  qed (use assms(3) in \<open>auto intro: exI [of _ "[]"]\<close>)
next
  case (blocked site sid detail r)
  from blocked(2) show ?thesis
  proof (cases rule: block_writes)
    case (ran t ds)
    then show ?thesis
      using writes_get [OF ran(2) assms(2) ran(1), of i] assms(3)
      by (cases "i = sid") (auto simp: writes_def intro: exI [of _ "[]"])
  qed (use assms(3) in \<open>auto intro: exI [of _ "[]"]\<close>)
next
  case (elsewhere d)
  then show ?thesis using assms(3) by (intro exI [of _ "[]"]) simp
qed (use assms(4) in auto)

lemma session_ok_write: "store_ok t \<Longrightarrow> session_ok s \<Longrightarrow> store_ok (write_session s t)"
  by (auto simp: store_ok_def get_write)

lemma store_ok_step:
  assumes "service_step c w w'" "store_ok (cw_table w)"
  shows "store_ok (cw_table w')"
  using assms(1)
proof cases
  case (created n site p request device r)
  from created(3) show ?thesis
  proof (cases rule: create_writes)
    case (saved d)
    then show ?thesis using assms(2) by (simp add: journal_def session_ok_write)
  qed (use assms(2) in simp)
next
  case (preflighted site sid ctx r)
  from preflighted(2) show ?thesis
    by (cases rule: preflight_writes) (use assms(2) writes_store_ok in blast)+
next
  case (executed site sid ctx1 ctx2 r)
  from executed(2) show ?thesis
    by (cases rule: execute_writes) (use assms(2) writes_store_ok in blast)+
next
  case (blocked site sid detail r)
  from blocked(2) show ?thesis
    by (cases rule: block_writes) (use assms(2) writes_store_ok in blast)+
next
  case (unavailable site sid r)
  show ?thesis
  proof (cases "session_get (cw_table w) sid")
    case None
    then show ?thesis using unavailable(2) assms(2) by (auto simp: block_preflight_unavailable_def)
  next
    case (Some s)
    then have "scope_ok (se_plan s)" using assms(2) by (auto simp: store_ok_def session_ok_def)
    with unavailable(2) Some show ?thesis
      by (cases rule: unavailable_saves)
        (use assms(2) in \<open>auto simp: journal_def session_ok_def evidence_blocked intro!: session_ok_write\<close>)
  qed
next
  case (restarted now)
  have "session_ok s \<Longrightarrow> session_ok (recovered now s)" for s
    by (simp add: session_ok_def recovered_def evidence_ok_def)
  then show ?thesis using restarted(2) assms(2) by (auto simp: store_ok_def get_recover)
next
  case (elsewhere d)
  then show ?thesis using assms(2) by simp
qed

lemma reachable_ok: "reachable w \<Longrightarrow> store_ok (cw_table w)"
proof (induction rule: reachable.induct)
  case (opened w)
  then show ?case by (simp add: store_ok_def session_get_def)
qed (rule store_ok_step)

end
