(* ===== verification/Change_Properties.thy ===== *)
theory Change_Properties
  imports Change_Sessions
begin

text \<open>
  What the change sessions guarantee: when configuration is sent, that an execution settles, what a
  preflight and a comparison say, and the invariants of the stored sessions.
\<close>

section \<open>The switch during an execution\<close>

abbreviation sent :: "'d cworld \<Rightarrow> string list list" where
  "sent w \<equiv> w_sent (cw_world w)"

lemma quiet_read_evidence: "quiet_act (read_evidence env actor)"
  unfolding read_evidence_def by (intro quiet_intros)

lemma quiet_capture: "quiet_act (capture site s ctx)"
proof -
  have "quiet w (snd (capture_snapshot site device iface kind v c w))" for device iface kind v c w
    using quiet_read_evidence [of "si_env site" "''operator''"]
    by (auto simp: capture_snapshot_def quiet_act_def split: sum.split prod.split) (metis snd_conv)+
  then show ?thesis by (simp add: quiet_act_def capture_def split: sum.split)
qed

lemma capture_sent: "on_switch (capture site s ctx) w = (r, w') \<Longrightarrow> sent w' = sent w"
  using quiet_actD [OF quiet_capture] by (fastforce simp: on_switch_def quiet_def split: prod.splits)

lemma save_sent: "save site s w = (r, w') \<Longrightarrow> cw_world w' = cw_world w"
  by (erule save_cases) simp_all

lemma exec_after_sent:
  assumes "exec_after site ctx prior result s w = (r, w')"
  shows "sent w' = sent w"
  using assms save_sent capture_sent
  by (fastforce simp: exec_after_def Let_def split: prod.splits sum.splits)

text \<open>The bounded operation as an execution runs it.\<close>

definition session_operation :: "'d site \<Rightarrow> change_plan \<Rightarrow> ('d, operation_result) act" where
  "session_operation site plan =
     run_operation (si_env site) (si_digest site) (si_policy site) (si_host site) (si_lock site)
       (cst_kind (plan_step plan)) (cp_target plan) (cst_value (plan_step plan)) ''operator'' False"

lemma exec_operation_sent:
  assumes "exec_operation site ctx prior s w = (r, w')" "in_flight (se_status s)"
  shows "sent w' = w_sent (snd (session_operation site (se_plan s) (cw_world w)))"
proof -
  obtain a w1 where 1: "on_switch (session_operation site (se_plan s)) w = (a, w1)"
    by (cases "on_switch (session_operation site (se_plan s)) w")
  have w1: "sent w1 = w_sent (snd (session_operation site (se_plan s) (cw_world w)))"
    using 1 by (auto simp: on_switch_def split: prod.splits)
  have "sent w' = sent w1"
  proof (cases a)
    case (Inl e)
    then show ?thesis using assms(1) 1 save_sent
      by (fastforce simp: exec_operation_def session_operation_def Let_def)
  next
    case (Inr result)
    obtain s1 w2 where 2: "stream_saves site (streamed [] (or_stages result)) s w1 = (s1, w2)"
      by (cases "stream_saves site (streamed [] (or_stages result)) s w1")
    then have "exec_after site ctx prior result s1 w2 = (r, w')"
      using assms(1) 1 Inr by (simp add: exec_operation_def session_operation_def Let_def)
    from exec_after_sent [OF this] stream_docs [OF 2 assms(2)] show ?thesis by auto
  qed
  with w1 show ?thesis by simp
qed

text \<open>Either an execution sends nothing, or it has first stored a document that says it is executing,
  with a preflight that found nothing blocking.\<close>

lemma exec_authorized_sent:
  assumes "exec_authorized site ctx1 ctx2 s w = (r, w')" "se_status s = Ready"
  obtains (quiet) "sent w' = sent w"
  | (operated) w3 d ds where "sent w3 = sent w"
      "sent w' = w_sent (snd (session_operation site (se_plan s) (cw_world w3)))"
      "cw_saved w3 = cw_saved w @ ds" "d \<in> set ds" "se_id d = se_id s" "se_status d = Executing"
      "\<exists>p snap. se_preflight d = Some p \<and> pf_ready p \<and> se_before d = Some snap \<and>
         preflight_of site (se_plan s) snap = Inr p"
      "\<forall>x. r = Inr x \<longrightarrow> final (se_status x)" "prefix (cw_saved w3) (cw_saved w')"
proof -
  define t where "t = with_status Executing ''Capturing the final before-state under stable write authorization.'' s"
  obtain r1 w1 where 1: "save site t w = (r1, w1)" by (cases "save site t w")
  show ?thesis
  proof (cases r1)
    case (Inl e)
    then show ?thesis using assms(1) 1 save_sent [OF 1] quiet by (simp add: exec_authorized_def t_def)
  next
    case (Inr s1)
    with 1 have s1: "s1 = stamp site t" "journal [s1] w w1" by (auto elim!: save_cases)
    obtain a w2 where 2: "on_switch (capture site s1 ctx1) w1 = (a, w2)" by (cases "on_switch (capture site s1 ctx1) w1")
    have sent2: "sent w2 = sent w" using capture_sent [OF 2] save_sent [OF 1] by simp
    have saved2: "cw_saved w2 = cw_saved w @ [s1]" using journal_switch [OF 2] s1(2) by (simp add: journal_def)
    show ?thesis
    proof (cases a)
      case a: (Inl e)
      then show ?thesis using assms(1) 1 2 Inr save_sent sent2 quiet
        by (fastforce simp: exec_authorized_def t_def)
    next
      case a: (Inr prior)
      show ?thesis
      proof (cases "preflight_of site (se_plan s1) prior")
        case p: (Inl e)
        then show ?thesis using assms(1) 1 2 Inr a sent2 quiet by (simp add: exec_authorized_def t_def)
      next
        case p: (Inr p)
        define s2 where "s2 = s1\<lparr>se_before := Some prior, se_preflight := Some p\<rparr>"
        obtain r3 w3 where 3: "save site s2 w2 = (r3, w3)" by (cases "save site s2 w2")
        show ?thesis
        proof (cases "pf_ready p")
          case False
          then show ?thesis using assms(1) 1 2 Inr a p save_sent sent2 quiet
            by (fastforce simp: exec_authorized_def t_def Let_def)
        next
          case True
          show ?thesis
          proof (cases r3)
            case r3: (Inl e)
            then show ?thesis using assms(1) 1 2 Inr a p True 3 save_sent [OF 3] sent2 quiet
              by (simp add: exec_authorized_def t_def Let_def s2_def)
          next
            case r3: (Inr s3)
            with 3 have s3: "s3 = stamp site s2" "journal [s3] w2 w3" by (auto elim!: save_cases)
            have plan: "se_plan s3 = se_plan s" "se_id s3 = se_id s" "se_status s3 = Executing"
              using s3 s1 by (simp_all add: s2_def t_def)
            have op: "exec_operation site ctx2 prior s3 w3 = (r, w')"
              using assms(1) 1 2 Inr a p True 3 r3 by (simp add: exec_authorized_def t_def Let_def s2_def)
            have pre: "se_preflight s3 = Some p" "se_before s3 = Some prior"
              using s3 by (simp_all add: s2_def stamp_def)
            have "preflight_of site (se_plan s) prior = Inr p" using p s1 by (simp add: t_def)
            moreover have "\<forall>x. r = Inr x \<longrightarrow> final (se_status x)" "prefix (cw_saved w3) (cw_saved w')"
              using exec_operation_writes [OF op] plan(3) by (fastforce simp: writes_def journal_def)+
            ultimately show ?thesis
              using operated [of w3 "[s1, s3]" s3] exec_operation_sent [OF op] plan pre True
                save_sent [OF 3] sent2 saved2 s3(2) by (simp add: journal_def)
          qed
        qed
      qed
    qed
  qed
qed

section \<open>Executions always settle\<close>

lemma preflight_of_returns:
  assumes "policy_guard (si_digest site) (si_policy site) (si_host site) (cp_target plan) = Inr c"
  shows "\<exists>p. preflight_of site plan snap = Inr p"
proof -
  have "or_empty (si_host site) \<noteq> []" "normalize_interface (cp_target plan) = Inr c"
    using assms by (auto simp: policy_guard_Inr assert_operable_Inr assert_writable_Inr)
  then show ?thesis by (simp add: preflight_of_def state_for_policy_of)
qed

lemma save_returns: "(\<And>s. si_save_up site s) \<Longrightarrow> \<exists>x w'. save site s w = (Inr x, w')"
  using save_up by blast

lemma exec_after_returns:
  assumes "\<And>s. si_save_up site s"
  shows "\<exists>x. fst (exec_after site ctx prior result s w) = Inr x"
proof -
  define t where "t = with_status Verifying ''Capturing normalized after-state and checking collateral observations.''
    (s\<lparr>se_result := Some result\<rparr>)"
  obtain s1 w1 where 1: "save site t w = (Inr s1, w1)" using save_returns assms by blast
  obtain a w2 where 2: "on_switch (capture site s1 ctx) w1 = (a, w2)" by (cases "on_switch (capture site s1 ctx) w1")
  have "\<exists>x. fst (save site u w2) = Inr x" for u using save_returns [OF assms, of u w2] by auto
  then show ?thesis using 1 2 by (cases a) (simp_all add: exec_after_def t_def Let_def)
qed

lemma exec_operation_returns:
  assumes "\<And>s. si_save_up site s"
  shows "\<exists>x. fst (exec_operation site ctx prior s w) = Inr x"
proof -
  have "\<exists>x. fst (save site u v) = Inr x" for u v using save_returns [OF assms, of u v] by auto
  then show ?thesis using exec_after_returns [OF assms]
    by (auto simp: exec_operation_def Let_def split: prod.split sum.split)
qed

lemma exec_authorized_returns:
  assumes "\<And>s. si_save_up site s"
    and "policy_guard (si_digest site) (si_policy site) (si_host site) (cp_target (se_plan s)) = Inr c"
  shows "\<exists>x. fst (exec_authorized site ctx1 ctx2 s w) = Inr x"
proof -
  define t where "t = with_status Executing ''Capturing the final before-state under stable write authorization.'' s"
  obtain s1 w1 where 1: "save site t w = (Inr s1, w1)" using save_returns assms(1) by blast
  then have plan: "se_plan s1 = se_plan s" by (auto simp: t_def elim!: save_cases)
  obtain a w2 where 2: "on_switch (capture site s1 ctx1) w1 = (a, w2)" by (cases "on_switch (capture site s1 ctx1) w1")
  have some: "\<exists>x. fst (save site u v) = Inr x" for u v using save_returns [OF assms(1), of u v] by auto
  show ?thesis
  proof (cases a)
    case (Inl e)
    then show ?thesis using 1 2 some by (simp add: exec_authorized_def t_def)
  next
    case (Inr prior)
    obtain p where p: "preflight_of site (se_plan s1) prior = Inr p"
      using preflight_of_returns assms(2) plan by metis
    define s2 where "s2 = s1\<lparr>se_before := Some prior, se_preflight := Some p\<rparr>"
    obtain s3 w3 where 3: "save site s2 w2 = (Inr s3, w3)" using save_returns assms(1) by blast
    show ?thesis
      using 1 2 3 Inr p some exec_operation_returns [OF assms(1), where ctx = ctx2 and prior = prior and s = s3 and w = w3]
      by (simp add: exec_authorized_def t_def s2_def Let_def)
  qed
qed

section \<open>Executions that send\<close>

text \<open>On a well-behaved switch the evidence of a snapshot is what the switch shows.\<close>

lemma evidence_symbols:
  "\<exists>c. resolve_read_command ''show_interfaces_counters_errors'' = Inr c"
  "\<exists>c. resolve_read_command ''show_mac_address_table'' = Inr c"
  "\<exists>c. resolve_read_command ''show_startup_config'' = Inr c"
  by (simp_all add: resolve_read_command_def read_only_commands_def)

definition shown_evidence :: "(string \<Rightarrow> 'd \<Rightarrow> string) \<Rightarrow> 'd \<Rightarrow> raw_evidence" where
  "shown_evidence view d =
     \<lparr>rw_status = view ''show_interfaces_status'' d, rw_poe = view ''show_power_inline'' d,
      rw_errors = view ''show_interfaces_counters_errors'' d, rw_macs = view ''show_mac_address_table'' d,
      rw_running = view ''show_running_config'' d, rw_startup = view ''show_startup_config'' d\<rparr>"

lemma yields_evidence:
  assumes "well_behaved env view"
  shows "\<exists>w'. yields (read_evidence env actor) w (shown_evidence view (w_dev w)) w'"
proof -
  note run = yields_run [OF assms]
  obtain w1 where 1: "yields (run_and_audit env ''show_interfaces_status'' actor) w (view ''show_interfaces_status'' (w_dev w)) w1"
    using run [OF read_symbols(1)] by blast
  obtain w2 where 2: "yields (run_and_audit env ''show_power_inline'' actor) w1 (view ''show_power_inline'' (w_dev w1)) w2"
    using run [OF read_symbols(2)] by blast
  obtain w3 where 3: "yields (run_and_audit env ''show_interfaces_counters_errors'' actor) w2
      (view ''show_interfaces_counters_errors'' (w_dev w2)) w3"
    using run [OF evidence_symbols(1)] by blast
  obtain w4 where 4: "yields (run_and_audit env ''show_mac_address_table'' actor) w3 (view ''show_mac_address_table'' (w_dev w3)) w4"
    using run [OF evidence_symbols(2)] by blast
  obtain w5 where 5: "yields (run_and_audit env ''show_running_config'' actor) w4 (view ''show_running_config'' (w_dev w4)) w5"
    using run [OF read_symbols(3)] by blast
  obtain w6 where 6: "yields (run_and_audit env ''show_startup_config'' actor) w5 (view ''show_startup_config'' (w_dev w5)) w6"
    using run [OF evidence_symbols(3)] by blast
  have dev: "w_dev w1 = w_dev w" "w_dev w2 = w_dev w" "w_dev w3 = w_dev w" "w_dev w4 = w_dev w" "w_dev w5 = w_dev w"
    using 1 2 3 4 5 by (simp_all add: yields_def)
  show ?thesis
    unfolding read_evidence_def shown_evidence_def
    by (rule exI, rule yields_then [OF 1], rule yields_then [OF 2 [unfolded dev]], rule yields_then [OF 3 [unfolded dev]],
        rule yields_then [OF 4 [unfolded dev]], rule yields_then [OF 5 [unfolded dev]],
        rule yields_then [OF 6 [unfolded dev]], rule yields_return)
qed

text \<open>An execution whose preflight finds nothing blocking on what the switch shows runs the operation.\<close>

lemma ready_execution_operates:
  assumes "well_behaved (si_env site) view" "\<And>s. si_save_up site s"
    and "session_get (cw_table w) sid = Some s" "se_status s = Ready"
    and "lock_guard (si_policy site) (si_lock site) = Inr ()"
    and "policy_guard (si_digest site) (si_policy site) (si_host site) (cp_target (se_plan s)) = Inr c"
    and "canonical_and_short (cp_target (se_plan s)) = Inr (c, target)"
    and "safe_value (cst_kind (plan_step (se_plan s))) (cst_value (plan_step (se_plan s))) = Inr v"
    and "build_snapshot site (cp_device_id (se_plan s)) c target (cst_kind (plan_step (se_plan s))) ctx
           (shown_evidence view (w_dev (cw_world w))) = Inr snap"
    and "preflight_of site (se_plan s) snap = Inr p" "pf_ready p"
  obtains w3 where "w_dev w3 = w_dev (cw_world w)" "w_backups w3 = w_backups (cw_world w)" "w_sent w3 = sent w"
    "sent (snd (execute site sid (Inr ctx) ctx2 w)) = w_sent (snd (session_operation site (se_plan s) w3))"
proof -
  define t where "t = with_status Executing ''Capturing the final before-state under stable write authorization.'' s"
  obtain s1 w1 where 1: "save site t w = (Inr s1, w1)" using save_returns assms(2) by blast
  then have s1: "s1 = stamp site t" and w1: "cw_world w1 = cw_world w" by (auto elim: save_cases)
  have plan1: "se_plan s1 = se_plan s" by (simp add: s1 t_def)
  obtain v1 where v1: "yields (read_evidence (si_env site) ''operator'') (cw_world w)
      (shown_evidence view (w_dev (cw_world w))) v1"
    using yields_evidence [OF assms(1)] by blast
  have "capture site s1 (Inr ctx) (cw_world w1) = (Inr snap, v1)"
    using v1 assms(7-9) by (simp add: capture_def capture_snapshot_def plan1 w1 yields_def)
  then have 2: "on_switch (capture site s1 (Inr ctx)) w1 = (Inr snap, w1\<lparr>cw_world := v1\<rparr>)"
    by (simp add: on_switch_def)
  define s2 where "s2 = s1\<lparr>se_before := Some snap, se_preflight := Some p\<rparr>"
  obtain s3 w3 where 3: "save site s2 (w1\<lparr>cw_world := v1\<rparr>) = (Inr s3, w3)" using save_returns assms(2) by blast
  then have s3: "se_plan s3 = se_plan s" "in_flight (se_status s3)" and w3: "cw_world w3 = v1"
    by (auto elim!: save_cases simp: s2_def s1 t_def)
  have "execute site sid (Inr ctx) ctx2 w = exec_operation site ctx2 snap s3 w3"
    using assms(3-6,10,11) 1 2 3 plan1 by (simp add: execute_def exec_authorized_def t_def s2_def Let_def)
  then have "sent (snd (execute site sid (Inr ctx) ctx2 w)) = w_sent (snd (session_operation site (se_plan s) v1))"
    using exec_operation_sent [OF prod.collapse [symmetric] s3(2), of site ctx2 snap w3] s3(1) w3 by simp
  moreover have "w_sent v1 = sent w"
    using quiet_actD [OF quiet_read_evidence, of "si_env site" "''operator''" "cw_world w" "Inr _" v1] v1
    by (auto simp: yields_def quiet_def)
  ultimately show thesis using that [of v1] v1 by (simp add: yields_def)
qed

section \<open>Preflight and comparison\<close>

lemma gate_check_blocks [simp]: "pc_status (gate_check code label ok yes no) = Check_block \<longleftrightarrow> \<not> ok"
  by (simp add: gate_check_def check_def)

lemma check_status [simp]: "pc_status (check code label st detail ev) = st"
  by (simp add: check_def)

text \<open>Nothing blocks: what a ready preflight establishes.\<close>

definition clear_to_change :: "'d site \<Rightarrow> change_plan \<Rightarrow> assurance_snapshot \<Rightarrow> policy_state \<Rightarrow> bool" where
  "clear_to_change site plan snap state \<longleftrightarrow>
     current_device_id (si_digest site) (si_host site) = Some (cp_device_id plan) \<and>
     py_lower (hs_connection (as_health snap)) = ''live'' \<and> is_present (as_target snap) \<and>
     state = OPERABLE \<and> controlled_writes_enabled (si_policy site) \<and> cf_rollback (as_config snap) \<and>
     \<not> confirmed_path (cst_kind (plan_step plan)) (as_topology snap)"

lemma checks_clear:
  "list_all (\<lambda>c. pc_status c \<noteq> Check_block) (gate_checks site plan snap state @ evidence_checks plan snap) \<longleftrightarrow>
     clear_to_change site plan snap state"
  by (auto simp: gate_checks_def evidence_checks_def clear_to_change_def Let_def)

lemma diff_warns: "list_ex (\<lambda>d. df_assessment d = Warning) (diff scope f old new a detail i) \<longleftrightarrow> old \<noteq> new \<and> a = Warning"
  by (simp add: diff_def)

text \<open>The fields of two rows agree, except those of a list.\<close>

definition agree_except :: "string list \<Rightarrow> iface_snapshot \<Rightarrow> iface_snapshot \<Rightarrow> bool" where
  "agree_except allowed a b \<longleftrightarrow> list_all (\<lambda>(field, label, get). field \<in> set allowed \<or> get a = get b) labels"

definition same_row :: "iface_snapshot list \<Rightarrow> iface_snapshot list \<Rightarrow> string \<Rightarrow> bool" where
  "same_row olds news port \<longleftrightarrow>
     (case (last_row is_port port olds, last_row is_port port news) of
        (Some a, Some b) \<Rightarrow> agree_except [] a b | (None, None) \<Rightarrow> True | _ \<Rightarrow> False)"

definition unrelated_unchanged :: "iface_snapshot list \<Rightarrow> iface_snapshot list \<Rightarrow> bool" where
  "unrelated_unchanged olds news \<longleftrightarrow> (\<forall>port. same_row olds news port)"

definition context_unchanged :: "operation_kind \<Rightarrow> assurance_snapshot \<Rightarrow> assurance_snapshot \<Rightarrow> bool" where
  "context_unchanged kind old new \<longleftrightarrow>
     cf_startup (as_config old) = cf_startup (as_config new) \<and>
     (kind = Set_description \<longrightarrow>
        set (ts_attached (as_topology old)) = set (ts_attached (as_topology new)) \<and>
        ts_learned (as_topology old) = ts_learned (as_topology new)) \<and>
     ts_other (as_topology old) = ts_other (as_topology new) \<and>
     hs_device (as_health old) = hs_device (as_health new) \<and>
     hs_target (as_health old) = hs_target (as_health new) \<and>
     hs_connection (as_health old) = hs_connection (as_health new) \<and>
     is_errors (as_target new) \<le> is_errors (as_target old)"

lemma list_ex_concat: "list_ex p (concat (map f xs)) \<longleftrightarrow> (\<exists>x\<in>set xs. list_ex p (f x))"
  by (induction xs) auto

lemma labels_warn:
  assumes "\<And>x. x \<in> set ls \<Longrightarrow> list_ex p (f x) \<longleftrightarrow> \<not> q x"
  shows "list_ex p (concat (map f ls)) \<longleftrightarrow> \<not> list_all q ls"
  using assms by (auto simp: list_ex_concat list_all_iff)

lemma target_warns:
  "list_ex (\<lambda>d. df_assessment d = Warning) (target_differences plan a b) \<longleftrightarrow>
     \<not> agree_except (allowed_fields (cst_kind (plan_step plan))) a b"
  unfolding target_differences_def agree_except_def
  by (rule labels_warn) (auto simp: diff_warns Let_def split: if_splits)

lemma rows_warn:
  "list_ex (\<lambda>d. df_assessment d = Warning) (concat (map (\<lambda>(field, label, get).
      diff Unrelated_scope field (get a) (get b) Warning (text label) port) labels)) \<longleftrightarrow> \<not> agree_except [] a b"
  unfolding agree_except_def by (rule labels_warn) (auto simp: diff_warns)

lemma others_warn:
  "list_ex (\<lambda>d. df_assessment d = Warning) (other_differences olds news port) \<longleftrightarrow> \<not> same_row olds news port"
  unfolding other_differences_def same_row_def
  by (simp add: rows_warn diff_warns split: option.split)

lemma all_others_warn:
  "list_ex (\<lambda>d. df_assessment d = Warning) (all_other_differences olds news) \<longleftrightarrow> \<not> unrelated_unchanged olds news"
proof -
  have "port \<in> is_port ` (set olds \<union> set news)" if "\<not> same_row olds news port" for port
    using that last_row_None [of is_port port olds] last_row_None [of is_port port news]
    by (auto simp: same_row_def image_Un split: option.splits)
  then have "(\<exists>port\<in>is_port ` (set olds \<union> set news). \<not> same_row olds news port) \<longleftrightarrow> (\<exists>port. \<not> same_row olds news port)"
    by blast
  then show ?thesis
    by (simp add: all_other_differences_def list_ex_concat others_warn unrelated_unchanged_def image_Un)
qed

lemma sorted_set_eq: "sorted_set xs = sorted_set ys \<longleftrightarrow> set xs = set ys"
  by (metis distinct_sorted_set set_sorted_set sorted_sorted_set sorted_distinct_set_unique)

lemma context_warns:
  "list_ex (\<lambda>d. df_assessment d = Warning) (context_differences plan rs old new) \<longleftrightarrow>
     \<not> context_unchanged (cst_kind (plan_step plan)) old new"
  by (auto simp: context_differences_def diff_warns context_unchanged_def Let_def sorted_set_eq)

lemma filter_empty: "filter p ds = [] \<longleftrightarrow> \<not> list_ex p ds"
  by (induction ds) auto

text \<open>The same, value by value and without the code's table of fields.\<close>

definition target_as_declared :: "operation_kind \<Rightarrow> iface_snapshot \<Rightarrow> iface_snapshot \<Rightarrow> bool" where
  "target_as_declared kind a b \<longleftrightarrow>
     is_vlan a = is_vlan b \<and> is_speed a = is_speed b \<and> is_duplex a = is_duplex b \<and> is_errors a = is_errors b \<and>
     (if kind = Admin_up \<or> kind = Admin_down
      then is_description a = is_description b \<and> is_poe_admin a = is_poe_admin b \<and> is_poe_oper a = is_poe_oper b
      else if kind = Poe_auto \<or> kind = Poe_never
      then is_admin a = is_admin b \<and> is_description a = is_description b
      else is_admin a = is_admin b \<and> is_oper a = is_oper b \<and> is_poe_admin a = is_poe_admin b \<and>
           is_poe_oper a = is_poe_oper b \<and> is_macs a = is_macs b)"

definition row_as_before :: "iface_snapshot \<Rightarrow> iface_snapshot \<Rightarrow> bool" where
  "row_as_before a b \<longleftrightarrow>
     is_admin a = is_admin b \<and> is_oper a = is_oper b \<and> is_description a = is_description b \<and>
     is_vlan a = is_vlan b \<and> is_speed a = is_speed b \<and> is_duplex a = is_duplex b \<and>
     is_poe_admin a = is_poe_admin b \<and> is_poe_oper a = is_poe_oper b \<and>
     is_errors a = is_errors b \<and> is_macs a = is_macs b"

definition others_as_before :: "iface_snapshot list \<Rightarrow> iface_snapshot list \<Rightarrow> bool" where
  "others_as_before olds news \<longleftrightarrow>
     (\<forall>port. case (last_row is_port port olds, last_row is_port port news) of
        (Some a, Some b) \<Rightarrow> row_as_before a b | (None, None) \<Rightarrow> True | _ \<Rightarrow> False)"

lemma agree_target: "agree_except (allowed_fields kind) a b \<longleftrightarrow> target_as_declared kind a b"
  by (cases kind) (auto simp: agree_except_def target_as_declared_def labels_def allowed_fields_def)

lemma agree_row: "agree_except [] = row_as_before"
  by (intro ext) (auto simp: agree_except_def row_as_before_def labels_def)

lemma unrelated_as_before: "unrelated_unchanged olds news \<longleftrightarrow> others_as_before olds news"
  by (simp only: unrelated_unchanged_def others_as_before_def same_row_def agree_row)

lemma no_warnings:
  "cm_warnings (compare_snapshots now plan old new operation) = [] \<longleftrightarrow>
     target_as_declared (cst_kind (plan_step plan)) (as_target old) (as_target new) \<and>
     others_as_before (as_others old) (as_others new) \<and>
     context_unchanged (cst_kind (plan_step plan)) old new"
  unfolding compare_snapshots_def Let_def comparison.simps dedup_Nil_iff map_is_Nil_conv filter_empty list_ex_append
    target_warns all_others_warn context_warns agree_target unrelated_as_before by blast

section \<open>The demonstration site\<close>

definition demo_site :: "demo_switch site" where
  "demo_site = \<lparr>si_env = demo_env, si_digest = demo_digest, si_topology_digest = (\<lambda>_ _. ''t''),
     si_iso = (\<lambda>_. None), si_save_up = (\<lambda>_. True), si_host = Some ''10.0.0.1'', si_policy = demo_policy,
     si_lock = demo_lock\<rparr>"

definition demo_context :: live_context where
  "demo_context = \<lparr>lc_interfaces = [], lc_links = [], lc_devices = [], lc_generated_at = None,
     lc_reconciliation = [], lc_health = None, lc_connection = Some ''live''\<rparr>"

definition demo_cworld :: "session_table \<Rightarrow> demo_switch cworld" where
  "demo_cworld t = \<lparr>cw_world = demo_world, cw_table = t, cw_saved = []\<rparr>"

text \<open>A ready session whose plan is bound to the configured device.\<close>

definition live_session :: change_session where
  "live_session = (demo_session ''b'' Ready 2)\<lparr>se_plan := demo_plan\<lparr>cp_device_id := ''device-0000000000000000''\<rparr>\<rparr>"

definition live_world :: "demo_switch cworld" where
  "live_world = demo_cworld (write_session live_session [])"

definition demo_request :: plan_request where
  "demo_request = \<lparr>rq_steps = [\<lparr>cst_interface = ''gi0/3'', cst_kind = Admin_down, cst_value = None\<rparr>],
     rq_summary = None\<rparr>"

lemma demo_guard: "policy_guard demo_digest demo_policy (Some ''10.0.0.1'') ''Gi0/3'' = Inr ''GigabitEthernet0/3''"
  by code_simp

lemma demo_ready: "session_get demo_table ''b'' = Some (demo_session ''b'' Ready 2)"
  by (simp add: demo_table_def get_write demo_session_def)

lemma live_preflight:
  "case build_snapshot demo_site ''device-0000000000000000'' ''GigabitEthernet0/3'' ''Gi0/3'' Admin_down demo_context
       (shown_evidence demo_view (w_dev demo_world)) of
     Inl _ \<Rightarrow> False
   | Inr snap \<Rightarrow> (case preflight_of demo_site (se_plan live_session) snap of Inl _ \<Rightarrow> False | Inr p \<Rightarrow> pf_ready p)"
  by code_simp

lemma live_names: "canonical_and_short ''Gi0/3'' = Inr (''GigabitEthernet0/3'', ''Gi0/3'')" "safe_value Admin_down None = Inr None"
  by code_simp+

lemma live_operation_sends:
  assumes "w_dev w = w_dev demo_world" "w_backups w = []"
  shows "w_sent (snd (session_operation demo_site (se_plan live_session) w)) \<noteq> w_sent w"
proof -
  obtain x w' where "session_operation demo_site (se_plan live_session) w = (Inr x, w')"
    "w_dev w' = w_dev demo_world\<lparr>ds_shutdown := True\<rparr>"
    "w_dev w' \<noteq> w_dev w \<longrightarrow> w_sent w' \<noteq> w_sent w"
    using operation_behaved [OF demo_well_behaved(1) _ demo_gates(2) demo_guard, where fresh = False and w = w
      and kind = Admin_down and actor = "''operator''" and req = None] demo_spec(1) assms
    by (auto simp: session_operation_def demo_site_def live_session_def demo_session_def demo_plan_def plan_step_def)
  then show ?thesis using assms(1) by (simp add: demo_world_def)
qed

lemma live_execution_sends:
  "sent (snd (execute demo_site ''b'' (Inr demo_context) (Inr demo_context) live_world)) \<noteq> []"
proof -
  obtain snap p where snap: "build_snapshot demo_site ''device-0000000000000000'' ''GigabitEthernet0/3'' ''Gi0/3''
      Admin_down demo_context (shown_evidence demo_view (w_dev demo_world)) = Inr snap"
    and p: "preflight_of demo_site (se_plan live_session) snap = Inr p" "pf_ready p"
    using live_preflight by (auto split: sum.splits)
  have site: "si_env demo_site = demo_env" "si_digest demo_site = demo_digest" "si_policy demo_site = demo_policy"
    "si_host demo_site = Some ''10.0.0.1''" "si_lock demo_site = demo_lock" "\<And>s. si_save_up demo_site s"
    by (simp_all add: demo_site_def)
  have plan: "cp_target (se_plan live_session) = ''Gi0/3''" "cp_device_id (se_plan live_session) = ''device-0000000000000000''"
    "cst_kind (plan_step (se_plan live_session)) = Admin_down" "cst_value (plan_step (se_plan live_session)) = None"
    "se_status live_session = Ready" "session_get (cw_table live_world) ''b'' = Some live_session"
    by (simp_all add: live_session_def live_world_def demo_cworld_def demo_session_def demo_plan_def plan_step_def get_write)
  have w: "cw_world live_world = demo_world" by (simp add: live_world_def demo_cworld_def)
  obtain w3 where "w_dev w3 = w_dev demo_world" "w_backups w3 = []" "w_sent w3 = []"
    "sent (snd (execute demo_site ''b'' (Inr demo_context) (Inr demo_context) live_world)) =
      w_sent (snd (session_operation demo_site (se_plan live_session) w3))"
    using ready_execution_operates [of demo_site demo_view live_world "''b''" live_session "''GigabitEthernet0/3''" "''Gi0/3''"
        None demo_context snap p "Inr demo_context"]
      demo_well_behaved(1) demo_gates(2) demo_guard live_names snap p
    by (auto simp: site plan w demo_world_def)
  then show ?thesis using live_operation_sends [of w3] by simp
qed

definition demo_created :: "demo_switch cworld" where
  "demo_created = snd (create_plan demo_site ''1'' ''2'' demo_request ''device-0'' (demo_cworld []))"

lemma demo_reachable: "reachable demo_created"
proof -
  have "service_step Create (demo_cworld []) demo_created"
    unfolding demo_created_def
    by (rule created [OF _ prod.collapse [symmetric]]) (simp add: demo_cworld_def session_get_def)
  then show ?thesis by (rule stepped [rotated]) (simp add: opened demo_cworld_def)
qed

lemma demo_created_session:
  "map_option se_status (session_get (cw_table demo_created) ''change-2'') = Some Planned"
  by code_simp


section \<open>One call, one session\<close>




section \<open>Properties\<close>

text \<open>C2: An execution sends configuration only for a stored session that a preflight made ready, with the
  session unlocked, controlled writes on and the plan's interface operable; only sequences that
  configure that interface with one line; and only after a document has been stored that marks the
  session as executing and holds a snapshot whose preflight found nothing blocking.\<close>

theorem execution_confined:
  assumes "execute site sid ctx1 ctx2 w = (r, w')"
  shows "\<exists>xs ds. sent w' = sent w @ xs \<and> cw_saved w' = cw_saved w @ ds \<and>
    (xs \<noteq> [] \<longrightarrow> wl_unlocked (si_lock site) \<and> controlled_writes_enabled (si_policy site) \<and>
      (\<exists>s c d p snap. session_get (cw_table w) sid = Some s \<and> se_status s = Ready \<and>
         normalize_interface (cp_target (se_plan s)) = Inr c \<and>
         policy_of (si_policy site) (device_key (si_digest site) (or_empty (si_host site))) c = OPERABLE \<and>
         list_all (one_interface_change c) xs \<and>
         d \<in> set ds \<and> se_id d = se_id s \<and> se_status d = Executing \<and> se_before d = Some snap \<and>
         preflight_of site (se_plan s) snap = Inr p \<and> pf_ready p))"
  using assms
proof (cases rule: execute_writes)
  case (refused e)
  then show ?thesis by (intro exI [of _ "[]"]) simp
next
  case (ran s ds)
  have ds: "cw_saved w' = cw_saved w @ ds" using ran(6) by (simp add: writes_def journal_def)
  from ran(5,2) show ?thesis
  proof (cases rule: exec_authorized_sent)
    case quiet
    then show ?thesis using ds by (intro exI [of _ "[]"] exI [of _ ds]) simp
  next
    case (operated w3 d es)
    obtain a v where op: "session_operation site (se_plan s) (cw_world w3) = (a, v)"
      by (cases "session_operation site (se_plan s) (cw_world w3)")
    from operation_sends [OF op [unfolded session_operation_def]] obtain xs where
      xs: "w_sent v = sent w3 @ xs"
        "xs \<noteq> [] \<longrightarrow> wl_unlocked (si_lock site) \<and> controlled_writes_enabled (si_policy site) \<and>
          (\<exists>c. normalize_interface (cp_target (se_plan s)) = Inr c \<and> is_phys_name c \<and>
            policy_of (si_policy site) (device_key (si_digest site) (or_empty (si_host site))) c = OPERABLE \<and>
            list_all (one_interface_change c) xs)"
      by blast
    have "d \<in> set ds" using operated(3,4,9) ds by (auto dest!: set_mono_prefix)
    then show ?thesis using operated(1,2,5-7) xs ran(1,2) ds op by auto
  qed
qed

text \<open>The execution of the demonstration's ready session sends the change.\<close>

theorem execution_confined_witness:
  "sent (snd (execute demo_site ''b'' (Inr demo_context) (Inr demo_context) live_world)) \<noteq> [] \<and>
   list_all (one_interface_change ''GigabitEthernet0/3'')
     (sent (snd (execute demo_site ''b'' (Inr demo_context) (Inr demo_context) live_world))) \<and>
   (\<exists>d. d \<in> set (cw_saved (snd (execute demo_site ''b'' (Inr demo_context) (Inr demo_context) live_world))) \<and>
      se_id d = ''b'' \<and> se_status d = Executing)"
proof -
  have "normalize_interface ''Gi0/3'' = Inr ''GigabitEthernet0/3''"
    using demo_guard by (simp add: policy_guard_Inr assert_operable_Inr assert_writable_Inr)
  moreover have "sent live_world = []" "cw_saved live_world = []" "se_id live_session = ''b''"
    "cp_target (se_plan live_session) = ''Gi0/3''" "session_get (cw_table live_world) ''b'' = Some live_session"
    by (simp_all add: live_world_def demo_cworld_def demo_world_def live_session_def demo_session_def demo_plan_def get_write)
  ultimately show ?thesis
    using execution_confined [OF prod.collapse [symmetric], of demo_site "''b''" "Inr demo_context" "Inr demo_context"
      live_world] live_execution_sends by auto
qed

text \<open>C4: When the session store accepts what is written, an execution of a ready session whose gates are
  open always returns, whatever the switch does: the stored session has come to rest, blocked or with
  a final status. Blocked means that nothing was sent; succeeded that the operation succeeded and the
  snapshot after it shows the declared state, with no warning unless the status says so.\<close>

theorem execution_settles:
  assumes "\<And>s. si_save_up site s" "table_ok (cw_table w)"
    and "session_get (cw_table w) sid = Some s" "se_status s = Ready"
    and "lock_guard (si_policy site) (si_lock site) = Inr ()"
    and "policy_guard (si_digest site) (si_policy site) (si_host site) (cp_target (se_plan s)) = Inr c"
  shows "\<exists>x w'. execute site sid ctx1 ctx2 w = (Inr x, w') \<and> session_get (cw_table w') sid = Some x \<and>
    se_plan x = se_plan s \<and> (final (se_status x) \<or> se_status x = Blocked) \<and> evidence_ok x \<and>
    (se_status x = Blocked \<longrightarrow> sent w' = sent w)"
proof -
  have ex: "execute site sid ctx1 ctx2 w = exec_authorized site ctx1 ctx2 s w"
    using assms(3-) by (simp add: execute_def)
  obtain x w' where x: "exec_authorized site ctx1 ctx2 s w = (Inr x, w')"
    using exec_authorized_returns [OF assms(1,6), of ctx1 ctx2 w] by (metis prod.collapse)
  from exec_authorized_writes [OF x assms(4)] obtain ds where
    ds: "writes s ds (Inr x) w w'" "final (se_status x) \<or> se_status x = Blocked" by blast
  then have "x \<in> set ds" "x = last (s # ds)" by (auto simp: writes_def)
  moreover from this have "evidence_ok x" "se_plan x = se_plan s"
    using ds(1) path_same [of s ds x] by (auto simp: writes_def)
  moreover have "sent w' = sent w" if "se_status x = Blocked"
    using x assms(4) by (cases rule: exec_authorized_sent) (use that in \<open>auto simp: final_def\<close>)
  ultimately show ?thesis
    using ex x ds writes_get [OF ds(1) assms(2,3), of sid] by auto
qed

theorem execution_settles_witness:
  "\<exists>x w'. execute demo_site ''b'' (Inr demo_context) (Inl (PyError ''KeyError'')) (demo_cworld demo_table) = (Inr x, w') \<and>
    session_get (cw_table w') ''b'' = Some x \<and> (final (se_status x) \<or> se_status x = Blocked)"
  using execution_settles [of demo_site "demo_cworld demo_table" "''b''" "demo_session ''b'' Ready 2"
      "''GigabitEthernet0/3''" "Inr demo_context" "Inl (PyError ''KeyError'')"] demo_gates demo_guard demo_ready demo_table_ok
  by (auto simp: demo_site_def demo_cworld_def demo_session_def demo_plan_def)

text \<open>C9: In every state the service can reach through its calls, restarts and changes elsewhere, each
  stored session is under its own number, has exactly one step on its plan's target, is ready only
  with a preflight that found nothing blocking, and is succeeded or rolled back only with the
  operation's result, and for a success the comparison, that says so.\<close>

theorem sessions_keep_evidence:
  assumes "reachable w" "session_get (cw_table w) i = Some s"
  shows "se_id s = i \<and> scope_ok (se_plan s) \<and> evidence_ok s"
  using reachable_ok [OF assms(1)] assms(2) table_key by (auto simp: store_ok_def session_ok_def)

theorem sessions_keep_evidence_witness:
  "\<exists>s. session_get (cw_table demo_created) ''change-2'' = Some s \<and> se_id s = ''change-2'' \<and> scope_ok (se_plan s)"
  using demo_created_session sessions_keep_evidence [OF demo_reachable, of "''change-2''"] by auto



text \<open>Marking the device unavailable blocks any stored session, a finished one included: its status is
  overwritten, where every other call refuses to touch it.\<close>

theorem unavailable_overwrites:
  assumes "\<And>s. si_save_up site s" "table_ok (cw_table w)" "session_get (cw_table w) sid = Some s"
  shows "\<exists>x w'. block_preflight_unavailable site sid w = (Inr x, w') \<and>
    session_get (cw_table w') sid = Some x \<and> se_status x = Blocked \<and> se_result x = se_result s"
proof -
  obtain p where p: "block_preflight_unavailable site sid w =
      save site (with_status Blocked ''Preflight could not reach the device. No change was attempted.'' (s\<lparr>se_preflight := Some p\<rparr>)) w"
    using assms(3) by (simp add: block_preflight_unavailable_def)
  obtain x w' where x: "save site (with_status Blocked ''Preflight could not reach the device. No change was attempted.''
      (s\<lparr>se_preflight := Some p\<rparr>)) w = (Inr x, w')"
    using save_returns assms(1) by blast
  have "se_id s = sid" by (rule table_key [OF assms(2,3)])
  with x show ?thesis using p by (auto elim!: save_cases simp: journal_def get_write)
qed

theorem unavailable_overwrites_witness:
  "\<exists>x w'. block_preflight_unavailable demo_site ''s''
       (demo_cworld (write_session (demo_session ''s'' Succeeded 3) [])) = (Inr x, w') \<and> se_status x = Blocked"
  using unavailable_overwrites [of demo_site "demo_cworld (write_session (demo_session ''s'' Succeeded 3) [])" "''s''"]
  by (fastforce simp: demo_site_def demo_cworld_def get_write demo_session_def)

text \<open>C12: A preflight is ready exactly when the plan's device is the configured one, its session live, the
  interface present and operable, controlled writes on, the property restorable, and no evidence puts
  the control or gateway path behind a port that is about to be taken down.\<close>

theorem preflight_ready_iff:
  assumes "preflight_of site plan snap = Inr p"
  shows "\<exists>state. state_for (si_digest site) (si_policy site) (si_host site) (cp_target plan) = Inr state \<and>
    (pf_ready p \<longleftrightarrow> clear_to_change site plan snap state)"
  using assms by (auto simp: preflight_of_def and_then_Inr_iff Let_def checks_clear simp del: list_all_append)

definition demo_snapshot :: assurance_snapshot where
  "demo_snapshot = \<lparr>as_captured_at = 1, as_device_id = ''d'', as_target_interface = ''Gi0/3'',
     as_config = \<lparr>cf_running = [], cf_startup = [], cf_differs = False, cf_rollback = True\<rparr>,
     as_target = absent_interface ''Gi0/3'', as_others = [],
     as_topology = \<lparr>ts_relationships = [], ts_attached = [], ts_learned = [], ts_expected = None,
       ts_reconciliation = None, ts_role = ''access'', ts_local_host = False, ts_other = []\<rparr>,
     as_health = \<lparr>hs_connection = ''LIVE'', hs_device = ''HEALTHY'', hs_target = ''HEALTHY'', hs_errors = 0\<rparr>,
     as_evidence = \<lparr>es_observed_at = None, es_freshness = ''current'', es_ids = []\<rparr>\<rparr>"

theorem preflight_ready_iff_witness:
  "\<exists>p. preflight_of demo_site demo_plan demo_snapshot = Inr p \<and> \<not> pf_ready p"
proof -
  obtain p where p: "preflight_of demo_site demo_plan demo_snapshot = Inr p"
    using preflight_of_returns [of demo_site demo_plan "''GigabitEthernet0/3''" demo_snapshot] demo_guard
    by (auto simp: demo_site_def demo_plan_def)
  show ?thesis using preflight_ready_iff [OF p] p
    by (auto simp: clear_to_change_def demo_snapshot_def absent_interface_def)
qed

text \<open>C13: The comparison of the snapshots before and after a change is free of warnings exactly when the
  target shows the same values but for those the operation may change (its state, link and learned
  addresses; its power rows, link and learned addresses; or its description), every other interface is
  still there, none has come, and each shows the same ten values, and startup configuration, topology
  elsewhere, health and connection are the same and the error counter has not grown. The running
  configuration is not part of it: that it changed without need is only noted as information.\<close>

theorem comparison_warns_iff:
  "cm_warnings (compare_snapshots now plan old new operation) = [] \<longleftrightarrow>
     target_as_declared (cst_kind (plan_step plan)) (as_target old) (as_target new) \<and>
     others_as_before (as_others old) (as_others new) \<and>
     context_unchanged (cst_kind (plan_step plan)) old new"
  by (rule no_warnings)

end
