(* ===== verification/Discovery_Evidence.thy ===== *)
theory Discovery_Evidence
  imports Models Regex
begin

text \<open>
  \<open>backend/app/discovery_evidence.py\<close>: what one discovery fact is, how it ages, and which claims a set of
  facts supports. The SHA-256 digest and the IEEE registry of \<open>netaddr\<close> are parameters. A time is a
  number of microseconds here.
\<close>

section \<open>Vocabulary\<close>

datatype evidence_type =
    Interface_link | Interface_description | Cdp_neighbor | Lldp_neighbor | Mac_learned | Arp_entry
  | Local_host_mac | Oui_vendor | User_intent | Accepted_plan | Prior_observation

definition evidence_type_name :: "evidence_type \<Rightarrow> string" where
  "evidence_type_name t =
     (case t of
        Interface_link \<Rightarrow> ''INTERFACE_LINK'' | Interface_description \<Rightarrow> ''INTERFACE_DESCRIPTION''
      | Cdp_neighbor \<Rightarrow> ''CDP_NEIGHBOR'' | Lldp_neighbor \<Rightarrow> ''LLDP_NEIGHBOR'' | Mac_learned \<Rightarrow> ''MAC_LEARNED''
      | Arp_entry \<Rightarrow> ''ARP_ENTRY'' | Local_host_mac \<Rightarrow> ''LOCAL_HOST_MAC'' | Oui_vendor \<Rightarrow> ''OUI_VENDOR''
      | User_intent \<Rightarrow> ''USER_INTENT'' | Accepted_plan \<Rightarrow> ''ACCEPTED_PLAN''
      | Prior_observation \<Rightarrow> ''PRIOR_OBSERVATION'')"

datatype freshness = Current | Aging | Stale | Historical

datatype confidence = Conf_unknown | Conf_low | Conf_medium | Conf_high | Conf_confirmed

definition rank :: "confidence \<Rightarrow> nat" where
  "rank c = (case c of Conf_unknown \<Rightarrow> 0 | Conf_low \<Rightarrow> 1 | Conf_medium \<Rightarrow> 2 | Conf_high \<Rightarrow> 3 | Conf_confirmed \<Rightarrow> 4)"

lemma rank_inj: "rank a = rank b \<Longrightarrow> a = b"
  by (cases a; cases b) (simp_all add: rank_def)

instantiation confidence :: linorder
begin

definition "less_eq_confidence a b = (rank a \<le> rank b)"
definition "less_confidence a b = (rank a < rank b)"

instance
  by standard (auto simp: less_eq_confidence_def less_confidence_def intro: rank_inj)

end

record claim_support =
  cl_existence :: bool
  cl_identity :: bool
  cl_attachment :: bool
  cl_relationship :: bool
  cl_role :: bool

definition no_claim :: claim_support where
  "no_claim = \<lparr>cl_existence = False, cl_identity = False, cl_attachment = False, cl_relationship = False,
     cl_role = False\<rparr>"

record discovery_evidence =
  de_id :: string
  de_type :: evidence_type
  de_class :: string
  de_source :: string
  de_device :: string
  de_interface :: "string option"
  de_entity :: "string option"
  de_value :: "string option"
  de_summary :: string
  de_observed_at :: time
  de_freshness :: freshness
  de_expires_at :: "time option"
  de_strength :: confidence
  de_establishes :: claim_support
  de_relationship :: "string option"
  de_provenance :: string
  de_revoked :: bool
  de_conflict :: bool

record evidence_conflict =
  ec_field :: string
  ec_summary :: string
  ec_evidence :: "string list"

section \<open>Addresses\<close>

definition hex_lower :: "char \<Rightarrow> bool" where
  "hex_lower c \<longleftrightarrow> c \<in> set ''0123456789abcdef''"

definition normalize_mac :: "string \<Rightarrow> string" where
  "normalize_mac v =
     (let compact = filter (\<lambda>c. c \<notin> set ''-:.'') (py_lower (py_strip v)) in
      if length compact = 12 \<and> list_all hex_lower compact then compact else [])"

definition hex_value :: "char \<Rightarrow> nat" where
  "hex_value c = (if is_decimal_char c then cp c - 48 else cp c - 87)"

record oui_hint =
  oh_vendor :: "string option"
  oh_status :: string
  oh_detail :: string

text \<open>The registry gives the organisation of a prefix, \<open>None\<close> for one that is not registered.\<close>

definition oui_vendor_hint :: "(string \<Rightarrow> string option) \<Rightarrow> string \<Rightarrow> oui_hint" where
  "oui_vendor_hint registry v =
     (let mac = normalize_mac v;
          first = 16 * hex_value (mac ! 0) + hex_value (mac ! 1);
          none = (\<lambda>status detail. \<lparr>oh_vendor = None, oh_status = status, oh_detail = detail\<rparr>);
          vendor = py_strip (or_empty (registry mac))
      in if mac = [] then none ''invalid'' ''The address is not a valid 48-bit MAC address.''
         else if mac = replicate 12 CHR ''f''
         then none ''broadcast'' ''Broadcast addresses do not have a vendor identity.''
         else if odd first then none ''multicast'' ''Multicast addresses do not identify one device vendor.''
         else if odd (first div 2)
         then none ''locally-administered''
           (''The address is locally administered, so its prefix is not a reliable vendor '' @ ''hint.'')
         else if mac = replicate 12 CHR ''0''
         then none ''invalid'' ''The all-zero address is not a vendor identity.''
         else if vendor = [] then none ''unknown'' ''No vendor is registered locally for this prefix.''
         else \<lparr>oh_vendor = Some vendor, oh_status = ''registered'',
                oh_detail = ''The bundled IEEE registry maps the address prefix to this organisation; '' @
                  ''it does not identify a model or role.''\<rparr>)"

section \<open>Freshness\<close>

definition second :: time where "second = 1000000"

definition current_seconds :: "evidence_type \<Rightarrow> int option" where
  "current_seconds t =
     (case t of
        Interface_link \<Rightarrow> Some 20 | Interface_description \<Rightarrow> None | User_intent \<Rightarrow> None | Accepted_plan \<Rightarrow> None
      | Prior_observation \<Rightarrow> Some 0 | _ \<Rightarrow> Some 180)"

definition evidence_expiry :: "evidence_type \<Rightarrow> time \<Rightarrow> time option" where
  "evidence_expiry t observed_at =
     (case current_seconds t of
        Some s \<Rightarrow> if s > 0 then Some (observed_at + s * second) else None
      | None \<Rightarrow> None)"

definition freshness_for :: "evidence_type \<Rightarrow> time \<Rightarrow> time \<Rightarrow> bool \<Rightarrow> freshness" where
  "freshness_for t observed_at reference_at revoked =
     (if revoked \<or> t = Prior_observation then Historical
      else case current_seconds t of
        None \<Rightarrow> Current
      | Some s \<Rightarrow>
          let age = max 0 (reference_at - observed_at) in
          if age \<le> s * second then Current
          else if age \<le> s * 4 * second then Aging
          else Stale)"

section \<open>Facts\<close>

definition collapse_blanks :: "string \<Rightarrow> string" where
  "collapse_blanks s = rx_sub (plus1 sp) (\<lambda>_. '' '') s"

definition stable_entity_id :: "(string \<Rightarrow> string) \<Rightarrow> string \<Rightarrow> string \<Rightarrow> string \<Rightarrow> string" where
  "stable_entity_id digest namespace kind identity =
     ''entity-'' @ take 16 (digest (namespace @ ''|'' @ kind @ ''|'' @ collapse_blanks (py_lower (py_strip identity))))"

definition evidence_id ::
  "(string \<Rightarrow> string) \<Rightarrow> evidence_type \<Rightarrow> string \<Rightarrow> string option \<Rightarrow> string option \<Rightarrow> string option \<Rightarrow> string"
where
  "evidence_id digest t device iface entity v =
     ''ev-'' @ take 20 (digest (py_join ''|''
       [evidence_type_name t, device, or_empty iface, or_empty entity, or_empty v]))"

definition evidence_record ::
  "(string \<Rightarrow> string) \<Rightarrow> evidence_type \<Rightarrow> string \<Rightarrow> string \<Rightarrow> string \<Rightarrow> string option \<Rightarrow> string option
     \<Rightarrow> string option \<Rightarrow> string \<Rightarrow> time \<Rightarrow> confidence \<Rightarrow> claim_support \<Rightarrow> string \<Rightarrow> string option \<Rightarrow> discovery_evidence"
where
  "evidence_record digest t cls source device iface entity v summary observed_at strength establishes provenance relationship =
     \<lparr>de_id = evidence_id digest t device iface entity v, de_type = t, de_class = cls, de_source = source,
      de_device = device, de_interface = iface, de_entity = entity, de_value = v, de_summary = summary,
      de_observed_at = observed_at, de_freshness = Current, de_expires_at = evidence_expiry t observed_at,
      de_strength = strength, de_establishes = establishes, de_relationship = relationship,
      de_provenance = provenance, de_revoked = False, de_conflict = False\<rparr>"

section \<open>Confidence\<close>

definition lower_confidence :: "confidence \<Rightarrow> confidence" where
  "lower_confidence c =
     (case c of Conf_confirmed \<Rightarrow> Conf_high | Conf_high \<Rightarrow> Conf_medium | Conf_medium \<Rightarrow> Conf_low | _ \<Rightarrow> Conf_unknown)"

definition current_facts :: "discovery_evidence list \<Rightarrow> discovery_evidence list" where
  "current_facts records = filter (\<lambda>r. de_freshness r = Current \<and> \<not> de_revoked r) records"

definition existence_confidence :: "discovery_evidence list \<Rightarrow> confidence" where
  "existence_confidence records =
     (let current = current_facts records; types = de_type ` set current in
      if Local_host_mac \<in> types \<or> Cdp_neighbor \<in> types \<or> Lldp_neighbor \<in> types then Conf_confirmed
      else if Interface_link \<in> types \<and> Mac_learned \<in> types then Conf_high
      else if Interface_link \<in> types then Conf_medium
      else if list_ex (\<lambda>r. cl_existence (de_establishes r)) current then Conf_low
      else Conf_unknown)"

definition identity_confidence :: "discovery_evidence list \<Rightarrow> evidence_conflict list \<Rightarrow> confidence" where
  "identity_confidence records conflicts =
     (let types = de_type ` set (current_facts records);
          result =
            (if Local_host_mac \<in> types then Conf_confirmed
             else if Cdp_neighbor \<in> types \<or> Lldp_neighbor \<in> types then Conf_high
             else if Oui_vendor \<in> types \<and> Arp_entry \<in> types \<and> Mac_learned \<in> types then Conf_medium
             else if Oui_vendor \<in> types then Conf_low
             else Conf_unknown)
      in if conflicts \<noteq> [] then lower_confidence result else result)"

text \<open>The maximal runs of lower-case letters and digits.\<close>

definition name_tokens :: "string \<Rightarrow> string list" where
  "name_tokens s =
     filter (\<lambda>t. t \<noteq> []) (rx_split (plus1 (One (\<lambda>c. \<not> (is_decimal_char c \<or> (97 \<le> cp c \<and> cp c \<le> 122))))) (py_lower s))"

definition vendor_conflict :: "string option \<Rightarrow> string option \<Rightarrow> string list \<Rightarrow> evidence_conflict option" where
  "vendor_conflict observed oui ids =
     (let a = set (name_tokens (or_empty observed)); b = set (name_tokens (or_empty oui));
          aliases = {''cisco'', ''meraki''}
      in if or_empty observed = [] \<or> or_empty oui = [] then None
         else if a \<inter> b \<noteq> {} \<or> (a \<inter> aliases \<noteq> {} \<and> b \<inter> aliases \<noteq> {}) then None
         else Some \<lparr>ec_field = ''vendor'',
           ec_summary = ''The neighbour reports '' @ or_empty observed @ '', while the learned address prefix maps to '' @
             or_empty oui @ ''. SwitchOps keeps both facts and lowers identity confidence.'',
           ec_evidence = ids\<rparr>)"

section \<open>Lemmas\<close>

definition age_rank :: "freshness \<Rightarrow> nat" where
  "age_rank f = (case f of Current \<Rightarrow> 0 | Aging \<Rightarrow> 1 | Stale \<Rightarrow> 2 | Historical \<Rightarrow> 3)"

lemma current_facts_mono: "set rs \<subseteq> set rs' \<Longrightarrow> set (current_facts rs) \<subseteq> set (current_facts rs')"
  by (auto simp: current_facts_def)

lemma existence_mono:
  assumes "set rs \<subseteq> set rs'"
  shows "existence_confidence rs \<le> existence_confidence rs'"
proof -
  have "set (current_facts rs) \<subseteq> set (current_facts rs')" by (rule current_facts_mono [OF assms])
  then show ?thesis
    by (auto simp: existence_confidence_def Let_def less_eq_confidence_def rank_def list_ex_iff)
qed

lemma identity_mono:
  assumes "set rs \<subseteq> set rs'"
  shows "identity_confidence rs [] \<le> identity_confidence rs' []"
proof -
  have "set (current_facts rs) \<subseteq> set (current_facts rs')" by (rule current_facts_mono [OF assms])
  then show ?thesis
    by (auto simp: identity_confidence_def Let_def less_eq_confidence_def rank_def)
qed

lemma identity_conflict_lowers: "identity_confidence rs (c # cs) \<le> identity_confidence rs []"
  by (auto simp: identity_confidence_def Let_def less_eq_confidence_def rank_def lower_confidence_def)

text \<open>A fact ages in one direction only: a later reference time never makes it fresher, and time alone,
  however long the switch was unreachable, never makes it historical; that takes a contradicting
  observation.\<close>

theorem freshness_only_ages:
  assumes "r1 \<le> r2"
  shows "age_rank (freshness_for t o1 r1 revoked) \<le> age_rank (freshness_for t o1 r2 revoked) \<and>
    (freshness_for t o1 r2 revoked = Historical \<longleftrightarrow> revoked \<or> t = Prior_observation)"
proof (cases "revoked \<or> t = Prior_observation")
  case True
  then show ?thesis by (auto simp: freshness_for_def)
next
  case False
  then show ?thesis using assms
    by (cases "current_seconds t") (auto simp: freshness_for_def Let_def age_rank_def)
qed

theorem freshness_only_ages_witness:
  "age_rank (freshness_for Mac_learned 0 (100 * second) False) \<le> age_rank (freshness_for Mac_learned 0 (999 * second) False) \<and>
    freshness_for Mac_learned 0 (999 * second) False = Stale"
  using freshness_only_ages [of "100 * second" "999 * second" Mac_learned 0 False]
  by (simp add: freshness_for_def current_seconds_def second_def Let_def)

end
