(* ===== verification/Parse_Neighbors.thy ===== *)
theory Parse_Neighbors
  imports Parse_Ports
begin

text \<open>
  The neighbour parsers \<open>backend/app/parsers/cdp.py\<close> and \<open>lldp.py\<close>: detail blocks between dashed rules,
  and the compact LLDP table. Each pattern is the one of the code, with its groups numbered.
\<close>

record cdp_neighbor =
  cdp_name :: string
  cdp_local :: string
  cdp_remote :: "string option"
  cdp_platform :: "string option"
  cdp_capabilities :: "string list"
  cdp_ip :: "string option"

record lldp_neighbor =
  lldp_name :: string
  lldp_chassis :: "string option"
  lldp_local :: string
  lldp_remote :: "string option"
  lldp_description :: "string option"
  lldp_capabilities :: "string list"
  lldp_ip :: "string option"

text \<open>The first group of the first match, and the same without its outer blanks.\<close>

definition found :: "rx \<Rightarrow> string \<Rightarrow> string option" where
  "found r s = map_option (\<lambda>g. group_text g 1) (rx_search r s)"

definition found_text :: "rx \<Rightarrow> string \<Rightarrow> string option" where
  "found_text r s = map_option py_strip (found r s)"

definition rule_rx :: rx where
  "rule_rx = seqs [Bol, repeat 3 (lit ''-''), star (lit ''-''), star sp, Eol]"

text \<open>\<open>^\s*NAME:\s*(.+?)\s*$\<close> under \<open>IGNORECASE\<close> and \<open>MULTILINE\<close>.\<close>

definition named_line_rx :: "string \<Rightarrow> rx" where
  "named_line_rx name = seqs [Bol, star sp, liti (name @ '':''), star sp, Grp 1 (plus_lazy dot), star sp, Eol]"

definition not_comma_newline :: rx where
  "not_comma_newline = chars_not ('','' @ [newline])"

definition octets_rx :: rx where
  "octets_rx = seqs [between 1 3 dig, repeat 3 (seqs [lit ''.'', between 1 3 dig])]"

section \<open>CDP\<close>

definition cdp_device_rx :: rx where "cdp_device_rx = named_line_rx ''Device ID''"
definition cdp_local_rx :: rx where
  "cdp_local_rx = seqs [Bol, star sp, liti ''Interface:'', star sp, Grp 1 (plus1 not_comma_newline)]"
definition cdp_remote_rx :: rx where
  "cdp_remote_rx = seqs [liti ''Port ID (outgoing port):'', star sp, Grp 1 (plus1 (chars_not [newline]))]"
definition cdp_platform_rx :: rx where
  "cdp_platform_rx = seqs [Bol, star sp, liti ''Platform:'', star sp, Grp 1 (plus1 not_comma_newline)]"
definition cdp_capabilities_rx :: rx where
  "cdp_capabilities_rx = seqs [liti ''Capabilities:'', star sp, Grp 1 (star (chars_not [newline]))]"
definition cdp_ip_rx :: rx where
  "cdp_ip_rx = seqs [liti ''IP'', opt (liti ''v4''), liti '' address:'', star sp, Grp 1 octets_rx]"

definition slot_rx :: rx where "slot_rx = seqs [plus1 dig, lit ''/'', plus1 dig]"

definition shorten :: "string \<Rightarrow> rx \<Rightarrow> string \<Rightarrow> string \<Rightarrow> string option" where
  "shorten long numbers short v =
     map_option (\<lambda>g. short @ group_text g 1) (rx_fullmatch (seqs [liti long, star sp, Grp 1 numbers]) v)"

definition cdp_short_interface :: "string \<Rightarrow> string" where
  "cdp_short_interface name =
     (let v = py_strip name in
      case shorten ''gigabitethernet'' slot_rx ''Gi'' v of
        Some s \<Rightarrow> s
      | None \<Rightarrow>
          (case shorten ''fastethernet'' slot_rx ''Fa'' v of
             Some s \<Rightarrow> s
           | None \<Rightarrow>
               (case shorten ''tengigabitethernet'' (seqs [slot_rx, opt (lit ''/''), star dig]) ''Te'' v of
                  Some s \<Rightarrow> s | None \<Rightarrow> v)))"

definition cdp_block :: "string \<Rightarrow> cdp_neighbor list" where
  "cdp_block block =
     (case found cdp_device_rx block of
        None \<Rightarrow> []
      | Some device \<Rightarrow>
          [\<lparr>cdp_name = py_strip device,
            cdp_local = (case found cdp_local_rx block of Some l \<Rightarrow> cdp_short_interface l | None \<Rightarrow> []),
            cdp_remote = found_text cdp_remote_rx block,
            cdp_platform = found_text cdp_platform_rx block,
            cdp_capabilities = (case found cdp_capabilities_rx block of Some c \<Rightarrow> py_split_ws c | None \<Rightarrow> []),
            cdp_ip = found cdp_ip_rx block\<rparr>])"

definition parse_cdp :: "string \<Rightarrow> cdp_neighbor list" where
  "parse_cdp text = (if text = [] then [] else concat (map cdp_block (rx_split rule_rx text)))"

section \<open>LLDP\<close>

definition lldp_local_rx :: rx where
  "lldp_local_rx = seqs [Bol, star sp, liti ''Local '', alts [liti ''Intf'', liti ''Interface''], lit '':'',
     star sp, Grp 1 (plus1 nsp), star sp, Eol]"
definition lldp_description_rx :: rx where
  "lldp_description_rx = seqs [Bol, star sp, liti ''System Description:'', star sp, Grp 1 (star_lazy anyc),
     Look (alts [seqs [Bol, star sp, alts [liti ''Time remaining'', liti ''System Capabilities'',
       liti ''Enabled Capabilities'', liti ''Management Addresses''], lit '':''], Eos])]"
definition lldp_capabilities_rx :: rx where
  "lldp_capabilities_rx = seqs [Bol, star sp, liti ''Enabled Capabilities:'', star sp, Grp 1 (star_lazy dot), star sp, Eol]"
definition lldp_ip_rx :: rx where
  "lldp_ip_rx = seqs [Bol, star sp, alts [liti ''IP'', liti ''IPV4''], lit '':'', star sp, Grp 1 octets_rx, star sp, Eol]"
definition lldp_row_rx :: rx where
  "lldp_row_rx = seqs [Sos, star sp, Grp 1 (plus1 nsp), plus1 sp,
     Grp 2 (seqs [alts [liti ''Gi'', liti ''Fa'', liti ''Te'', liti ''Eth''], plus1 nsp]), plus1 sp,
     Grp 3 (plus1 dig), plus1 sp, Grp 4 (seqs [plus1 nsp, star (seqs [plus1 sp, plus1 nsp])]), plus1 sp,
     Grp 5 (plus1 nsp), star sp, Eod]"

definition long_slot_rx :: rx where "long_slot_rx = seqs [slot_rx, opt (seqs [lit ''/'', plus1 dig])]"

definition lldp_short_interface :: "string \<Rightarrow> string" where
  "lldp_short_interface name =
     (let v = py_strip name in
      case shorten ''gigabitethernet'' long_slot_rx ''Gi'' v of
        Some s \<Rightarrow> s
      | None \<Rightarrow>
          (case shorten ''fastethernet'' long_slot_rx ''Fa'' v of
             Some s \<Rightarrow> s
           | None \<Rightarrow> (case shorten ''tengigabitethernet'' long_slot_rx ''Te'' v of Some s \<Rightarrow> s | None \<Rightarrow> v)))"

definition capability_tokens :: "string \<Rightarrow> string list" where
  "capability_tokens v =
     filter (\<lambda>t. t \<noteq> [] \<and> t \<noteq> ''-'')
       (rx_split (plus1 (One (\<lambda>c. py_isspace_char c \<or> c = CHR '',''))) (py_strip v))"

definition lldp_block :: "string \<Rightarrow> lldp_neighbor list" where
  "lldp_block block =
     (let chassis = found (named_line_rx ''Chassis id'') block;
          named = (case found (named_line_rx ''System Name'') block of Some n \<Rightarrow> Some n | None \<Rightarrow> chassis)
      in case (found lldp_local_rx block, named) of
           (Some local, Some name) \<Rightarrow>
             [\<lparr>lldp_name = py_strip name, lldp_chassis = map_option py_strip chassis,
               lldp_local = lldp_short_interface local,
               lldp_remote = found_text (named_line_rx ''Port id'') block,
               lldp_description =
                 (case found lldp_description_rx block of
                    Some d \<Rightarrow> if py_strip d = [] then None else Some (py_join '' '' (py_split_ws d))
                  | None \<Rightarrow> None),
               lldp_capabilities =
                 (case found lldp_capabilities_rx block of Some c \<Rightarrow> capability_tokens c | None \<Rightarrow> []),
               lldp_ip = found lldp_ip_rx block\<rparr>]
         | _ \<Rightarrow> [])"

definition parse_lldp_detail :: "string \<Rightarrow> lldp_neighbor list" where
  "parse_lldp_detail text = (if text = [] then [] else concat (map lldp_block (rx_split rule_rx text)))"

definition lldp_row :: "string \<Rightarrow> lldp_neighbor list" where
  "lldp_row line =
     (if \<not> list_ex is_decimal_char line \<or> py_contains ''local intf'' (py_lower line) then []
      else case rx_match lldp_row_rx line of
        None \<Rightarrow> []
      | Some g \<Rightarrow> [\<lparr>lldp_name = group_text g 1, lldp_chassis = None,
          lldp_local = lldp_short_interface (group_text g 2), lldp_remote = Some (group_text g 5),
          lldp_description = None, lldp_capabilities = capability_tokens (group_text g 4), lldp_ip = None\<rparr>])"

definition parse_lldp_summary :: "string \<Rightarrow> lldp_neighbor list" where
  "parse_lldp_summary text = concat (map lldp_row (py_splitlines text))"

definition parse_lldp :: "string \<Rightarrow> string \<Rightarrow> lldp_neighbor list" where
  "parse_lldp detail summary =
     (let detailed = parse_lldp_detail detail in if detailed \<noteq> [] then detailed else parse_lldp_summary summary)"

text \<open>A port of a stacked switch has three numbers: LLDP shortens it as the status table prints it, CDP
  leaves the long name, which no row of the table carries.\<close>

lemma cdp_stack_port:
  "cdp_short_interface ''GigabitEthernet1/0/1'' = ''GigabitEthernet1/0/1''"
  "lldp_short_interface ''GigabitEthernet1/0/1'' = ''Gi1/0/1''"
  by code_simp+

end
