(* ===== verification/Topology.thy ===== *)
theory Topology
  imports Discovery_Evidence Topology_Names Parse_Neighbors
begin

text \<open>
  \<open>build_topology\<close> of \<open>backend/app/topology.py\<close>: the nodes, links and facts that one collection of
  tables supports. The ids and the expected name that the constructors of an endpoint choose are
  overwritten by the builder and left out. The arrow between an address and a MAC in one fact is
  written in its UTF-8 bytes.
\<close>

section \<open>The model\<close>

record capability =
  ca_name :: string
  ca_available :: bool
  ca_source :: string

record network_device =
  nd_id :: string
  nd_type :: string
  nd_vendor :: "string option"
  nd_model :: "string option"
  nd_name :: string
  nd_mac :: "string option"
  nd_ip :: "string option"
  nd_source :: string
  nd_confidence :: confidence
  nd_stage :: string
  nd_online :: bool
  nd_connected :: "string option"
  nd_capabilities :: "capability list"
  nd_last_seen :: "time option"
  nd_evidence :: "string list"
  nd_level :: string
  nd_identity_source :: string
  nd_expected_name :: "string option"
  nd_expected_type :: "string option"
  nd_learned :: nat
  nd_role :: iface_role
  nd_existence_state :: string
  nd_existence :: confidence
  nd_identity :: confidence
  nd_freshness :: freshness
  nd_relationship :: "string option"
  nd_first_seen :: "time option"
  nd_macs :: "string list"
  nd_ips :: "string list"
  nd_observed_category :: string
  nd_evidence_ids :: "string list"
  nd_conflicts :: "evidence_conflict list"
  nd_historical_identity :: "string option"

record network_interface =
  ni_id :: string
  ni_device :: string
  ni_port :: string
  ni_description :: string
  ni_admin :: string
  ni_oper :: string
  ni_speed :: string
  ni_duplex :: string
  ni_vlan :: string
  ni_poe_capable :: bool
  ni_poe_state :: string
  ni_poe_watts :: rat
  ni_protected :: bool
  ni_policy :: policy_state
  ni_role :: iface_role
  ni_learned :: nat
  ni_expected_name :: "string option"
  ni_expected_category :: "string option"
  ni_expected_vendor :: "string option"
  ni_expected_model :: "string option"
  ni_expected_source :: "string option"
  ni_evidence_ids :: "string list"

record network_link =
  nl_id :: string
  nl_from :: string
  nl_from_interface :: string
  nl_to :: string
  nl_to_interface :: "string option"
  nl_status :: string
  nl_speed :: string
  nl_poe :: bool
  nl_confidence :: confidence
  nl_evidence :: "string list"
  nl_level :: string
  nl_learned :: nat
  nl_relationship :: string
  nl_evidence_ids :: "string list"
  nl_freshness :: freshness

record topology_expectation =
  te_interface :: string
  te_name :: string
  te_type :: string
  te_vendor :: "string option"
  te_model :: "string option"
  te_source :: string
  te_confidence :: confidence
  te_evidence_ids :: "string list"

record expected_relationship =
  er_device :: string
  er_interface :: string
  er_name :: string
  er_type :: string
  er_vendor :: "string option"
  er_model :: "string option"
  er_source :: string
  er_note :: "string option"
  er_suppressed :: bool
  er_created_at :: "time option"
  er_updated_at :: "time option"

record local_endpoint =
  le_state :: string
  le_interface :: "string option"
  le_label :: string
  le_ip :: "string option"
  le_detail :: string

record topology_model =
  tm_generated_at :: time
  tm_root :: string
  tm_devices :: "network_device list"
  tm_interfaces :: "network_interface list"
  tm_links :: "network_link list"
  tm_evidence :: "discovery_evidence list"
  tm_expectations :: "topology_expectation list"
  tm_historical :: "network_device list"

text \<open>What one collection found, with the parameters of the surroundings.\<close>

record collected =
  co_digest :: "string \<Rightarrow> string"
  co_registry :: "string \<Rightarrow> string option"
  co_namespace :: string
  co_hostname :: string
  co_model :: string
  co_management_ip :: string
  co_interfaces :: "interface_status list"
  co_macs :: "mac_table_entry list"
  co_poe :: "poe_port list"
  co_cdp :: "cdp_neighbor list"
  co_lldp :: "lldp_neighbor list"
  co_arp :: "arp_entry list"
  co_local :: "local_endpoint option"
  co_expected :: "expected_relationship list"
  co_now :: time

section \<open>Categories of a neighbour\<close>

definition cdp_capability_category :: "(string \<times> string) list" where
  "cdp_capability_category =
     [(''trans-bridge'', ''access-point''), (''router'', ''router''), (''switch'', ''switch''),
      (''host'', ''desktop''), (''phone'', ''phone'')]"

definition platform_rx :: rx where
  "platform_rx =
     (let tail = One (\<lambda>c. is_ascii_letter c \<or> is_decimal_char c \<or> c = CHR ''-'') in
      seqs [Wordb, Grp 1 (alts [seqs [liti ''MR'', between 2 3 dig], seqs [liti ''WS-'', plus1 tail],
        seqs [liti ''C'', repeat 4 dig, star tail]]), Wordb])"

definition vendor_named :: "string \<Rightarrow> string option" where
  "vendor_named text =
     (if py_contains ''meraki'' text then Some ''Cisco Meraki''
      else if py_contains ''cisco'' text then Some ''Cisco'' else None)"

definition category_from_cdp :: "cdp_neighbor \<Rightarrow> string \<times> string option \<times> string option" where
  "category_from_cdp n =
     (let platform = py_strip (or_empty (cdp_platform n));
          capabilities = py_lower (py_join '' '' (cdp_capabilities n));
          lowered = '' '' @ py_lower platform @ '' '' @ py_lower (cdp_name n) @ '' '';
          by_capability = map_option snd (find (\<lambda>(t, _). py_contains t capabilities) cdp_capability_category);
          category = (case first_category lowered of
             Some c \<Rightarrow> c
           | None \<Rightarrow> (case by_capability of Some c \<Rightarrow> c | None \<Rightarrow> ''unknown''));
          model = (case rx_search platform_rx platform of
             Some g \<Rightarrow> Some (py_upper (group_text g 1))
           | None \<Rightarrow> if platform \<noteq> [] then Some platform else None)
      in (category, vendor_named lowered, model))"

definition category_from_lldp :: "lldp_neighbor \<Rightarrow> string \<times> string option \<times> string option" where
  "category_from_lldp n =
     (let advertised = py_strip (lldp_name n @ '' '' @ or_empty (lldp_description n));
          c = classify_device advertised None;
          lowered = py_lower advertised;
          vendor = (if py_contains ''meraki'' lowered then Some ''Cisco Meraki''
                    else if py_contains ''cisco'' lowered \<and> or_empty (cl_vendor c) = [] then Some ''Cisco''
                    else cl_vendor c)
      in (cl_category c, vendor, if or_empty (cl_model c) \<noteq> [] then cl_model c else lldp_description n))"

definition poe_active :: "poe_port option \<Rightarrow> bool" where
  "poe_active poe =
     (case poe of None \<Rightarrow> False
      | Some p \<Rightarrow> py_lower (py_strip (pp_oper p)) \<notin> {[], ''off'', ''n/a'', ''faulty'', ''deny''})"

definition poe_capabilities :: "poe_port option \<Rightarrow> capability list" where
  "poe_capabilities poe =
     (if poe = None then []
      else [\<lparr>ca_name = ''poe-powered'', ca_available = poe_active poe, ca_source = ''show power inline''\<rparr>])"

definition stage_of :: "string option \<Rightarrow> string option \<Rightarrow> string \<Rightarrow> string" where
  "stage_of model vendor category =
     (if or_empty model \<noteq> [] then ''model'' else if or_empty vendor \<noteq> [] then ''vendor''
      else if category \<noteq> ''unknown'' then ''category'' else ''unknown'')"

section \<open>The facts of one port\<close>

definition switch_id :: "collected \<Rightarrow> string" where
  "switch_id co = switch_device_id (co_hostname co) (co_namespace co)"

definition macs_on :: "collected \<Rightarrow> string \<Rightarrow> mac_table_entry list" where
  "macs_on co port =
     filter (\<lambda>e. py_upper (mac_port e) \<noteq> ''CPU'' \<and> py_lower (mac_vlan e) \<noteq> ''all'' \<and> mac_port e = port) (co_macs co)"

definition arps_of :: "collected \<Rightarrow> string \<Rightarrow> arp_entry list" where
  "arps_of co mac = filter (\<lambda>e. mac \<noteq> [] \<and> normalize_mac (arp_mac e) = mac) (co_arp co)"

definition cdp_on :: "collected \<Rightarrow> string \<Rightarrow> cdp_neighbor list" where
  "cdp_on co port = filter (\<lambda>n. cdp_local n \<noteq> [] \<and> cdp_local n = port) (co_cdp co)"

definition lldp_on :: "collected \<Rightarrow> string \<Rightarrow> lldp_neighbor list" where
  "lldp_on co port = filter (\<lambda>n. lldp_local n \<noteq> [] \<and> lldp_local n = port) (co_lldp co)"

definition local_match :: "collected \<Rightarrow> string \<Rightarrow> bool" where
  "local_match co port =
     (case co_local co of None \<Rightarrow> False
      | Some l \<Rightarrow> le_state l = ''confirmed'' \<and> le_interface l = Some port)"

definition port_fact ::
  "collected \<Rightarrow> interface_status \<Rightarrow> evidence_type \<Rightarrow> string \<Rightarrow> string \<Rightarrow> string option \<Rightarrow> string option \<Rightarrow> string
     \<Rightarrow> confidence \<Rightarrow> claim_support \<Rightarrow> string \<Rightarrow> string option \<Rightarrow> discovery_evidence"
where
  "port_fact co i t cls source entity v summary strength claims provenance relationship =
     evidence_record (co_digest co) t cls source (switch_id co) (Some (ifs_port i)) entity v summary (co_now co)
       strength claims provenance relationship"

definition oper_up :: "interface_status \<Rightarrow> bool" where
  "oper_up i \<longleftrightarrow> interface_oper_state (ifs_status i) = ''up''"

definition link_fact :: "collected \<Rightarrow> interface_status \<Rightarrow> discovery_evidence" where
  "link_fact co i =
     port_fact co i Interface_link ''observed'' ''interface-telemetry'' None (Some (interface_oper_state (ifs_status i)))
       (if oper_up i then ifs_port i @ '' reports an operational link.''
        else ifs_port i @ '' reports no operational link.'')
       (if oper_up i then Conf_high else Conf_medium)
       (no_claim\<lparr>cl_existence := oper_up i, cl_attachment := oper_up i, cl_relationship := oper_up i\<rparr>)
       ''show interfaces status'' (if oper_up i then Some ''attached-endpoint'' else None)"

definition stored_fact :: "collected \<Rightarrow> interface_status \<Rightarrow> expected_relationship \<Rightarrow> discovery_evidence" where
  "stored_fact co i e =
     (let user = (er_source e = ''user-intent'') in
      evidence_record (co_digest co) (if user then User_intent else Accepted_plan) ''expected''
        (if user then ''user-intent'' else ''accepted-plan'') (switch_id co) (Some (ifs_port i)) None
        (Some (er_name e))
        (''SwitchOps records '' @ py_repr (er_name e) @ '' as the intended neighbour on '' @ ifs_port i @ ''.'')
        (case er_updated_at e of Some t \<Rightarrow> t | None \<Rightarrow> co_now co)
        (if user then Conf_high else Conf_medium) (no_claim\<lparr>cl_role := True\<rparr>)
        ''SwitchOps local topology intent'' (Some ''expected-neighbour''))"

definition description_fact :: "collected \<Rightarrow> interface_status \<Rightarrow> discovery_evidence" where
  "description_fact co i =
     port_fact co i Interface_description ''expected'' ''interface-description'' None (Some (py_strip (ifs_name i)))
       (''The configured description is '' @ py_repr (py_strip (ifs_name i)) @ ''. '' @
        ''It documents intent and does not prove a device is present.'')
       Conf_low (no_claim\<lparr>cl_role := True\<rparr>) ''show running-config / show interfaces status''
       (Some ''expected-neighbour'')"

definition stored_on :: "collected \<Rightarrow> string \<Rightarrow> expected_relationship option" where
  "stored_on co port = last_row er_interface port (co_expected co)"

definition expected_facts :: "collected \<Rightarrow> interface_status \<Rightarrow> discovery_evidence list" where
  "expected_facts co i =
     (case stored_on co (ifs_port i) of None \<Rightarrow> [] | Some e \<Rightarrow> [stored_fact co i e]) @
     (if meaningful_description (ifs_name i) then [description_fact co i] else [])"

definition expectation_on :: "collected \<Rightarrow> interface_status \<Rightarrow> topology_expectation option" where
  "expectation_on co i =
     (case stored_on co (ifs_port i) of
        Some e \<Rightarrow>
          Some \<lparr>te_interface = ifs_port i, te_name = er_name e, te_type = er_type e, te_vendor = er_vendor e,
            te_model = er_model e, te_source = er_source e,
            te_confidence = (if er_source e = ''user-intent'' then Conf_high else Conf_medium),
            te_evidence_ids = [de_id (stored_fact co i e)]\<rparr>
      | None \<Rightarrow>
          if meaningful_description (ifs_name i)
          then (let c = classify_device (ifs_name i) None in
                Some \<lparr>te_interface = ifs_port i, te_name = py_strip (ifs_name i), te_type = cl_category c,
                  te_vendor = cl_vendor c, te_model = cl_model c, te_source = ''interface-description'',
                  te_confidence = Conf_low, te_evidence_ids = [de_id (description_fact co i)]\<rparr>)
          else None)"

definition port_role :: "interface_status \<Rightarrow> iface_role" where
  "port_role i = classify_interface_role (ifs_name i) (ifs_vlan i)"

text \<open>The entity a port's observations are about.\<close>

definition port_entity :: "collected \<Rightarrow> interface_status \<Rightarrow> string" where
  "port_entity co i =
     (let port = ifs_port i; entity = stable_entity_id (co_digest co) (co_namespace co) in
      case (cdp_on co port, lldp_on co port) of
        (n # _, _) \<Rightarrow> entity ''neighbor'' (cdp_name n @ ''|'' @ or_empty (cdp_ip n))
      | ([], n # _) \<Rightarrow> entity ''neighbor'' (lldp_name n @ ''|'' @ or_empty (lldp_ip n))
      | ([], []) \<Rightarrow>
          if local_match co port then entity ''local-host'' (switch_id co)
          else (case macs_on co port of
                  [m] \<Rightarrow> entity ''mac'' (normalize_mac (mac_addr m))
                | _ \<Rightarrow> entity ''port-presence'' (switch_id co @ ''|'' @ port)))"

definition arrow :: string where "arrow = [CHR 0xE2, CHR 0x86, CHR 0x94]"

text \<open>The facts one learned address gives; they name the entity only when it is the only address.\<close>

definition mac_facts :: "collected \<Rightarrow> interface_status \<Rightarrow> string option \<Rightarrow> mac_table_entry \<Rightarrow> discovery_evidence list" where
  "mac_facts co i entity m =
     (let up = oper_up i;
          reach = no_claim\<lparr>cl_existence := up, cl_relationship := up\<rparr>;
          hint = oui_vendor_hint (co_registry co) (mac_addr m)
      in [port_fact co i Mac_learned ''observed'' ''mac-table'' entity (Some (py_lower (mac_addr m)))
            (if up then ''The switch learned this address through '' @ ifs_port i @ ''; it may be behind another device.''
             else ''The address remains in the MAC table for '' @ ifs_port i @
               '', but the port is down; it is not current presence evidence.'')
            Conf_high reach ''show mac address-table''
            (if up then Some (if entity \<noteq> None \<and> port_role i = Role_access then ''attached-endpoint'' else ''learned-behind'')
             else None)] @
         (case oh_vendor hint of
            None \<Rightarrow> []
          | Some v \<Rightarrow> [port_fact co i Oui_vendor ''inferred'' ''mac-oui'' entity (Some v)
              (''Vendor hint: '' @ v @ ''. '' @ oh_detail hint) Conf_low (no_claim\<lparr>cl_identity := True\<rparr>)
              ''bundled IEEE OUI registry via netaddr'' None]) @
         map (\<lambda>a. port_fact co i Arp_entry ''observed'' ''arp'' entity
             (Some (arp_ip a @ '' '' @ arrow @ '' '' @ py_lower (mac_addr m)))
             (''ARP correlates '' @ arp_ip a @ '' with an address learned through '' @ ifs_port i @
              ''; this proves a path, not direct attachment.'')
             Conf_medium reach ''show ip arp + show mac address-table''
             (if up then Some ''learned-behind'' else None))
           (arps_of co (normalize_mac (mac_addr m))))"

definition learned_facts :: "collected \<Rightarrow> interface_status \<Rightarrow> discovery_evidence list" where
  "learned_facts co i =
     (let learned = macs_on co (ifs_port i);
          entity = (if length learned = 1 then Some (port_entity co i) else None)
      in concat (map (mac_facts co i entity) learned))"

section \<open>The endpoint of one port\<close>

text \<open>What kind of observation places something on the port, strongest first.\<close>

datatype sighting =
    By_cdp cdp_neighbor "cdp_neighbor list"
  | By_lldp lldp_neighbor "lldp_neighbor list"
  | By_local local_endpoint
  | By_learning
  | By_link

definition port_sighting :: "collected \<Rightarrow> interface_status \<Rightarrow> sighting option" where
  "port_sighting co i =
     (if \<not> oper_up i then None
      else Some
        (case cdp_on co (ifs_port i) of
           n # ns \<Rightarrow> By_cdp n ns
         | [] \<Rightarrow>
             (case lldp_on co (ifs_port i) of
                n # ns \<Rightarrow> By_lldp n ns
              | [] \<Rightarrow>
                  if local_match co (ifs_port i) then By_local (the (co_local co))
                  else if macs_on co (ifs_port i) \<noteq> [] then By_learning else By_link)))"

definition all_claims :: claim_support where
  "all_claims = \<lparr>cl_existence = True, cl_identity = True, cl_attachment = True, cl_relationship = True, cl_role = True\<rparr>"

definition sighting_facts :: "collected \<Rightarrow> interface_status \<Rightarrow> sighting \<Rightarrow> discovery_evidence list" where
  "sighting_facts co i s =
     (case s of
        By_cdp n _ \<Rightarrow>
          [port_fact co i Cdp_neighbor ''observed'' ''cdp'' (Some (port_entity co i)) (Some (cdp_name n))
             (cdp_name n @ '' announced itself directly on '' @ ifs_port i @ '' over CDP.'') Conf_high all_claims
             ''show cdp neighbors detail'' (Some ''direct-neighbour'')]
      | By_lldp n _ \<Rightarrow>
          [port_fact co i Lldp_neighbor ''observed'' ''lldp'' (Some (port_entity co i)) (Some (lldp_name n))
             (lldp_name n @ '' announced itself directly on '' @ ifs_port i @ '' over LLDP.'') Conf_high all_claims
             ''show lldp neighbors detail'' (Some ''direct-neighbour'')]
      | By_local l \<Rightarrow>
          [port_fact co i Local_host_mac ''observed'' ''local-host'' (Some (port_entity co i))
             (Some ''active local adapter matched'') (le_detail l) Conf_confirmed (all_claims\<lparr>cl_role := False\<rparr>)
             ''local adapter inventory + switch MAC table + interface state'' (Some ''attached-endpoint'')]
      | _ \<Rightarrow> [])"

definition relationship_of :: "sighting \<Rightarrow> string" where
  "relationship_of s = (case s of By_cdp _ _ \<Rightarrow> ''direct-neighbour'' | By_lldp _ _ \<Rightarrow> ''direct-neighbour'' | _ \<Rightarrow> ''attached-endpoint'')"

text \<open>The node as the constructor of its kind makes it.\<close>

definition blank_endpoint :: "collected \<Rightarrow> interface_status \<Rightarrow> network_device" where
  "blank_endpoint co i =
     \<lparr>nd_id = port_entity co i, nd_type = ''unknown'', nd_vendor = None, nd_model = None,
      nd_name = ''Unidentified endpoint'', nd_mac = None, nd_ip = None, nd_source = ''observed'',
      nd_confidence = Conf_low, nd_stage = ''unknown'', nd_online = True, nd_connected = Some (ifs_port i),
      nd_capabilities = [], nd_last_seen = Some (co_now co),
      nd_evidence = [''interface reports an active link; no identity source is available''],
      nd_level = ''observed-on-port'', nd_identity_source = ''none'', nd_expected_name = None,
      nd_expected_type = None, nd_learned = 0, nd_role = port_role i, nd_existence_state = ''observed'',
      nd_existence = Conf_unknown, nd_identity = Conf_unknown, nd_freshness = Current, nd_relationship = None,
      nd_first_seen = None, nd_macs = [], nd_ips = [], nd_observed_category = ''unknown'',
      nd_evidence_ids = [], nd_conflicts = [], nd_historical_identity = None\<rparr>"

definition endpoint_from_learned :: "collected \<Rightarrow> interface_status \<Rightarrow> network_device" where
  "endpoint_from_learned co i =
     (let learned = macs_on co (ifs_port i); n = length learned in
      (blank_endpoint co i)
        \<lparr>nd_name := ''Unidentified device'', nd_mac := (if n = 1 then Some (mac_addr (hd learned)) else None),
         nd_capabilities := poe_capabilities (last_row pp_interface (ifs_port i) (co_poe co)),
         nd_evidence :=
           [py_str_nat n @ '' address(es) learned through '' @ ifs_port i, ''interface reports an active link''] @
           (if meaningful_description (ifs_name i)
            then [''the interface description reads '' @ py_repr (py_strip (ifs_name i)) @ ''; that is '' @
                  ''documentation of what is expected, not an identification of what is attached'']
            else []) @
           (if n > 1 then [''several addresses are reachable through this link, so further devices sit behind it'']
            else []),
         nd_learned := n\<rparr>)"

definition endpoint_of :: "collected \<Rightarrow> interface_status \<Rightarrow> sighting \<Rightarrow> network_device" where
  "endpoint_of co i s =
     (let n = length (macs_on co (ifs_port i));
          poe = last_row pp_interface (ifs_port i) (co_poe co);
          behind = (if n > 1 then [py_str_nat n @ '' addresses are reachable through this link''] else []);
          blank = (blank_endpoint co i)\<lparr>nd_capabilities := poe_capabilities poe\<rparr>
      in case s of
           By_cdp c _ \<Rightarrow>
             (case category_from_cdp c of (category, vendor, model) \<Rightarrow>
                blank\<lparr>nd_type := category, nd_vendor := vendor, nd_model := model, nd_name := cdp_name c,
                  nd_ip := cdp_ip c, nd_confidence := Conf_high, nd_stage := stage_of model vendor category,
                  nd_evidence := [cdp_name c @ '' announced itself through CDP on '' @ ifs_port i] @
                    (if or_empty (cdp_platform c) \<noteq> [] then [''platform reported by the neighbour''] else []) @ behind,
                  nd_level := ''direct'', nd_identity_source := ''cdp'', nd_learned := n\<rparr>)
         | By_lldp c _ \<Rightarrow>
             (case category_from_lldp c of (category, vendor, model) \<Rightarrow>
                blank\<lparr>nd_type := category, nd_vendor := vendor, nd_model := model, nd_name := lldp_name c,
                  nd_ip := lldp_ip c, nd_confidence := Conf_high, nd_stage := stage_of model vendor category,
                  nd_evidence := [lldp_name c @ '' announced itself through LLDP on '' @ ifs_port i] @
                    (if or_empty (lldp_description c) \<noteq> [] then [''system description reported by the neighbour''] else []) @
                    behind,
                  nd_level := ''direct'', nd_identity_source := ''lldp'', nd_learned := n\<rparr>)
         | By_local l \<Rightarrow>
             blank\<lparr>nd_type := ''desktop'', nd_name := le_label l, nd_ip := le_ip l, nd_confidence := Conf_high,
               nd_stage := ''category'', nd_evidence := [le_detail l, ''interface reports an active access link''],
               nd_identity_source := ''local-host'', nd_learned := 1\<rparr>
         | By_learning \<Rightarrow> endpoint_from_learned co i
         | By_link \<Rightarrow> blank_endpoint co i)"

text \<open>The facts about the endpoint: the link, what the only learned address gives, and its own announcement.\<close>

definition entity_facts :: "collected \<Rightarrow> interface_status \<Rightarrow> sighting \<Rightarrow> discovery_evidence list" where
  "entity_facts co i s =
     link_fact co i # (if length (macs_on co (ifs_port i)) = 1 then learned_facts co i else []) @ sighting_facts co i s"

text \<open>With one learned address: its MAC, its ARP addresses, and the registry's vendor or the conflict with it.\<close>

definition attribute_mac :: "collected \<Rightarrow> discovery_evidence list \<Rightarrow> string \<Rightarrow> network_device \<Rightarrow> network_device" where
  "attribute_mac co facts mac d =
     (let ips = map arp_ip (arps_of co (normalize_mac mac));
          d1 = d\<lparr>nd_macs := [py_lower mac], nd_mac := Some (py_lower mac), nd_ips := dedup ips,
            nd_ip := (if nd_ip d = None \<and> ips \<noteq> [] then Some (hd ips) else nd_ip d)\<rparr>
      in case oh_vendor (oui_vendor_hint (co_registry co) mac) of
           None \<Rightarrow> d1
         | Some v \<Rightarrow>
             if or_empty (nd_vendor d1) \<noteq> []
             then (case vendor_conflict (nd_vendor d1) (Some v) (nd_evidence_ids d1) of
                     None \<Rightarrow> d1
                   | Some c \<Rightarrow> d1\<lparr>nd_conflicts := nd_conflicts d1 @ [c],
                       nd_identity := identity_confidence facts (nd_conflicts d1 @ [c])\<rparr>)
             else d1\<lparr>nd_vendor := Some v,
                     nd_identity_source := (if nd_identity_source d1 = ''none'' then ''mac-oui'' else nd_identity_source d1),
                     nd_stage := ''vendor'', nd_identity := identity_confidence facts []\<rparr>)"

definition overall_confidence :: "confidence \<Rightarrow> confidence" where
  "overall_confidence c =
     (if c = Conf_unknown then Conf_low else if c = Conf_confirmed then Conf_high else c)"

definition finish_endpoint :: "collected \<Rightarrow> interface_status \<Rightarrow> sighting \<Rightarrow> network_device" where
  "finish_endpoint co i s =
     (let facts = entity_facts co i s;
          expectation = expectation_on co i;
          learned = macs_on co (ifs_port i);
          d = endpoint_of co i s;
          d1 = d\<lparr>nd_id := port_entity co i, nd_evidence_ids := dedup (map de_id facts),
            nd_existence_state := ''observed'', nd_existence := existence_confidence facts,
            nd_identity := identity_confidence facts [], nd_freshness := Current,
            nd_relationship := Some (relationship_of s), nd_first_seen := Some (co_now co),
            nd_last_seen := Some (co_now co), nd_observed_category := nd_type d,
            nd_expected_name := map_option te_name expectation, nd_expected_type := map_option te_type expectation\<rparr>;
          d2 = (if length learned = 1 then attribute_mac co facts (mac_addr (hd learned)) d1 else d1)
      in d2\<lparr>nd_confidence := overall_confidence (nd_identity d2)\<rparr>)"

section \<open>Assembling the model\<close>

definition link_level :: "sighting \<Rightarrow> string" where
  "link_level s = (case s of By_cdp _ _ \<Rightarrow> ''direct'' | By_lldp _ _ \<Rightarrow> ''direct'' | _ \<Rightarrow> ''observed-on-port'')"

definition link_reasons :: "sighting \<Rightarrow> nat \<Rightarrow> string list" where
  "link_reasons s n =
     (case s of
        By_cdp _ ns \<Rightarrow> [''CDP neighbour announced on this interface'', ''interface operational state''] @
          (if ns \<noteq> [] then [py_str_nat (length ns + 1) @ '' CDP neighbours are visible through this interface''] else [])
      | By_lldp _ ns \<Rightarrow> [''LLDP neighbour announced on this interface'', ''interface operational state''] @
          (if ns \<noteq> [] then [py_str_nat (length ns + 1) @ '' LLDP neighbours are visible through this interface''] else [])
      | By_local _ \<Rightarrow> [''unique local-host and MAC-table correlation'', ''interface operational state'']
      | By_learning \<Rightarrow> [''interface operational state'', py_str_nat n @ '' address(es) learned through this interface''] @
          (if n > 1 then [''additional addresses are reachable behind this link, not attached to this port''] else [])
      | By_link \<Rightarrow> [''interface operational state''])"

definition port_link :: "collected \<Rightarrow> interface_status \<Rightarrow> sighting \<Rightarrow> network_link" where
  "port_link co i s =
     (let d = finish_endpoint co i s; n = length (macs_on co (ifs_port i)) in
      \<lparr>nl_id = ''link-'' @ switch_id co @ ''-'' @ slug (ifs_port i) @ ''-'' @ nd_id d, nl_from = switch_id co,
       nl_from_interface = ifs_port i, nl_to = nd_id d,
       nl_to_interface = (case s of By_cdp c _ \<Rightarrow> cdp_remote c | _ \<Rightarrow> None),
       nl_status = ''up'', nl_speed = ifs_speed i,
       nl_poe = poe_active (last_row pp_interface (ifs_port i) (co_poe co)),
       nl_confidence = (if s = By_link then Conf_medium else Conf_high), nl_evidence = link_reasons s n,
       nl_level = link_level s, nl_learned = n, nl_relationship = relationship_of s,
       nl_evidence_ids = map de_id (filter (\<lambda>f. cl_relationship (de_establishes f) \<or> cl_attachment (de_establishes f))
         (entity_facts co i s)), nl_freshness = Current\<rparr>)"

definition port_facts :: "collected \<Rightarrow> interface_status \<Rightarrow> discovery_evidence list" where
  "port_facts co i =
     link_fact co i # expected_facts co i @ learned_facts co i @
     (case port_sighting co i of None \<Rightarrow> [] | Some s \<Rightarrow> sighting_facts co i s)"

definition port_interface :: "collected \<Rightarrow> interface_status \<Rightarrow> network_interface" where
  "port_interface co i =
     (let poe = last_row pp_interface (ifs_port i) (co_poe co); expectation = expectation_on co i in
      \<lparr>ni_id = switch_id co @ '':'' @ ifs_port i, ni_device = switch_id co, ni_port = ifs_port i,
       ni_description = ifs_name i, ni_admin = interface_admin_state (ifs_status i),
       ni_oper = interface_oper_state (ifs_status i), ni_speed = ifs_speed i, ni_duplex = ifs_duplex i,
       ni_vlan = ifs_vlan i, ni_poe_capable = (poe \<noteq> None),
       ni_poe_state = (case poe of Some p \<Rightarrow> pp_oper p | None \<Rightarrow> ''not-supported''),
       ni_poe_watts = (case poe of Some p \<Rightarrow> pp_power_watts p | None \<Rightarrow> 0),
       ni_protected = ifs_protected i, ni_policy = ifs_policy_state i, ni_role = port_role i,
       ni_learned = length (macs_on co (ifs_port i)),
       ni_expected_name = map_option te_name expectation, ni_expected_category = map_option te_type expectation,
       ni_expected_vendor = (case expectation of Some e \<Rightarrow> te_vendor e | None \<Rightarrow> None),
       ni_expected_model = (case expectation of Some e \<Rightarrow> te_model e | None \<Rightarrow> None),
       ni_expected_source = map_option te_source expectation,
       ni_evidence_ids = map de_id (port_facts co i)\<rparr>)"

definition root_device :: "collected \<Rightarrow> network_device" where
  "root_device co =
     (let model = co_model co in
      \<lparr>nd_id = switch_id co, nd_type = ''switch'',
       nd_vendor = (if py_contains ''cisco'' (py_lower model) \<or> py_startswith (py_upper model) ''WS-'' then Some ''Cisco'' else None),
       nd_model = (if model = [] then None else Some model), nd_name = co_hostname co, nd_mac = None,
       nd_ip = (if co_management_ip co \<noteq> ''Unknown'' then Some (co_management_ip co) else None),
       nd_source = ''observed'', nd_confidence = Conf_high,
       nd_stage = (if model \<noteq> [] \<and> model \<noteq> ''Unknown'' then ''model'' else ''category''), nd_online = True,
       nd_connected = None,
       nd_capabilities = [\<lparr>ca_name = ''managed'', ca_available = True, ca_source = ''authenticated IOS session''\<rparr>,
         \<lparr>ca_name = ''poe'', ca_available = True, ca_source = ''show power inline''\<rparr>],
       nd_last_seen = Some (co_now co), nd_evidence = [''authenticated IOS telemetry''], nd_level = ''direct'',
       nd_identity_source = ''switch-telemetry'', nd_expected_name = None, nd_expected_type = None,
       nd_learned = 0, nd_role = Role_unknown, nd_existence_state = ''observed'', nd_existence = Conf_confirmed,
       nd_identity = Conf_confirmed, nd_freshness = Current, nd_relationship = None,
       nd_first_seen = Some (co_now co), nd_macs = [], nd_ips = [], nd_observed_category = ''switch'',
       nd_evidence_ids = [], nd_conflicts = [], nd_historical_identity = None\<rparr>)"

text \<open>The loop over the ports adds to every list of the model.\<close>

definition add_port :: "collected \<Rightarrow> interface_status \<Rightarrow> topology_model \<Rightarrow> topology_model" where
  "add_port co i m =
     (let m1 = m\<lparr>tm_interfaces := tm_interfaces m @ [port_interface co i],
            tm_evidence := tm_evidence m @ port_facts co i,
            tm_expectations := tm_expectations m @ (case expectation_on co i of None \<Rightarrow> [] | Some e \<Rightarrow> [e])\<rparr>
      in case port_sighting co i of
           None \<Rightarrow> m1
         | Some s \<Rightarrow> m1\<lparr>tm_devices := tm_devices m1 @ [finish_endpoint co i s],
                        tm_links := tm_links m1 @ [port_link co i s]\<rparr>)"

definition build_topology :: "collected \<Rightarrow> topology_model" where
  "build_topology co =
     fold (add_port co) (co_interfaces co)
       \<lparr>tm_generated_at = co_now co, tm_root = switch_id co, tm_devices = [root_device co], tm_interfaces = [],
        tm_links = [], tm_evidence = [], tm_expectations = [], tm_historical = []\<rparr>"

section \<open>Lemmas\<close>

definition placed :: "collected \<Rightarrow> (interface_status \<times> sighting) list" where
  "placed co = concat (map (\<lambda>i. case port_sighting co i of None \<Rightarrow> [] | Some s \<Rightarrow> [(i, s)]) (co_interfaces co))"

lemma fold_add_port:
  "tm_devices (fold (add_port co) is m) = tm_devices m @
     map (\<lambda>(i, s). finish_endpoint co i s) (concat (map (\<lambda>i. case port_sighting co i of None \<Rightarrow> [] | Some s \<Rightarrow> [(i, s)]) is))"
  "tm_links (fold (add_port co) is m) = tm_links m @
     map (\<lambda>(i, s). port_link co i s) (concat (map (\<lambda>i. case port_sighting co i of None \<Rightarrow> [] | Some s \<Rightarrow> [(i, s)]) is))"
  "tm_interfaces (fold (add_port co) is m) = tm_interfaces m @ map (port_interface co) is"
  "tm_evidence (fold (add_port co) is m) = tm_evidence m @ concat (map (port_facts co) is)"
  "tm_root (fold (add_port co) is m) = tm_root m"
  by (induction "is" arbitrary: m) (auto simp: add_port_def Let_def split: option.split)

lemmas topology_lists = build_topology_def fold_add_port placed_def [symmetric]

lemma sighting_up: "port_sighting co i = Some s \<Longrightarrow> oper_up i"
  by (simp add: port_sighting_def split: if_splits)

lemma up_sighting: "oper_up i \<Longrightarrow> \<exists>s. port_sighting co i = Some s"
  by (simp add: port_sighting_def)

lemma attribute_mac_keeps [simp]:
  "nd_id (attribute_mac co fs m d) = nd_id d" "nd_connected (attribute_mac co fs m d) = nd_connected d"
  "nd_name (attribute_mac co fs m d) = nd_name d" "nd_source (attribute_mac co fs m d) = nd_source d"
  "nd_evidence_ids (attribute_mac co fs m d) = nd_evidence_ids d"
  "nd_existence (attribute_mac co fs m d) = nd_existence d"
  by (auto simp: attribute_mac_def Let_def split: option.split)

lemma endpoint_of_port [simp]:
  "nd_connected (endpoint_of co i s) = Some (ifs_port i)" "nd_source (endpoint_of co i s) = ''observed''"
  by (cases s; simp add: endpoint_of_def blank_endpoint_def endpoint_from_learned_def Let_def split: prod.split)+

definition sighted_name :: "sighting \<Rightarrow> string" where
  "sighted_name s =
     (case s of By_cdp c _ \<Rightarrow> cdp_name c | By_lldp c _ \<Rightarrow> lldp_name c | By_local l \<Rightarrow> le_label l
      | By_learning \<Rightarrow> ''Unidentified device'' | By_link \<Rightarrow> ''Unidentified endpoint'')"

lemma endpoint_of_name [simp]: "nd_name (endpoint_of co i s) = sighted_name s"
  by (cases s; simp add: endpoint_of_def blank_endpoint_def endpoint_from_learned_def sighted_name_def Let_def split: prod.split)

lemma finish_endpoint_keeps [simp]:
  "nd_id (finish_endpoint co i s) = port_entity co i" "nd_connected (finish_endpoint co i s) = Some (ifs_port i)"
  "nd_name (finish_endpoint co i s) = sighted_name s" "nd_source (finish_endpoint co i s) = ''observed''"
  "nd_evidence_ids (finish_endpoint co i s) = dedup (map de_id (entity_facts co i s))"
  "nd_existence (finish_endpoint co i s) = existence_confidence (entity_facts co i s)"
  by (simp_all add: finish_endpoint_def Let_def)

lemma entity_facts_known:
  "port_sighting co i = Some s \<Longrightarrow> set (entity_facts co i s) \<subseteq> set (port_facts co i)"
  by (auto simp: entity_facts_def port_facts_def)

lemma entity_facts_current: "f \<in> set (entity_facts co i s) \<Longrightarrow> de_freshness f = Current \<and> \<not> de_revoked f"
  by (cases s) (auto simp: entity_facts_def link_fact_def learned_facts_def mac_facts_def sighting_facts_def
      port_fact_def evidence_record_def Let_def split: option.splits if_splits)

lemma link_type: "de_type (link_fact co i) = Interface_link"
  by (simp add: link_fact_def port_fact_def evidence_record_def)

lemma endpoint_existence: "Conf_medium \<le> existence_confidence (entity_facts co i s)"
proof -
  have "link_fact co i \<in> set (current_facts (entity_facts co i s))"
    using entity_facts_current [of "link_fact co i" co i s] by (auto simp: current_facts_def entity_facts_def)
  then have "Interface_link \<in> de_type ` set (current_facts (entity_facts co i s))"
    using link_type by (metis imageI)
  then show ?thesis
    by (auto simp: existence_confidence_def Let_def less_eq_confidence_def rank_def)
qed

lemma placed_ports: "map (ifs_port \<circ> fst) (placed co) = map ifs_port (filter oper_up (co_interfaces co))"
proof -
  have "map (ifs_port \<circ> fst) (concat (map (\<lambda>i. case port_sighting co i of None \<Rightarrow> [] | Some s \<Rightarrow> [(i, s)]) is)) =
      map ifs_port (filter oper_up is)" for "is"
    by (induction "is") (auto simp: port_sighting_def)
  then show ?thesis by (simp add: placed_def)
qed

lemma placed_connected:
  "map (\<lambda>p. Some (ifs_port (fst p))) (placed co) = map (\<lambda>i. Some (ifs_port i)) (filter oper_up (co_interfaces co))"
  using arg_cong [OF placed_ports [of co], of "map Some"] by (simp only: map_map comp_def)

lemma placed_mem: "(i, s) \<in> set (placed co) \<longleftrightarrow> i \<in> set (co_interfaces co) \<and> port_sighting co i = Some s"
  by (auto simp: placed_def split: option.splits)

lemma port_link_ends [simp]:
  "nl_from (port_link co i s) = switch_id co" "nl_to (port_link co i s) = port_entity co i"
  "nl_from_interface (port_link co i s) = ifs_port i"
  by (simp_all add: port_link_def Let_def)

lemma stored_facts_known:
  "expectation_on co i = Some e \<Longrightarrow> set (te_evidence_ids e) \<subseteq> de_id ` set (port_facts co i)"
  by (auto simp: expectation_on_def port_facts_def expected_facts_def Let_def split: option.splits if_splits)

lemma expectations_listed:
  "tm_expectations (fold (add_port co) is m) = tm_expectations m @
     concat (map (\<lambda>i. case expectation_on co i of None \<Rightarrow> [] | Some e \<Rightarrow> [e]) is)"
  by (induction "is" arbitrary: m) (auto simp: add_port_def Let_def split: option.split)

lemma topology_listed:
  "tm_devices (build_topology co) = root_device co # map (\<lambda>(i, s). finish_endpoint co i s) (placed co)"
  "tm_links (build_topology co) = map (\<lambda>(i, s). port_link co i s) (placed co)"
  "tm_interfaces (build_topology co) = map (port_interface co) (co_interfaces co)"
  "tm_evidence (build_topology co) = concat (map (port_facts co) (co_interfaces co))"
  "tm_expectations (build_topology co) =
     concat (map (\<lambda>i. case expectation_on co i of None \<Rightarrow> [] | Some e \<Rightarrow> [e]) (co_interfaces co))"
  "tm_root (build_topology co) = switch_id co"
  by (simp_all add: topology_lists expectations_listed)

lemma endpoint_evidence_known:
  assumes "(i, s) \<in> set (placed co)"
  shows "set (nd_evidence_ids (finish_endpoint co i s)) \<subseteq> de_id ` set (tm_evidence (build_topology co))"
    and "set (nl_evidence_ids (port_link co i s)) \<subseteq> de_id ` set (tm_evidence (build_topology co))"
proof -
  have "set (entity_facts co i s) \<subseteq> set (tm_evidence (build_topology co))"
    using assms entity_facts_known [of co i s] by (auto simp: placed_mem topology_listed)
  then show "set (nd_evidence_ids (finish_endpoint co i s)) \<subseteq> de_id ` set (tm_evidence (build_topology co))"
    and "set (nl_evidence_ids (port_link co i s)) \<subseteq> de_id ` set (tm_evidence (build_topology co))"
    by (auto simp: port_link_def Let_def)
qed

lemma port_evidence_known:
  assumes "i \<in> set (co_interfaces co)"
  shows "set (port_facts co i) \<subseteq> set (tm_evidence (build_topology co))"
    and "expectation_on co i = Some e \<Longrightarrow> set (te_evidence_ids e) \<subseteq> de_id ` set (tm_evidence (build_topology co))"
proof -
  show "set (port_facts co i) \<subseteq> set (tm_evidence (build_topology co))"
    using assms by (auto simp: topology_listed)
  then show "set (te_evidence_ids e) \<subseteq> de_id ` set (tm_evidence (build_topology co))" if "expectation_on co i = Some e"
    using stored_facts_known [OF that] by blast
qed

lemma root_device_parts [simp]: "nd_id (root_device co) = switch_id co" "nd_evidence_ids (root_device co) = []"
  by (simp_all add: root_device_def Let_def)

lemma port_interface_parts [simp]:
  "ni_device (port_interface co i) = switch_id co" "ni_evidence_ids (port_interface co i) = map de_id (port_facts co i)"
  by (simp_all add: port_interface_def Let_def)

text \<open>C18: The topology shows exactly one endpoint for every port whose link is up, in the order of the
  ports, and none for any other port: a configured description, a stored expectation or a stale table
  entry never makes a device. Each endpoint is named after what was sighted on the port, is joined to
  the switch by one link that starts on that port and ends at it, and its existence is graded at least
  medium.\<close>

theorem topology_one_endpoint_per_up_port:
  "map nd_connected (tl (tm_devices (build_topology co))) =
     map (\<lambda>i. Some (ifs_port i)) (filter oper_up (co_interfaces co)) \<and>
   map nd_name (tl (tm_devices (build_topology co))) = map (\<lambda>(i, s). sighted_name s) (placed co) \<and>
   map nl_from_interface (tm_links (build_topology co)) = map ifs_port (filter oper_up (co_interfaces co)) \<and>
   map nl_to (tm_links (build_topology co)) = map nd_id (tl (tm_devices (build_topology co))) \<and>
   set (map nl_from (tm_links (build_topology co))) \<subseteq> {tm_root (build_topology co)} \<and>
   list_all (\<lambda>d. nd_source d = ''observed'' \<and> Conf_medium \<le> nd_existence d) (tl (tm_devices (build_topology co)))"
  using placed_ports [of co] placed_connected [of co]
  by (simp add: topology_listed comp_def split_def list_all_iff endpoint_existence image_subset_iff)

text \<open>C19: Every reference in the topology resolves: the evidence ids of each device, interface, link and
  expectation are ids of facts in the model's evidence list, every link ends at a listed device, and
  every interface belongs to the listed root.\<close>

theorem topology_references_resolve:
  "\<Union> (set ` nd_evidence_ids ` set (tm_devices (build_topology co))) \<union>
   \<Union> (set ` ni_evidence_ids ` set (tm_interfaces (build_topology co))) \<union>
   \<Union> (set ` nl_evidence_ids ` set (tm_links (build_topology co))) \<union>
   \<Union> (set ` te_evidence_ids ` set (tm_expectations (build_topology co)))
     \<subseteq> de_id ` set (tm_evidence (build_topology co)) \<and>
   (nl_from ` set (tm_links (build_topology co))) \<union> (nl_to ` set (tm_links (build_topology co))) \<union>
   (ni_device ` set (tm_interfaces (build_topology co))) \<union> {tm_root (build_topology co)}
     \<subseteq> nd_id ` set (tm_devices (build_topology co))"
proof (intro conjI Un_least UN_least)
  fix ids assume "ids \<in> nd_evidence_ids ` set (tm_devices (build_topology co))"
  then show "set ids \<subseteq> de_id ` set (tm_evidence (build_topology co))"
    using endpoint_evidence_known(1) [of _ _ co] by (auto simp: topology_listed(1) simp del: finish_endpoint_keeps(5))
next
  fix ids assume "ids \<in> ni_evidence_ids ` set (tm_interfaces (build_topology co))"
  then show "set ids \<subseteq> de_id ` set (tm_evidence (build_topology co))"
    using port_evidence_known(1) [of _ co] by (fastforce simp: topology_listed(3))
next
  fix ids assume "ids \<in> nl_evidence_ids ` set (tm_links (build_topology co))"
  then show "set ids \<subseteq> de_id ` set (tm_evidence (build_topology co))"
    using endpoint_evidence_known(2) [of _ _ co] by (auto simp: topology_listed(2))
next
  fix ids assume "ids \<in> te_evidence_ids ` set (tm_expectations (build_topology co))"
  then obtain i e where "i \<in> set (co_interfaces co)" "expectation_on co i = Some e" "ids = te_evidence_ids e"
    by (clarsimp simp: topology_listed(5) split: option.splits) metis
  then show "set ids \<subseteq> de_id ` set (tm_evidence (build_topology co))"
    using port_evidence_known(2) by blast
qed (auto simp: topology_listed image_image split_def)

end
