(* ===== verification/Intent_Store.thy ===== *)
theory Intent_Store
  imports Topology
begin

text \<open>
  \<open>backend/app/intent_store.py\<close>: what the operator says should be on an interface, and the last
  reconciliation signature seen on each. A table is a dictionary from its primary key (device,
  interface) to the row; a statement of SQL is the operation on the dictionary it performs. Stored
  times come back as they were written. The schema and the process lock are storage.
\<close>

section \<open>The tables\<close>

type_synonym intent_key = "string \<times> string"

record reconciliation_row =
  rr_device :: string
  rr_interface :: string
  rr_signature :: string
  rr_status :: string
  rr_label :: "string option"
  rr_identified :: bool
  rr_first_seen :: time
  rr_last_seen :: time

record intent_store =
  is_expected :: "(intent_key, expected_relationship) dict"
  is_state :: "(intent_key, reconciliation_row) dict"

definition empty_intent :: intent_store where
  "empty_intent = \<lparr>is_expected = [], is_state = []\<rparr>"

definition expected_key :: "expected_relationship \<Rightarrow> intent_key" where
  "expected_key r = (er_device r, er_interface r)"

definition state_key :: "reconciliation_row \<Rightarrow> intent_key" where
  "state_key r = (rr_device r, rr_interface r)"

definition put_expected :: "expected_relationship \<Rightarrow> intent_store \<Rightarrow> intent_store" where
  "put_expected r st = st\<lparr>is_expected := dict_set (expected_key r) r (is_expected st)\<rparr>"

definition get_expected :: "intent_store \<Rightarrow> intent_key \<Rightarrow> expected_relationship option" where
  "get_expected st k = dict_get (is_expected st) k"

definition put_seen :: "reconciliation_row \<Rightarrow> intent_store \<Rightarrow> intent_store" where
  "put_seen r st = st\<lparr>is_state := dict_set (state_key r) r (is_state st)\<rparr>"

definition get_seen :: "intent_store \<Rightarrow> intent_key \<Rightarrow> reconciliation_row option" where
  "get_seen st k = dict_get (is_state st) k"

section \<open>Recorded intent\<close>

text \<open>The fields of a request, checked as the API model checks them: lengths first, then blanks off the
  ends and no control characters; a text of blanks only becomes \<open>None\<close>.\<close>

definition validate_text :: "string option \<Rightarrow> string option result" where
  "validate_text v =
     (case v of
        None \<Rightarrow> Inr None
      | Some s \<Rightarrow>
          (let t = py_strip s in
           if list_ex (\<lambda>c. cp c < 32) t then Inl (PyError ''ValidationError'')
           else Inr (if t = [] then None else Some t)))"

definition list_expected :: "string \<Rightarrow> intent_store \<Rightarrow> expected_relationship list" where
  "list_expected device st =
     sort_key er_interface (filter (\<lambda>r. er_device r = device) (map snd (is_expected st)))"

text \<open>The caller's row carries the arguments; its two times are replaced by the store's.\<close>

definition set_expected :: "time \<Rightarrow> expected_relationship \<Rightarrow> intent_store \<Rightarrow> expected_relationship \<times> intent_store" where
  "set_expected now r st =
     (let created = (case get_expected st (expected_key r) of None \<Rightarrow> Some now | Some old \<Rightarrow> er_created_at old);
          row = r\<lparr>er_created_at := created, er_updated_at := Some now\<rparr>
      in (row, put_expected row st))"

definition clear_expected :: "string \<Rightarrow> string \<Rightarrow> intent_store \<Rightarrow> bool \<times> intent_store" where
  "clear_expected device iface st =
     (get_expected st (device, iface) \<noteq> None, st\<lparr>is_expected := dict_pop (device, iface) (is_expected st)\<rparr>)"

section \<open>Reconciliation state\<close>

definition observe_reconciliation ::
  "string \<Rightarrow> string \<Rightarrow> string \<Rightarrow> string \<Rightarrow> string option \<Rightarrow> bool \<Rightarrow> time \<Rightarrow> intent_store
     \<Rightarrow> (bool \<times> string option \<times> time option) \<times> intent_store"
where
  "observe_reconciliation device iface signature status label identified now st =
     (let old = get_seen st (device, iface);
          previous = map_option rr_signature old;
          first = (case old of Some r \<Rightarrow> if rr_signature r = signature then rr_first_seen r else now | None \<Rightarrow> now)
      in ((previous \<noteq> Some signature, previous, map_option rr_first_seen old),
          put_seen \<lparr>rr_device = device, rr_interface = iface, rr_signature = signature, rr_status = status,
            rr_label = label, rr_identified = identified, rr_first_seen = first, rr_last_seen = now\<rparr> st))"

definition previous_observations :: "string \<Rightarrow> intent_store \<Rightarrow> (string, string option \<times> bool) dict" where
  "previous_observations device st =
     map (\<lambda>r. (rr_interface r, rr_label r, rr_identified r))
       (filter (\<lambda>r. rr_device r = device) (map snd (is_state st)))"

definition forget_reconciliation :: "string \<Rightarrow> intent_store \<Rightarrow> intent_store" where
  "forget_reconciliation device st = st\<lparr>is_state := filter (\<lambda>(k, r). rr_device r \<noteq> device) (is_state st)\<rparr>"

section \<open>The stores as documents under their keys\<close>

definition intent_ok :: "intent_store \<Rightarrow> bool" where
  "intent_ok st \<longleftrightarrow>
     dict_ok (is_expected st) \<and> (\<forall>(k, r) \<in> set (is_expected st). expected_key r = k) \<and>
     dict_ok (is_state st) \<and> (\<forall>(k, r) \<in> set (is_state st). state_key r = k)"

lemma intent_ok_empty [simp]: "intent_ok empty_intent"
  by (simp add: intent_ok_def empty_intent_def)

lemma get_put_expected: "get_expected (put_expected r st) k = (if k = expected_key r then Some r else get_expected st k)"
  by (simp add: get_expected_def put_expected_def)

lemma get_put_seen: "get_seen (put_seen r st) k = (if k = state_key r then Some r else get_seen st k)"
  by (simp add: get_seen_def put_seen_def)

lemma tables_apart [simp]:
  "get_seen (put_expected r st) = get_seen st" "get_expected (put_seen w st) = get_expected st"
  by (simp_all add: fun_eq_iff get_seen_def get_expected_def put_expected_def put_seen_def)

lemma intent_ok_put_expected: "intent_ok st \<Longrightarrow> intent_ok (put_expected r st)"
  by (auto simp: intent_ok_def put_expected_def dest: set_dict_set)

lemma intent_ok_put_state: "intent_ok st \<Longrightarrow> intent_ok (put_seen r st)"
  by (auto simp: intent_ok_def put_seen_def dest: set_dict_set)

lemma expected_docs_lookup:
  "intent_ok st \<Longrightarrow> v \<in> set (map snd (is_expected st)) \<longleftrightarrow> get_expected st (expected_key v) = Some v"
  unfolding intent_ok_def get_expected_def by (rule dict_doc_iff) simp_all

lemma expected_lookup_key: "intent_ok st \<Longrightarrow> get_expected st k = Some v \<Longrightarrow> expected_key v = k"
  unfolding intent_ok_def get_expected_def by (rule dict_doc_key) simp_all

lemma state_docs_lookup:
  "intent_ok st \<Longrightarrow> v \<in> set (map snd (is_state st)) \<longleftrightarrow> get_seen st (state_key v) = Some v"
  unfolding intent_ok_def get_seen_def by (rule dict_doc_iff) simp_all

lemma state_lookup_key: "intent_ok st \<Longrightarrow> get_seen st k = Some v \<Longrightarrow> state_key v = k"
  unfolding intent_ok_def get_seen_def by (rule dict_doc_key) simp_all

interpretation expected_docs: document_store expected_key get_expected put_expected "\<lambda>st. map snd (is_expected st)" intent_ok
  by unfold_locales (rule get_put_expected intent_ok_put_expected expected_docs_lookup expected_lookup_key; assumption)+

interpretation state_docs: document_store state_key get_seen put_seen "\<lambda>st. map snd (is_state st)" intent_ok
  by unfold_locales (rule get_put_seen intent_ok_put_state state_docs_lookup state_lookup_key; assumption)+

lemma list_expected_iff:
  "intent_ok st \<Longrightarrow> r \<in> set (list_expected device st) \<longleftrightarrow>
     er_device r = device \<and> get_expected st (device, er_interface r) = Some r"
  using expected_docs.docs_lookup [of st r] by (auto simp: list_expected_def expected_key_def)

lemma get_clear_expected:
  "get_expected (snd (clear_expected device iface st)) k =
     (if k = (device, iface) then None else get_expected st k)"
  by (simp add: clear_expected_def get_expected_def)

lemma intent_ok_clear: "intent_ok st \<Longrightarrow> intent_ok (snd (clear_expected device iface st))"
  using set_dict_pop [of "(device, iface)" "is_expected st"] by (auto simp: intent_ok_def clear_expected_def)

lemma singleton_list: "set xs = {x} \<Longrightarrow> distinct xs \<Longrightarrow> xs = [x]"
  by (cases xs; cases "tl xs") auto

section \<open>Properties\<close>

text \<open>C20: Recording an expectation and listing the device gives it back exactly once with the new update
  time and the creation time of the first record of that port; no other port's expectation and no
  reconciliation state changes, and clearing it afterwards leaves the other ports as they were.\<close>

theorem expectation_roundtrip:
  assumes "intent_ok st" "set_expected now r st = (row, st')"
  shows "intent_ok st' \<and> filter (\<lambda>e. er_interface e = er_interface r) (list_expected (er_device r) st') = [row] \<and>
    er_name row = er_name r \<and> er_updated_at row = Some now \<and>
    er_created_at row = (case get_expected st (expected_key r) of None \<Rightarrow> Some now | Some old \<Rightarrow> er_created_at old) \<and>
    get_seen st' = get_seen st \<and>
    (\<lambda>k. if k = expected_key r then None else get_expected st' k) =
      (\<lambda>k. if k = expected_key r then None else get_expected st k) \<and>
    get_expected (snd (clear_expected (er_device r) (er_interface r) st')) =
      (\<lambda>k. if k = expected_key r then None else get_expected st k)"
proof -
  have row: "row = r\<lparr>er_created_at := (case get_expected st (expected_key r) of None \<Rightarrow> Some now
      | Some old \<Rightarrow> er_created_at old), er_updated_at := Some now\<rparr>" and st': "st' = put_expected row st"
    using assms(2) by (auto simp: set_expected_def Let_def)
  have key: "expected_key row = expected_key r" "er_interface row = er_interface r" "er_device row = er_device r"
    by (simp_all add: row expected_key_def)
  have ok: "intent_ok st'" by (simp add: st' intent_ok_put_expected assms(1))
  have rows: "set (filter (\<lambda>e. er_interface e = er_interface r) (list_expected (er_device r) st')) = {row}"
    using list_expected_iff [OF ok, of _ "er_device r"] key
    by (auto simp: st' get_put_expected expected_key_def)
  have "distinct (map expected_key (map snd (is_expected st')))"
  proof -
    have "map expected_key (map snd (is_expected st')) = map fst (is_expected st')"
      using ok by (auto simp: intent_ok_def)
    then show ?thesis using ok by (simp only: intent_ok_def dict_ok_def)
  qed
  then have "distinct (map snd (is_expected st'))" by (simp only: distinct_map [of expected_key "map snd (is_expected st')"])
  then have "distinct (list_expected (er_device r) st')" by (simp add: list_expected_def)
  then have one: "filter (\<lambda>e. er_interface e = er_interface r) (list_expected (er_device r) st') = [row]"
    by (intro singleton_list rows distinct_filter)
  show ?thesis
    using ok one key by (auto simp: st' get_put_expected get_clear_expected fun_eq_iff expected_key_def row)
qed

definition demo_expectation :: expected_relationship where
  "demo_expectation = \<lparr>er_device = ''switch-physical-lab'', er_interface = ''Gi0/3'', er_name = ''Home server'',
     er_type = ''server'', er_vendor = None, er_model = None, er_source = ''user-intent'', er_note = None,
     er_suppressed = False, er_created_at = None, er_updated_at = None\<rparr>"

theorem expectation_roundtrip_witness:
  "filter (\<lambda>e. er_interface e = ''Gi0/3'') (list_expected ''switch-physical-lab''
      (snd (set_expected 7 demo_expectation (snd (set_expected 5 demo_expectation empty_intent))))) =
    [demo_expectation\<lparr>er_created_at := Some 5, er_updated_at := Some 7\<rparr>]"
proof -
  let ?st = "snd (set_expected 5 demo_expectation empty_intent)"
  have ok: "intent_ok ?st" by (simp add: set_expected_def Let_def intent_ok_put_expected)
  have row: "fst (set_expected 7 demo_expectation ?st) = demo_expectation\<lparr>er_created_at := Some 5, er_updated_at := Some 7\<rparr>"
    by (simp add: set_expected_def Let_def get_put_expected expected_key_def demo_expectation_def
        get_expected_def put_expected_def empty_intent_def)
  show ?thesis
    using expectation_roundtrip [OF ok, of 7 demo_expectation "fst (set_expected 7 demo_expectation ?st)"
        "snd (set_expected 7 demo_expectation ?st)"] row
    by (simp add: demo_expectation_def)
qed

end
