(* ===== verification/Reconciliation.thy ===== *)
theory Reconciliation
  imports Intent_Store
begin

text \<open>
  \<open>backend/app/reconciliation.py\<close>: the claims held about an interface (observed, expected, historical,
  inferred), their comparison, and the events that a change of the comparison raises. A Python set of
  tokens is the list of its members. The provider of observations keeps the tables it was built from,
  the ones \<open>build_topology\<close> reads.
\<close>

section \<open>Claims\<close>

record topology_assertion =
  ta_subject :: string
  ta_relationship :: string
  ta_label :: string
  ta_identified :: bool
  ta_class :: string
  ta_source :: string
  ta_confidence :: confidence
  ta_detail :: string
  ta_at :: "time option"
  ta_freshness :: freshness
  ta_evidence_ids :: "string list"
  ta_conflicted :: bool
  ta_reasons :: "string list"
  ta_type :: "string option"
  ta_vendor :: "string option"
  ta_model :: "string option"

definition assertion ::
  "string \<Rightarrow> string \<Rightarrow> string \<Rightarrow> bool \<Rightarrow> string \<Rightarrow> string \<Rightarrow> confidence \<Rightarrow> string \<Rightarrow> time option \<Rightarrow> topology_assertion"
where
  "assertion subject relationship label identified cls source confidence detail observed_at =
     \<lparr>ta_subject = subject, ta_relationship = relationship, ta_label = label, ta_identified = identified,
      ta_class = cls, ta_source = source, ta_confidence = confidence, ta_detail = detail, ta_at = observed_at,
      ta_freshness = Current, ta_evidence_ids = [], ta_conflicted = False, ta_reasons = [],
      ta_type = None, ta_vendor = None, ta_model = None\<rparr>"

record external_sighting =
  es_label :: string
  es_location :: string
  es_source :: string
  es_confidence :: confidence
  es_at :: "time option"
  es_detail :: string

datatype reconciliation_status = Aligned | Drift | Expected_not_observed | Unexpected | Uncertain | Not_applicable

definition status_name :: "reconciliation_status \<Rightarrow> string" where
  "status_name s =
     (case s of Aligned \<Rightarrow> ''aligned'' | Drift \<Rightarrow> ''drift'' | Expected_not_observed \<Rightarrow> ''expected-not-observed''
      | Unexpected \<Rightarrow> ''unexpected'' | Uncertain \<Rightarrow> ''uncertain'' | Not_applicable \<Rightarrow> ''not-applicable'')"

datatype drift_kind = Identity_drift | Location_drift | No_drift

definition drift_name :: "drift_kind \<Rightarrow> string" where
  "drift_name d = (case d of Identity_drift \<Rightarrow> ''identity'' | Location_drift \<Rightarrow> ''location'' | No_drift \<Rightarrow> ''none'')"

record interface_reconciliation =
  ri_interface :: string
  ri_status :: reconciliation_status
  ri_drift :: drift_kind
  ri_headline :: string
  ri_explanation :: string
  ri_observed :: "topology_assertion option"
  ri_expected :: "topology_assertion option"
  ri_historical :: "topology_assertion option"
  ri_inferred :: "topology_assertion list"
  ri_changed :: bool
  ri_change_summary :: "string option"
  ri_assertions :: "topology_assertion list"
  ri_stale :: bool

record reconciliation_summary =
  rs_at :: time
  rs_device :: string
  rs_aligned :: nat
  rs_drift :: nat
  rs_expected_not_observed :: nat
  rs_unexpected :: nat
  rs_uncertain :: nat
  rs_changed :: nat
  rs_attention :: bool
  rs_headline :: string
  rs_interfaces :: "interface_reconciliation list"

section \<open>Labels\<close>

definition unidentified :: string where "unidentified = ''Unidentified device''"

definition stopwords :: "string list" where
  "stopwords =
     [''uplink'', ''link'', ''to'', ''the'', ''a'', ''an'', ''port'', ''spare'', ''unused'', ''access'', ''trunk'',
      ''connection'', ''conn'', ''cable'', ''switch'', ''sw'', ''reserved'', ''temp'', ''test'', ''lab'', ''new'', ''old'',
      ''main'', ''and'']"

definition label_tokens :: "string \<Rightarrow> string list" where
  "label_tokens text = filter (\<lambda>t. length t \<ge> 3 \<and> t \<notin> set stopwords) (name_tokens text)"

definition tokens_match :: "string list \<Rightarrow> string list \<Rightarrow> bool" where
  "tokens_match left right \<longleftrightarrow>
     left \<noteq> [] \<and> right \<noteq> [] \<and>
     list_ex (\<lambda>a. list_ex (\<lambda>b. a = b \<or> (length a \<ge> 4 \<and> py_contains a b) \<or> (length b \<ge> 4 \<and> py_contains b a)) right) left"

definition is_locally_administered :: "string \<Rightarrow> bool" where
  "is_locally_administered mac =
     (let digits = filter hex_lower (py_lower mac) in
      length digits \<ge> 2 \<and> odd ((16 * hex_value (digits ! 0) + hex_value (digits ! 1)) div 2))"

definition assertion_tokens :: "topology_assertion \<Rightarrow> string list" where
  "assertion_tokens a =
     label_tokens (py_join '' ''
       ([ta_label a] @ (if or_empty (ta_vendor a) \<noteq> [] then [or_empty (ta_vendor a)] else []) @
        (if or_empty (ta_model a) \<noteq> [] then [or_empty (ta_model a)] else [])))"

definition announced_model_rx :: rx where
  "announced_model_rx =
     (let tail = One (\<lambda>c. is_ascii_letter c \<or> is_decimal_char c \<or> c = CHR ''-'') in
      seqs [Wordb, Grp 1 (alts
        [seqs [liti ''M'', One (\<lambda>c. py_lower_char c \<in> set ''xrsv''), between 2 3 dig, star (One is_ascii_letter)],
         seqs [liti ''WS-'', plus1 tail],
         seqs [liti ''C'', repeat 4 dig, star tail]]), Wordb])"

definition named_vendor :: "string \<Rightarrow> string option \<Rightarrow> string option" where
  "named_vendor lowered vendor =
     (if py_contains ''meraki'' lowered then Some ''Cisco Meraki''
      else if py_contains ''cisco'' lowered \<and> or_empty vendor = [] then Some ''Cisco'' else vendor)"

definition identity_from_cdp :: "cdp_neighbor \<Rightarrow> string \<times> string option \<times> string option" where
  "identity_from_cdp n =
     (let platform = py_strip (or_empty (cdp_platform n));
          lowered = '' '' @ py_lower platform @ '' '' @ py_lower (cdp_name n) @ '' '';
          c = classify_device (cdp_name n @ '' '' @ platform) None;
          model = (case rx_search announced_model_rx platform of
             Some g \<Rightarrow> Some (py_upper (group_text g 1))
           | None \<Rightarrow> if platform \<noteq> [] \<and> or_empty (cl_model c) = [] then Some platform else cl_model c)
      in (cl_category c, named_vendor lowered (cl_vendor c), model))"

definition identity_from_lldp :: "lldp_neighbor \<Rightarrow> string \<times> string option \<times> string option" where
  "identity_from_lldp n =
     (let advertised = py_strip (lldp_name n @ '' '' @ or_empty (lldp_description n));
          c = classify_device advertised None
      in (cl_category c, named_vendor (py_lower advertised) (cl_vendor c),
          if or_empty (cl_model c) \<noteq> [] then cl_model c else lldp_description n))"

section \<open>Observations\<close>

record ios_provider =
  ip_tables :: collected
  ip_gateway :: "string option"
  ip_topology :: "topology_model option"

definition identifying_sources :: "string list" where
  "identifying_sources = [''cdp'', ''lldp'', ''local-host'']"

text \<open>The endpoint the topology places on a port, and the claim it supports.\<close>

definition endpoint_on :: "topology_model \<Rightarrow> string \<Rightarrow> network_device option" where
  "endpoint_on t port =
     find (\<lambda>d. nd_id d \<noteq> tm_root t \<and> nd_connected d = Some port \<and> nd_existence_state d \<noteq> ''historical'') (tm_devices t)"

definition evidence_detail :: "topology_model \<Rightarrow> string \<Rightarrow> network_device \<Rightarrow> string" where
  "evidence_detail t port d =
     (let records = fold (\<lambda>e. dict_set (de_id e) e) (filter (\<lambda>e. de_id e \<in> set (nd_evidence_ids d)) (tm_evidence t)) [];
          text = py_join '' '' (map de_summary (filter
            (\<lambda>e. cl_existence (de_establishes e) \<or> cl_identity (de_establishes e)) (map snd records)))
      in if text \<noteq> [] then text else port @ '' reports an active link.'')"

definition observed_endpoint :: "ios_provider \<Rightarrow> string \<Rightarrow> topology_model \<Rightarrow> network_device \<Rightarrow> topology_assertion" where
  "observed_endpoint p port t d =
     (let identified = (nd_identity_source d \<in> set identifying_sources) in
      \<lparr>ta_subject = port,
       ta_relationship = (if or_empty (nd_relationship d) \<noteq> [] then or_empty (nd_relationship d) else ''attached-endpoint''),
       ta_label = (if identified then nd_name d else unidentified), ta_identified = identified,
       ta_class = ''observed'',
       ta_source = (if identified \<or> nd_identity_source d = ''mac-oui'' then nd_identity_source d else ''interface-telemetry''),
       ta_confidence = (if identified then nd_identity d else nd_existence d),
       ta_detail = evidence_detail t port d,
       ta_at = Some (case nd_last_seen d of Some a \<Rightarrow> a | None \<Rightarrow> co_now (ip_tables p)),
       ta_freshness = nd_freshness d, ta_evidence_ids = nd_evidence_ids d,
       ta_conflicted = (nd_conflicts d \<noteq> []), ta_reasons = map ec_summary (nd_conflicts d),
       ta_type = Some (nd_observed_category d), ta_vendor = nd_vendor d, ta_model = nd_model d\<rparr>)"

text \<open>Without a topology: the tables themselves, strongest source first.\<close>

definition observed_tables :: "ios_provider \<Rightarrow> string \<Rightarrow> topology_assertion" where
  "observed_tables p port =
     (let co = ip_tables p; at_time = Some (co_now co); n = length (macs_on co port) in
      case cdp_on co port of
        c # _ \<Rightarrow>
          (case identity_from_cdp c of (category, vendor, model) \<Rightarrow>
            (assertion port ''direct-neighbour'' (cdp_name c) True ''observed'' ''cdp'' Conf_high
               (cdp_name c @ '' announced itself over CDP on '' @ port @ ''.'' @
                (if or_empty (cdp_platform c) \<noteq> [] then '' It reports its platform as '' @ or_empty (cdp_platform c) @ ''.'' else []))
               at_time)\<lparr>ta_type := Some category, ta_vendor := vendor, ta_model := model\<rparr>)
      | [] \<Rightarrow> (case lldp_on co port of
        c # _ \<Rightarrow>
          (case identity_from_lldp c of (category, vendor, model) \<Rightarrow>
            (assertion port ''direct-neighbour'' (lldp_name c) True ''observed'' ''lldp'' Conf_high
               (lldp_name c @ '' announced itself over LLDP on '' @ port @ ''.'' @
                (if or_empty (lldp_description c) \<noteq> [] then '' It also reported a system description.'' else []))
               at_time)\<lparr>ta_type := Some category, ta_vendor := vendor, ta_model := model\<rparr>)
      | [] \<Rightarrow>
          if local_match co port
          then (assertion port ''attached-endpoint'' (le_label (the (co_local co))) True ''observed'' ''local-host'' Conf_high
                  (le_detail (the (co_local co))) at_time)\<lparr>ta_type := Some ''desktop''\<rparr>
          else if n \<noteq> 0
          then assertion port ''attached-endpoint'' unidentified False ''observed'' ''mac-table'' Conf_high
                 (''The link on '' @ port @ '' is up and '' @ py_str_nat n @ '' address'' @
                  (if n \<noteq> 1 then ''es are'' else '' is'') @ '' being learned through it, '' @
                  ''so a device is attached. Nothing identifies it: no neighbour '' @
                  ''announced itself on this interface.'') at_time
          else assertion port ''attached-endpoint'' unidentified False ''observed'' ''interface-telemetry'' Conf_medium
                 (port @ '' reports an active link, but no addresses have '' @
                  ''been learned through it yet and no neighbour announced itself.'') at_time))"

definition observed_for :: "ios_provider \<Rightarrow> interface_status \<Rightarrow> topology_assertion option" where
  "observed_for p i =
     (if \<not> oper_up i then None
      else case ip_topology p of
             None \<Rightarrow> Some (observed_tables p (ifs_port i))
           | Some t \<Rightarrow>
               (case endpoint_on t (ifs_port i) of
                  Some d \<Rightarrow> Some (observed_endpoint p (ifs_port i) t d)
                | None \<Rightarrow> Some (observed_tables p (ifs_port i))))"

definition inferred_for :: "ios_provider \<Rightarrow> interface_status \<Rightarrow> topology_assertion list" where
  "inferred_for p i =
     (let co = ip_tables p; port = ifs_port i; learned = macs_on co port; at_time = Some (co_now co);
          gateway = py_strip (or_empty (ip_gateway p));
          gateway_macs = map (\<lambda>e. py_lower (arp_mac e)) (filter (\<lambda>e. arp_ip e = gateway) (co_arp co));
          randomised = length (filter (\<lambda>e. is_locally_administered (mac_addr e)) learned)
      in (if gateway \<noteq> [] \<and> list_ex (\<lambda>e. py_lower (mac_addr e) \<in> set gateway_macs) learned
          then [assertion port ''gateway-path'' (''Default gateway '' @ gateway) False ''inferred'' ''arp'' Conf_medium
            (''The hardware address this switch has cached for its default '' @ ''gateway '' @ gateway @
             '' is currently learned through '' @ port @ ''. That places the gateway in this direction; '' @
             ''it does not identify the device.'') at_time]
          else []) @
         (if length learned > 1
          then [assertion port ''learned-behind'' (py_str_nat (length learned) @ '' addresses'') False ''observed''
            ''mac-table'' Conf_high
            (py_str_nat (length learned) @ '' addresses are reachable through '' @ port @ ''. '' @
             ''They sit behind the device on this port, not on the port itself.'') at_time]
          else []) @
         (if randomised \<noteq> 0
          then [assertion port ''learned-behind'' (py_str_nat randomised @ '' randomised address(es)'') False ''inferred''
            ''mac-address-form'' Conf_high
            (py_str_nat randomised @ '' of the addresses learned through '' @ port @ '' '' @
             ''are locally administered, meaning they were assigned by software '' @
             ''rather than a manufacturer. No vendor can be inferred from them.'') at_time]
          else []))"

definition ios_assertions :: "ios_provider \<Rightarrow> topology_assertion list" where
  "ios_assertions p =
     concat (map (\<lambda>i. (case observed_for p i of None \<Rightarrow> [] | Some a \<Rightarrow> [a]) @ inferred_for p i) (co_interfaces (ip_tables p)))"

text \<open>A dictionary from ports to what a provider says of them; the last interface of a port wins.\<close>

definition by_port :: "(interface_status \<Rightarrow> 'a option) \<Rightarrow> interface_status list \<Rightarrow> (string, 'a) dict" where
  "by_port f is =
     fold (\<lambda>i d. case f i of None \<Rightarrow> d | Some a \<Rightarrow> dict_set (ifs_port i) a d) is []"

definition observed_by_interface :: "ios_provider \<Rightarrow> (string, topology_assertion) dict" where
  "observed_by_interface p = by_port (observed_for p) (co_interfaces (ip_tables p))"

definition inferred_by_interface :: "ios_provider \<Rightarrow> (string, topology_assertion list) dict" where
  "inferred_by_interface p = by_port (\<lambda>i. Some (inferred_for p i)) (co_interfaces (ip_tables p))"

section \<open>Intent and history\<close>

record intent_provider =
  tp_interfaces :: "interface_status list"
  tp_stored :: "(string, expected_relationship) dict"

definition authority :: "string \<Rightarrow> nat" where
  "authority source =
     (if source = ''user-intent'' then 0 else if source = ''accepted-plan'' then 1
      else if source = ''interface-description'' then 2 else 9)"

definition intent_provider_of :: "interface_status list \<Rightarrow> expected_relationship list \<Rightarrow> intent_provider" where
  "intent_provider_of is stored =
     \<lparr>tp_interfaces = is,
      tp_stored = fold (\<lambda>r d. case dict_get d (er_interface r) of
          Some old \<Rightarrow> if authority (er_source r) < authority (er_source old) then dict_set (er_interface r) r d else d
        | None \<Rightarrow> dict_set (er_interface r) r d) stored []\<rparr>"

definition expected_for :: "intent_provider \<Rightarrow> interface_status \<Rightarrow> topology_assertion option" where
  "expected_for p i =
     (let port = ifs_port i; description = py_strip (ifs_name i); c = classify_device description None in
      case dict_get (tp_stored p) port of
        Some r \<Rightarrow>
          (let user = (er_source r = ''user-intent'') in
           Some ((assertion port ''expected-neighbour'' (er_name r) False ''expected''
               (if user then ''user-intent'' else ''accepted-plan'') (if user then Conf_high else Conf_medium)
               (if user then ''You recorded that '' @ er_name r @ '' should be on '' @ port @ ''.''
                else ''An accepted plan expects '' @ er_name r @ '' on '' @ port @ ''.'')
               (case er_updated_at r of Some a \<Rightarrow> Some a | None \<Rightarrow> er_created_at r))
             \<lparr>ta_type := Some (er_type r), ta_vendor := er_vendor r, ta_model := er_model r\<rparr>))
      | None \<Rightarrow>
          if \<not> meaningful_description description then None
          else Some ((assertion port ''expected-neighbour'' description False ''expected'' ''interface-description'' Conf_low
               (''The switch's own description for '' @ port @ '' reads '' @ py_repr description @
                ''. That is documentation somebody configured, '' @ ''not something SwitchOps observed.'') None)
             \<lparr>ta_type := Some (cl_category c), ta_vendor := cl_vendor c, ta_model := cl_model c\<rparr>))"

definition suppressed_interfaces :: "intent_provider \<Rightarrow> string list" where
  "suppressed_interfaces p = map fst (filter (\<lambda>(_, r). er_suppressed r) (tp_stored p))"

definition expected_by_interface :: "intent_provider \<Rightarrow> (string, topology_assertion) dict" where
  "expected_by_interface p = by_port (expected_for p) (tp_interfaces p)"

record previous_state =
  ps_connected :: bool
  ps_identity :: "string option"
  ps_learned :: nat
  ps_at :: "time option"

definition no_link :: string where "no_link = ''No link''"

definition historical_for :: "(string, previous_state) dict \<Rightarrow> string \<Rightarrow> topology_assertion option" where
  "historical_for previous port =
     map_option (\<lambda>s.
       (let named = (or_empty (ps_identity s) \<noteq> []) in
        assertion port (if \<not> ps_connected s then ''expected-neighbour'' else ''attached-endpoint'')
          (if named then or_empty (ps_identity s) else if ps_connected s then unidentified else no_link)
          named ''historical'' ''prior-observation'' Conf_medium
          (if named then or_empty (ps_identity s) @ '' was the announced neighbour on '' @ port @ '' at the previous observation.''
           else if ps_connected s
           then port @ '' had an active link at the previous observation'' @
             (if ps_learned s \<noteq> 0 then '' ('' @ py_str_nat (ps_learned s) @ '' address(es) learned).'' else ''.'')
           else port @ '' had no link at the previous observation.'')
          (ps_at s))) (dict_get previous port)"

section \<open>Comparing the claims about one interface\<close>

definition matching_sighting :: "topology_assertion option \<Rightarrow> external_sighting list \<Rightarrow> external_sighting option" where
  "matching_sighting expected sightings =
     (case expected of
        None \<Rightarrow> None
      | Some e \<Rightarrow> find (\<lambda>s. tokens_match (assertion_tokens e) (label_tokens (es_label s))) sightings)"

text \<open>The verdict: status, kind of drift, headline and explanation.\<close>

definition judge ::
  "interface_status \<Rightarrow> topology_assertion option \<Rightarrow> topology_assertion option \<Rightarrow> external_sighting list \<Rightarrow> bool
     \<Rightarrow> reconciliation_status \<times> drift_kind \<times> string \<times> string"
where
  "judge i observed expected sightings suppressed =
     (let port = ifs_port i in
      if suppressed
      then (Not_applicable, No_drift, ''Muted'',
        ''You have muted reconciliation for '' @ port @ ''. SwitchOps still '' @
        ''records what it observes here, but will not raise it for attention.'')
      else case (observed, expected) of
        (None, None) \<Rightarrow> (Not_applicable, No_drift, ''Nothing expected, nothing observed'',
          port @ '' carries no recorded intent and nothing is attached to it.'')
      | (None, Some e) \<Rightarrow>
          (case matching_sighting (Some e) sightings of
             Some s \<Rightarrow> (Drift, Location_drift, ''Location drift'',
               ta_label e @ '' is expected on '' @ port @ '' but is not '' @ ''attached there. '' @ es_source s @
               '' reports it at '' @ es_location s @ '', so the device is present on the '' @ ''network in a different place.'')
           | None \<Rightarrow> (Expected_not_observed, No_drift, ''Expected device not observed'',
               ta_label e @ '' is expected on '' @ port @ '', but this switch '' @ ''currently detects '' @
               (if py_lower (py_strip (ifs_status i)) = ''disabled'' then ''no link (the port is administratively disabled)''
                else ''no link on that port'') @ ''. '' @
               ''SwitchOps cannot conclude the device is offline - it is only absent from '' @
               ''the place it was expected.''))
      | (Some b, None) \<Rightarrow> (Unexpected, No_drift, ''Observed without recorded intent'',
          ''Something is attached to '' @ port @ '', but no intent records what '' @
          ''should be there. Recording an expectation lets SwitchOps tell you when '' @ ''it changes.'')
      | (Some b, Some e) \<Rightarrow>
          if ta_conflicted b
          then (Uncertain, No_drift, ''Evidence conflicts'',
            ''Current evidence on '' @ port @ '' disagrees: '' @ py_join '' '' (ta_reasons b) @
            '' SwitchOps has lowered confidence instead of choosing a silent winner.'')
          else if \<not> ta_identified b
          then (Uncertain, No_drift, ''Present, identity unconfirmed'',
            port @ '' has a healthy link, so a device is attached, but nothing '' @
            ''identifies it. The name '' @ py_repr (ta_label e) @ '' comes from '' @
            (if ta_source e = ''user-intent'' then ''your recorded intent'' else ''the interface description'') @
            '', so SwitchOps can neither confirm nor contradict it.'')
          else if tokens_match (assertion_tokens b) (assertion_tokens e)
          then (Aligned, No_drift, ''Observed matches intent'',
            ta_label b @ '' announced itself on '' @ port @ '', which '' @ ''matches the expected '' @ ta_label e @ ''.'')
          else (Drift, Identity_drift, ''Topology drift'',
            port @ '' has a healthy link, but the device that announced '' @ ''itself ('' @ ta_label b @
            '') is not the expected '' @ ta_label e @ ''. The link itself is fine; the documented '' @ ''topology is out of date.''))"

text \<open>What differs from the previous observation, when something does.\<close>

definition change_of :: "string \<Rightarrow> topology_assertion option \<Rightarrow> topology_assertion option \<Rightarrow> string option" where
  "change_of port observed historical =
     (case historical of
        None \<Rightarrow> None
      | Some h \<Rightarrow>
          if (ta_label h \<noteq> no_link) \<noteq> (observed \<noteq> None)
          then Some (if observed \<noteq> None then port @ '' came up since the previous observation.''
                     else port @ '' lost its link since the previous observation.'')
          else (case observed of
             None \<Rightarrow> None
           | Some b \<Rightarrow>
               if ta_identified h \<and> ta_identified b \<and> ta_label h \<noteq> ta_label b
               then Some (''The announced neighbour on '' @ port @ '' changed from '' @ ta_label h @ '' to '' @ ta_label b @ ''.'')
               else None))"

definition documentation_stale :: "interface_status \<Rightarrow> topology_assertion option \<Rightarrow> bool" where
  "documentation_stale i expected =
     (case expected of
        None \<Rightarrow> False
      | Some e \<Rightarrow>
          (let description = py_strip (ifs_name i) in
           ta_source e \<in> {''user-intent'', ''accepted-plan''} \<and> meaningful_description description \<and>
           \<not> tokens_match (label_tokens description) (assertion_tokens e)))"

definition option_list :: "'a option \<Rightarrow> 'a list" where
  "option_list x = (case x of None \<Rightarrow> [] | Some a \<Rightarrow> [a])"

definition sighting_assertion :: "string \<Rightarrow> external_sighting \<Rightarrow> topology_assertion" where
  "sighting_assertion port s =
     assertion port ''expected-neighbour'' (es_label s @ '' at '' @ es_location s) True ''observed'' (es_source s)
       (es_confidence s)
       (if es_detail s \<noteq> [] then es_detail s else es_source s @ '' observed '' @ es_label s @ '' at '' @ es_location s @ ''.'')
       (es_at s)"

definition reconcile_interface ::
  "interface_status \<Rightarrow> topology_assertion option \<Rightarrow> topology_assertion option \<Rightarrow> topology_assertion option
     \<Rightarrow> topology_assertion list \<Rightarrow> external_sighting list \<Rightarrow> bool \<Rightarrow> interface_reconciliation"
where
  "reconcile_interface i observed expected historical inferred sightings suppressed =
     (case judge i observed expected sightings suppressed of (status, drift, headline, explanation) \<Rightarrow>
       (let change = change_of (ifs_port i) observed historical in
        \<lparr>ri_interface = ifs_port i, ri_status = status, ri_drift = drift, ri_headline = headline,
         ri_explanation = explanation, ri_observed = observed, ri_expected = expected, ri_historical = historical,
         ri_inferred = inferred, ri_changed = (change \<noteq> None), ri_change_summary = change,
         ri_assertions = option_list observed @ option_list expected @ option_list historical @ inferred @
           (if drift = Location_drift
            then map (sighting_assertion (ifs_port i)) (option_list (matching_sighting expected sightings)) else []),
         ri_stale = documentation_stale i expected\<rparr>))"

section \<open>The summary of a device\<close>

definition summary_headline :: "nat \<Rightarrow> nat \<Rightarrow> nat \<Rightarrow> nat \<Rightarrow> nat \<Rightarrow> string" where
  "summary_headline aligned drift missing unexpected uncertain =
     (if drift \<noteq> 0 \<or> missing \<noteq> 0 \<or> unexpected \<noteq> 0
      then py_join '', ''
        ((if drift \<noteq> 0 then [py_str_nat drift @ '' topology drift''] else []) @
         (if missing \<noteq> 0 then [py_str_nat missing @ '' expected but not observed''] else []) @
         (if unexpected \<noteq> 0 then [py_str_nat unexpected @ '' observed without intent''] else []))
      else if uncertain \<noteq> 0 then py_str_nat uncertain @ '' interface(s) present but unidentified''
      else if aligned \<noteq> 0 then ''Observed topology matches recorded intent''
      else ''No topology intent recorded yet'')"

definition with_status :: "reconciliation_status \<Rightarrow> interface_reconciliation list \<Rightarrow> nat" where
  "with_status s results = length (filter (\<lambda>r. ri_status r = s) results)"

definition summarize :: "time \<Rightarrow> string \<Rightarrow> interface_reconciliation list \<Rightarrow> reconciliation_summary" where
  "summarize now device results =
     (let n = (\<lambda>s. with_status s results) in
      \<lparr>rs_at = now, rs_device = device, rs_aligned = n Aligned, rs_drift = n Drift,
       rs_expected_not_observed = n Expected_not_observed, rs_unexpected = n Unexpected, rs_uncertain = n Uncertain,
       rs_changed = length (filter ri_changed results),
       rs_attention = (n Drift \<noteq> 0 \<or> n Expected_not_observed \<noteq> 0 \<or> n Unexpected \<noteq> 0),
       rs_headline = summary_headline (n Aligned) (n Drift) (n Expected_not_observed) (n Unexpected) (n Uncertain),
       rs_interfaces = results\<rparr>)"

definition reconcile ::
  "time \<Rightarrow> string \<Rightarrow> interface_status list \<Rightarrow> ios_provider \<Rightarrow> intent_provider \<Rightarrow> (string, previous_state) dict
     \<Rightarrow> external_sighting list \<Rightarrow> reconciliation_summary"
where
  "reconcile now device is p intent previous sightings =
     (let observed = observed_by_interface p; inferred = inferred_by_interface p;
          expected = expected_by_interface intent; suppressed = suppressed_interfaces intent
      in summarize now device
        (map (\<lambda>i. reconcile_interface i (dict_get observed (ifs_port i)) (dict_get expected (ifs_port i))
            (historical_for previous (ifs_port i)) (get_default inferred (ifs_port i) []) sightings
            (ifs_port i \<in> set suppressed)) is))"

section \<open>Events\<close>

datatype meta_value = Meta_text string | Meta_int int | Meta_num rat | Meta_none

definition meta_option :: "string option \<Rightarrow> meta_value" where
  "meta_option v = (case v of None \<Rightarrow> Meta_none | Some s \<Rightarrow> Meta_text s)"

record network_event =
  ne_at :: time
  ne_device :: string
  ne_interface :: "string option"
  ne_type :: string
  ne_severity :: string
  ne_title :: string
  ne_detail :: string
  ne_metadata :: "(string, meta_value) dict"

definition eventful :: "reconciliation_status \<Rightarrow> bool" where
  "eventful s \<longleftrightarrow> s \<in> {Drift, Expected_not_observed, Unexpected}"

definition event_type :: "reconciliation_status \<Rightarrow> string" where
  "event_type s = (if s = Drift then ''topology_drift_detected''
     else if s = Expected_not_observed then ''expected_device_missing'' else ''unexpected_device_observed'')"

definition event_title :: "reconciliation_status \<Rightarrow> string \<Rightarrow> string" where
  "event_title s port = (if s = Drift then ''Topology drift on '' @ port
     else if s = Expected_not_observed then ''Expected device not observed on '' @ port
     else ''Unrecorded device observed on '' @ port)"

definition label_of :: "topology_assertion option \<Rightarrow> string" where
  "label_of a = (case a of Some b \<Rightarrow> ta_label b | None \<Rightarrow> ''-'')"

definition reconciliation_signature :: "interface_reconciliation \<Rightarrow> string" where
  "reconciliation_signature r =
     status_name (ri_status r) @ ''|'' @ drift_name (ri_drift r) @ ''|'' @ label_of (ri_observed r) @ ''|'' @
     label_of (ri_expected r)"

definition is_identified :: "topology_assertion option \<Rightarrow> bool" where
  "is_identified a = (case a of Some b \<Rightarrow> ta_identified b | None \<Rightarrow> False)"

definition neighbor_events :: "string \<Rightarrow> time \<Rightarrow> interface_reconciliation \<Rightarrow> network_event list" where
  "neighbor_events device now r =
     (if ri_changed r \<and> or_empty (ri_change_summary r) \<noteq> [] \<and> is_identified (ri_historical r) \<and> is_identified (ri_observed r)
      then [\<lparr>ne_at = now, ne_device = device, ne_interface = Some (ri_interface r), ne_type = ''direct_neighbor_changed'',
             ne_severity = ''NOTICE'', ne_title = ''Announced neighbour changed on '' @ ri_interface r,
             ne_detail = or_empty (ri_change_summary r),
             ne_metadata = [(''previous'', Meta_text (label_of (ri_historical r))), (''current'', Meta_text (label_of (ri_observed r)))]\<rparr>]
      else [])"

definition was_eventful :: "string option \<Rightarrow> bool" where
  "was_eventful previous \<longleftrightarrow>
     (case previous of
        None \<Rightarrow> False
      | Some s \<Rightarrow> takeWhile (\<lambda>c. c \<noteq> CHR ''|'') s \<in> {''drift'', ''expected-not-observed'', ''unexpected''})"

definition status_events :: "string \<Rightarrow> time \<Rightarrow> string option \<Rightarrow> interface_reconciliation \<Rightarrow> network_event list" where
  "status_events device now previous r =
     (if eventful (ri_status r)
      then [\<lparr>ne_at = now, ne_device = device, ne_interface = Some (ri_interface r), ne_type = event_type (ri_status r),
             ne_severity = ''NOTICE'', ne_title = event_title (ri_status r) (ri_interface r), ne_detail = ri_explanation r,
             ne_metadata = [(''status'', Meta_text (status_name (ri_status r))),
               (''observed'', meta_option (map_option ta_label (ri_observed r))),
               (''expected'', meta_option (map_option ta_label (ri_expected r)))]\<rparr>]
      else if was_eventful previous
      then [\<lparr>ne_at = now, ne_device = device, ne_interface = Some (ri_interface r), ne_type = ''topology_reconciliation_resolved'',
             ne_severity = ''HEALTHY'', ne_title = ''Topology reconciled on '' @ ri_interface r,
             ne_detail = ri_interface r @ '' no longer shows a topology discrepancy. '' @ ri_explanation r,
             ne_metadata = [(''status'', Meta_text (status_name (ri_status r)))]\<rparr>]
      else [])"

definition interface_events ::
  "string \<Rightarrow> time \<Rightarrow> interface_reconciliation \<Rightarrow> intent_store \<Rightarrow> network_event list \<times> intent_store"
where
  "interface_events device now r st =
     (case observe_reconciliation device (ri_interface r) (reconciliation_signature r) (status_name (ri_status r))
         (map_option ta_label (ri_observed r)) (is_identified (ri_observed r)) now st of
        ((changed, previous, _), st') \<Rightarrow>
          (neighbor_events device now r @ (if changed then status_events device now previous r else []), st'))"

fun reconciliation_events ::
  "string \<Rightarrow> time \<Rightarrow> interface_reconciliation list \<Rightarrow> intent_store \<Rightarrow> network_event list \<times> intent_store"
where
  "reconciliation_events device now [] st = ([], st)"
| "reconciliation_events device now (r # rs) st =
     (case interface_events device now r st of (es, st1) \<Rightarrow>
       (case reconciliation_events device now rs st1 of (fs, st2) \<Rightarrow> (es @ fs, st2)))"

end
