(* ===== verification/Reconciliation_Properties.thy ===== *)
theory Reconciliation_Properties
  imports Reconciliation
begin

text \<open>
  Properties of the reconciliation: when an interface counts as aligned, what a description can and
  cannot change, how the counts add up, and that a standing discrepancy raises its event once.
\<close>

section \<open>Dictionaries by port\<close>

lemma by_port_step:
  "dict_get (fold (\<lambda>i d. case f i of None \<Rightarrow> d | Some a \<Rightarrow> dict_set (ifs_port i) a d) is d) k = Some a \<Longrightarrow>
     (\<exists>i \<in> set is. ifs_port i = k \<and> f i = Some a) \<or> dict_get d k = Some a"
  by (induction "is" arbitrary: d) (fastforce split: option.splits if_splits)+

lemma by_port_Some: "dict_get (by_port f is) k = Some a \<Longrightarrow> \<exists>i \<in> set is. ifs_port i = k \<and> f i = Some a"
  using by_port_step [of f "is" "[]" k a] by (simp add: by_port_def)

section \<open>The program's composition\<close>

text \<open>The dashboard builds the topology and the provider from the same tables.\<close>

definition ios_view :: "collected \<Rightarrow> string option \<Rightarrow> ios_provider" where
  "ios_view co gateway = \<lparr>ip_tables = co, ip_gateway = gateway, ip_topology = Some (build_topology co)\<rparr>"

lemma ios_view_parts [simp]:
  "ip_tables (ios_view co g) = co" "ip_topology (ios_view co g) = Some (build_topology co)"
  by (simp_all add: ios_view_def)

text \<open>The sightings that identify what is on the port.\<close>

definition identifying :: "sighting \<Rightarrow> bool" where
  "identifying s = (case s of By_cdp _ _ \<Rightarrow> True | By_lldp _ _ \<Rightarrow> True | By_local _ \<Rightarrow> True | _ \<Rightarrow> False)"

lemma endpoint_on_placed:
  assumes "endpoint_on (build_topology co) port = Some d"
  shows "\<exists>i s. (i, s) \<in> set (placed co) \<and> ifs_port i = port \<and> d = finish_endpoint co i s"
proof -
  have d: "d \<in> set (tm_devices (build_topology co)) \<and> nd_id d \<noteq> tm_root (build_topology co) \<and> nd_connected d = Some port"
    using find_SomeD [OF assms [unfolded endpoint_on_def]] by simp
  then obtain i s where "(i, s) \<in> set (placed co)" "d = finish_endpoint co i s"
    by (auto simp: topology_listed)
  then show ?thesis using d by auto
qed

lemma endpoint_source:
  "\<not> identifying s \<Longrightarrow> nd_identity_source (endpoint_of co i s) = ''none''"
  by (cases s; simp add: identifying_def endpoint_of_def endpoint_from_learned_def blank_endpoint_def Let_def)

lemma finish_source:
  assumes "nd_identity_source (finish_endpoint co i s) \<in> set identifying_sources"
  shows "identifying s"
proof (rule ccontr)
  assume "\<not> identifying s"
  then have none: "nd_identity_source (endpoint_of co i s) = ''none''" by (rule endpoint_source)
  have "nd_identity_source (finish_endpoint co i s) \<in> {''none'', ''mac-oui''}"
    by (auto simp: finish_endpoint_def attribute_mac_def Let_def none split: option.split)
  then show False using assms by (auto simp: identifying_sources_def)
qed

lemma tables_identified:
  assumes "oper_up i" "ta_identified (observed_tables p (ifs_port i))"
  shows "\<exists>s. port_sighting (ip_tables p) i = Some s \<and> identifying s"
  using assms
  by (auto simp: observed_tables_def port_sighting_def identifying_def assertion_def Let_def
      split: list.splits prod.splits if_splits)

lemma observed_identified:
  assumes "i \<in> set (co_interfaces co)" "observed_for (ios_view co g) i = Some a" "ta_identified a"
  shows "\<exists>j s. j \<in> set (co_interfaces co) \<and> ifs_port j = ifs_port i \<and> port_sighting co j = Some s \<and> identifying s"
proof (cases "endpoint_on (build_topology co) (ifs_port i)")
  case None
  then have "oper_up i" "a = observed_tables (ios_view co g) (ifs_port i)"
    using assms(2) by (auto simp: observed_for_def split: if_splits)
  then show ?thesis using tables_identified [of i "ios_view co g"] assms(1,3) by auto
next
  case (Some d)
  then obtain j s where j: "(j, s) \<in> set (placed co)" "ifs_port j = ifs_port i" "d = finish_endpoint co j s"
    using endpoint_on_placed by blast
  have "nd_identity_source d \<in> set identifying_sources"
    using assms(2,3) Some by (auto simp: observed_for_def observed_endpoint_def Let_def split: if_splits)
  then have "identifying s" using j(3) finish_source by blast
  then show ?thesis using j(1,2) by (auto simp: placed_mem)
qed

lemma judge_identified:
  assumes "judge i observed expected sightings suppressed = (st, dr, h, e)" "st = Aligned \<or> dr = Identity_drift"
  shows "\<exists>a b. observed = Some a \<and> ta_identified a \<and> \<not> ta_conflicted a \<and> expected = Some b \<and>
    (st = Aligned \<longleftrightarrow> tokens_match (assertion_tokens a) (assertion_tokens b)) \<and> \<not> suppressed"
  using assms by (auto simp: judge_def Let_def split: if_splits option.splits)

section \<open>What a description can change\<close>

definition relabel :: "(interface_status \<Rightarrow> string) \<Rightarrow> collected \<Rightarrow> collected" where
  "relabel f co = co\<lparr>co_interfaces := map (\<lambda>i. i\<lparr>ifs_name := f i\<rparr>) (co_interfaces co)\<rparr>"

lemma relabel_tables [simp]:
  "co_digest (relabel f co) = co_digest co" "co_registry (relabel f co) = co_registry co"
  "co_namespace (relabel f co) = co_namespace co" "co_hostname (relabel f co) = co_hostname co"
  "co_macs (relabel f co) = co_macs co" "co_poe (relabel f co) = co_poe co" "co_cdp (relabel f co) = co_cdp co"
  "co_lldp (relabel f co) = co_lldp co" "co_arp (relabel f co) = co_arp co" "co_local (relabel f co) = co_local co"
  "co_now (relabel f co) = co_now co" "co_model (relabel f co) = co_model co"
  "co_management_ip (relabel f co) = co_management_ip co"
  "co_interfaces (relabel f co) = map (\<lambda>i. i\<lparr>ifs_name := f i\<rparr>) (co_interfaces co)"
  by (simp_all add: relabel_def)

lemma relabel_views [simp]:
  "macs_on (relabel f co) = macs_on co" "arps_of (relabel f co) = arps_of co" "cdp_on (relabel f co) = cdp_on co"
  "lldp_on (relabel f co) = lldp_on co" "local_match (relabel f co) = local_match co" "switch_id (relabel f co) = switch_id co"
  by (simp_all add: fun_eq_iff macs_on_def arps_of_def cdp_on_def lldp_on_def local_match_def switch_id_def)

lemma relabel_port [simp]:
  "oper_up (i\<lparr>ifs_name := x\<rparr>) = oper_up i"
  "port_entity (relabel f co) (i\<lparr>ifs_name := x\<rparr>) = port_entity co i"
  "port_sighting (relabel f co) (i\<lparr>ifs_name := x\<rparr>) = port_sighting co i"
  by (simp_all add: oper_up_def port_entity_def port_sighting_def Let_def split: list.split)

text \<open>A fact without the relationship it is filed under, which may follow the role a description suggests.\<close>

definition core :: "discovery_evidence \<Rightarrow> discovery_evidence" where
  "core e = e\<lparr>de_relationship := None\<rparr>"

lemma core_parts [simp]:
  "de_id (core e) = de_id e" "de_type (core e) = de_type e" "de_freshness (core e) = de_freshness e"
  "de_revoked (core e) = de_revoked e" "de_establishes (core e) = de_establishes e"
  by (simp_all add: core_def)

lemma confidence_core:
  "existence_confidence (map core fs) = existence_confidence fs"
  "identity_confidence (map core fs) cs = identity_confidence fs cs"
  by (simp_all add: existence_confidence_def identity_confidence_def current_facts_def Let_def filter_map comp_def
      image_image list_ex_iff)

lemma mac_facts_core: "map core (mac_facts (relabel f co) (i\<lparr>ifs_name := x\<rparr>) e m) = map core (mac_facts co i e m)"
  by (simp add: mac_facts_def Let_def core_def port_fact_def evidence_record_def split: option.split)

lemma learned_facts_core: "map core (learned_facts (relabel f co) (i\<lparr>ifs_name := x\<rparr>)) = map core (learned_facts co i)"
  by (simp add: learned_facts_def Let_def map_concat comp_def mac_facts_core)

lemma entity_facts_core:
  "map core (entity_facts (relabel f co) (i\<lparr>ifs_name := x\<rparr>) s) = map core (entity_facts co i s)"
proof -
  have "link_fact (relabel f co) (i\<lparr>ifs_name := x\<rparr>) = link_fact co i"
    by (simp add: link_fact_def port_fact_def)
  moreover have "sighting_facts (relabel f co) (i\<lparr>ifs_name := x\<rparr>) s = sighting_facts co i s"
    by (cases s) (simp_all add: sighting_facts_def port_fact_def)
  ultimately show ?thesis by (simp add: entity_facts_def learned_facts_core)
qed

text \<open>A device without the fields that quote the description: its role, its texts and what is expected.\<close>

definition plain :: "network_device \<Rightarrow> network_device" where
  "plain d = d\<lparr>nd_role := Role_unknown, nd_evidence := [], nd_expected_name := None, nd_expected_type := None\<rparr>"

lemma plain_endpoint: "plain (endpoint_of (relabel f co) (i\<lparr>ifs_name := x\<rparr>) s) = plain (endpoint_of co i s)"
  by (cases s) (simp_all add: plain_def endpoint_of_def endpoint_from_learned_def blank_endpoint_def Let_def split: prod.split)

lemma plain_parts [simp]:
  "nd_id (plain d) = nd_id d" "nd_connected (plain d) = nd_connected d" "nd_name (plain d) = nd_name d"
  "nd_ip (plain d) = nd_ip d" "nd_vendor (plain d) = nd_vendor d" "nd_model (plain d) = nd_model d"
  "nd_evidence_ids (plain d) = nd_evidence_ids d" "nd_conflicts (plain d) = nd_conflicts d"
  "nd_identity_source (plain d) = nd_identity_source d" "nd_existence_state (plain d) = nd_existence_state d"
  "nd_identity (plain d) = nd_identity d" "nd_existence (plain d) = nd_existence d"
  "nd_observed_category (plain d) = nd_observed_category d" "nd_relationship (plain d) = nd_relationship d"
  "nd_last_seen (plain d) = nd_last_seen d" "nd_freshness (plain d) = nd_freshness d" "nd_type (plain d) = nd_type d"
  by (simp_all add: plain_def)

lemma plain_updates [simp]:
  "plain (d\<lparr>nd_macs := ms\<rparr>) = (plain d)\<lparr>nd_macs := ms\<rparr>" "plain (d\<lparr>nd_mac := m\<rparr>) = (plain d)\<lparr>nd_mac := m\<rparr>"
  "plain (d\<lparr>nd_ips := is\<rparr>) = (plain d)\<lparr>nd_ips := is\<rparr>" "plain (d\<lparr>nd_ip := a\<rparr>) = (plain d)\<lparr>nd_ip := a\<rparr>"
  "plain (d\<lparr>nd_conflicts := cs\<rparr>) = (plain d)\<lparr>nd_conflicts := cs\<rparr>"
  "plain (d\<lparr>nd_identity := c\<rparr>) = (plain d)\<lparr>nd_identity := c\<rparr>"
  "plain (d\<lparr>nd_vendor := v\<rparr>) = (plain d)\<lparr>nd_vendor := v\<rparr>"
  "plain (d\<lparr>nd_identity_source := x\<rparr>) = (plain d)\<lparr>nd_identity_source := x\<rparr>"
  "plain (d\<lparr>nd_stage := x\<rparr>) = (plain d)\<lparr>nd_stage := x\<rparr>"
  "plain (d\<lparr>nd_confidence := c\<rparr>) = (plain d)\<lparr>nd_confidence := c\<rparr>"
  "plain (d\<lparr>nd_id := x\<rparr>) = (plain d)\<lparr>nd_id := x\<rparr>"
  "plain (d\<lparr>nd_evidence_ids := xs\<rparr>) = (plain d)\<lparr>nd_evidence_ids := xs\<rparr>"
  "plain (d\<lparr>nd_existence_state := x\<rparr>) = (plain d)\<lparr>nd_existence_state := x\<rparr>"
  "plain (d\<lparr>nd_existence := c\<rparr>) = (plain d)\<lparr>nd_existence := c\<rparr>"
  "plain (d\<lparr>nd_freshness := fr\<rparr>) = (plain d)\<lparr>nd_freshness := fr\<rparr>"
  "plain (d\<lparr>nd_relationship := v\<rparr>) = (plain d)\<lparr>nd_relationship := v\<rparr>"
  "plain (d\<lparr>nd_first_seen := t\<rparr>) = (plain d)\<lparr>nd_first_seen := t\<rparr>"
  "plain (d\<lparr>nd_last_seen := t\<rparr>) = (plain d)\<lparr>nd_last_seen := t\<rparr>"
  "plain (d\<lparr>nd_observed_category := x\<rparr>) = (plain d)\<lparr>nd_observed_category := x\<rparr>"
  "plain (d\<lparr>nd_expected_name := v\<rparr>) = plain d" "plain (d\<lparr>nd_expected_type := v\<rparr>) = plain d"
  by (simp_all add: plain_def)

lemma attribute_plain:
  assumes "map core fs = map core gs"
  shows "plain (attribute_mac (relabel f co) fs m d) = attribute_mac co gs m (plain d)"
proof -
  have conf: "identity_confidence fs cs = identity_confidence gs cs" for cs
    using assms confidence_core(2) by metis
  show ?thesis
    unfolding attribute_mac_def Let_def relabel_tables relabel_views conf
    by (cases "oh_vendor (oui_vendor_hint (co_registry co) m)"; cases "or_empty (nd_vendor d) = []";
        cases "vendor_conflict (nd_vendor d) (oh_vendor (oui_vendor_hint (co_registry co) m)) (nd_evidence_ids d)")
      simp_all
qed

lemma relabel_same: "relabel ifs_name co = co"
  by (simp add: relabel_def)

lemma plain_type: "plain d = plain e \<Longrightarrow> nd_type d = nd_type e"
  by (metis plain_parts(17))

lemma plain_finish: "plain (finish_endpoint (relabel f co) (i\<lparr>ifs_name := x\<rparr>) s) = plain (finish_endpoint co i s)"
proof -
  have ids: "map de_id (entity_facts (relabel f co) (i\<lparr>ifs_name := x\<rparr>) s) = map de_id (entity_facts co i s)"
    using arg_cong [OF entity_facts_core [of f co x i s], of "map de_id"] by (simp add: comp_def)
  have conf: "existence_confidence (entity_facts (relabel f co) (i\<lparr>ifs_name := x\<rparr>) s) = existence_confidence (entity_facts co i s)"
    "identity_confidence (entity_facts (relabel f co) (i\<lparr>ifs_name := x\<rparr>) s) cs = identity_confidence (entity_facts co i s) cs" for cs
    using entity_facts_core confidence_core by metis+
  have step: "plain (attribute_mac co fs m d) = attribute_mac co fs m (plain d)" for fs m d
    using attribute_plain [of fs fs ifs_name co m d] by (simp add: relabel_same)
  have identity: "nd_identity d = nd_identity e" if "plain d = plain e" for d e
    using that by (metis plain_parts(11))
  have final: "plain (d\<lparr>nd_confidence := overall_confidence (nd_identity d)\<rparr>) =
      plain (e\<lparr>nd_confidence := overall_confidence (nd_identity e)\<rparr>)" if "plain d = plain e" for d e
    using that identity [OF that] by simp
  show ?thesis
    unfolding finish_endpoint_def Let_def ids conf relabel_views interface_status.select_convs
    by (rule final) (simp add: attribute_plain [OF entity_facts_core] step plain_endpoint
        plain_type [OF plain_endpoint])
qed

lemma placed_relabel: "placed (relabel f co) = map (\<lambda>(i, s). (i\<lparr>ifs_name := f i\<rparr>, s)) (placed co)"
proof -
  have "concat (map (\<lambda>i. case port_sighting (relabel f co) i of None \<Rightarrow> [] | Some s \<Rightarrow> [(i, s)])
      (map (\<lambda>i. i\<lparr>ifs_name := f i\<rparr>) is)) =
    map (\<lambda>(i, s). (i\<lparr>ifs_name := f i\<rparr>, s))
      (concat (map (\<lambda>i. case port_sighting co i of None \<Rightarrow> [] | Some s \<Rightarrow> [(i, s)]) is))" for "is"
    by (induction "is") (auto split: option.split)
  then show ?thesis by (simp add: placed_def)
qed

lemma find_by_image:
  assumes "map g xs = map g ys" "\<And>x. p x = q (g x)"
  shows "map_option g (find p xs) = map_option g (find p ys)"
  using assms(1)
proof (induction xs arbitrary: ys)
  case (Cons x xs)
  then obtain y zs where "ys = y # zs" "g x = g y" "map g xs = map g zs" by auto
  then show ?case using Cons.IH assms(2) by simp
qed simp

lemma endpoint_on_relabel:
  "map_option plain (endpoint_on (build_topology (relabel f co)) port) =
     map_option plain (endpoint_on (build_topology co) port)"
proof -
  have root: "root_device (relabel f co) = root_device co" by (simp add: root_device_def)
  have "map plain (tm_devices (build_topology (relabel f co))) = map plain (tm_devices (build_topology co))"
    by (simp add: topology_listed placed_relabel root comp_def split_def plain_finish)
  then show ?thesis
    unfolding endpoint_on_def topology_listed(6) relabel_views
    by (rule find_by_image [where q = "\<lambda>d. nd_id d \<noteq> switch_id co \<and> nd_connected d = Some port \<and>
        nd_existence_state d \<noteq> ''historical''"]) simp
qed

text \<open>What a claim says, without the sentence that explains it.\<close>

definition substance :: "topology_assertion \<Rightarrow> topology_assertion" where
  "substance a = a\<lparr>ta_detail := []\<rparr>"

lemma observed_tables_relabel: "observed_tables (ios_view (relabel f co) g) port = observed_tables (ios_view co g) port"
  unfolding observed_tables_def Let_def ios_view_parts relabel_tables relabel_views by (rule refl)

lemma observed_endpoint_step:
  "substance (observed_endpoint (ios_view (relabel f co) g) port t d) =
     substance (observed_endpoint (ios_view co g) port u (plain d))"
  unfolding substance_def observed_endpoint_def Let_def ios_view_parts relabel_tables plain_parts by simp

lemma observed_endpoint_plain:
  "plain d = plain e \<Longrightarrow> substance (observed_endpoint (ios_view (relabel f co) g) port t d) =
     substance (observed_endpoint (ios_view co g) port u e)"
  using observed_endpoint_step [of f co g port t d u] observed_endpoint_step [of ifs_name co g port u e u]
  by (simp add: relabel_same)

lemma observed_relabel:
  "map_option substance (observed_for (ios_view (relabel f co) g) (i\<lparr>ifs_name := x\<rparr>)) =
     map_option substance (observed_for (ios_view co g) i)"
proof (cases "oper_up i")
  case up: True
  show ?thesis
  proof (cases "endpoint_on (build_topology co) (ifs_port i)")
    case None
    moreover from this have "endpoint_on (build_topology (relabel f co)) (ifs_port i) = None"
      using endpoint_on_relabel [of f co "ifs_port i"] by simp
    ultimately show ?thesis by (simp add: observed_for_def up observed_tables_relabel)
  next
    case (Some e)
    then obtain d where "endpoint_on (build_topology (relabel f co)) (ifs_port i) = Some d" "plain d = plain e"
      using endpoint_on_relabel [of f co "ifs_port i"] by auto
    then show ?thesis using Some by (simp add: observed_for_def up observed_endpoint_plain)
  qed
qed (simp add: observed_for_def)

section \<open>Counting and events\<close>

lemma with_status_total:
  "with_status Aligned rs + with_status Drift rs + with_status Expected_not_observed rs + with_status Unexpected rs +
     with_status Uncertain rs + with_status Not_applicable rs = length rs"
proof (induction rs)
  case (Cons r rs)
  then show ?case by (cases "ri_status r") (simp_all add: with_status_def)
qed (simp add: with_status_def)

text \<open>The signature stored for an interface.\<close>

definition seen :: "string \<Rightarrow> intent_store \<Rightarrow> string \<Rightarrow> string option" where
  "seen device st port = map_option rr_signature (get_seen st (device, port))"

definition fresh_events :: "string \<Rightarrow> time \<Rightarrow> (string \<Rightarrow> string option) \<Rightarrow> interface_reconciliation \<Rightarrow> network_event list" where
  "fresh_events device now known r =
     neighbor_events device now r @
     (if known (ri_interface r) = Some (reconciliation_signature r) then []
      else status_events device now (known (ri_interface r)) r)"

lemma interface_events_step:
  assumes "interface_events device now r st = (es, st')"
  shows "es = fresh_events device now (seen device st) r"
    and "seen device st' = (seen device st)(ri_interface r \<mapsto> reconciliation_signature r)"
    and "get_expected st' = get_expected st"
  using assms
  by (auto simp: interface_events_def observe_reconciliation_def fresh_events_def seen_def get_put_seen state_key_def
      Let_def fun_eq_iff)

lemma events_run:
  assumes "distinct (map ri_interface rs)" "reconciliation_events device now rs st = (es, st')"
  shows "es = concat (map (fresh_events device now (seen device st)) rs) \<and>
    seen device st' = (\<lambda>port. case find (\<lambda>r. ri_interface r = port) rs of
      Some r \<Rightarrow> Some (reconciliation_signature r) | None \<Rightarrow> seen device st port) \<and>
    get_expected st' = get_expected st"
  using assms
proof (induction rs arbitrary: st es)
  case (Cons r rs)
  obtain es1 st1 where first: "interface_events device now r st = (es1, st1)" by fastforce
  obtain es2 st2 where rest: "reconciliation_events device now rs st1 = (es2, st2)" by fastforce
  have es: "es = es1 @ es2" "st' = st2" using Cons.prems(2) first rest by simp_all
  note step = interface_events_step [OF first]
  have ih: "es2 = concat (map (fresh_events device now (seen device st1)) rs) \<and>
    seen device st2 = (\<lambda>port. case find (\<lambda>r. ri_interface r = port) rs of
      Some r \<Rightarrow> Some (reconciliation_signature r) | None \<Rightarrow> seen device st1 port) \<and>
    get_expected st2 = get_expected st1"
    using Cons.IH [of st1 es2] Cons.prems(1) rest es by simp
  have apart: "ri_interface q \<noteq> ri_interface r" if "q \<in> set rs" for q
    using Cons.prems(1) imageI [OF that, of ri_interface] by (metis distinct.simps(2) list.set_map list.simps(9))
  have same: "map (fresh_events device now (seen device st1)) rs = map (fresh_events device now (seen device st)) rs"
    using apart by (intro map_cong refl) (simp add: fresh_events_def step(2))
  have none: "find (\<lambda>q. ri_interface q = ri_interface r) rs = None"
    using apart by (auto simp: find_None_iff)
  have later: "es2 = concat (map (fresh_events device now (seen device st)) rs)" using ih same by (simp only:)
  have stored: "seen device st2 port = (case find (\<lambda>r. ri_interface r = port) (r # rs) of
      Some r \<Rightarrow> Some (reconciliation_signature r) | None \<Rightarrow> seen device st port)" for port
    using ih step(2) none by (simp split: option.split) auto
  show ?case
    using later stored ih step(1,3) by (simp add: es fun_eq_iff)
qed simp

lemma find_in_distinct:
  "distinct (map key xs) \<Longrightarrow> x \<in> set xs \<Longrightarrow> find (\<lambda>y. key y = key x) xs = Some x"
  by (induction xs) auto

section \<open>Properties\<close>

text \<open>C21: SwitchOps says that an interface matches the recorded intent, or that a wrong device is there, only
  when something on that port identified itself: in the model the dashboard builds, such a verdict means
  that a port of that name is up and a CDP or LLDP neighbour announced itself there or the local host was
  located there. A description, a learned address or the registry of vendors is never enough.\<close>

theorem verdict_needs_identification:
  assumes "r \<in> set (rs_interfaces (reconcile now device (co_interfaces co) (ios_view co gateway) intent previous sightings))"
    and "ri_status r = Aligned \<or> ri_drift r = Identity_drift"
  shows "\<exists>i s. i \<in> set (co_interfaces co) \<and> ifs_port i = ri_interface r \<and> oper_up i \<and>
    port_sighting co i = Some s \<and> identifying s"
proof -
  obtain i where i: "i \<in> set (co_interfaces co)" "r = reconcile_interface i
      (dict_get (observed_by_interface (ios_view co gateway)) (ifs_port i)) (dict_get (expected_by_interface intent) (ifs_port i))
      (historical_for previous (ifs_port i)) (get_default (inferred_by_interface (ios_view co gateway)) (ifs_port i) []) sightings
      (ifs_port i \<in> set (suppressed_interfaces intent))"
    using assms(1) by (auto simp: reconcile_def summarize_def Let_def)
  obtain st dr h e where judged: "judge i (dict_get (observed_by_interface (ios_view co gateway)) (ifs_port i))
      (dict_get (expected_by_interface intent) (ifs_port i)) sightings
      (ifs_port i \<in> set (suppressed_interfaces intent)) = (st, dr, h, e)"
    by (metis prod_cases4)
  have parts: "ri_interface r = ifs_port i" "ri_status r = st" "ri_drift r = dr"
    using i(2) judged by (simp_all add: reconcile_interface_def Let_def)
  obtain a where a: "dict_get (observed_by_interface (ios_view co gateway)) (ifs_port i) = Some a" "ta_identified a"
    using judge_identified [OF judged] assms(2) parts by blast
  then obtain j where j: "j \<in> set (co_interfaces co)" "ifs_port j = ifs_port i" "observed_for (ios_view co gateway) j = Some a"
    using by_port_Some [of "observed_for (ios_view co gateway)" "co_interfaces co"] by (auto simp: observed_by_interface_def)
  then obtain k s where "k \<in> set (co_interfaces co)" "ifs_port k = ifs_port j" "port_sighting co k = Some s" "identifying s"
    using observed_identified [OF j(1) j(3) a(2)] by auto
  then show ?thesis using j(2) parts(1) sighting_up by metis
qed

text \<open>An interface description is intent, never observation. Whatever texts are configured on the ports,
  the observed claim about each port, the device it names, its source, its confidence, its evidence and its
  conflicts, is the same; only the sentence that explains it may quote different evidence.\<close>

theorem descriptions_prove_nothing:
  "map (\<lambda>i. map_option substance (observed_for (ios_view (relabel f co) gateway) i)) (co_interfaces (relabel f co)) =
   map (\<lambda>i. map_option substance (observed_for (ios_view co gateway) i)) (co_interfaces co)"
  by (simp add: observed_relabel)

text \<open>The counts of a summary are the numbers of interfaces with each status, together with the muted and
  idle ones they add up to the interfaces compared, and the summary asks for attention exactly when some
  interface is adrift, missing its expected device or carries an unrecorded one.\<close>

theorem summary_adds_up:
  "let s = reconcile now device ports p intent previous sightings in
   map ri_interface (rs_interfaces s) = map ifs_port ports \<and>
   rs_aligned s + rs_drift s + rs_expected_not_observed s + rs_unexpected s + rs_uncertain s \<le> length ports \<and>
   rs_aligned s + rs_drift s + rs_expected_not_observed s + rs_unexpected s + rs_uncertain s +
     length (filter (\<lambda>r. ri_status r = Not_applicable) (rs_interfaces s)) = length ports \<and>
   rs_changed s \<le> length ports \<and>
   rs_attention s = list_ex (\<lambda>r. eventful (ri_status r)) (rs_interfaces s)"
proof -
  let ?s = "reconcile now device ports p intent previous sightings"
  have names: "map ri_interface (rs_interfaces ?s) = map ifs_port ports"
    by (simp add: reconcile_def summarize_def Let_def reconcile_interface_def split_def)
  have counts: "?s = summarize now device (rs_interfaces ?s)"
    by (simp add: reconcile_def summarize_def Let_def)
  have len: "length (rs_interfaces ?s) = length ports" using arg_cong [OF names, of length] by simp
  have attention: "rs_attention (summarize now device rs) = list_ex (\<lambda>r. eventful (ri_status r)) rs" for rs
    by (auto simp: summarize_def Let_def with_status_def eventful_def list_ex_iff filter_empty_conv)
  have total: "rs_aligned (summarize now device rs) + rs_drift (summarize now device rs) +
      rs_expected_not_observed (summarize now device rs) + rs_unexpected (summarize now device rs) +
      rs_uncertain (summarize now device rs) + length (filter (\<lambda>r. ri_status r = Not_applicable) rs) = length rs" for rs
    using with_status_total [of rs] by (simp add: summarize_def Let_def with_status_def)
  have changed: "rs_changed (summarize now device rs) \<le> length rs" for rs
    by (simp add: summarize_def Let_def)
  show ?thesis
    using names len attention [of "rs_interfaces ?s"] total [of "rs_interfaces ?s"] changed [of "rs_interfaces ?s"] counts
    unfolding Let_def by (metis le_add1)
qed

text \<open>C22: A standing discrepancy is one event. Each interface raises its status event exactly when its signature
  differs from the stored one; a second refresh that finds the same situation raises no status event at all
  (only an announced neighbour that keeps changing is reported again), and expectations are never touched.\<close>

theorem standing_discrepancy_once:
  assumes "distinct (map ri_interface rs)"
    and "reconciliation_events device now rs st = (es, st1)"
    and "reconciliation_events device later rs st1 = (fs, st2)"
  shows "es = concat (map (fresh_events device now (seen device st)) rs) \<and>
    fs = concat (map (neighbor_events device later) rs) \<and>
    seen device st2 = seen device st1 \<and> get_expected st2 = get_expected st"
proof -
  note first = events_run [OF assms(1,2)] and second = events_run [OF assms(1,3)]
  have known: "seen device st1 (ri_interface r) = Some (reconciliation_signature r)" if "r \<in> set rs" for r
    using first find_in_distinct [OF assms(1) that] by simp
  have quiet: "map (fresh_events device later (seen device st1)) rs = map (neighbor_events device later) rs"
    using known by (intro map_cong refl) (simp add: fresh_events_def)
  have "fs = concat (map (fresh_events device later (seen device st1)) rs)" using second by blast
  then have "fs = concat (map (neighbor_events device later) rs)" using quiet by simp
  moreover have "seen device st2 = seen device st1"
    using first second by (auto simp: fun_eq_iff split: option.split)
  ultimately show ?thesis using first second by simp
qed

section \<open>Witnesses\<close>

definition demo_port :: "string \<Rightarrow> interface_status" where
  "demo_port description = \<lparr>ifs_port = ''Gi0/3'', ifs_name = description, ifs_status = ''connected'', ifs_vlan = ''10'',
     ifs_duplex = ''a-full'', ifs_speed = ''a-1000'', ifs_type = ''10/100/1000BaseTX'', ifs_protected = False,
     ifs_policy_state = OPERABLE\<rparr>"

definition demo_neighbor :: cdp_neighbor where
  "demo_neighbor = \<lparr>cdp_name = ''ap-one'', cdp_local = ''Gi0/3'', cdp_remote = None, cdp_platform = None,
     cdp_capabilities = [], cdp_ip = None\<rparr>"

definition demo_tables :: collected where
  "demo_tables = \<lparr>co_digest = id, co_registry = (\<lambda>_. None), co_namespace = ''physical'', co_hostname = ''lab'',
     co_model = [], co_management_ip = ''Unknown'', co_interfaces = [demo_port ''ap-one''], co_macs = [], co_poe = [],
     co_cdp = [demo_neighbor], co_lldp = [], co_arp = [], co_local = None, co_expected = [], co_now = 0\<rparr>"

definition demo_summary :: reconciliation_summary where
  "demo_summary = reconcile 0 ''switch'' (co_interfaces demo_tables) (ios_view demo_tables None)
     (intent_provider_of (co_interfaces demo_tables) []) [] []"

lemma demo_cdp: "category_from_cdp demo_neighbor = (''access-point'', None, None)"
  by code_simp

lemma demo_description: "classify_device ''ap-one'' None =
    \<lparr>cl_category = ''access-point'', cl_vendor = None, cl_model = None, cl_stage = ''category'',
      cl_evidence = [''interface description suggests device category'']\<rparr>"
  by code_simp

lemma demo_tokens: "label_tokens ''ap-one'' = [''one'']" "py_strip ''ap-one'' = ''ap-one''" "meaningful_description ''ap-one''"
  by code_simp+

lemma demo_up: "oper_up (demo_port d)"
  by code_simp

lemma demo_observed:
  "\<exists>a. observed_for (ios_view demo_tables None) (demo_port ''ap-one'') = Some a \<and> ta_label a = ''ap-one'' \<and>
     ta_identified a \<and> \<not> ta_conflicted a \<and> ta_vendor a = None \<and> ta_model a = None"
proof -
  let ?d = "finish_endpoint demo_tables (demo_port ''ap-one'') (By_cdp demo_neighbor [])"
  have sight: "port_sighting demo_tables (demo_port ''ap-one'') = Some (By_cdp demo_neighbor [])"
    using demo_up by (simp add: port_sighting_def cdp_on_def demo_tables_def demo_neighbor_def demo_port_def)
  have devices: "tm_devices (build_topology demo_tables) = [root_device demo_tables, ?d]"
    using sight by (simp add: topology_listed placed_def) (simp add: demo_tables_def)
  have root: "nd_connected (root_device demo_tables) = None" by (simp add: root_device_def Let_def)
  have none: "macs_on demo_tables p = []" for p by (simp add: macs_on_def demo_tables_def)
  have parts: "nd_identity_source ?d = ''cdp''" "nd_conflicts ?d = []" "nd_vendor ?d = None" "nd_model ?d = None"
    "nd_existence_state ?d = ''observed''"
    by (simp_all add: finish_endpoint_def none endpoint_of_def blank_endpoint_def demo_cdp Let_def)
  have apart: "nd_id ?d \<noteq> tm_root (build_topology demo_tables)"
    by (simp add: topology_listed port_entity_def cdp_on_def switch_id_def switch_device_id_def stable_entity_id_def
        demo_tables_def demo_neighbor_def demo_port_def Let_def)
  have "endpoint_on (build_topology demo_tables) ''Gi0/3'' = Some ?d"
    using apart parts root by (simp add: endpoint_on_def devices demo_port_def)
  then have "observed_for (ios_view demo_tables None) (demo_port ''ap-one'') =
      Some (observed_endpoint (ios_view demo_tables None) ''Gi0/3'' (build_topology demo_tables) ?d)"
    using demo_up by (simp add: observed_for_def demo_port_def)
  then show ?thesis
    using parts by (simp add: observed_endpoint_def Let_def identifying_sources_def sighted_name_def demo_neighbor_def)
qed

lemma demo_status: "map ri_status (rs_interfaces demo_summary) = [Aligned]" "map ri_interface (rs_interfaces demo_summary) = [''Gi0/3'']"
proof -
  obtain a where a: "observed_for (ios_view demo_tables None) (demo_port ''ap-one'') = Some a" "ta_label a = ''ap-one''"
    "ta_identified a" "\<not> ta_conflicted a" "ta_vendor a = None" "ta_model a = None"
    using demo_observed by blast
  have ports: "co_interfaces demo_tables = [demo_port ''ap-one'']" by (simp add: demo_tables_def)
  have name: "ifs_port (demo_port ''ap-one'') = ''Gi0/3''" "ifs_name (demo_port ''ap-one'') = ''ap-one''"
    by (simp_all add: demo_port_def)
  have tokens: "assertion_tokens a = [''one'']"
    using a by (simp add: assertion_tokens_def or_empty_def demo_tokens)
  have "map ri_status (rs_interfaces demo_summary) = [Aligned] \<and> map ri_interface (rs_interfaces demo_summary) = [''Gi0/3'']"
    using a tokens
    by (simp add: demo_summary_def reconcile_def summarize_def ports name by_port_def observed_by_interface_def
        expected_by_interface_def expected_for_def intent_provider_of_def suppressed_interfaces_def reconcile_interface_def
        judge_def demo_tokens demo_description assertion_def assertion_tokens_def or_empty_def tokens_match_def
        dict_set_def split_def Let_def)
  then show "map ri_status (rs_interfaces demo_summary) = [Aligned]" "map ri_interface (rs_interfaces demo_summary) = [''Gi0/3'']"
    by simp_all
qed

theorem verdict_needs_identification_witness:
  "ri_status (hd (rs_interfaces demo_summary)) = Aligned \<and>
   (\<exists>i s. i \<in> set (co_interfaces demo_tables) \<and> ifs_port i = ''Gi0/3'' \<and> oper_up i \<and>
     port_sighting demo_tables i = Some s \<and> identifying s)"
proof -
  obtain r where r: "rs_interfaces demo_summary = [r]" "ri_status r = Aligned" "ri_interface r = ''Gi0/3''"
    using demo_status by (cases "rs_interfaces demo_summary") auto
  then show ?thesis
    using verdict_needs_identification [of r 0 "''switch''" demo_tables None
        "intent_provider_of (co_interfaces demo_tables) []" "[]" "[]"]
    by (simp add: demo_summary_def)
qed

definition demo_missing :: interface_reconciliation where
  "demo_missing = reconcile_interface (demo_port ''ap-one''\<lparr>ifs_status := ''notconnect''\<rparr>) None
     (Some (assertion ''Gi0/3'' ''expected-neighbour'' ''ap-one'' False ''expected'' ''interface-description'' Conf_low [] None))
     None [] [] False"

lemma demo_missing_status: "ri_status demo_missing = Expected_not_observed" "ri_interface demo_missing = ''Gi0/3''"
  by (simp_all add: demo_missing_def reconcile_interface_def judge_def matching_sighting_def demo_port_def Let_def)

theorem standing_discrepancy_once_witness:
  "\<exists>es st1 fs st2. reconciliation_events ''switch'' 0 [demo_missing] empty_intent = (es, st1) \<and>
     reconciliation_events ''switch'' 9 [demo_missing] st1 = (fs, st2) \<and>
     map ne_type es = [''expected_device_missing''] \<and> fs = [] \<and> seen ''switch'' st2 = seen ''switch'' st1"
proof -
  obtain es st1 where first: "reconciliation_events ''switch'' 0 [demo_missing] empty_intent = (es, st1)" by fastforce
  obtain fs st2 where second: "reconciliation_events ''switch'' 9 [demo_missing] st1 = (fs, st2)" by fastforce
  have unseen: "seen ''switch'' empty_intent p = None" for p
    by (simp add: seen_def get_seen_def empty_intent_def)
  have quiet: "neighbor_events ''switch'' t demo_missing = []" for t
    by (simp add: neighbor_events_def demo_missing_def reconcile_interface_def is_identified_def split_def Let_def)
  have "distinct (map ri_interface [demo_missing])" by simp
  from standing_discrepancy_once [OF this first second]
  have "map ne_type es = [''expected_device_missing'']" "fs = []" "seen ''switch'' st2 = seen ''switch'' st1"
    by (simp_all add: unseen quiet demo_missing_status fresh_events_def status_events_def eventful_def event_type_def)
  then show ?thesis
    using first second by (intro exI [of _ es] exI [of _ st1] exI [of _ fs] exI [of _ st2]) simp
qed

end
