(* ===== verification/Device_Session.thy ===== *)
theory Device_Session
  imports Models "HOL-Library.Multiset"
begin

text \<open>
  \<open>backend/app/device_session.py\<close>: one worker thread owns the connection to the switch and runs every
  job. The threads interleave at the points where the code gives up the processor: a submission checks
  the stop flag and then puts its job, the worker looks at the flag, waits for a job, connects, runs the
  commands of the job one by one, and drains the queue at the end. Each of these is a step. What the
  outside does in a step (whether the transport is alive, what connecting or the body of the job gives,
  the clocks) is an argument. Every future belongs to the number of its job. The listeners of the page
  and the log lines change nothing here.
\<close>

section \<open>Jobs and metrics\<close>

definition transaction :: nat where "transaction = 0"
definition diagnostic :: nat where "diagnostic = 1"
definition deep :: nat where "deep = 5"

record job =
  jb_priority :: nat
  jb_sequence :: nat
  jb_kind :: string
  jb_submitted :: rat

datatype 'v outcome = Returned 'v | Returned_none | Raised exn

record command_timing =
  ct_kind :: string
  ct_duration :: rat
  ct_wait :: rat
  ct_at :: time

record session_metrics =
  sm_timings :: "command_timing list"
  sm_jobs :: nat
  sm_failed :: nat
  sm_reconnects :: nat
  sm_connected :: "time option"

definition capacity :: nat where "capacity = 200"

definition no_metrics :: session_metrics where
  "no_metrics = \<lparr>sm_timings = [], sm_jobs = 0, sm_failed = 0, sm_reconnects = 0, sm_connected = None\<rparr>"

definition record_timing :: "command_timing \<Rightarrow> bool \<Rightarrow> session_metrics \<Rightarrow> session_metrics" where
  "record_timing t failed m =
     (let ts = sm_timings m @ [t] in
      m\<lparr>sm_timings := drop (length ts - capacity) ts, sm_jobs := sm_jobs m + 1,
        sm_failed := (if failed then sm_failed m + 1 else sm_failed m)\<rparr>)"

record kind_summary =
  ks_count :: nat
  ks_median :: rat
  ks_max :: rat

definition summary_of_kind :: "command_timing list \<Rightarrow> string \<Rightarrow> kind_summary" where
  "summary_of_kind ts kind =
     (let vs = map ct_duration (filter (\<lambda>t. ct_kind t = kind) ts) in
      \<lparr>ks_count = length vs, ks_median = round_to 1 (sort vs ! (length vs div 2)), ks_max = round_to 1 (Max (set vs))\<rparr>)"

definition by_kind :: "session_metrics \<Rightarrow> (string \<times> kind_summary) list" where
  "by_kind m = map (\<lambda>k. (k, summary_of_kind (sm_timings m) k)) (sorted_set (map ct_kind (sm_timings m)))"

text \<open>The queue gives the job that compares least by priority and number.\<close>

definition runs_before :: "job \<Rightarrow> job \<Rightarrow> bool" where
  "runs_before a b \<longleftrightarrow> jb_priority a < jb_priority b \<or> (jb_priority a = jb_priority b \<and> jb_sequence a \<le> jb_sequence b)"

fun first_job :: "job \<Rightarrow> job list \<Rightarrow> job" where
  "first_job j [] = j"
| "first_job j (k # ks) = first_job (if runs_before j k then j else k) ks"

definition pop_job :: "job list \<Rightarrow> (job \<times> job list) option" where
  "pop_job q = (case q of [] \<Rightarrow> None | j # js \<Rightarrow> let k = first_job j js in Some (k, remove1 k q))"

section \<open>The manager\<close>

datatype link_state = Link_offline | Link_connecting | Link_live | Link_stale | Link_reconnecting

datatype phase = At_head | Getting | Holding job | Serving job | Draining | Ended

record 'v manager =
  dm_queue :: "job list"
  dm_submitting :: "job list"
  dm_sequence :: nat
  dm_stopping :: bool
  dm_thread :: "nat option"
  dm_workers :: "phase list"
  dm_futures :: "(nat, 'v outcome) dict"
  dm_client :: bool
  dm_state :: link_state
  dm_error :: "string option"
  dm_error_code :: "string option"
  dm_backoff :: rat
  dm_next_attempt :: rat
  dm_last_success :: "time option"
  dm_metrics :: session_metrics
  dm_log :: "nat list"

definition backoff_start :: rat where "backoff_start = 2"
definition backoff_max :: rat where "backoff_max = 60"

definition new_manager :: "'v manager" where
  "new_manager = \<lparr>dm_queue = [], dm_submitting = [], dm_sequence = 0, dm_stopping = False, dm_thread = None,
     dm_workers = [], dm_futures = [], dm_client = False, dm_state = Link_offline, dm_error = None,
     dm_error_code = None, dm_backoff = backoff_start, dm_next_attempt = 0, dm_last_success = None,
     dm_metrics = no_metrics, dm_log = []\<rparr>"

definition resolve :: "nat \<Rightarrow> 'v outcome \<Rightarrow> 'v manager \<Rightarrow> 'v manager" where
  "resolve n r s = s\<lparr>dm_futures := dm_futures s @ [(n, r)]\<rparr>"

definition set_phase :: "nat \<Rightarrow> phase \<Rightarrow> 'v manager \<Rightarrow> 'v manager" where
  "set_phase w ph s = s\<lparr>dm_workers := (dm_workers s)[w := ph]\<rparr>"

definition set_link :: "link_state \<Rightarrow> exn option \<Rightarrow> 'v manager \<Rightarrow> 'v manager" where
  "set_link st err s =
     s\<lparr>dm_state := st,
       dm_error := (case err of Some e \<Rightarrow> Some (exn_message e) | None \<Rightarrow> if st = Link_live then None else dm_error s),
       dm_error_code := (case err of Some e \<Rightarrow> Some (exn_code e) | None \<Rightarrow> if st = Link_live then None else dm_error_code s)\<rparr>"

subsection \<open>Lifecycle and submission\<close>

definition start :: "'v manager \<Rightarrow> 'v manager" where
  "start s =
     (case dm_thread s of
        Some w \<Rightarrow>
          if dm_workers s ! w \<noteq> Ended then s
          else s\<lparr>dm_stopping := False, dm_workers := dm_workers s @ [At_head], dm_thread := Some (length (dm_workers s))\<rparr>
      | None \<Rightarrow>
          s\<lparr>dm_stopping := False, dm_workers := dm_workers s @ [At_head], dm_thread := Some (length (dm_workers s))\<rparr>)"

definition new_job :: "nat \<Rightarrow> string \<Rightarrow> rat \<Rightarrow> 'v manager \<Rightarrow> job" where
  "new_job priority kind now s =
     \<lparr>jb_priority = priority, jb_sequence = dm_sequence s + 1, jb_kind = kind, jb_submitted = now\<rparr>"

definition enter_job :: "job \<Rightarrow> 'v manager \<Rightarrow> 'v manager" where
  "enter_job j s = s\<lparr>dm_sequence := jb_sequence j, dm_submitting := dm_submitting s @ [j]\<rparr>"

text \<open>A submission after the stop flag is set is refused with a future of its own.\<close>

definition submit :: "string \<Rightarrow> nat \<Rightarrow> rat \<Rightarrow> 'v manager \<Rightarrow> exn + 'v manager" where
  "submit kind priority now s =
     (if dm_stopping s then Inl (SwitchOpsError ''SwitchOps is shutting down.'')
      else Inr (enter_job (new_job priority kind now s) s))"

definition put :: "job \<Rightarrow> 'v manager \<Rightarrow> 'v manager" where
  "put j s = s\<lparr>dm_queue := dm_queue s @ [j], dm_submitting := remove1 j (dm_submitting s)\<rparr>"

definition stop_begin :: "rat \<Rightarrow> 'v manager \<Rightarrow> 'v manager" where
  "stop_begin now s =
     (let s1 = s\<lparr>dm_stopping := True\<rparr> in enter_job (new_job transaction ''shutdown'' now s1) s1)"

text \<open>The end of \<open>stop\<close>, after it has waited for the thread for at most six seconds.\<close>

definition stop_end :: "'v manager \<Rightarrow> 'v manager" where
  "stop_end s = s\<lparr>dm_thread := None\<rparr>"

definition has_pending :: "string \<Rightarrow> 'v manager \<Rightarrow> bool" where
  "has_pending kind s = list_ex (\<lambda>j. jb_kind j = kind) (dm_queue s)"

subsection \<open>The connection\<close>

definition close_client :: "'v manager \<Rightarrow> 'v manager" where
  "close_client s = s\<lparr>dm_client := False\<rparr>"

definition drop_client :: "exn option \<Rightarrow> 'v manager \<Rightarrow> 'v manager" where
  "drop_client err s = set_link Link_stale err (close_client s)"

definition add_reconnect :: "'v manager \<Rightarrow> 'v manager" where
  "add_reconnect s = s\<lparr>dm_metrics := (dm_metrics s)\<lparr>sm_reconnects := sm_reconnects (dm_metrics s) + 1\<rparr>\<rparr>"

definition back_off :: "rat \<Rightarrow> 'v manager \<Rightarrow> 'v manager" where
  "back_off now s =
     (let b = min backoff_max (dm_backoff s * 2) in s\<lparr>dm_backoff := b, dm_next_attempt := now + b\<rparr>)"

fun connect_failed :: "rat \<Rightarrow> exn \<Rightarrow> 'v manager \<Rightarrow> 'v manager" where
  "connect_failed now (HostKeyChangedError m) s =
     set_link Link_offline (Some (HostKeyChangedError m)) (s\<lparr>dm_next_attempt := now + backoff_max\<rparr>)"
| "connect_failed now (CredentialsMissingError m) s =
     set_link Link_offline (Some (CredentialsMissingError m)) (s\<lparr>dm_next_attempt := now + backoff_max\<rparr>)"
| "connect_failed now (PyError m) s = set_link Link_offline (Some (SwitchOpsError m)) (back_off now s)"
| "connect_failed now e s = set_link Link_offline (Some e) (back_off now s)"

definition connected :: "time \<Rightarrow> 'v manager \<Rightarrow> 'v manager" where
  "connected wall s =
     set_link Link_live None (s\<lparr>dm_client := True, dm_backoff := backoff_start, dm_next_attempt := 0,
       dm_metrics := (dm_metrics s)\<lparr>sm_connected := Some wall\<rparr>\<rparr>)"

definition lost_client :: "'v manager \<Rightarrow> 'v manager" where
  "lost_client s = (if dm_client s then set_link Link_reconnecting None (add_reconnect (close_client s)) else s)"

text \<open>\<open>alive\<close> is what the transport says, \<open>conn\<close> what connecting would give.\<close>

definition ensure_client :: "bool \<Rightarrow> exn + unit \<Rightarrow> rat \<Rightarrow> time \<Rightarrow> 'v manager \<Rightarrow> bool \<times> 'v manager" where
  "ensure_client alive conn now wall s =
     (if dm_client s \<and> alive then (True, s)
      else
        (let s1 = lost_client s in
         if now < dm_next_attempt s1 then (False, s1)
         else
           (let s2 = set_link (if sm_reconnects (dm_metrics s1) = 0 then Link_connecting else Link_reconnecting) None s1 in
            case conn of
              Inl e \<Rightarrow> (False, connect_failed now e s2)
            | Inr _ \<Rightarrow> (True, connected wall s2))))"

definition unavailable :: "'v manager \<Rightarrow> exn" where
  "unavailable s =
     (let message = (if or_empty (dm_error s) \<noteq> [] then or_empty (dm_error s) else ''The switch session is not available.'') in
      if dm_error_code s = Some ''credentials_missing'' then CredentialsMissingError message
      else if dm_error_code s = Some ''host_key_changed'' then HostKeyChangedError message
      else SwitchOpsError message)"

subsection \<open>The worker\<close>

definition worker_check :: "nat \<Rightarrow> 'v manager \<Rightarrow> 'v manager" where
  "worker_check w s = (if dm_stopping s then set_phase w Draining (close_client s) else set_phase w Getting s)"

text \<open>No job within a second; \<open>due\<close> when the session has been idle for more than 45 seconds.\<close>

definition worker_idle :: "nat \<Rightarrow> bool \<Rightarrow> bool \<Rightarrow> exn + unit \<Rightarrow> rat \<Rightarrow> time \<Rightarrow> 'v manager \<Rightarrow> 'v manager" where
  "worker_idle w due alive conn now wall s =
     set_phase w At_head
       (if dm_client s \<and> due \<and> \<not> alive then snd (ensure_client False conn now wall s) else s)"

definition worker_take :: "nat \<Rightarrow> 'v manager \<Rightarrow> 'v manager" where
  "worker_take w s =
     (case pop_job (dm_queue s) of
        None \<Rightarrow> s
      | Some (j, q) \<Rightarrow>
          (let s1 = s\<lparr>dm_queue := q\<rparr> in
           if jb_kind j = ''shutdown'' then set_phase w Draining (close_client (resolve (jb_sequence j) Returned_none s1))
           else set_phase w (Holding j) s1))"

definition worker_begin :: "nat \<Rightarrow> job \<Rightarrow> bool \<Rightarrow> exn + unit \<Rightarrow> rat \<Rightarrow> time \<Rightarrow> 'v manager \<Rightarrow> 'v manager" where
  "worker_begin w j alive conn now wall s =
     (case ensure_client alive conn now wall s of
        (True, s1) \<Rightarrow> set_phase w (Serving j) s1
      | (False, s1) \<Rightarrow> set_phase w At_head (resolve (jb_sequence j) (Raised (unavailable s1)) s1))"

text \<open>One command of the job's body reaches the switch.\<close>

definition worker_command :: "job \<Rightarrow> 'v manager \<Rightarrow> 'v manager" where
  "worker_command j s = s\<lparr>dm_log := dm_log s @ [jb_sequence j]\<rparr>"

fun job_outcome :: "job \<Rightarrow> 'v result \<Rightarrow> bool \<Rightarrow> time \<Rightarrow> 'v manager \<Rightarrow> 'v manager" where
  "job_outcome j (Inr v) alive wall s = (resolve (jb_sequence j) (Returned v) s)\<lparr>dm_last_success := Some wall\<rparr>"
| "job_outcome j (Inl (HostKeyChangedError m)) alive wall s =
     drop_client (Some (HostKeyChangedError m)) (resolve (jb_sequence j) (Raised (HostKeyChangedError m)) s)"
| "job_outcome j (Inl e) alive wall s =
     (let s1 = resolve (jb_sequence j) (Raised e) s in if dm_client s \<and> \<not> alive then drop_client None s1 else s1)"

definition worker_finish :: "nat \<Rightarrow> job \<Rightarrow> 'v result \<Rightarrow> bool \<Rightarrow> command_timing \<Rightarrow> time \<Rightarrow> 'v manager \<Rightarrow> 'v manager" where
  "worker_finish w j r alive timing wall s =
     (let s1 = job_outcome j r alive wall s in
      set_phase w At_head (s1\<lparr>dm_metrics := record_timing timing (case r of Inl _ \<Rightarrow> True | Inr _ \<Rightarrow> False) (dm_metrics s1)\<rparr>))"

text \<open>The code asks first whether the future is done; a queued job's never is (lemma \<open>queued_not_settled\<close>).\<close>

definition worker_drain :: "nat \<Rightarrow> 'v manager \<Rightarrow> 'v manager" where
  "worker_drain w s =
     (case pop_job (dm_queue s) of
        None \<Rightarrow> set_phase w Ended s
      | Some (j, q) \<Rightarrow>
          resolve (jb_sequence j) (Raised (SwitchOpsError ''SwitchOps is shutting down.'')) (s\<lparr>dm_queue := q\<rparr>))"

end
