(* ===== verification/Device_Session_Properties.thy ===== *)
theory Device_Session_Properties
  imports Device_Session
begin

text \<open>
  The threads of the device session as a step relation, and what holds in every state it reaches: every
  job is in exactly one place, the commands of different jobs never interleave, the backoff stays within
  its bounds, and draining ends. The flag of the relation says whether \<open>stop\<close> may give up waiting for
  the worker. It may in the program, after six seconds: without the flag the relation describes those
  runs in which every \<open>stop\<close> found the worker ended within its time.
\<close>

section \<open>Steps\<close>

inductive manager_step :: "bool \<Rightarrow> 'v manager \<Rightarrow> 'v manager \<Rightarrow> bool" for impatient where
  submit: "submit kind priority now s = Inr s' \<Longrightarrow> manager_step impatient s s'"
| put: "j \<in> set (dm_submitting s) \<Longrightarrow> manager_step impatient s (put j s)"
| start: "manager_step impatient s (start s)"
| stop_begin: "manager_step impatient s (stop_begin now s)"
| stop_end: "impatient \<or> (\<forall>w. dm_thread s = Some w \<longrightarrow> dm_workers s ! w = Ended) \<Longrightarrow> manager_step impatient s (stop_end s)"
| check: "w < length (dm_workers s) \<Longrightarrow> dm_workers s ! w = At_head \<Longrightarrow> manager_step impatient s (worker_check w s)"
| idle: "w < length (dm_workers s) \<Longrightarrow> dm_workers s ! w = Getting \<Longrightarrow> dm_queue s = [] \<Longrightarrow>
    manager_step impatient s (worker_idle w due alive conn now wall s)"
| take: "w < length (dm_workers s) \<Longrightarrow> dm_workers s ! w = Getting \<Longrightarrow> dm_queue s \<noteq> [] \<Longrightarrow>
    manager_step impatient s (worker_take w s)"
| enter: "w < length (dm_workers s) \<Longrightarrow> dm_workers s ! w = Holding j \<Longrightarrow>
    manager_step impatient s (worker_begin w j alive conn now wall s)"
| command: "w < length (dm_workers s) \<Longrightarrow> dm_workers s ! w = Serving j \<Longrightarrow> manager_step impatient s (worker_command j s)"
| finish: "w < length (dm_workers s) \<Longrightarrow> dm_workers s ! w = Serving j \<Longrightarrow>
    manager_step impatient s (worker_finish w j r alive timing wall s)"
| drain: "w < length (dm_workers s) \<Longrightarrow> dm_workers s ! w = Draining \<Longrightarrow> manager_step impatient s (worker_drain w s)"

inductive manager_reaches :: "bool \<Rightarrow> 'v manager \<Rightarrow> bool" for impatient where
  init: "manager_reaches impatient new_manager"
| step: "manager_reaches impatient s \<Longrightarrow> manager_step impatient s s' \<Longrightarrow> manager_reaches impatient s'"

inductive_cases manager_stepE: "manager_step impatient s s'"

lemma reach_invariant:
  assumes "manager_reaches b s" "P new_manager" "\<And>s s'. P s \<Longrightarrow> manager_step b s s' \<Longrightarrow> P s'"
  shows "P s"
  using assms(1) by induction (auto intro: assms(2,3))

section \<open>What each operation keeps\<close>

lemma runs_before_total: "runs_before a b \<or> runs_before b a"
  by (auto simp: runs_before_def)

lemma runs_before_trans: "runs_before a b \<Longrightarrow> runs_before b c \<Longrightarrow> runs_before a c"
  by (auto simp: runs_before_def)

lemma first_job_least: "first_job j js \<in> set (j # js) \<and> (\<forall>k \<in> set (j # js). runs_before (first_job j js) k)"
proof (induction js arbitrary: j)
  case Nil
  then show ?case by (simp add: runs_before_def)
next
  case (Cons k ks)
  then show ?case using runs_before_total [of j k] runs_before_trans by (auto split: if_splits) blast+
qed

lemma pop_job_None [simp]: "pop_job q = None \<longleftrightarrow> q = []"
  by (auto simp: pop_job_def Let_def split: list.split)

lemma pop_job_Nil [simp]: "pop_job [] = None"
  by (simp add: pop_job_def)

lemma pop_job_Some:
  assumes "pop_job q = Some (j, q')"
  shows "j \<in> set q" "q' = remove1 j q" "\<forall>k \<in> set q. runs_before j k" "mset q = add_mset j (mset q')" "length q = Suc (length q')"
proof -
  obtain k ks where q: "q = k # ks" using assms by (cases q) (auto simp: pop_job_def)
  have j: "j = first_job k ks" "q' = remove1 j q" using assms by (auto simp: pop_job_def q Let_def)
  show mem: "j \<in> set q" and least: "\<forall>k \<in> set q. runs_before j k" and "q' = remove1 j q"
    using first_job_least [of k ks] j q by simp_all
  show "mset q = add_mset j (mset q')" using mem j(2) by simp
  then show "length q = Suc (length q')" by (metis size_add_mset size_mset)
qed

text \<open>Nothing about the connection touches the jobs; it only moves the client, the state and the metrics.\<close>

definition same_jobs :: "'v manager \<Rightarrow> 'v manager \<Rightarrow> bool" where
  "same_jobs s s' \<longleftrightarrow> dm_queue s' = dm_queue s \<and> dm_submitting s' = dm_submitting s \<and> dm_sequence s' = dm_sequence s \<and>
     dm_futures s' = dm_futures s \<and> dm_workers s' = dm_workers s \<and> dm_log s' = dm_log s \<and> dm_thread s' = dm_thread s \<and>
     dm_stopping s' = dm_stopping s"

lemma same_jobs_refl [simp]: "same_jobs s s"
  by (simp add: same_jobs_def)

lemma same_jobs_link [simp]:
  "same_jobs s (set_link st err t) = same_jobs s t" "same_jobs s (close_client t) = same_jobs s t"
  "same_jobs s (drop_client err t) = same_jobs s t" "same_jobs s (add_reconnect t) = same_jobs s t"
  "same_jobs s (back_off now t) = same_jobs s t" "same_jobs s (connected wall t) = same_jobs s t"
  by (simp_all add: same_jobs_def set_link_def close_client_def drop_client_def add_reconnect_def back_off_def
      connected_def Let_def)

lemma same_jobs_next [simp]: "same_jobs s (t\<lparr>dm_next_attempt := a\<rparr>) = same_jobs s t"
  "same_jobs s (t\<lparr>dm_metrics := m\<rparr>) = same_jobs s t" "same_jobs s (t\<lparr>dm_last_success := l\<rparr>) = same_jobs s t"
  by (simp_all add: same_jobs_def)

lemma same_jobs_failed [simp]: "same_jobs s (connect_failed now e t) = same_jobs s t"
  by (cases e) simp_all

lemma same_jobs_lost [simp]: "same_jobs s (lost_client t) = same_jobs s t"
  by (simp add: lost_client_def)

lemma same_jobs_ensure: "same_jobs s (snd (ensure_client alive conn now wall s))"
  by (simp add: ensure_client_def Let_def split: sum.split)

section \<open>Every job is in one place\<close>

fun held :: "phase \<Rightarrow> nat list" where
  "held (Holding j) = [jb_sequence j]"
| "held (Serving j) = [jb_sequence j]"
| "held _ = []"

definition places :: "'v manager \<Rightarrow> nat multiset" where
  "places s = mset (map jb_sequence (dm_submitting s)) + mset (map jb_sequence (dm_queue s)) +
     mset (concat (map held (dm_workers s))) + mset (map fst (dm_futures s))"

definition accounted :: "'v manager \<Rightarrow> bool" where
  "accounted s \<longleftrightarrow> places s = mset [1..<Suc (dm_sequence s)]"

lemma places_same: "same_jobs s s' \<Longrightarrow> places s' = places s"
  by (simp add: same_jobs_def places_def)

lemma places_resolve [simp]: "places (resolve n r s) = add_mset n (places s)"
  by (simp add: places_def resolve_def)

lemma held_update:
  "w < length ws \<Longrightarrow> mset (concat (map held (ws[w := ph]))) + mset (held (ws ! w)) =
     mset (concat (map held ws)) + mset (held ph)"
proof (induction ws arbitrary: w)
  case (Cons p ws)
  then show ?case by (cases w) (simp_all add: ac_simps)
qed simp

lemma places_phase:
  "w < length (dm_workers s) \<Longrightarrow> places (set_phase w ph s) + mset (held (dm_workers s ! w)) = places s + mset (held ph)"
  using held_update [of w "dm_workers s" ph] by (simp add: places_def set_phase_def ac_simps)

lemma places_phase_idle:
  assumes "w < length (dm_workers s)" "held (dm_workers s ! w) = held ph"
  shows "places (set_phase w ph s) = places s"
  using places_phase [OF assms(1), of ph] assms(2) by simp

lemma places_phase_done:
  assumes "w < length (dm_workers s)" "held (dm_workers s ! w) = [n]" "held ph = []"
  shows "add_mset n (places (set_phase w ph s)) = places s"
  using places_phase [OF assms(1), of ph] assms(2,3) by simp

lemma places_pop:
  "pop_job (dm_queue s) = Some (j, q) \<Longrightarrow> add_mset (jb_sequence j) (places (s\<lparr>dm_queue := q\<rparr>)) = places s"
  using pop_job_Some(4) [of "dm_queue s" j q] by (simp add: places_def)

lemma places_put: "j \<in> set (dm_submitting s) \<Longrightarrow> places (put j s) = places s"
proof -
  assume "j \<in> set (dm_submitting s)"
  then have "mset (dm_submitting s) = add_mset j (mset (remove1 j (dm_submitting s)))" by simp
  then have "mset (map jb_sequence (dm_submitting s)) =
      add_mset (jb_sequence j) (mset (map jb_sequence (remove1 j (dm_submitting s))))"
    by (metis image_mset_add_mset mset_map)
  then show "places (put j s) = places s" by (simp add: places_def put_def)
qed

definition outcome_of :: "'v result \<Rightarrow> 'v outcome" where
  "outcome_of r = (case r of Inl e \<Rightarrow> Raised e | Inr v \<Rightarrow> Returned v)"

lemma job_outcome_jobs: "same_jobs (resolve (jb_sequence j) (outcome_of r) s) (job_outcome j r alive wall s)"
  by (cases "(j, r, alive, wall, s)" rule: job_outcome.cases) (simp_all add: outcome_of_def Let_def)

lemma same_jobs_workers: "same_jobs s s' \<Longrightarrow> dm_workers s' = dm_workers s"
  by (simp add: same_jobs_def)

lemma resolve_workers [simp]: "dm_workers (resolve n r s) = dm_workers s" "dm_workers (close_client s) = dm_workers s"
  "dm_workers (s\<lparr>dm_queue := q\<rparr>) = dm_workers s" "dm_workers (s\<lparr>dm_metrics := m\<rparr>) = dm_workers s"
  by (simp_all add: resolve_def close_client_def)

lemma places_close [simp]: "places (close_client s) = places s" "places (s\<lparr>dm_metrics := m\<rparr>) = places s"
  by (simp_all add: places_def close_client_def)

lemma accounted_take:
  assumes "w < length (dm_workers s)" "dm_workers s ! w = Getting"
  shows "places (worker_take w s) = places s"
proof (cases "pop_job (dm_queue s)")
  case (Some jq)
  obtain j q where jq: "jq = (j, q)" by fastforce
  let ?s = "s\<lparr>dm_queue := q\<rparr>"
  note pop = places_pop [OF Some [unfolded jq]]
  show ?thesis
  proof (cases "jb_kind j = ''shutdown''")
    case True
    then have "places (worker_take w s) = places (set_phase w Draining (close_client (resolve (jb_sequence j) Returned_none ?s)))"
      by (simp add: worker_take_def Some jq Let_def)
    also have "\<dots> = places s" using assms pop by (subst places_phase_idle) simp_all
    finally show ?thesis .
  next
    case False
    then have "worker_take w s = set_phase w (Holding j) ?s" by (simp add: worker_take_def Some jq Let_def)
    then show ?thesis using places_phase [of w ?s "Holding j"] assms pop by simp
  qed
qed (simp add: worker_take_def)

lemma accounted_begin:
  assumes "w < length (dm_workers s)" "dm_workers s ! w = Holding j"
  shows "places (worker_begin w j alive conn now wall s) = places s"
proof -
  obtain ok s1 where e: "ensure_client alive conn now wall s = (ok, s1)" by fastforce
  have same: "places s1 = places s" "dm_workers s1 = dm_workers s"
    using same_jobs_ensure [of s alive conn now wall] by (simp_all add: e places_same same_jobs_workers)
  show ?thesis
  proof (cases ok)
    case True
    then show ?thesis using assms same by (simp add: worker_begin_def e places_phase_idle)
  next
    case False
    then show ?thesis
      using assms same places_phase_done [of w "resolve (jb_sequence j) (Raised (unavailable s1)) s1" "jb_sequence j" At_head]
      by (simp add: worker_begin_def e)
  qed
qed

lemma accounted_finish:
  assumes "w < length (dm_workers s)" "dm_workers s ! w = Serving j"
  shows "places (worker_finish w j r alive timing wall s) = places s"
proof -
  let ?t = "job_outcome j r alive wall s"
  let ?m = "record_timing timing (case r of Inl _ \<Rightarrow> True | Inr _ \<Rightarrow> False) (dm_metrics ?t)"
  have t: "places ?t = add_mset (jb_sequence j) (places s)" "dm_workers ?t = dm_workers s"
    using places_same [OF job_outcome_jobs] same_jobs_workers [OF job_outcome_jobs] by (metis places_resolve, metis resolve_workers(1))
  have "add_mset (jb_sequence j) (places (set_phase w At_head (?t\<lparr>dm_metrics := ?m\<rparr>))) = places (?t\<lparr>dm_metrics := ?m\<rparr>)"
    using assms t by (intro places_phase_done) simp_all
  then show ?thesis using t by (simp add: worker_finish_def Let_def)
qed

lemma accounted_drain:
  assumes "w < length (dm_workers s)" "dm_workers s ! w = Draining"
  shows "places (worker_drain w s) = places s"
proof (cases "pop_job (dm_queue s)")
  case None
  then show ?thesis using assms by (simp add: worker_drain_def places_phase_idle)
next
  case (Some jq)
  then show ?thesis using places_pop by (cases jq) (auto simp: worker_drain_def)
qed

lemma places_idle:
  assumes "w < length (dm_workers s)" "dm_workers s ! w = Getting"
  shows "places (worker_idle w due alive conn now wall s) = places s"
proof -
  let ?t = "if dm_client s \<and> due \<and> \<not> alive then snd (ensure_client False conn now wall s) else s"
  have t: "places ?t = places s" "dm_workers ?t = dm_workers s"
    using same_jobs_ensure [of s False conn now wall] by (auto simp: places_same same_jobs_workers)
  show ?thesis
    unfolding worker_idle_def using assms t by (subst places_phase_idle) simp_all
qed

lemma places_enter: "places (enter_job (new_job p k now s) s) = add_mset (Suc (dm_sequence s)) (places s)"
  "dm_sequence (enter_job (new_job p k now s) s) = Suc (dm_sequence s)"
  by (simp_all add: places_def enter_job_def new_job_def)

lemma places_start [simp]: "places (start s) = places s" "dm_sequence (start s) = dm_sequence s"
  by (simp_all add: start_def places_def split: option.split)

lemma sequence_kept [simp]:
  "dm_sequence (set_phase w ph s) = dm_sequence s" "dm_sequence (resolve n r s) = dm_sequence s"
  "dm_sequence (close_client s) = dm_sequence s" "dm_sequence (put j s) = dm_sequence s"
  "dm_sequence (worker_take w s) = dm_sequence s" "dm_sequence (worker_check w s) = dm_sequence s"
  "dm_sequence (worker_drain w s) = dm_sequence s" "dm_sequence (worker_command j s) = dm_sequence s"
  "dm_sequence (stop_end s) = dm_sequence s"
  by (simp_all add: set_phase_def resolve_def close_client_def put_def worker_take_def worker_check_def worker_drain_def
      worker_command_def stop_end_def Let_def split: option.split prod.split)

lemma sequence_kept_link:
  "dm_sequence (snd (ensure_client alive conn now wall s)) = dm_sequence s"
  "dm_sequence (worker_begin w j alive conn now wall s) = dm_sequence s"
  "dm_sequence (worker_idle w due alive conn now wall s) = dm_sequence s"
  "dm_sequence (worker_finish w j r alive timing wall s) = dm_sequence s"
proof -
  show ensure: "dm_sequence (snd (ensure_client alive conn now wall s)) = dm_sequence s" for alive
    using same_jobs_ensure [of s alive conn now wall] by (simp add: same_jobs_def)
  show "dm_sequence (worker_begin w j alive conn now wall s) = dm_sequence s"
    using ensure [of alive] by (cases "ensure_client alive conn now wall s") (auto simp: worker_begin_def split: bool.split)
  show "dm_sequence (worker_idle w due alive conn now wall s) = dm_sequence s"
    by (simp add: worker_idle_def ensure)
  show "dm_sequence (worker_finish w j r alive timing wall s) = dm_sequence s"
    using job_outcome_jobs [of j r s alive wall] by (simp add: worker_finish_def Let_def same_jobs_def)
qed

lemma accounted_step:
  assumes "accounted s" "manager_step b s s'"
  shows "accounted s'"
  using assms(2,1)
proof cases
  case (submit kind priority now)
  then have "s' = enter_job (new_job priority kind now s) s" by (auto simp: submit_def split: if_splits)
  then show ?thesis using assms(1) by (simp add: accounted_def places_enter)
next
  case (stop_begin now)
  let ?t = "s\<lparr>dm_stopping := True\<rparr>"
  have "places ?t = places s" "dm_sequence ?t = dm_sequence s" by (simp_all add: places_def)
  then show ?thesis using stop_begin assms(1) places_enter [of transaction "''shutdown''" now ?t]
    by (simp add: accounted_def stop_begin_def Let_def)
next
  case (check w)
  then have "places (worker_check w s) = places s"
    by (simp add: worker_check_def places_phase_idle)
  then show ?thesis using check assms(1) by (simp add: accounted_def)
next
  case (command w j)
  have "places (worker_command j s) = places s" by (simp add: places_def worker_command_def)
  then show ?thesis using command assms(1) by (simp add: accounted_def)
next
  case stop_end
  have "places (stop_end s) = places s" by (simp add: places_def stop_end_def)
  then show ?thesis using stop_end assms(1) by (simp add: accounted_def)
qed (use assms(1) in \<open>simp_all add: accounted_def places_put places_idle accounted_take accounted_begin accounted_finish
    accounted_drain sequence_kept_link\<close>)

lemma accounted_new: "accounted new_manager"
  by (simp add: accounted_def places_def new_manager_def)

lemma accounted_reach: "manager_reaches b s \<Longrightarrow> accounted s"
  by (rule reach_invariant) (auto intro: accounted_new accounted_step)

text \<open>A job that is queued has not been settled, so draining need not ask.\<close>

lemma queued_not_settled:
  assumes "manager_reaches b s" "j \<in> set (dm_queue s)"
  shows "jb_sequence j \<notin> fst ` set (dm_futures s)"
proof
  assume settled: "jb_sequence j \<in> fst ` set (dm_futures s)"
  have "distinct (map jb_sequence (dm_submitting s) @ map jb_sequence (dm_queue s) @ concat (map held (dm_workers s)) @
      map fst (dm_futures s))"
    using mset_eq_imp_distinct_iff [of _ "[1..<Suc (dm_sequence s)]"] accounted_reach [OF assms(1)] distinct_upt
    by (simp only: accounted_def places_def mset_append add.assoc)
  then show False using settled assms(2) by auto
qed

section \<open>One worker at a time\<close>

definition alive_at :: "phase list \<Rightarrow> nat \<Rightarrow> bool" where
  "alive_at ws w \<longleftrightarrow> w < length ws \<and> ws ! w \<noteq> Ended"

definition one_alive :: "'v manager \<Rightarrow> bool" where
  "one_alive s \<longleftrightarrow>
     (\<forall>w. alive_at (dm_workers s) w \<longrightarrow> dm_thread s = Some w) \<and> (\<forall>w. dm_thread s = Some w \<longrightarrow> w < length (dm_workers s))"

lemma alive_at_update: "alive_at ws w \<Longrightarrow> alive_at (ws[w := ph]) v \<Longrightarrow> alive_at ws v"
  by (cases "v = w") (simp_all add: alive_at_def)

lemma alive_at_snoc: "alive_at (ws @ [ph]) v \<Longrightarrow> alive_at ws v \<or> v = length ws"
  by (auto simp: alive_at_def nth_append split: if_splits)

lemma one_aliveI:
  "(\<And>w. alive_at (dm_workers s) w \<Longrightarrow> dm_thread s = Some w) \<Longrightarrow>
   (\<And>w. dm_thread s = Some w \<Longrightarrow> w < length (dm_workers s)) \<Longrightarrow> one_alive s"
  unfolding one_alive_def by blast

lemma one_aliveD: "one_alive s \<Longrightarrow> alive_at (dm_workers s) w \<Longrightarrow> dm_thread s = Some w"
  unfolding one_alive_def by blast

lemma one_alive_bound: "one_alive s \<Longrightarrow> dm_thread s = Some w \<Longrightarrow> w < length (dm_workers s)"
  unfolding one_alive_def by blast

lemma one_alive_kept: "one_alive s \<Longrightarrow> dm_workers t = dm_workers s \<Longrightarrow> dm_thread t = dm_thread s \<Longrightarrow> one_alive t"
  unfolding one_alive_def by simp

lemma remdups_adj_snoc:
  "distinct (remdups_adj (xs @ [x])) \<longleftrightarrow> distinct (remdups_adj xs) \<and> (x \<in> set xs \<longrightarrow> last xs = x)"
proof (cases xs rule: rev_cases)
  case (snoc ys y)
  then have "remdups_adj (xs @ [x]) = remdups_adj (ys @ [y]) @ (if y = x then [] else [x])"
    by (simp add: remdups_adj_append_two)
  then show ?thesis using snoc by (auto simp: remdups_adj_set)
qed simp

lemma one_alive_unique: "one_alive s \<Longrightarrow> alive_at (dm_workers s) w \<Longrightarrow> alive_at (dm_workers s) v \<Longrightarrow> v = w"
  using one_aliveD [of s w] one_aliveD [of s v] by simp

text \<open>A step of a live worker changes its phase and nothing else that \<open>one_alive\<close> reads.\<close>

definition moved :: "nat \<Rightarrow> 'v manager \<Rightarrow> 'v manager \<Rightarrow> bool" where
  "moved w s s' \<longleftrightarrow> (\<exists>ph. dm_workers s' = (dm_workers s)[w := ph]) \<and> dm_thread s' = dm_thread s"

lemma moved_phase [simp]: "dm_workers t = dm_workers s \<Longrightarrow> dm_thread t = dm_thread s \<Longrightarrow> moved w s (set_phase w ph t)"
  unfolding moved_def set_phase_def by (intro conjI exI [of _ ph]) simp_all

lemma moved_refl [simp]: "dm_workers t = dm_workers s \<Longrightarrow> dm_thread t = dm_thread s \<Longrightarrow> moved w s t"
  unfolding moved_def by (intro conjI exI [of _ "dm_workers s ! w"]) simp_all

lemma one_alive_moved:
  assumes "one_alive s" "alive_at (dm_workers s) w" "moved w s s'"
  shows "one_alive s'"
proof (rule one_aliveI)
  obtain ph where ph: "dm_workers s' = (dm_workers s)[w := ph]" "dm_thread s' = dm_thread s"
    using assms(3) unfolding moved_def by blast
  show "dm_thread s' = Some v" if "alive_at (dm_workers s') v" for v
    using one_aliveD [OF assms(1)] alive_at_update [OF assms(2)] that ph by metis
  show "v < length (dm_workers s')" if "dm_thread s' = Some v" for v
    using one_alive_bound [OF assms(1)] that ph by simp
qed

lemma threads [simp]:
  "dm_thread (resolve n r s) = dm_thread s" "dm_thread (close_client s) = dm_thread s"
  "dm_thread (set_phase w ph s) = dm_thread s"
  by (simp_all add: resolve_def close_client_def set_phase_def)

lemma moved_ensure:
  "dm_workers (snd (ensure_client alive conn now wall s)) = dm_workers s"
  "dm_thread (snd (ensure_client alive conn now wall s)) = dm_thread s"
  using same_jobs_ensure [of s alive conn now wall] by (simp_all add: same_jobs_def)

lemma moved_outcome:
  "dm_workers (job_outcome j r alive wall s) = dm_workers s" "dm_thread (job_outcome j r alive wall s) = dm_thread s"
  using job_outcome_jobs [of j r s alive wall] by (simp_all add: same_jobs_def)

lemma moved_worker:
  "moved w s (worker_check w s)" "moved w s (worker_idle w due alive conn now wall s)" "moved w s (worker_take w s)"
  "moved w s (worker_begin w j alive conn now wall s)" "moved w s (worker_command j s)"
  "moved w s (worker_finish w j r alive timing wall s)" "moved w s (worker_drain w s)"
proof -
  show "moved w s (worker_check w s)" by (simp add: worker_check_def)
  show "moved w s (worker_idle w due alive conn now wall s)" by (simp add: worker_idle_def moved_ensure)
  show "moved w s (worker_take w s)" by (auto simp: worker_take_def Let_def split: option.split)
  show "moved w s (worker_begin w j alive conn now wall s)"
    using moved_ensure [of alive conn now wall s]
    by (cases "ensure_client alive conn now wall s") (auto simp: worker_begin_def split: bool.split)
  show "moved w s (worker_command j s)" by (simp add: worker_command_def)
  show "moved w s (worker_finish w j r alive timing wall s)" by (simp add: worker_finish_def Let_def moved_outcome)
  show "moved w s (worker_drain w s)" by (auto simp: worker_drain_def split: option.split)
qed

lemma one_alive_start:
  assumes "one_alive s"
  shows "one_alive (start s)"
proof (cases "\<exists>w. dm_thread s = Some w \<and> dm_workers s ! w \<noteq> Ended")
  case True
  then show ?thesis using assms by (auto simp: start_def)
next
  case False
  have none: "\<not> alive_at (dm_workers s) v" for v
    using one_aliveD [OF assms, of v] False by (auto simp: alive_at_def)
  have fresh: "dm_workers (start s) = dm_workers s @ [At_head]" "dm_thread (start s) = Some (length (dm_workers s))"
    using False by (auto simp: start_def split: option.split)
  show ?thesis
    by (rule one_aliveI) (use none alive_at_snoc fresh in \<open>auto\<close>)
qed

lemma one_alive_step:
  assumes "one_alive s" "manager_step False s s'"
  shows "one_alive s'"
proof -
  note worker = one_alive_moved [OF assms(1)]
  show ?thesis
    using assms(2)
  proof cases
    case (submit kind priority now)
    then have "s' = enter_job (new_job priority kind now s) s" by (auto simp: submit_def split: if_splits)
    then show ?thesis by (intro one_alive_kept [OF assms(1)]) (simp_all add: enter_job_def)
  next
    case (put j)
    then show ?thesis by (intro one_alive_kept [OF assms(1)]) (simp_all add: put_def)
  next
    case start
    then show ?thesis using one_alive_start [OF assms(1)] by simp
  next
    case (stop_begin now)
    then show ?thesis by (intro one_alive_kept [OF assms(1)]) (simp_all add: stop_begin_def enter_job_def Let_def)
  next
    case stop_end
    have "\<not> alive_at (dm_workers s) w" for w
      using stop_end(2) one_aliveD [OF assms(1), of w] by (auto simp: alive_at_def)
    then show ?thesis using stop_end(1) by (intro one_aliveI) (simp_all add: stop_end_def)
  next
    case (check w)
    show ?thesis unfolding check(1) by (rule worker [of w]) (simp_all add: alive_at_def check moved_worker)
  next
    case (idle w due alive conn now wall)
    show ?thesis unfolding idle(1) by (rule worker [of w]) (simp_all add: alive_at_def idle moved_worker)
  next
    case (take w)
    show ?thesis unfolding take(1) by (rule worker [of w]) (simp_all add: alive_at_def take moved_worker)
  next
    case (enter w j alive conn now wall)
    show ?thesis unfolding enter(1) by (rule worker [of w]) (simp_all add: alive_at_def enter moved_worker)
  next
    case (command w j)
    show ?thesis unfolding command(1) by (rule worker [of w]) (simp_all add: alive_at_def command moved_worker)
  next
    case (finish w j r alive timing wall)
    show ?thesis unfolding finish(1) by (rule worker [of w]) (simp_all add: alive_at_def finish moved_worker)
  next
    case (drain w)
    show ?thesis unfolding drain(1) by (rule worker [of w]) (simp_all add: alive_at_def drain moved_worker)
  qed
qed

section \<open>Isolation\<close>

text \<open>The numbers a manager still has to serve, apart from the job being served.\<close>

definition waiting :: "'v manager \<Rightarrow> nat list" where
  "waiting s = map jb_sequence (dm_submitting s) @ map jb_sequence (dm_queue s)"

lemma accounted_distinct:
  assumes "accounted s" "alive_at (dm_workers s) w" "held (dm_workers s ! w) = [n]"
  shows "n \<in> {1..dm_sequence s} \<and> n \<notin> set (waiting s)"
proof -
  let ?others = "concat (map held ((dm_workers s)[w := Ended])) @ map fst (dm_futures s)"
  have "mset (concat (map held (dm_workers s))) = mset (concat (map held ((dm_workers s)[w := Ended]))) + {#n#}"
    using held_update [of w "dm_workers s" Ended] assms(2,3) by (simp add: alive_at_def)
  then have places: "mset (waiting s @ ?others @ [n]) = mset [1..<Suc (dm_sequence s)]"
    using assms(1) by (simp add: accounted_def places_def waiting_def ac_simps)
  then have "distinct (waiting s @ ?others @ [n])" using mset_eq_imp_distinct_iff distinct_upt by blast
  moreover have "set (waiting s @ ?others @ [n]) = set [1..<Suc (dm_sequence s)]" by (rule mset_eq_setD [OF places])
  then have "n \<in> set [1..<Suc (dm_sequence s)]" by (metis in_set_conv_decomp append_assoc)
  then have "n \<in> {1..dm_sequence s}" by auto
  ultimately show ?thesis by simp
qed

text \<open>A job that has not begun is not in the log of commands; of a job being served they are its end.\<close>

fun fits :: "nat list \<Rightarrow> phase \<Rightarrow> bool" where
  "fits l (Holding j) \<longleftrightarrow> jb_sequence j \<notin> set l"
| "fits l (Serving j) \<longleftrightarrow> jb_sequence j \<in> set l \<longrightarrow> last l = jb_sequence j"
| "fits l _ \<longleftrightarrow> True"

definition isolated :: "'v manager \<Rightarrow> bool" where
  "isolated s \<longleftrightarrow>
     distinct (remdups_adj (dm_log s)) \<and> set (dm_log s) \<subseteq> {1..dm_sequence s} \<and>
     set (dm_log s) \<inter> set (waiting s) = {} \<and> list_all (fits (dm_log s)) (dm_workers s)"

lemma isolated_parts:
  assumes "isolated s"
  shows "distinct (remdups_adj (dm_log s))" "set (dm_log s) \<subseteq> {1..dm_sequence s}"
    "n \<in> set (waiting s) \<Longrightarrow> n \<notin> set (dm_log s)" "w < length (dm_workers s) \<Longrightarrow> fits (dm_log s) (dm_workers s ! w)"
  using assms by (auto simp: isolated_def list_all_length)

lemma isolated_moved:
  assumes "isolated s" "dm_log s' = dm_log s" "dm_sequence s' = dm_sequence s" "set (waiting s') \<subseteq> set (waiting s)"
    "dm_workers s' = (dm_workers s)[w := ph]" "fits (dm_log s) ph"
  shows "isolated s'"
proof -
  have "list_all (fits (dm_log s)) ((dm_workers s)[w := ph])"
    using assms(1,6) set_update_subset_insert [of "dm_workers s" w ph] by (auto simp: isolated_def list_all_iff)
  then show ?thesis using assms by (auto simp: isolated_def)
qed

lemma waiting_kept [simp]:
  "waiting (set_phase w ph s) = waiting s" "waiting (resolve n r s) = waiting s" "waiting (close_client s) = waiting s"
  "waiting (s\<lparr>dm_metrics := m\<rparr>) = waiting s"
  by (simp_all add: waiting_def set_phase_def resolve_def close_client_def)

lemma log_kept [simp]:
  "dm_log (set_phase w ph s) = dm_log s" "dm_log (resolve n r s) = dm_log s" "dm_log (close_client s) = dm_log s"
  by (simp_all add: set_phase_def resolve_def close_client_def)

lemma phase_workers [simp]: "dm_workers (set_phase w ph s) = (dm_workers s)[w := ph]"
  by (simp add: set_phase_def)

lemma waiting_same: "same_jobs s s' \<Longrightarrow> waiting s' = waiting s \<and> dm_log s' = dm_log s \<and> dm_sequence s' = dm_sequence s \<and>
    dm_workers s' = dm_workers s"
  by (simp add: same_jobs_def waiting_def)

lemma waiting_pop:
  assumes "pop_job (dm_queue s) = Some (j, q)"
  shows "set (waiting (s\<lparr>dm_queue := q\<rparr>)) \<subseteq> set (waiting s)" "jb_sequence j \<in> set (waiting s)"
  using pop_job_Some(1,2) [OF assms] set_remove1_subset [of j "dm_queue s"] by (auto simp: waiting_def)

lemma isolated_take:
  assumes "isolated s"
  shows "isolated (worker_take w s)"
proof (cases "pop_job (dm_queue s)")
  case None
  then show ?thesis using assms by (simp add: worker_take_def)
next
  case (Some jq)
  obtain j q where jq: "pop_job (dm_queue s) = Some (j, q)" using Some by (cases jq) simp
  note pop = waiting_pop [OF jq]
  show ?thesis
  proof (cases "jb_kind j = ''shutdown''")
    case True
    then have "worker_take w s = set_phase w Draining (close_client (resolve (jb_sequence j) Returned_none (s\<lparr>dm_queue := q\<rparr>)))"
      by (simp add: worker_take_def jq Let_def)
    then show ?thesis using pop by (intro isolated_moved [OF assms, where w = w and ph = Draining]) simp_all
  next
    case False
    then have "worker_take w s = set_phase w (Holding j) (s\<lparr>dm_queue := q\<rparr>)" by (simp add: worker_take_def jq Let_def)
    then show ?thesis using pop isolated_parts(3) [OF assms]
      by (intro isolated_moved [OF assms, where w = w and ph = "Holding j"]) simp_all
  qed
qed

lemma isolated_begin:
  assumes "isolated s" "w < length (dm_workers s)" "dm_workers s ! w = Holding j"
  shows "isolated (worker_begin w j alive conn now wall s)"
proof -
  obtain ok s1 where e: "ensure_client alive conn now wall s = (ok, s1)" by fastforce
  have same: "waiting s1 = waiting s" "dm_log s1 = dm_log s" "dm_sequence s1 = dm_sequence s" "dm_workers s1 = dm_workers s"
    using waiting_same [OF same_jobs_ensure [of s alive conn now wall]] by (simp_all add: e)
  have "jb_sequence j \<notin> set (dm_log s)" using isolated_parts(4) [OF assms(1,2)] assms(3) by simp
  then have serve: "isolated (set_phase w (Serving j) s1)"
    using same by (intro isolated_moved [OF assms(1), where w = w and ph = "Serving j"]) simp_all
  have skip: "isolated (set_phase w At_head (resolve (jb_sequence j) (Raised (unavailable s1)) s1))"
    using same by (intro isolated_moved [OF assms(1), where w = w and ph = At_head]) simp_all
  show ?thesis using serve skip by (cases ok) (simp_all add: worker_begin_def e)
qed

lemma isolated_finish:
  assumes "isolated s"
  shows "isolated (worker_finish w j r alive timing wall s)"
  using waiting_same [OF job_outcome_jobs [of j r s alive wall]]
  by (intro isolated_moved [OF assms, where w = w and ph = At_head]) (simp_all add: worker_finish_def Let_def)

lemma isolated_drain:
  assumes "isolated s"
  shows "isolated (worker_drain w s)"
proof (cases "pop_job (dm_queue s)")
  case None
  then show ?thesis by (intro isolated_moved [OF assms, where w = w and ph = Ended]) (simp_all add: worker_drain_def)
next
  case (Some jq)
  obtain j q where jq: "pop_job (dm_queue s) = Some (j, q)" using Some by (cases jq) simp
  show ?thesis
    using waiting_pop(1) [OF jq]
    by (intro isolated_moved [OF assms, where w = "length (dm_workers s)" and ph = Ended]) (simp_all add: worker_drain_def jq list_update_beyond)
qed

lemma isolated_idle:
  assumes "isolated s"
  shows "isolated (worker_idle w due alive conn now wall s)"
  using waiting_same [OF same_jobs_ensure [of s False conn now wall]]
  by (intro isolated_moved [OF assms, where w = w and ph = At_head]) (simp_all add: worker_idle_def)

lemma isolated_enter:
  assumes "isolated s"
  shows "isolated (enter_job (new_job p k now s) s)"
proof -
  have "set (dm_log s) \<subseteq> {1..Suc (dm_sequence s)}" "Suc (dm_sequence s) \<notin> set (dm_log s)"
    using isolated_parts(2) [OF assms] by auto
  then show ?thesis using assms by (auto simp: isolated_def enter_job_def new_job_def waiting_def)
qed

lemma isolated_command:
  assumes "isolated s" "accounted s" "one_alive s" "w < length (dm_workers s)" "dm_workers s ! w = Serving j"
  shows "isolated (worker_command j s)"
proof -
  have alive: "alive_at (dm_workers s) w" using assms(4,5) by (simp add: alive_at_def)
  have n: "jb_sequence j \<in> {1..dm_sequence s} \<and> jb_sequence j \<notin> set (waiting s)"
    using accounted_distinct [OF assms(2) alive] assms(5) by simp
  have last: "jb_sequence j \<in> set (dm_log s) \<longrightarrow> last (dm_log s) = jb_sequence j"
    using isolated_parts(4) [OF assms(1,4)] assms(5) by simp
  have "fits (dm_log s @ [jb_sequence j]) (dm_workers s ! v)" if "v < length (dm_workers s)" for v
  proof (cases "v = w")
    case False
    then have "dm_workers s ! v = Ended" using one_alive_unique [OF assms(3) alive, of v] that by (auto simp: alive_at_def)
    then show ?thesis by simp
  qed (simp add: assms(5))
  then show ?thesis
    using assms(1) n last by (auto simp: isolated_def worker_command_def remdups_adj_snoc waiting_def list_all_length)
qed

lemma isolated_step:
  assumes "isolated s" "accounted s" "one_alive s" "manager_step b s s'"
  shows "isolated s'"
  using assms(4)
proof cases
  case (submit kind priority now)
  then have "s' = enter_job (new_job priority kind now s) s" by (auto simp: submit_def split: if_splits)
  then show ?thesis using isolated_enter [OF assms(1)] by simp
next
  case (put j)
  then have "set (waiting (put j s)) \<subseteq> set (waiting s)"
    using set_remove1_subset [of j "dm_submitting s"] by (auto simp: waiting_def put_def)
  then show ?thesis
    unfolding put(1) by (intro isolated_moved [OF assms(1), where w = "length (dm_workers s)" and ph = Ended])
      (simp_all add: put_def list_update_beyond)
next
  case start
  then show ?thesis using assms(1) by (auto simp: isolated_def start_def waiting_def split: option.split)
next
  case (stop_begin now)
  have "isolated (s\<lparr>dm_stopping := True\<rparr>)" using assms(1) by (simp add: isolated_def waiting_def)
  from isolated_enter [OF this] show ?thesis unfolding stop_begin by (simp add: stop_begin_def Let_def)
next
  case stop_end
  then show ?thesis using assms(1) by (simp add: isolated_def waiting_def stop_end_def)
next
  case (check w)
  have "isolated (set_phase w ph t)" if "fits (dm_log s) ph" "t = s \<or> t = close_client s" for ph t
    using that by (intro isolated_moved [OF assms(1), where w = w and ph = ph]) auto
  then show ?thesis unfolding check(1) worker_check_def by simp
next
  case (idle w due alive conn now wall)
  then show ?thesis using isolated_idle [OF assms(1)] by simp
next
  case (take w)
  then show ?thesis using isolated_take [OF assms(1)] by simp
next
  case (enter w j alive conn now wall)
  then show ?thesis using isolated_begin [OF assms(1)] by simp
next
  case (command w j)
  then show ?thesis using isolated_command [OF assms(1-3)] by simp
next
  case (finish w j r alive timing wall)
  then show ?thesis using isolated_finish [OF assms(1)] by simp
next
  case (drain w)
  then show ?thesis using isolated_drain [OF assms(1)] by simp
qed

lemma patient_reach: "manager_reaches False s \<Longrightarrow> one_alive s \<and> isolated s"
proof (rule reach_invariant [of False s "\<lambda>s. accounted s \<and> one_alive s \<and> isolated s", THEN conjunct2])
  show "accounted new_manager \<and> one_alive new_manager \<and> isolated new_manager"
    using accounted_new by (simp add: one_alive_def isolated_def new_manager_def waiting_def alive_at_def)
qed (auto intro: accounted_step one_alive_step isolated_step)

section \<open>Bounds\<close>

definition bounded :: "'v manager \<Rightarrow> bool" where
  "bounded s \<longleftrightarrow> backoff_start \<le> dm_backoff s \<and> dm_backoff s \<le> backoff_max \<and>
     length (sm_timings (dm_metrics s)) \<le> capacity \<and> sm_failed (dm_metrics s) \<le> sm_jobs (dm_metrics s)"

lemma bounded_kept [simp]:
  "bounded (set_phase w ph s) = bounded s" "bounded (resolve n r s) = bounded s" "bounded (close_client s) = bounded s"
  "bounded (set_link st err s) = bounded s" "bounded (s\<lparr>dm_queue := q\<rparr>) = bounded s"
  "bounded (s\<lparr>dm_next_attempt := a\<rparr>) = bounded s" "bounded (s\<lparr>dm_last_success := l\<rparr>) = bounded s"
  "bounded (add_reconnect s) = bounded s" "bounded (enter_job j s) = bounded s" "bounded (put j s) = bounded s"
  "bounded (start s) = bounded s" "bounded (stop_end s) = bounded s" "bounded (s\<lparr>dm_stopping := x\<rparr>) = bounded s"
  "bounded (worker_command j s) = bounded s"
  by (simp_all add: bounded_def set_phase_def resolve_def close_client_def set_link_def add_reconnect_def enter_job_def
      put_def start_def stop_end_def worker_command_def split: option.split)

lemma bounded_link [simp]:
  "bounded s \<Longrightarrow> bounded (back_off now s)" "bounded s \<Longrightarrow> bounded (connected wall s)"
  "bounded (drop_client err s) = bounded s" "bounded (lost_client s) = bounded s"
  by (simp_all add: drop_client_def lost_client_def connected_def)
    (auto simp: bounded_def back_off_def backoff_start_def backoff_max_def Let_def)

lemma bounded_failed [simp]: "bounded s \<Longrightarrow> bounded (connect_failed now e s)"
  by (cases e) simp_all

lemma bounded_ensure: "bounded s \<Longrightarrow> bounded (snd (ensure_client alive conn now wall s))"
  by (simp add: ensure_client_def Let_def split: sum.split)

lemma bounded_outcome: "bounded s \<Longrightarrow> bounded (job_outcome j r alive wall s)"
  by (cases "(j, r, alive, wall, s)" rule: job_outcome.cases) (simp_all add: Let_def)

lemma bounded_timing: "bounded s \<Longrightarrow> bounded (s\<lparr>dm_metrics := record_timing t failed (dm_metrics s)\<rparr>)"
  by (simp add: bounded_def record_timing_def Let_def)

lemma bounded_step:
  assumes "bounded s" "manager_step b s s'"
  shows "bounded s'"
  using assms(2,1)
proof cases
  case (submit kind priority now)
  then have "s' = enter_job (new_job priority kind now s) s" by (auto simp: submit_def split: if_splits)
  then show ?thesis using assms(1) by simp
next
  case (enter w j alive conn now wall)
  then show ?thesis using bounded_ensure [OF assms(1), of alive conn now wall]
    by (cases "ensure_client alive conn now wall s") (auto simp: worker_begin_def split: bool.split)
qed (use assms(1) in \<open>auto simp: stop_begin_def worker_check_def worker_idle_def worker_take_def worker_finish_def
    worker_drain_def bounded_ensure bounded_outcome bounded_timing Let_def split: option.split\<close>)

lemma bounded_new: "bounded new_manager"
  by (simp add: bounded_def new_manager_def backoff_start_def backoff_max_def no_metrics_def)

lemma bounded_reach: "manager_reaches b s \<Longrightarrow> bounded s"
  by (rule reach_invariant) (auto intro: bounded_new bounded_step)

section \<open>Draining\<close>

definition shut_down :: "'v outcome" where
  "shut_down = Raised (SwitchOpsError ''SwitchOps is shutting down.'')"

lemma drain_run:
  assumes "w < length (dm_workers s)"
  shows "\<exists>js. mset js = mset (dm_queue s) \<and> sorted_wrt runs_before js \<and>
    (worker_drain w ^^ Suc (length (dm_queue s))) s =
      set_phase w Ended (s\<lparr>dm_queue := [], dm_futures := dm_futures s @ map (\<lambda>j. (jb_sequence j, shut_down)) js\<rparr>)"
  using assms
proof (induction "length (dm_queue s)" arbitrary: s)
  case 0
  then show ?case by (auto simp: worker_drain_def set_phase_def)
next
  case (Suc n)
  then have "dm_queue s \<noteq> []" by auto
  then obtain j q where jq: "pop_job (dm_queue s) = Some (j, q)"
    by (cases "pop_job (dm_queue s)") auto
  note pop = pop_job_Some [OF jq]
  let ?t = "resolve (jb_sequence j) shut_down (s\<lparr>dm_queue := q\<rparr>)"
  have t: "worker_drain w s = ?t" by (simp add: worker_drain_def jq shut_down_def)
  have q: "n = length (dm_queue ?t)" "w < length (dm_workers ?t)" "dm_queue ?t = q" "dm_workers ?t = dm_workers s"
    using Suc.hyps(2) Suc.prems pop(5) by (simp_all add: resolve_def)
  obtain js where js: "mset js = mset q" "sorted_wrt runs_before js"
    "(worker_drain w ^^ Suc n) ?t =
       set_phase w Ended (?t\<lparr>dm_queue := [], dm_futures := dm_futures ?t @ map (\<lambda>j. (jb_sequence j, shut_down)) js\<rparr>)"
    using Suc.hyps(1) [OF q(1,2)] q(1,3) by auto
  have least: "runs_before j k" if "k \<in> set js" for k
    using pop(2,3) that mset_eq_setD [OF js(1)] set_remove1_subset [of j "dm_queue s"] by blast
  have "(worker_drain w ^^ Suc (Suc n)) s = (worker_drain w ^^ Suc n) ?t"
    by (simp only: funpow_Suc_right o_apply t)
  also have "\<dots> = set_phase w Ended (s\<lparr>dm_queue := [],
      dm_futures := dm_futures s @ map (\<lambda>j. (jb_sequence j, shut_down)) (j # js)\<rparr>)"
    unfolding js(3) by (simp add: resolve_def set_phase_def)
  finally have "(worker_drain w ^^ Suc (length (dm_queue s))) s = \<dots>" using Suc.hyps(2) by simp
  moreover have "mset (j # js) = mset (dm_queue s)" "sorted_wrt runs_before (j # js)" using js(1,2) pop(4) least by simp_all
  ultimately show ?case by blast
qed

section \<open>A run\<close>

definition demo_job :: "nat \<Rightarrow> string \<Rightarrow> job" where
  "demo_job n kind = \<lparr>jb_priority = diagnostic, jb_sequence = n, jb_kind = kind, jb_submitted = 0\<rparr>"

definition demo_serving :: "unit manager" where
  "demo_serving = worker_command (demo_job 1 ''poe'')
     (worker_begin 0 (demo_job 1 ''poe'') True (Inr ()) 0 0 (worker_take 0 (worker_check 0 (start
       (put (demo_job 1 ''poe'') (enter_job (demo_job 1 ''poe'') new_manager))))))"

lemma demo_run: "manager_reaches b demo_serving" "dm_workers demo_serving = [Serving (demo_job 1 ''poe'')]"
  "dm_log demo_serving = [1]" "dm_sequence demo_serving = 1" "dm_queue demo_serving = []" "dm_thread demo_serving = Some 0"
  "dm_stopping demo_serving = False"
proof -
  let ?j = "demo_job 1 ''poe''"
  let ?s1 = "enter_job ?j new_manager :: unit manager"
  let ?s2 = "put ?j ?s1" let ?s3 = "start ?s2" let ?s4 = "worker_check 0 ?s3" let ?s5 = "worker_take 0 ?s4"
  let ?s6 = "worker_begin 0 ?j True (Inr ()) 0 0 ?s5"
  note defs = enter_job_def new_manager_def put_def start_def worker_check_def worker_take_def pop_job_def set_phase_def
    demo_job_def worker_begin_def ensure_client_def lost_client_def connected_def set_link_def worker_command_def Let_def
    no_metrics_def
  have "submit ''poe'' diagnostic 0 (new_manager :: unit manager) = Inr ?s1"
    by (simp add: submit_def new_job_def new_manager_def demo_job_def)
  then have r1: "manager_reaches b ?s1" by (intro manager_reaches.step [OF manager_reaches.init] manager_step.submit)
  have r2: "manager_reaches b ?s2" by (rule manager_reaches.step [OF r1 manager_step.put]) (simp add: defs)
  have r3: "manager_reaches b ?s3" by (rule manager_reaches.step [OF r2 manager_step.start])
  have r4: "manager_reaches b ?s4" by (rule manager_reaches.step [OF r3 manager_step.check]) (simp_all add: defs)
  have r5: "manager_reaches b ?s5" by (rule manager_reaches.step [OF r4 manager_step.take]) (simp_all add: defs)
  have r6: "manager_reaches b ?s6" by (rule manager_reaches.step [OF r5 manager_step.enter]) (simp_all add: defs)
  show "manager_reaches b demo_serving" unfolding demo_serving_def
    by (rule manager_reaches.step [OF r6 manager_step.command [where w = 0]]) (simp_all add: defs)
  show "dm_workers demo_serving = [Serving ?j]" "dm_log demo_serving = [1]" "dm_sequence demo_serving = 1"
    "dm_queue demo_serving = []" "dm_thread demo_serving = Some 0" "dm_stopping demo_serving = False"
    by (simp_all add: demo_serving_def defs)
qed

text \<open>When \<open>stop\<close> gives up waiting for a worker in the middle of a job and the session is started again, a
  second worker serves beside the first.\<close>

lemma impatient_stop_second_worker:
  "\<exists>s :: unit manager. manager_reaches True s \<and> dm_workers s = [Serving (demo_job 1 ''poe''), At_head] \<and> \<not> dm_stopping s"
proof -
  let ?s1 = "stop_begin 0 demo_serving" let ?s2 = "stop_end ?s1" let ?s3 = "start ?s2"
  have r1: "manager_reaches True ?s1" by (rule manager_reaches.step [OF demo_run(1) manager_step.stop_begin])
  have r2: "manager_reaches True ?s2" by (rule manager_reaches.step [OF r1 manager_step.stop_end]) simp
  have r3: "manager_reaches True ?s3" by (rule manager_reaches.step [OF r2 manager_step.start])
  then show ?thesis
    by (intro exI [of _ ?s3]) (simp add: start_def stop_end_def stop_begin_def enter_job_def demo_run Let_def)
qed

section \<open>Properties\<close>

text \<open>C23: However the threads interleave, every job that was accepted is in exactly one place: being submitted,
  queued, in the hands of a worker, or settled, so no future is settled twice and none is lost. The backoff
  stays between 2 and 60 seconds and the ring of timings holds at most 200 entries.\<close>

theorem every_job_in_one_place:
  assumes "manager_reaches b s"
  shows "distinct (waiting s @ concat (map held (dm_workers s)) @ map fst (dm_futures s)) \<and>
    set (waiting s) \<union> set (concat (map held (dm_workers s))) \<union> set (map fst (dm_futures s)) = {1..dm_sequence s} \<and>
    2 \<le> dm_backoff s \<and> dm_backoff s \<le> 60 \<and> length (sm_timings (dm_metrics s)) \<le> 200 \<and>
    sm_failed (dm_metrics s) \<le> sm_jobs (dm_metrics s)"
proof -
  let ?all = "waiting s @ concat (map held (dm_workers s)) @ map fst (dm_futures s)"
  have all: "mset ?all = mset [1..<Suc (dm_sequence s)]"
    using accounted_reach [OF assms] by (simp add: accounted_def places_def waiting_def ac_simps)
  have "distinct ?all" using mset_eq_imp_distinct_iff [OF all] distinct_upt by blast
  moreover have "set ?all = {1..dm_sequence s}"
    using mset_eq_setD [OF all] by (simp only: set_upt atLeastLessThanSuc_atLeastAtMost)
  ultimately show ?thesis
    using bounded_reach [OF assms] by (simp add: bounded_def backoff_start_def backoff_max_def capacity_def Un_assoc)
qed

theorem every_job_in_one_place_witness:
  "distinct (waiting demo_serving @ concat (map held (dm_workers demo_serving)) @ map fst (dm_futures demo_serving)) \<and>
   dm_workers demo_serving = [Serving (demo_job 1 ''poe'')]"
  using every_job_in_one_place [OF demo_run(1)] demo_run(2) by simp

text \<open>C24: In every run in which no call of \<open>stop\<close> gives up waiting, at most one worker is alive, and in the
  log of the commands that reached the switch the commands of one job are never interrupted by those of
  another: a telemetry job cannot land between a change and its verification. The condition is needed:
  \<open>stop\<close> gives up after six seconds, and a start after that makes a second worker
  (\<open>impatient_stop_second_worker\<close>).\<close>

theorem jobs_never_interleave:
  assumes "manager_reaches False s"
  shows "distinct (remdups_adj (dm_log s)) \<and> card {w. alive_at (dm_workers s) w} \<le> 1 \<and> set (dm_log s) \<subseteq> {1..dm_sequence s}"
proof -
  have "{w. alive_at (dm_workers s) w} \<subseteq> set_option (dm_thread s)"
    using patient_reach [OF assms] one_aliveD by fastforce
  moreover have "card (set_option (dm_thread s)) \<le> 1" "finite (set_option (dm_thread s))"
    by (cases "dm_thread s"; simp)+
  ultimately have "card {w. alive_at (dm_workers s) w} \<le> 1"
    by (meson card_mono le_trans)
  then show ?thesis using patient_reach [OF assms] by (simp add: isolated_def)
qed

theorem jobs_never_interleave_witness:
  "distinct (remdups_adj (dm_log demo_serving)) \<and> dm_log demo_serving = [1]"
  using jobs_never_interleave [OF demo_run(1)] demo_run(3) by simp

text \<open>C25: Draining ends. After one step for each queued job and one more, the worker has ended, the queue is
  empty, and exactly the queued jobs have been settled, in the order of their priority, with the error that
  SwitchOps is shutting down: no caller is left waiting on the queue.\<close>

theorem drain_settles_queue:
  assumes "w < length (dm_workers s)" "dm_workers s ! w = Draining"
    and "s' = (worker_drain w ^^ Suc (length (dm_queue s))) s"
  shows "dm_workers s' ! w = Ended \<and> dm_queue s' = [] \<and>
    (\<exists>js. mset js = mset (dm_queue s) \<and> sorted_wrt runs_before js \<and>
      dm_futures s' = dm_futures s @ map (\<lambda>j. (jb_sequence j, shut_down)) js) \<and>
    dm_submitting s' = dm_submitting s \<and> dm_log s' = dm_log s"
  using drain_run [OF assms(1)] assms(1) unfolding assms(3) by (auto simp: set_phase_def)

definition demo_draining :: "unit manager" where
  "demo_draining = new_manager\<lparr>dm_queue := [demo_job 1 ''poe'', demo_job 2 ''logs''], dm_sequence := 2, dm_workers := [Draining]\<rparr>"

theorem drain_settles_queue_witness:
  "dm_workers ((worker_drain 0 ^^ 3) demo_draining) ! 0 = Ended \<and> dm_queue ((worker_drain 0 ^^ 3) demo_draining) = []"
  using drain_settles_queue [of 0 demo_draining, OF _ _ refl] by (simp add: demo_draining_def numeral_3_eq_3)

end
