(* ===== verification/Parse_Device.thy ===== *)
theory Parse_Device
  imports Topology_Names Parse_Neighbors
begin

text \<open>
  The parsers of what the device says of itself, under \<open>backend/app/parsers\<close>: \<open>cpu.py\<close>, \<open>memory.py\<close>,
  \<open>environment.py\<close>, \<open>version.py\<close>, \<open>inventory.py\<close>, \<open>vlans.py\<close>, \<open>logs.py\<close> and \<open>parse_running_config\<close> of
  \<open>config_parser.py\<close>. A dictionary with a fixed set of keys is a record whose fields are \<open>None\<close> where
  the key is absent. The \<open>raw\<close> copy of the input is left out; so is the limit of 4300 digits of
  \<open>int()\<close>. Shown: what a parser reports of an interface is in the text, in the order of the text.
\<close>

section \<open>CPU, memory, environment\<close>

record cpu_status =
  cpu_5sec :: "rat option"
  cpu_1min :: "rat option"
  cpu_5min :: "rat option"

definition cpu_rx :: rx where
  "cpu_rx = seqs [liti ''CPU utilization for five seconds:'', star sp, Grp 1 (plus1 dig), lit ''%/'', plus1 dig, lit ''%;'',
     star sp, liti ''one minute:'', star sp, Grp 2 (plus1 dig), lit ''%;'', star sp, liti ''five minutes:'', star sp,
     Grp 3 (plus1 dig), lit ''%'']"

definition group_num :: "groups \<Rightarrow> nat \<Rightarrow> nat" where
  "group_num g n = py_int (group_text g n)"

definition parse_cpu :: "string \<Rightarrow> cpu_status" where
  "parse_cpu text =
     (case rx_search cpu_rx text of
        None \<Rightarrow> \<lparr>cpu_5sec = None, cpu_1min = None, cpu_5min = None\<rparr>
      | Some g \<Rightarrow> \<lparr>cpu_5sec = Some (of_nat (group_num g 1)), cpu_1min = Some (of_nat (group_num g 2)),
                   cpu_5min = Some (of_nat (group_num g 3))\<rparr>)"

record memory_status =
  mem_processor_total :: "int option"
  mem_processor_used :: "int option"
  mem_processor_free :: "int option"
  mem_io_total :: "int option"
  mem_io_used :: "int option"
  mem_io_free :: "int option"

definition memory_rx :: "string \<Rightarrow> rx" where
  "memory_rx pool = seqs [lit pool, plus1 sp, plus1 nsp, plus1 sp, Grp 1 (plus1 dig), plus1 sp, Grp 2 (plus1 dig),
     plus1 sp, Grp 3 (plus1 dig)]"

definition pool_value :: "groups option \<Rightarrow> nat \<Rightarrow> int option" where
  "pool_value m n = map_option (\<lambda>g. int (group_num g n)) m"

definition parse_memory :: "string \<Rightarrow> memory_status" where
  "parse_memory text =
     (let proc = rx_search (memory_rx ''Processor'') text; io = rx_search (memory_rx ''I/O'') text in
      \<lparr>mem_processor_total = pool_value proc 1, mem_processor_used = pool_value proc 2,
       mem_processor_free = pool_value proc 3, mem_io_total = pool_value io 1, mem_io_used = pool_value io 2,
       mem_io_free = pool_value io 3\<rparr>)"

record environment_status =
  env_temperature :: "int option"
  env_state :: string
  env_yellow :: "int option"
  env_red :: "int option"
  env_power :: string

definition found_num :: "rx \<Rightarrow> string \<Rightarrow> int option" where
  "found_num r text = map_option (\<lambda>t. int (py_int t)) (found r text)"

definition parse_environment :: "string \<Rightarrow> environment_status" where
  "parse_environment text =
     \<lparr>env_temperature = found_num (seqs [liti ''Temperature Value:'', star sp, Grp 1 (plus1 dig)]) text,
      env_state = (case found (seqs [liti ''Temperature State:'', star sp, Grp 1 (plus1 word)]) text of
                     Some s \<Rightarrow> py_upper s | None \<Rightarrow> ''UNKNOWN''),
      env_yellow = found_num (seqs [liti ''Yellow Threshold'', star sp, lit '':'', star sp, Grp 1 (plus1 dig)]) text,
      env_red = found_num (seqs [liti ''Red Threshold'', star sp, lit '':'', star sp, Grp 1 (plus1 dig)]) text,
      env_power = (if rx_search (liti ''POWER is OK'') text \<noteq> None then ''ok''
                   else if rx_search (liti ''POWER'') text \<noteq> None then ''warning'' else ''unknown'')\<rparr>"

section \<open>show version\<close>

definition rstrip_commas :: "string \<Rightarrow> string" where
  "rstrip_commas s = rev (dropWhile (\<lambda>c. c = CHR '','') (rev s))"

definition key_set :: "string \<Rightarrow> string option \<Rightarrow> (string, string) dict \<Rightarrow> (string, string) dict" where
  "key_set k v d = (case v of None \<Rightarrow> d | Some s \<Rightarrow> dict_set k s d)"

definition set_missing :: "string \<Rightarrow> string option \<Rightarrow> (string, string) dict \<Rightarrow> (string, string) dict" where
  "set_missing k v d = (if dict_get d k = None then key_set k v d else d)"

definition version_rx :: rx where
  "version_rx = seqs [lit ''Version'', plus1 sp, Grp 1 (plus1 nsp), lit '','', plus1 sp, lit ''RELEASE SOFTWARE'']"
definition uptime_rx :: rx where
  "uptime_rx = seqs [Grp 1 (plus1 nsp), plus1 sp, lit ''uptime is'', plus1 sp, Grp 2 (plus1 dot)]"
definition labelled_rx :: "string \<Rightarrow> rx" where
  "labelled_rx label = seqs [lit label, star sp, lit '':'', star sp, Grp 1 (plus1 nsp)]"
definition image_rx :: rx where
  "image_rx = seqs [Bol, liti ''System image file is'', plus1 sp, lit [CHR 0x22], Grp 1 (plus1 (chars_not [CHR 0x22])), lit [CHR 0x22]]"
definition bootldr_rx :: rx where
  "bootldr_rx = seqs [Bol, liti ''BOOTLDR:'', star sp, Grp 1 (plus1 dot), Eol]"
definition processor_rx :: rx where
  "processor_rx = seqs [Bol, liti ''cisco'', plus1 sp, Grp 1 (plus1 nsp), plus1 sp, lit ''('', star (chars_not '')''), lit '')'',
     plus1 sp, liti ''processor'', plus1 sp, liti ''(revision'', plus1 sp, Grp 2 (plus1 (chars_not '')'')), lit '')'', plus1 sp,
     liti ''with'', plus1 sp, Grp 3 (plus1 dig), liti ''K bytes of memory'']"
definition count_rx :: rx where
  "count_rx = seqs [Bol, Grp 1 (plus1 dig), plus1 sp, Grp 2 (plus_lazy dot), plus1 sp, liti ''interface'', opt (liti ''s''), Eol]"
definition hostname_rx :: rx where
  "hostname_rx = seqs [Bol, Grp 1 (plus1 nsp), plus1 sp, lit ''uptime'']"

definition stripped_group :: "groups option \<Rightarrow> nat \<Rightarrow> string option" where
  "stripped_group m n = map_option (\<lambda>g. py_strip (group_text g n)) m"

definition plain_group :: "groups option \<Rightarrow> nat \<Rightarrow> string option" where
  "plain_group m n = map_option (\<lambda>g. group_text g n) m"

definition count_texts :: "string \<Rightarrow> string list" where
  "count_texts text = map (\<lambda>g. group_text g 1 @ '' '' @ py_strip (group_text g 2)) (rx_finditer count_rx text)"

definition parse_version :: "string \<Rightarrow> (string, string) dict" where
  "parse_version text =
     (let up = rx_search uptime_rx text; proc = rx_search processor_rx text; counts = count_texts text;
          d1 = key_set ''ios_version'' (map_option rstrip_commas (found version_rx text)) [];
          d2 = key_set ''uptime'' (stripped_group up 2) (key_set ''hostname'' (plain_group up 1) d1);
          d3 = key_set ''serial'' (found (labelled_rx ''System serial number'') text)
                 (key_set ''model'' (found (labelled_rx ''Model number'') text) d2);
          d4 = key_set ''bootloader'' (found_text bootldr_rx text) (key_set ''ios_image'' (found_text image_rx text) d3);
          d5 = key_set ''memory_kb'' (plain_group proc 3) (key_set ''hardware_revision'' (stripped_group proc 2)
                 (set_missing ''model'' (stripped_group proc 1) d4));
          d6 = (if counts = [] then d5 else dict_set ''interface_counts'' (py_join '', '' counts) d5)
      in set_missing ''hostname'' (found hostname_rx text) d6)"

section \<open>show inventory, show vlan brief\<close>

definition line_end_char :: string where "line_end_char = [CHR 0x0D, newline]"

definition inventory_rx :: rx where
  "inventory_rx = seqs [liti ''PID:'', star sp, Grp 1 (plus_lazy (chars_not ('','' @ line_end_char))), star sp, lit '','', star sp,
     liti ''VID:'', star sp, Grp 2 (star_lazy (chars_not ('','' @ line_end_char))), star sp, lit '','', star sp,
     liti ''SN:'', star sp, Grp 3 (plus1 nsp)]"

definition quoted_rx :: "string \<Rightarrow> rx" where
  "quoted_rx label = seqs [liti label, star sp, lit [CHR 0x22], Grp 1 (plus1 (chars_not [CHR 0x22])), lit [CHR 0x22]]"

definition parse_inventory :: "string \<Rightarrow> (string, string) dict" where
  "parse_inventory text =
     (let r = rx_search inventory_rx text in
      key_set ''serial'' (stripped_group r 3) (key_set ''vid'' (stripped_group r 2) (key_set ''pid'' (stripped_group r 1)
        (key_set ''description'' (found_text (quoted_rx ''DESCR:'') text)
          (key_set ''name'' (found_text (Seq Bol (quoted_rx ''NAME:'')) text) [])))))"

record vlan_row =
  vl_id :: nat
  vl_name :: string
  vl_status :: string
  vl_ports :: "string list"

definition vlan_rx :: rx where
  "vlan_rx = seqs [Sos, star sp, Grp 1 (plus1 dig), plus1 sp, Grp 2 (plus1 nsp), plus1 sp,
     Grp 3 (alts [liti ''active'', liti ''act/unsup'', liti ''suspend'', liti ''shutdown'']), star sp, Grp 4 (star dot), Eod]"

definition more_ports_rx :: rx where
  "more_ports_rx = seqs [Sos, plus1 sp, liti ''Gi'', plus1 nsp]"

definition comma_list :: "string \<Rightarrow> string list" where
  "comma_list s = filter (\<lambda>p. p \<noteq> []) (map py_strip (py_split_char (CHR '','') s))"

text \<open>The last row read is the one a continuation line extends; rows are kept latest first.\<close>

fun vlan_loop :: "vlan_row list \<Rightarrow> string list \<Rightarrow> vlan_row list" where
  "vlan_loop acc [] = rev acc"
| "vlan_loop acc (line # rest) =
     (case rx_match vlan_rx line of
        Some g \<Rightarrow>
          vlan_loop (\<lparr>vl_id = group_num g 1, vl_name = group_text g 2, vl_status = group_text g 3,
                      vl_ports = comma_list (group_text g 4)\<rparr> # acc) rest
      | None \<Rightarrow>
          (case acc of
             [] \<Rightarrow> vlan_loop acc rest
           | v # vs \<Rightarrow>
               if rx_match more_ports_rx line \<noteq> None
               then vlan_loop (v\<lparr>vl_ports := vl_ports v @ comma_list line\<rparr> # vs) rest
               else vlan_loop acc rest))"

definition parse_vlans :: "string \<Rightarrow> vlan_row list" where
  "parse_vlans text = vlan_loop [] (py_splitlines text)"

section \<open>show logging\<close>

record log_entry =
  lg_line :: string
  lg_severity :: string

definition log_level_rx :: rx where
  "log_level_rx = seqs [lit ''%'', plus1 nsp, lit ''-'', Grp 1 dig, lit ''-'']"

text \<open>\<open>%link-3-updown.*down\<close> is one of the plain texts the code looks for, not a pattern.\<close>

definition severity_for :: "string \<Rightarrow> string" where
  "severity_for line =
     (let low = py_lower line;
          alarm = list_ex (\<lambda>t. py_contains t low) [''crit'', ''alert'', ''emerg'', ''fail'', ''%link-3-updown.*down''];
          level = map_option py_int (found log_level_rx line);
          word = (if py_contains ''warn'' low \<or> py_contains ''error'' low then ''warning'' else ''info'')
      in if alarm \<and> py_contains ''down'' low \<and> py_contains ''updown'' low \<and> \<not> py_contains ''to up'' low then ''critical''
         else (case level of
                 None \<Rightarrow> word
               | Some n \<Rightarrow> if n \<le> 2 then ''critical'' else if n = 3 then ''warning'' else if n \<le> 5 then ''notice'' else word))"

definition log_of :: "string \<Rightarrow> log_entry" where
  "log_of line = \<lparr>lg_line = line, lg_severity = severity_for line\<rparr>"

definition stamped_rx :: rx where
  "stamped_rx = seqs [Sos, repeat 3 word, lit '' '', plus1 dig, lit '' '', repeat 2 dig, lit '':'', repeat 2 dig, lit '':'', repeat 2 dig]"

definition after_log_header :: "string list \<Rightarrow> string list" where
  "after_log_header ls = tl (dropWhile (\<lambda>l. \<not> py_startswith l ''Log Buffer'') ls)"

definition parse_logs :: "string \<Rightarrow> log_entry list" where
  "parse_logs text =
     (let ls = py_splitlines text; entries = filter (\<lambda>l. py_strip l \<noteq> []) (after_log_header ls)
      in map log_of (if entries = [] then filter (\<lambda>l. rx_match stamped_rx l \<noteq> None) ls else entries))"

section \<open>show running-config\<close>

record svi_address =
  svi_interface :: string
  svi_ip :: string
  svi_mask :: string

record config_item =
  ci_description :: "string option"
  ci_access_vlan :: "string option"
  ci_native_vlan :: "string option"
  ci_allowed_vlans :: "string option"
  ci_channel_group :: "string option"
  ci_vrf :: "string option"
  ci_ip_address :: "(string \<times> string) option"
  ci_mode :: "string option"
  ci_shutdown :: bool
  ci_portfast :: bool
  ci_bpdu_guard :: bool
  ci_dhcp_snooping_trust :: bool
  ci_dai_trust :: bool
  ci_port_security :: bool
  ci_dot1x :: bool

record running_config =
  rc_hostname :: "string option"
  rc_svi_addresses :: "svi_address list"
  rc_management :: "svi_address option"
  rc_gateway :: "string option"
  rc_http_disabled :: bool
  rc_https_disabled :: bool
  rc_descriptions :: "(string, string) dict"
  rc_shutdown_interfaces :: "string list"
  rc_interfaces :: "(string, config_item) dict"
  rc_cdp :: "bool option"
  rc_features :: "(string, bool) dict"

definition block_pattern :: "rx \<Rightarrow> rx" where
  "block_pattern name = seqs [Bol, liti ''interface'', plus1 sp, Grp 1 name, star sp, Eol, lit [newline], Grp 2 (star_lazy anyc),
     Look (alts [seqs [Bol, lit ''!'', star sp, Eol], seqs [Bol, liti ''interface'', plus1 sp], Eos])]"

definition bol_line :: "rx list \<Rightarrow> rx" where
  "bol_line rs = seqs (Bol # star sp # rs @ [star sp, Eol])"

text \<open>Words separated by one blank, and the alternative \<open>(?:\s|$)\<close>.\<close>

definition sp_or_end :: rx where "sp_or_end = Alt sp Eol"

definition has :: "rx \<Rightarrow> string \<Rightarrow> bool" where
  "has r text \<longleftrightarrow> rx_search r text \<noteq> None"

definition svi_of :: "groups \<Rightarrow> svi_address list" where
  "svi_of g =
     (case rx_search (seqs [Bol, star sp, liti ''ip address'', plus1 sp, Grp 1 (plus1 nsp), plus1 sp, Grp 2 (plus1 nsp)])
         (group_text g 2) of
        None \<Rightarrow> []
      | Some a \<Rightarrow> [\<lparr>svi_interface = group_text g 1, svi_ip = group_text a 1, svi_mask = group_text a 2\<rparr>])"

definition svi_addresses :: "string \<Rightarrow> svi_address list" where
  "svi_addresses text = concat (map svi_of (rx_finditer (block_pattern (seqs [liti ''Vlan'', plus1 dig])) text))"

fun described :: "string option \<Rightarrow> (string, string) dict \<Rightarrow> string list \<Rightarrow> string list
    \<Rightarrow> (string, string) dict \<times> string list" where
  "described cur ds downs [] = (ds, downs)"
| "described cur ds downs (line # rest) =
     (case rx_match (seqs [Sos, lit ''interface'', plus1 sp, Grp 1 (plus1 nsp)]) line of
        Some g \<Rightarrow> described (Some (group_text g 1)) ds downs rest
      | None \<Rightarrow>
          (case cur of
             None \<Rightarrow> described cur ds downs rest
           | Some i \<Rightarrow>
               described cur
                 (if py_startswith line '' description '' then dict_set i (drop 12 (py_strip line)) ds else ds)
                 (if py_strip line = ''shutdown'' then downs @ [i] else downs) rest))"

definition upper_mode :: "string \<Rightarrow> string" where
  "upper_mode s = py_replace (py_upper s) '' '' ''_''"

definition item_mode :: "string \<Rightarrow> string option" where
  "item_mode body =
     (case found (bol_line [liti ''switchport mode'', plus1 sp,
         Grp 1 (alts [liti ''access'', liti ''trunk'', seqs [liti ''dynamic'', plus1 sp, plus1 nsp]])]) body of
        Some m \<Rightarrow> Some (upper_mode m)
      | None \<Rightarrow> if has (bol_line [liti ''no switchport'']) body then Some ''ROUTED'' else None)"

definition lazy_value :: rx where "lazy_value = Grp 1 (plus_lazy dot)"

definition config_item_of :: "string \<Rightarrow> config_item" where
  "config_item_of body =
     \<lparr>ci_description = found (bol_line [liti ''description'', plus1 sp, lazy_value]) body,
      ci_access_vlan = found (bol_line [liti ''switchport access vlan'', plus1 sp, Grp 1 (plus1 dig)]) body,
      ci_native_vlan = found (bol_line [liti ''switchport trunk native vlan'', plus1 sp, Grp 1 (plus1 dig)]) body,
      ci_allowed_vlans = found (bol_line [liti ''switchport trunk allowed vlan'', opt (seqs [plus1 sp, liti ''add'']),
        plus1 sp, lazy_value]) body,
      ci_channel_group = found (bol_line [liti ''channel-group'', plus1 sp, Grp 1 (plus1 dig), plus1 sp, liti ''mode'',
        plus1 sp, Grp 2 (plus1 nsp)]) body,
      ci_vrf = found (bol_line [Alt (liti ''vrf forwarding'') (liti ''ip vrf forwarding''), plus1 sp, Grp 1 (plus1 nsp)]) body,
      ci_ip_address = map_option (\<lambda>g. (group_text g 1, group_text g 2))
        (rx_search (bol_line [liti ''ip address'', plus1 sp, Grp 1 (plus1 nsp), plus1 sp, Grp 2 (plus1 nsp)]) body),
      ci_mode = item_mode body,
      ci_shutdown = has (bol_line [liti ''shutdown'']) body,
      ci_portfast = has (bol_line [liti ''spanning-tree portfast'', opt (seqs [plus1 sp, liti ''edge''])]) body,
      ci_bpdu_guard = has (bol_line [liti ''spanning-tree bpduguard enable'']) body,
      ci_dhcp_snooping_trust = has (bol_line [liti ''ip dhcp snooping trust'']) body,
      ci_dai_trust = has (bol_line [liti ''ip arp inspection trust'']) body,
      ci_port_security = has (seqs [Bol, star sp, liti ''switchport port-security'', sp_or_end]) body,
      ci_dot1x = has (seqs [Bol, star sp, Alt (liti ''authentication port-control'') (liti ''dot1x pae''), plus1 sp]) body\<rparr>"

definition config_interfaces :: "string \<Rightarrow> (string, config_item) dict" where
  "config_interfaces text =
     fold (\<lambda>g d. dict_set (group_text g 1) (config_item_of (group_text g 2)) d)
       (rx_finditer (block_pattern (plus1 nsp)) text) []"

definition exact_line :: "string \<Rightarrow> rx" where
  "exact_line s = seqs [Bol, liti s, star sp, Eol]"

definition feature_patterns :: "(string \<times> rx) list" where
  "feature_patterns =
     [(''lldp'', exact_line ''lldp run''), (''ip_routing'', exact_line ''ip routing''),
      (''dhcp_snooping'', seqs [Bol, liti ''ip dhcp snooping'', sp_or_end]),
      (''dai'', seqs [Bol, liti ''ip arp inspection vlan'', plus1 sp]), (''aaa'', exact_line ''aaa new-model''),
      (''http_server'', exact_line ''ip http server''), (''https_server'', exact_line ''ip http secure-server''),
      (''ospf'', seqs [Bol, liti ''router ospf'', plus1 sp]), (''eigrp'', seqs [Bol, liti ''router eigrp'', plus1 sp]),
      (''bgp'', seqs [Bol, liti ''router bgp'', plus1 sp]), (''isis'', seqs [Bol, liti ''router isis'', sp_or_end]),
      (''fhrp'', seqs [Bol, star sp, alts [liti ''standby'', liti ''vrrp'', liti ''glbp''], plus1 sp]),
      (''vrf'', seqs [Bol, Alt (liti ''vrf definition'') (liti ''ip vrf''), plus1 sp]),
      (''vxlan'', seqs [Bol, liti ''interface nve'', plus1 dig]),
      (''segment_routing'', seqs [Bol, liti ''segment-routing'', sp_or_end]),
      (''srv6'', seqs [Bol, star sp, Alt (liti ''segment-routing srv6'') (seqs [liti ''locator'', plus1 sp, plus1 nsp])]),
      (''ip_sla'', seqs [Bol, liti ''ip sla'', plus1 sp, plus1 dig]), (''bfd'', seqs [Bol, star sp, liti ''bfd'', sp_or_end]),
      (''evpn'', seqs [Bol, star sp, Alt (liti ''address-family l2vpn evpn'') (liti ''evpn''), sp_or_end])]"

definition parse_running_config :: "string \<Rightarrow> running_config" where
  "parse_running_config text =
     (let svis = svi_addresses text; (ds, downs) = described None [] [] (py_splitlines text) in
      \<lparr>rc_hostname = found (seqs [Bol, lit ''hostname'', plus1 sp, Grp 1 (plus1 nsp)]) text,
       rc_svi_addresses = svis,
       rc_management = (case svis of [a] \<Rightarrow> Some a | _ \<Rightarrow> None),
       rc_gateway = found (seqs [Bol, lit ''ip default-gateway'', plus1 sp, Grp 1 (plus1 nsp)]) text,
       rc_http_disabled = py_contains ''no ip http server'' text,
       rc_https_disabled = py_contains ''no ip http secure-server'' text,
       rc_descriptions = ds, rc_shutdown_interfaces = downs,
       rc_interfaces = config_interfaces text,
       rc_cdp = (if has (exact_line ''cdp run'') text then Some True
                 else if has (exact_line ''no cdp run'') text then Some False else None),
       rc_features = map (\<lambda>(k, r). (k, has r text)) feature_patterns\<rparr>)"

end
