(* ===== verification/Telemetry.thy ===== *)
theory Telemetry
  imports Reconciliation Parse_Device
begin

text \<open>
  \<open>backend/app/telemetry_store.py\<close>: observations of the device and of its interfaces, what changed
  since the preceding one, and the events this gives. A table is the list of its rows in the order of
  their numbers. Times are microseconds in UTC, where comparing them agrees with comparing the stored
  ISO texts. The digest of an address and the number of a snapshot are parameters; a statement that
  violates a uniqueness constraint raises and the transaction is rolled back.
\<close>

section \<open>Counters\<close>

datatype counter_state = Counter_first | Counter_unchanged | Counter_increased | Counter_reset | Counter_wrapped

definition counter_max :: int where "counter_max = 2 ^ 32 - 1"

definition calculate_counter_delta :: "int option \<Rightarrow> int \<Rightarrow> int option \<times> counter_state" where
  "calculate_counter_delta previous current =
     (case previous of
        None \<Rightarrow> (None, Counter_first)
      | Some p \<Rightarrow>
          if current = p then (Some 0, Counter_unchanged)
          else if current > p then (Some (current - p), Counter_increased)
          else if p \<ge> counter_max * 9 div 10 \<and> current \<le> counter_max div 10
          then (Some (counter_max - p + 1 + current), Counter_wrapped)
          else (None, Counter_reset))"

definition memory_used_pct :: "memory_status \<Rightarrow> rat option" where
  "memory_used_pct m =
     (case (mem_processor_total m, mem_processor_used m) of
        (Some whole, Some used) \<Rightarrow>
          if whole \<le> 0 then None else Some (round_to 2 (of_int used / of_int whole * 100))
      | _ \<Rightarrow> None)"

definition drop_auto :: "string \<Rightarrow> string" where
  "drop_auto s = (if prefix ''a-'' s then drop 2 s else s)"

definition normalize_speed :: "string \<Rightarrow> string" where
  "normalize_speed v = drop_auto (py_lower (py_strip v))"

definition normalize_duplex :: "string \<Rightarrow> string" where
  "normalize_duplex v = drop_auto (py_lower (py_strip v))"

definition supplies_poe :: "string \<Rightarrow> bool" where
  "supplies_poe v \<longleftrightarrow> py_lower (py_strip v) \<notin> {[], ''off'', ''n/a'', ''not-supported'', ''unknown''}"

section \<open>The tables\<close>

record device_row =
  dv_snapshot :: string
  dv_device :: string
  dv_at :: time
  dv_reachable :: bool
  dv_cpu_5sec :: "rat option"
  dv_memory_used :: "rat option"
  dv_temperature :: "int option"
  dv_poe_used :: rat
  dv_poe_available :: rat

record iface_row =
  io_snapshot :: string
  io_device :: string
  io_port :: string
  io_status :: string
  io_admin :: string
  io_speed :: string
  io_duplex :: string
  io_vlan :: string
  io_poe :: string
  io_errors :: int
  io_learned :: "string list"

text \<open>An event with the number the table gave it; numbers are never given twice.\<close>

record telemetry =
  tl_devices :: "device_row list"
  tl_interfaces :: "iface_row list"
  tl_events :: "(nat \<times> network_event) list"
  tl_next :: nat
  tl_retention :: int

definition clamp :: "int \<Rightarrow> int \<Rightarrow> int \<Rightarrow> int" where
  "clamp low high x = max low (min x high)"

definition open_telemetry :: "int \<Rightarrow> telemetry" where
  "open_telemetry days =
     \<lparr>tl_devices = [], tl_interfaces = [], tl_events = [], tl_next = 1, tl_retention = clamp 1 3650 days\<rparr>"

record interface_delta =
  dl_port :: string
  dl_previous_errors :: "int option"
  dl_current_errors :: int
  dl_error_delta :: "int option"
  dl_counter_state :: counter_state
  dl_status_before :: "string option"
  dl_status_after :: string
  dl_admin_before :: "string option"
  dl_admin_after :: string
  dl_speed_before :: "string option"
  dl_speed_after :: string
  dl_duplex_before :: "string option"
  dl_duplex_after :: string
  dl_vlan_before :: "string option"
  dl_vlan_after :: string
  dl_poe_before :: "string option"
  dl_poe_after :: string

text \<open>The latest snapshot of a device: its time and its rows by port.\<close>

definition rows_of :: "string \<Rightarrow> telemetry \<Rightarrow> iface_row list" where
  "rows_of snap t = filter (\<lambda>r. io_snapshot r = snap) (tl_interfaces t)"

definition latest_snapshot :: "string \<Rightarrow> telemetry \<Rightarrow> time option \<times> (string, iface_row) dict" where
  "latest_snapshot device t =
     (case filter (\<lambda>d. dv_device d = device) (rev (tl_devices t)) of
        [] \<Rightarrow> (None, [])
      | d # _ \<Rightarrow> (Some (dv_at d), map (\<lambda>r. (io_port r, r)) (rev (rows_of (dv_snapshot d) t))))"

definition derive_delta :: "interface_status \<Rightarrow> iface_row option \<Rightarrow> int \<Rightarrow> string \<Rightarrow> interface_delta" where
  "derive_delta cur prev errors poe =
     (case calculate_counter_delta (map_option io_errors prev) errors of
        (delta, state) \<Rightarrow>
          \<lparr>dl_port = ifs_port cur, dl_previous_errors = map_option io_errors prev, dl_current_errors = errors,
           dl_error_delta = delta, dl_counter_state = state,
           dl_status_before = map_option io_status prev, dl_status_after = ifs_status cur,
           dl_admin_before = map_option io_admin prev, dl_admin_after = interface_admin_state (ifs_status cur),
           dl_speed_before = map_option io_speed prev, dl_speed_after = ifs_speed cur,
           dl_duplex_before = map_option io_duplex prev, dl_duplex_after = ifs_duplex cur,
           dl_vlan_before = map_option io_vlan prev, dl_vlan_after = ifs_vlan cur,
           dl_poe_before = map_option io_poe prev, dl_poe_after = poe\<rparr>)"

section \<open>Events\<close>

definition port_event ::
  "time \<Rightarrow> string \<Rightarrow> string \<Rightarrow> string \<Rightarrow> string \<Rightarrow> string \<Rightarrow> string \<Rightarrow> (string, meta_value) dict \<Rightarrow> network_event"
where
  "port_event now device port kind severity title detail meta =
     \<lparr>ne_at = now, ne_device = device, ne_interface = Some port, ne_type = kind, ne_severity = severity,
      ne_title = title, ne_detail = detail, ne_metadata = meta\<rparr>"

definition opt_text :: "string option \<Rightarrow> string" where
  "opt_text v = (case v of None \<Rightarrow> ''None'' | Some s \<Rightarrow> s)"

definition or_text :: "string \<Rightarrow> string \<Rightarrow> string" where
  "or_text v other = (if v = [] then other else v)"

definition before_after :: "string option \<Rightarrow> string \<Rightarrow> (string, meta_value) dict" where
  "before_after b a = [(''before'', meta_option b), (''after'', Meta_text a)]"

definition is_uplink_text :: "string \<Rightarrow> bool" where
  "is_uplink_text description \<longleftrightarrow>
     list_ex (\<lambda>w. py_contains w (py_lower description)) [''uplink'', ''router'', ''gateway'']"

definition link_events :: "time \<Rightarrow> string \<Rightarrow> interface_status \<Rightarrow> interface_delta \<Rightarrow> network_event list" where
  "link_events now device cur d =
     (let port = ifs_port cur in
      if dl_admin_before d \<noteq> Some (dl_admin_after d)
      then [port_event now device port ''administrative_state_changed'' ''NOTICE''
              (if dl_admin_after d = ''down'' then port @ '' was administratively disabled''
               else port @ '' was administratively enabled'')
              (''Observed administrative state changed from '' @ opt_text (dl_admin_before d) @ '' to '' @ dl_admin_after d @ ''.'')
              (before_after (dl_admin_before d) (dl_admin_after d))]
      else if dl_status_before d \<noteq> Some (dl_status_after d)
      then (if dl_status_after d = ''connected''
            then [port_event now device port ''interface_link_up'' ''HEALTHY'' (port @ '' link established'')
                    (''The interface is connected at '' @ or_text (ifs_speed cur) ''an unknown speed'' @ '' '' @
                       or_text (ifs_duplex cur) ''with unknown duplex'' @ ''.'')
                    [(''speed'', Meta_text (ifs_speed cur)), (''duplex'', Meta_text (ifs_duplex cur))]]
            else if dl_status_before d = Some ''connected''
            then [port_event now device port ''interface_link_down''
                    (if is_uplink_text (ifs_name cur) then ''CRITICAL'' else ''NOTICE'') (port @ '' link lost'')
                    ''The switch no longer detects an Ethernet link on this interface.''
                    [(''previousStatus'', meta_option (dl_status_before d)), (''currentStatus'', Meta_text (dl_status_after d))]]
            else [])
      else [])"

definition stays_connected :: "interface_delta \<Rightarrow> bool" where
  "stays_connected d \<longleftrightarrow> dl_status_before d = Some ''connected'' \<and> dl_status_after d = ''connected''"

definition speed_events :: "time \<Rightarrow> string \<Rightarrow> string \<Rightarrow> interface_delta \<Rightarrow> network_event list" where
  "speed_events now device port d =
     (let before = or_empty (dl_speed_before d) in
      if stays_connected d \<and> truthy before \<and> normalize_speed before \<noteq> normalize_speed (dl_speed_after d)
      then [port_event now device port ''speed_changed'' ''NOTICE'' (port @ '' link speed changed'')
              (''Negotiated speed changed from '' @ before @ '' to '' @ dl_speed_after d @ ''.'')
              (before_after (dl_speed_before d) (dl_speed_after d))]
      else [])"

definition duplex_events :: "time \<Rightarrow> string \<Rightarrow> string \<Rightarrow> interface_delta \<Rightarrow> network_event list" where
  "duplex_events now device port d =
     (let before = or_empty (dl_duplex_before d) in
      if stays_connected d \<and> truthy before \<and> normalize_duplex before \<noteq> normalize_duplex (dl_duplex_after d)
      then [port_event now device port ''duplex_changed''
              (if py_contains ''half'' (py_lower (dl_duplex_after d)) then ''ATTENTION'' else ''NOTICE'')
              (port @ '' duplex changed'')
              (''Negotiated duplex changed from '' @ before @ '' to '' @ dl_duplex_after d @ ''.'')
              (before_after (dl_duplex_before d) (dl_duplex_after d))]
      else [])"

definition vlan_events :: "time \<Rightarrow> string \<Rightarrow> string \<Rightarrow> interface_delta \<Rightarrow> network_event list" where
  "vlan_events now device port d =
     (case dl_vlan_before d of
        None \<Rightarrow> []
      | Some before \<Rightarrow>
          if before = dl_vlan_after d then []
          else [port_event now device port ''vlan_changed'' ''NOTICE'' (port @ '' VLAN observation changed'')
                  (''Observed access VLAN changed from '' @ or_text before ''unknown'' @ '' to '' @
                     or_text (dl_vlan_after d) ''unknown'' @ ''.'')
                  (before_after (dl_vlan_before d) (dl_vlan_after d))])"

definition counter_name :: "counter_state \<Rightarrow> string" where
  "counter_name s =
     (case s of Counter_first \<Rightarrow> ''first'' | Counter_unchanged \<Rightarrow> ''unchanged'' | Counter_increased \<Rightarrow> ''increased''
      | Counter_reset \<Rightarrow> ''reset'' | Counter_wrapped \<Rightarrow> ''wrapped'')"

text \<open>The errors an observation adds: positive on an increase or a wrap.\<close>

definition error_amount :: "interface_delta \<Rightarrow> int" where
  "error_amount d =
     (if dl_counter_state d \<in> {Counter_increased, Counter_wrapped}
      then (case dl_error_delta d of None \<Rightarrow> 0 | Some n \<Rightarrow> n) else 0)"

definition error_severity :: "int \<Rightarrow> string" where
  "error_severity n = (if n \<ge> 100 then ''CRITICAL'' else if n \<ge> 10 then ''ATTENTION'' else ''NOTICE'')"

definition error_events :: "time \<Rightarrow> string \<Rightarrow> string \<Rightarrow> interface_delta \<Rightarrow> network_event list" where
  "error_events now device port d =
     (let n = error_amount d in
      if n > 0
      then [port_event now device port ''interface_errors_increased'' (error_severity n)
              (port @ '' errors increased by '' @ py_str_int n)
              (''The cumulative interface error counter rose by '' @ py_str_int n @ '' since the previous observation.'')
              [(''delta'', Meta_int n), (''counterState'', Meta_text (counter_name (dl_counter_state d)))]]
      else if dl_counter_state d = Counter_reset
      then [port_event now device port ''interface_counter_reset'' ''NOTICE'' (port @ '' error counter reset observed'')
              ''The cumulative error counter decreased. This can follow a restart or an external counter clear; SwitchOps cannot determine which.'' []]
      else [])"

definition poe_events :: "time \<Rightarrow> string \<Rightarrow> string \<Rightarrow> interface_delta \<Rightarrow> network_event list" where
  "poe_events now device port d =
     (case dl_poe_before d of
        None \<Rightarrow> []
      | Some before \<Rightarrow>
          let active = supplies_poe (dl_poe_after d) in
          if supplies_poe before = active then []
          else [port_event now device port ''poe_state_changed'' (if active then ''HEALTHY'' else ''NOTICE'')
                  (''PoE '' @ (if active then ''detected'' else ''stopped'') @ '' on '' @ port)
                  (''Observed PoE operational state changed from '' @ or_text before ''unknown'' @ '' to '' @
                     or_text (dl_poe_after d) ''unknown'' @ ''.'')
                  (before_after (dl_poe_before d) (dl_poe_after d))])"

text \<open>The members of one list missing in another, sorted and without repetition.\<close>

definition set_minus :: "string list \<Rightarrow> string list \<Rightarrow> string list" where
  "set_minus xs ys = sorted_set (filter (\<lambda>x. x \<notin> set ys) xs)"

definition learned_events ::
  "time \<Rightarrow> string \<Rightarrow> string \<Rightarrow> string list \<Rightarrow> string list \<Rightarrow> network_event list"
where
  "learned_events now device port previous current =
     (let appeared = set_minus current previous; departed = set_minus previous current;
          parts = (if appeared \<noteq> [] then [py_str_nat (length appeared) @ '' appeared''] else []) @
                  (if departed \<noteq> [] then [py_str_nat (length departed) @ '' no longer present''] else [])
      in if appeared = [] \<and> departed = [] then []
         else [port_event now device port ''learned_addresses_changed''
                 (if appeared \<noteq> [] \<and> departed = [] then ''HEALTHY'' else ''NOTICE'')
                 (''Learned addresses changed on '' @ port @ '' ('' @ py_join '', '' parts @ '')'')
                 (''The set of MAC-table entries on '' @ port @ '' changed: '' @ py_str_nat (length appeared) @ '' appeared and '' @
                  py_str_nat (length departed) @ '' are no longer present. Entries age out on their own schedule, so a departure is not proof '' @
                  ''that a device disconnected, and an arrival proves only where traffic was learned - not what the device is.'')
                 [(''appeared'', Meta_int (int (length appeared))), (''departed'', Meta_int (int (length departed))),
                  (''total'', Meta_int (int (length (remdups current))))]])"

definition derive_events ::
  "time \<Rightarrow> string \<Rightarrow> interface_status \<Rightarrow> iface_row \<Rightarrow> interface_delta \<Rightarrow> string list \<Rightarrow> network_event list"
where
  "derive_events now device cur prev d learned =
     (let port = ifs_port cur in
      link_events now device cur d @ speed_events now device port d @ duplex_events now device port d @
      vlan_events now device port d @ error_events now device port d @ poe_events now device port d @
      learned_events now device port (io_learned prev) learned)"

section \<open>Recording an observation\<close>

record observation =
  ob_device :: string
  ob_reachable :: bool
  ob_cpu :: cpu_status
  ob_memory :: memory_status
  ob_environment :: environment_status
  ob_poe :: poe_response
  ob_interfaces :: "interface_status list"
  ob_errors :: "interface_error_counters list"
  ob_macs :: "mac_table_entry list"
  ob_at :: time

text \<open>A comprehension keeps the last value given for a key.\<close>

definition errors_on :: "observation \<Rightarrow> string \<Rightarrow> int" where
  "errors_on ob port =
     (case map_of (rev (map (\<lambda>e. (ec_port e, ec_total e)) (ob_errors ob))) port of None \<Rightarrow> 0 | Some n \<Rightarrow> n)"

definition poe_on :: "observation \<Rightarrow> string \<Rightarrow> string" where
  "poe_on ob port =
     (case map_of (rev (map (\<lambda>p. (pp_interface p, pp_oper p)) (pr_ports (ob_poe ob)))) port of
        None \<Rightarrow> ''not-supported'' | Some s \<Rightarrow> s)"

definition address_key :: "(string \<Rightarrow> string) \<Rightarrow> string \<Rightarrow> string" where
  "address_key H mac = take 12 (H (filter (\<lambda>c. c \<in> set ''0123456789abcdef'') (py_lower mac)))"

definition devices_on :: "(string \<Rightarrow> string) \<Rightarrow> observation \<Rightarrow> string \<Rightarrow> string list" where
  "devices_on H ob port =
     map (\<lambda>e. address_key H (mac_addr e))
       (filter (\<lambda>e. py_upper (mac_port e) \<noteq> ''CPU'' \<and> py_lower (mac_vlan e) \<noteq> ''all'' \<and> mac_port e = port) (ob_macs ob))"

definition delta_on :: "observation \<Rightarrow> (string, iface_row) dict \<Rightarrow> interface_status \<Rightarrow> interface_delta" where
  "delta_on ob previous cur =
     derive_delta cur (dict_get previous (ifs_port cur)) (errors_on ob (ifs_port cur)) (poe_on ob (ifs_port cur))"

definition events_on ::
  "(string \<Rightarrow> string) \<Rightarrow> observation \<Rightarrow> (string, iface_row) dict \<Rightarrow> interface_status \<Rightarrow> network_event list"
where
  "events_on H ob previous cur =
     (case dict_get previous (ifs_port cur) of
        None \<Rightarrow> []
      | Some prev \<Rightarrow>
          derive_events (ob_at ob) (ob_device ob) cur prev (delta_on ob previous cur) (devices_on H ob (ifs_port cur)))"

definition observed_row :: "(string \<Rightarrow> string) \<Rightarrow> string \<Rightarrow> observation \<Rightarrow> interface_status \<Rightarrow> iface_row" where
  "observed_row H snap ob cur =
     \<lparr>io_snapshot = snap, io_device = ob_device ob, io_port = ifs_port cur, io_status = ifs_status cur,
      io_admin = interface_admin_state (ifs_status cur), io_speed = ifs_speed cur, io_duplex = ifs_duplex cur,
      io_vlan = ifs_vlan cur, io_poe = poe_on ob (ifs_port cur), io_errors = errors_on ob (ifs_port cur),
      io_learned = sort (devices_on H ob (ifs_port cur))\<rparr>"

definition device_row_of :: "string \<Rightarrow> observation \<Rightarrow> device_row" where
  "device_row_of snap ob =
     \<lparr>dv_snapshot = snap, dv_device = ob_device ob, dv_at = ob_at ob, dv_reachable = ob_reachable ob,
      dv_cpu_5sec = cpu_5sec (ob_cpu ob), dv_memory_used = memory_used_pct (ob_memory ob),
      dv_temperature = env_temperature (ob_environment ob), dv_poe_used = pr_used_watts (ob_poe ob),
      dv_poe_available = pr_available_watts (ob_poe ob)\<rparr>"

definition add_event :: "network_event \<Rightarrow> telemetry \<Rightarrow> telemetry" where
  "add_event e t = t\<lparr>tl_events := tl_events t @ [(tl_next t, e)], tl_next := tl_next t + 1\<rparr>"

definition insert_snapshot :: "(string \<Rightarrow> string) \<Rightarrow> string \<Rightarrow> observation \<Rightarrow> telemetry \<Rightarrow> telemetry result" where
  "insert_snapshot H snap ob t =
     (if snap \<in> set (map dv_snapshot (tl_devices t)) \<or> \<not> distinct (map ifs_port (ob_interfaces ob))
      then Inl (PyError ''IntegrityError'')
      else Inr (t\<lparr>tl_devices := tl_devices t @ [device_row_of snap ob],
                  tl_interfaces := tl_interfaces t @ map (observed_row H snap ob) (ob_interfaces ob)\<rparr>))"

definition day :: time where "day = 86400000000"

text \<open>Deleting a device row deletes the interface rows that refer to it.\<close>

definition forget_before :: "time \<Rightarrow> telemetry \<Rightarrow> telemetry" where
  "forget_before cutoff t =
     (let kept = filter (\<lambda>d. dv_at d \<ge> cutoff) (tl_devices t);
          gone = map dv_snapshot (filter (\<lambda>d. dv_at d < cutoff) (tl_devices t))
      in t\<lparr>tl_events := filter (\<lambda>(_, e). ne_at e \<ge> cutoff) (tl_events t), tl_devices := kept,
           tl_interfaces := filter (\<lambda>r. io_snapshot r \<notin> set gone) (tl_interfaces t)\<rparr>)"

record snapshot_summary =
  ts_observed_at :: time
  ts_previous_at :: "time option"
  ts_history_available :: bool
  ts_deltas :: "interface_delta list"
  ts_retention :: int

definition record_snapshot ::
  "(string \<Rightarrow> string) \<Rightarrow> string \<Rightarrow> observation \<Rightarrow> telemetry \<Rightarrow> snapshot_summary result \<times> telemetry"
where
  "record_snapshot H snap ob t =
     (case latest_snapshot (ob_device ob) t of
        (previous_at, previous) \<Rightarrow>
          (case insert_snapshot H snap ob t of
             Inl e \<Rightarrow> (Inl e, t)
           | Inr t1 \<Rightarrow>
               (Inr \<lparr>ts_observed_at = ob_at ob, ts_previous_at = previous_at, ts_history_available = previous_at \<noteq> None,
                     ts_deltas = map (delta_on ob previous) (ob_interfaces ob), ts_retention = tl_retention t\<rparr>,
                forget_before (ob_at ob - tl_retention t * day)
                  (fold add_event (concat (map (events_on H ob previous) (ob_interfaces ob))) t1))))"

definition store_event :: "network_event \<Rightarrow> telemetry \<Rightarrow> nat \<times> telemetry" where
  "store_event e t = (tl_next t, add_event e t)"

section \<open>Reading\<close>

text \<open>A filter applies when it is given and not empty.\<close>

definition wanted :: "string option \<Rightarrow> string option \<Rightarrow> bool" where
  "wanted want have \<longleftrightarrow> or_empty want = [] \<or> have = want"

definition recent_events ::
  "int \<Rightarrow> string option \<Rightarrow> string option \<Rightarrow> string option \<Rightarrow> string option \<Rightarrow> telemetry \<Rightarrow> (nat \<times> network_event) list"
where
  "recent_events limit device interface severity kind t =
     take (nat (clamp 1 500 limit))
       (filter (\<lambda>(_, e). wanted device (Some (ne_device e)) \<and> wanted interface (ne_interface e) \<and>
                  wanted severity (Some (ne_severity e)) \<and> wanted kind (Some (ne_type e)))
         (rev (tl_events t)))"

definition history :: "string \<Rightarrow> time \<Rightarrow> int \<Rightarrow> telemetry \<Rightarrow> device_row list" where
  "history device since limit t =
     take (nat (clamp 1 2000 limit))
       (sort_key dv_at (filter (\<lambda>d. dv_device d = device \<and> dv_at d \<ge> since) (tl_devices t)))"

end
