(* ===== verification/Telemetry_Properties.thy ===== *)
theory Telemetry_Properties
  imports Telemetry "HOL-Library.Word"
begin

text \<open>
  Properties of the telemetry: a counter delta is the subtraction of 32-bit counters, an observation is
  compared with the latest one of its device, observing the same again raises no event, and the tables
  refer to each other in every state the operations reach.
\<close>

section \<open>Counters\<close>

lemma wrapped_subtraction:
  fixes p c :: int
  assumes "0 \<le> c" "c < p" "p < 2 ^ 32"
  shows "uint ((word_of_int c :: 32 word) - word_of_int p) = 2 ^ 32 - p + c"
proof -
  have "uint ((word_of_int c :: 32 word) - word_of_int p) = (c - p) mod 2 ^ 32"
    by (simp add: uint_word_ariths uint_word_of_int mod_diff_eq take_bit_eq_mod)
  also have "\<dots> = (c - p + 2 ^ 32) mod 2 ^ 32" by simp
  also have "\<dots> = c - p + 2 ^ 32" using assms by (intro mod_pos_pos_trivial) auto
  finally show ?thesis by simp
qed

lemma plain_subtraction:
  fixes p c :: int
  assumes "0 \<le> p" "p \<le> c" "c < 2 ^ 32"
  shows "uint ((word_of_int c :: 32 word) - word_of_int p) = c - p"
proof -
  have "uint ((word_of_int c :: 32 word) - word_of_int p) = (c - p) mod 2 ^ 32"
    by (simp add: uint_word_ariths uint_word_of_int mod_diff_eq take_bit_eq_mod)
  also have "\<dots> = c - p" using assms by (intro mod_pos_pos_trivial) auto
  finally show ?thesis .
qed

text \<open>C26: The delta of two 32-bit counters: a drop counts as a wrap exactly when the older reading is at least
  3865470565, nine tenths of the largest counter, and the newer one at most 429496729, a tenth of it; any
  other drop is a reset and gives no delta; and every delta that is given is the difference of the two
  readings as 32-bit words, zero exactly when they agree.\<close>

theorem counter_delta_wraps:
  assumes "0 \<le> p" "p < 2 ^ 32" "0 \<le> c" "c < 2 ^ 32"
  shows "(snd (calculate_counter_delta (Some p) c) = Counter_wrapped \<longleftrightarrow> 3865470565 \<le> p \<and> c \<le> 429496729) \<and>
    (snd (calculate_counter_delta (Some p) c) = Counter_reset \<longleftrightarrow>
       c < p \<and> (p < 3865470565 \<or> 429496729 < c)) \<and>
    (case fst (calculate_counter_delta (Some p) c) of
       None \<Rightarrow> snd (calculate_counter_delta (Some p) c) = Counter_reset
     | Some d \<Rightarrow> d = uint ((word_of_int c :: 32 word) - word_of_int p) \<and>
         (d = 0 \<longleftrightarrow> snd (calculate_counter_delta (Some p) c) = Counter_unchanged))"
  using assms
  by (auto simp: calculate_counter_delta_def counter_max_def plain_subtraction wrapped_subtraction)

text \<open>A wrap across the end of the range; and a drop from 85 percent of it, which is a reset.\<close>

theorem counter_delta_wraps_witness:
  "snd (calculate_counter_delta (Some 4294967294) 3) = Counter_wrapped \<and>
   fst (calculate_counter_delta (Some 4294967294) 3) = Some 5 \<and>
   uint ((word_of_int 3 :: 32 word) - word_of_int 4294967294) = 5 \<and>
   snd (calculate_counter_delta (Some 3650722201) 3) = Counter_reset"
proof -
  have "fst (calculate_counter_delta (Some 4294967294) 3) = Some 5"
    by (simp add: calculate_counter_delta_def counter_max_def)
  then show ?thesis
    using counter_delta_wraps [of 4294967294 3] counter_delta_wraps [of 3650722201 3] by simp
qed

section \<open>The tables refer to each other\<close>

definition telemetry_ok :: "telemetry \<Rightarrow> bool" where
  "telemetry_ok t \<longleftrightarrow>
     distinct (map dv_snapshot (tl_devices t)) \<and>
     distinct (map (\<lambda>r. (io_snapshot r, io_port r)) (tl_interfaces t)) \<and>
     (\<forall>r \<in> set (tl_interfaces t). \<exists>d \<in> set (tl_devices t). dv_snapshot d = io_snapshot r \<and> dv_device d = io_device r) \<and>
     sorted_wrt (<) (map fst (tl_events t)) \<and> (\<forall>e \<in> set (tl_events t). fst e < tl_next t) \<and>
     1 \<le> tl_retention t"

lemma add_event_parts [simp]:
  "tl_devices (add_event e t) = tl_devices t"
  "tl_interfaces (add_event e t) = tl_interfaces t"
  "tl_retention (add_event e t) = tl_retention t"
  by (simp_all add: add_event_def)

lemma add_events_parts [simp]:
  "tl_devices (fold add_event es t) = tl_devices t"
  "tl_interfaces (fold add_event es t) = tl_interfaces t"
  "tl_retention (fold add_event es t) = tl_retention t"
  by (induction es arbitrary: t) auto

lemma forget_before_parts [simp]:
  "tl_retention (forget_before c t) = tl_retention t"
  "tl_next (forget_before c t) = tl_next t"
  by (simp_all add: forget_before_def)

lemma add_event_ok: "telemetry_ok t \<Longrightarrow> telemetry_ok (add_event e t)"
  by (fastforce simp: telemetry_ok_def add_event_def sorted_wrt_append)

lemma add_events_ok: "telemetry_ok t \<Longrightarrow> telemetry_ok (fold add_event es t)"
  by (induction es arbitrary: t) (auto simp: add_event_ok)

lemma fresh_snapshot:
  assumes "telemetry_ok t" "snap \<notin> set (map dv_snapshot (tl_devices t))" "r \<in> set (tl_interfaces t)"
  shows "io_snapshot r \<noteq> snap"
proof -
  obtain d where "d \<in> set (tl_devices t)" "dv_snapshot d = io_snapshot r"
    using assms(1,3) by (auto simp: telemetry_ok_def)
  then show ?thesis using assms(2) by (metis imageI list.set_map)
qed

lemma insert_snapshot_ok:
  assumes ok: "telemetry_ok t" and ins: "insert_snapshot H snap ob t = Inr t1"
  shows "telemetry_ok t1"
proof -
  have fresh: "snap \<notin> set (map dv_snapshot (tl_devices t))" and ports: "distinct (map ifs_port (ob_interfaces ob))"
    and t1: "t1 = t\<lparr>tl_devices := tl_devices t @ [device_row_of snap ob],
        tl_interfaces := tl_interfaces t @ map (observed_row H snap ob) (ob_interfaces ob)\<rparr>"
    using ins by (auto simp: insert_snapshot_def split: if_splits)
  have none: "snap \<notin> io_snapshot ` set (tl_interfaces t)"
    using fresh_snapshot [OF ok fresh] by auto
  have keys: "map (\<lambda>r. (io_snapshot r, io_port r)) (map (observed_row H snap ob) (ob_interfaces ob)) =
      map (Pair snap) (map ifs_port (ob_interfaces ob))"
    by (simp add: observed_row_def comp_def)
  have "distinct (map (\<lambda>r. (io_snapshot r, io_port r)) (tl_interfaces t1))"
    using ok none ports unfolding t1
    by (auto simp: telemetry_ok_def keys distinct_map inj_on_def observed_row_def)
  moreover have "\<forall>r \<in> set (tl_interfaces t1). \<exists>d \<in> set (tl_devices t1). dv_snapshot d = io_snapshot r \<and> dv_device d = io_device r"
    using ok unfolding t1 by (auto simp: telemetry_ok_def observed_row_def device_row_of_def)
  ultimately show ?thesis
    using ok fresh unfolding telemetry_ok_def by (simp add: t1 device_row_of_def)
qed

lemma forget_before_ok:
  assumes ok: "telemetry_ok t"
  shows "telemetry_ok (forget_before c t)"
proof -
  let ?u = "forget_before c t"
  have "sorted_wrt (<) (map fst (tl_events ?u))"
    using ok by (auto simp: telemetry_ok_def forget_before_def sorted_wrt_map intro: sorted_wrt_filter)
  moreover have "distinct (map dv_snapshot (tl_devices ?u))"
      "distinct (map (\<lambda>r. (io_snapshot r, io_port r)) (tl_interfaces ?u))"
    using ok by (simp_all add: telemetry_ok_def forget_before_def distinct_map_filter)
  moreover have "\<exists>d \<in> set (tl_devices ?u). dv_snapshot d = io_snapshot r \<and> dv_device d = io_device r"
    if "r \<in> set (tl_interfaces ?u)" for r
  proof -
    have r: "r \<in> set (tl_interfaces t)" "\<forall>d \<in> set (tl_devices t). dv_snapshot d = io_snapshot r \<longrightarrow> dv_at d \<ge> c"
      using that by (force simp: forget_before_def not_le)+
    then obtain d where "d \<in> set (tl_devices t)" "dv_snapshot d = io_snapshot r" "dv_device d = io_device r"
      using ok by (auto simp: telemetry_ok_def)
    then show ?thesis using r(2) by (auto simp: forget_before_def)
  qed
  ultimately show ?thesis using ok by (auto simp: telemetry_ok_def forget_before_def)
qed

lemma record_snapshot_ok: "telemetry_ok t \<Longrightarrow> telemetry_ok (snd (record_snapshot H snap ob t))"
  by (cases "latest_snapshot (ob_device ob) t"; cases "insert_snapshot H snap ob t")
    (auto simp: record_snapshot_def intro: forget_before_ok add_events_ok insert_snapshot_ok)

inductive telemetry_reaches :: "(string \<Rightarrow> string) \<Rightarrow> telemetry \<Rightarrow> bool" for H where
  opened: "telemetry_reaches H (open_telemetry days)"
| recorded: "telemetry_reaches H t \<Longrightarrow> telemetry_reaches H (snd (record_snapshot H snap ob t))"
| stored: "telemetry_reaches H t \<Longrightarrow> telemetry_reaches H (snd (store_event e t))"

text \<open>C27: in every state the operations reach, each interface row belongs to a stored snapshot of its
  device, no port occurs twice in a snapshot, and events are numbered in ascending order without reuse.\<close>

theorem telemetry_wellformed: "telemetry_reaches H t \<Longrightarrow> telemetry_ok t"
proof (induction rule: telemetry_reaches.induct)
  case (opened days)
  then show ?case by (simp add: telemetry_ok_def open_telemetry_def clamp_def)
next
  case (recorded t snap ob)
  then show ?case by (simp add: record_snapshot_ok)
next
  case (stored t e)
  then show ?case by (simp add: store_event_def add_event_ok)
qed

theorem telemetry_wellformed_witness:
  "telemetry_ok (snd (store_event (port_event 5 ''d'' ''Gi1'' ''k'' ''NOTICE'' ''t'' ''x'' []) (open_telemetry 30)))"
  by (rule telemetry_wellformed [where H = "\<lambda>x. x"]) (intro telemetry_reaches.intros)

section \<open>Comparing with the latest observation\<close>

lemma rows_of_recorded:
  assumes ok: "telemetry_ok t" and ins: "insert_snapshot H snap ob t = Inr t1"
  shows "rows_of snap t1 = map (observed_row H snap ob) (ob_interfaces ob)"
proof -
  have fresh: "snap \<notin> set (map dv_snapshot (tl_devices t))"
    and t1: "tl_interfaces t1 = tl_interfaces t @ map (observed_row H snap ob) (ob_interfaces ob)"
    using ins by (auto simp: insert_snapshot_def split: if_splits)
  have "filter (\<lambda>r. io_snapshot r = snap) (tl_interfaces t) = []"
    using fresh_snapshot [OF ok fresh] by (auto simp: filter_empty_conv)
  then show ?thesis by (simp add: rows_of_def t1 filter_map comp_def observed_row_def)
qed

lemma latest_after_record:
  assumes ok: "telemetry_ok t" and rec: "record_snapshot H snap ob t = (Inr sm, t2)"
  shows "latest_snapshot (ob_device ob) t2 =
    (Some (ob_at ob), map (\<lambda>r. (io_port r, r)) (rev (map (observed_row H snap ob) (ob_interfaces ob))))"
proof -
  obtain p rows where l: "latest_snapshot (ob_device ob) t = (p, rows)" by (cases "latest_snapshot (ob_device ob) t")
  obtain t1 where ins: "insert_snapshot H snap ob t = Inr t1"
    using rec l by (cases "insert_snapshot H snap ob t") (auto simp: record_snapshot_def)
  let ?cut = "ob_at ob - tl_retention t * day"
  have t2: "t2 = forget_before ?cut (fold add_event (concat (map (events_on H ob rows) (ob_interfaces ob))) t1)"
    using rec l ins by (simp add: record_snapshot_def)
  have t1: "tl_devices t1 = tl_devices t @ [device_row_of snap ob]" "snap \<notin> set (map dv_snapshot (tl_devices t))"
    using ins by (auto simp: insert_snapshot_def split: if_splits)
  have recent: "ob_at ob \<ge> ?cut"
    using ok by (simp add: telemetry_ok_def day_def)
  have devices: "tl_devices t2 = filter (\<lambda>d. dv_at d \<ge> ?cut) (tl_devices t) @ [device_row_of snap ob]"
    using recent by (simp add: t2 t1(1) forget_before_def device_row_of_def)
  have "rows_of snap t2 = rows_of snap t1"
    using t1 recent
    by (auto simp: t2 rows_of_def forget_before_def device_row_of_def intro!: filter_cong)
  then show ?thesis
    using rows_of_recorded [OF ok ins]
    by (simp add: latest_snapshot_def devices device_row_of_def)
qed

lemma map_of_unique:
  assumes "distinct (map k xs)" "x \<in> set xs"
  shows "map_of (map (\<lambda>y. (k y, f y)) (rev xs)) (k x) = Some (f x)"
proof -
  have "map fst (map (\<lambda>y. (k y, f y)) (rev xs)) = rev (map k xs)" by (simp add: comp_def rev_map)
  then show ?thesis using assms by (intro map_of_is_SomeI) auto
qed

lemma recorded_distinct:
  "record_snapshot H snap ob t = (Inr sm, t2) \<Longrightarrow> distinct (map ifs_port (ob_interfaces ob))"
  by (cases "latest_snapshot (ob_device ob) t"; cases "insert_snapshot H snap ob t")
    (auto simp: record_snapshot_def insert_snapshot_def split: if_splits)

lemma same_observation_reads [simp]:
  "errors_on (ob\<lparr>ob_at := now\<rparr>) port = errors_on ob port"
  "poe_on (ob\<lparr>ob_at := now\<rparr>) port = poe_on ob port"
  "devices_on H (ob\<lparr>ob_at := now\<rparr>) port = devices_on H ob port"
  by (simp_all add: errors_on_def poe_on_def devices_on_def)

lemma set_minus_same: "set xs = set ys \<Longrightarrow> set_minus xs ys = []"
  by (simp add: set_minus_def sorted_set_def filter_empty_conv)

lemma unchanged_delta_silent:
  assumes "prev = observed_row H snap ob cur"
  shows "derive_events now device cur prev (derive_delta cur (Some prev) (errors_on ob (ifs_port cur)) (poe_on ob (ifs_port cur)))
    (devices_on H ob (ifs_port cur)) = []"
  unfolding assms
  by (simp add: derive_events_def derive_delta_def calculate_counter_delta_def observed_row_def link_events_def
      speed_events_def duplex_events_def vlan_events_def error_events_def error_amount_def poe_events_def
      learned_events_def stays_connected_def set_minus_same or_empty_def Let_def)

text \<open>A delta that reports the same state before and after.\<close>

definition steady :: "interface_delta \<Rightarrow> bool" where
  "steady d \<longleftrightarrow> dl_counter_state d = Counter_unchanged \<and> dl_status_before d = Some (dl_status_after d) \<and>
     dl_admin_before d = Some (dl_admin_after d) \<and> dl_speed_before d = Some (dl_speed_after d) \<and>
     dl_duplex_before d = Some (dl_duplex_after d) \<and> dl_vlan_before d = Some (dl_vlan_after d) \<and>
     dl_poe_before d = Some (dl_poe_after d)"

lemma found_after_record:
  assumes "record_snapshot H snap ob t = (Inr sm, t1)" "i \<in> set (ob_interfaces ob)"
  shows "dict_get (map (\<lambda>r. (io_port r, r)) (rev (map (observed_row H snap ob) (ob_interfaces ob)))) (ifs_port i) =
    Some (observed_row H snap ob i)"
  using map_of_unique [OF recorded_distinct [OF assms(1)] assms(2), of "observed_row H snap ob"]
  by (simp add: rev_map comp_def observed_row_def)

lemma repeated_deltas:
  assumes "telemetry_ok t" "record_snapshot H s1 ob t = (Inr sm1, t1)"
    and "record_snapshot H s2 (ob\<lparr>ob_at := now\<rparr>) t1 = (Inr sm2, t2)"
  shows "list_all steady (ts_deltas sm2)"
proof -
  let ?ob = "ob\<lparr>ob_at := now\<rparr>"
  let ?rows = "map (\<lambda>r. (io_port r, r)) (rev (map (observed_row H s1 ob) (ob_interfaces ob)))"
  have "latest_snapshot (ob_device ob) t1 = (Some (ob_at ob), ?rows)"
    using latest_after_record [OF assms(1,2)] .
  then have "ts_deltas sm2 = map (delta_on ?ob ?rows) (ob_interfaces ob)"
    using assms(3) by (cases "insert_snapshot H s2 ?ob t1") (auto simp: record_snapshot_def)
  moreover have "steady (delta_on ?ob ?rows i)" if "i \<in> set (ob_interfaces ob)" for i
    using found_after_record [OF assms(2) that]
    by (simp add: steady_def delta_on_def derive_delta_def calculate_counter_delta_def observed_row_def)
  ultimately show ?thesis by (simp add: list_all_iff)
qed

text \<open>Observing the same tables a second time raises no event: every delta is unchanged, and the
  events stored are the earlier ones that are still within the retention.\<close>

theorem repeated_observation_silent:
  assumes "telemetry_ok t" "record_snapshot H s1 ob t = (Inr sm1, t1)"
    and "record_snapshot H s2 (ob\<lparr>ob_at := now\<rparr>) t1 = (Inr sm2, t2)"
  shows "list_all (\<lambda>d. dl_counter_state d = Counter_unchanged \<and> dl_status_before d = Some (dl_status_after d)) (ts_deltas sm2) \<and>
    tl_events t2 = filter (\<lambda>(_, e). ne_at e \<ge> now - tl_retention t1 * day) (tl_events t1)"
proof -
  let ?ob = "ob\<lparr>ob_at := now\<rparr>"
  let ?rows = "map (\<lambda>r. (io_port r, r)) (rev (map (observed_row H s1 ob) (ob_interfaces ob)))"
  have latest: "latest_snapshot (ob_device ob) t1 = (Some (ob_at ob), ?rows)"
    using latest_after_record [OF assms(1,2)] .
  note found = found_after_record [OF assms(2)]
  have silent: "events_on H ?ob ?rows i = []" if "i \<in> set (ob_interfaces ob)" for i
    using unchanged_delta_silent [OF refl, of now "ob_device ob" i H s1 ob] found [OF that]
    by (simp add: events_on_def delta_on_def)
  then have no_events: "concat (map (events_on H ?ob ?rows) (ob_interfaces ob)) = []" by simp
  obtain u where ins: "insert_snapshot H s2 ?ob t1 = Inr u"
    using assms(3) latest by (cases "insert_snapshot H s2 ?ob t1") (auto simp: record_snapshot_def)
  then have u: "tl_events u = tl_events t1" by (auto simp: insert_snapshot_def split: if_splits)
  have t2: "t2 = forget_before (now - tl_retention t1 * day) u"
    using assms(3) latest ins no_events by (auto simp: record_snapshot_def)
  show ?thesis
    using repeated_deltas [OF assms] u by (auto simp: t2 forget_before_def list_all_iff steady_def)
qed

lemma record_accepts:
  assumes "snap \<notin> set (map dv_snapshot (tl_devices t))" "distinct (map ifs_port (ob_interfaces ob))"
  shows "\<exists>sm. record_snapshot H snap ob t = (Inr sm, snd (record_snapshot H snap ob t))"
  using assms
  by (cases "latest_snapshot (ob_device ob) t") (simp add: record_snapshot_def insert_snapshot_def)

lemma recorded_snapshots:
  "set (map dv_snapshot (tl_devices (snd (record_snapshot H snap ob t)))) \<subseteq> insert snap (set (map dv_snapshot (tl_devices t)))"
  by (cases "latest_snapshot (ob_device ob) t"; cases "insert_snapshot H snap ob t")
    (auto simp: record_snapshot_def forget_before_def insert_snapshot_def device_row_of_def split: if_splits)

definition demo_observation :: observation where
  "demo_observation =
     \<lparr>ob_device = ''sw'', ob_reachable = True, ob_cpu = \<lparr>cpu_5sec = Some 5, cpu_1min = None, cpu_5min = None\<rparr>,
      ob_memory = \<lparr>mem_processor_total = None, mem_processor_used = None, mem_processor_free = None, mem_io_total = None,
        mem_io_used = None, mem_io_free = None\<rparr>,
      ob_environment = \<lparr>env_temperature = None, env_state = ''GREEN'', env_yellow = None, env_red = None, env_power = ''ok''\<rparr>,
      ob_poe = \<lparr>pr_available_watts = 0, pr_used_watts = 0, pr_remaining_watts = 0, pr_ports = []\<rparr>,
      ob_interfaces = [\<lparr>ifs_port = ''Gi1'', ifs_name = [], ifs_status = ''connected'', ifs_vlan = ''1'', ifs_duplex = ''a-full'',
        ifs_speed = ''a-100'', ifs_type = [], ifs_protected = False, ifs_policy_state = UNMANAGED\<rparr>],
      ob_errors = [], ob_macs = [\<lparr>mac_vlan = ''1'', mac_addr = ''00aa'', mac_type = ''DYNAMIC'', mac_port = ''Gi1''\<rparr>], ob_at = 10\<rparr>"

lemma demo_recorded_twice:
  obtains sm1 t1 sm2 t2 where "record_snapshot (\<lambda>x. x) ''a'' demo_observation (open_telemetry 30) = (Inr sm1, t1)"
    "record_snapshot (\<lambda>x. x) ''b'' (demo_observation\<lparr>ob_at := 20\<rparr>) t1 = (Inr sm2, t2)"
proof -
  let ?r = "record_snapshot (\<lambda>x. x) ''a'' demo_observation (open_telemetry 30)"
  obtain sm1 where r: "?r = (Inr sm1, snd ?r)"
    using record_accepts [of "''a''" "open_telemetry 30" demo_observation]
    by (auto simp: open_telemetry_def demo_observation_def)
  have "tl_devices (open_telemetry 30) = []" by (simp add: open_telemetry_def)
  then have "''b'' \<notin> set (map dv_snapshot (tl_devices (snd ?r)))"
    using recorded_snapshots [of "\<lambda>x. x" "''a''" demo_observation "open_telemetry 30"] by auto
  moreover have "distinct (map ifs_port (ob_interfaces (demo_observation\<lparr>ob_at := 20\<rparr>)))"
    by (simp add: demo_observation_def)
  ultimately obtain sm2 t2 where "record_snapshot (\<lambda>x. x) ''b'' (demo_observation\<lparr>ob_at := 20\<rparr>) (snd ?r) = (Inr sm2, t2)"
    using record_accepts by blast
  then show thesis using that r by blast
qed

theorem repeated_observation_silent_witness:
  "case record_snapshot (\<lambda>x. x) ''a'' demo_observation (open_telemetry 30) of
     (Inr _, t1) \<Rightarrow>
       (case record_snapshot (\<lambda>x. x) ''b'' (demo_observation\<lparr>ob_at := 20\<rparr>) t1 of
          (Inr sm2, t2) \<Rightarrow>
            list_all (\<lambda>d. dl_counter_state d = Counter_unchanged \<and> dl_status_before d = Some (dl_status_after d)) (ts_deltas sm2) \<and>
            tl_events t2 = filter (\<lambda>(_, e). ne_at e \<ge> 20 - tl_retention t1 * day) (tl_events t1)
        | _ \<Rightarrow> False)
   | _ \<Rightarrow> False"
proof -
  have ok: "telemetry_ok (open_telemetry 30)" by (simp add: telemetry_ok_def open_telemetry_def clamp_def)
  obtain sm1 t1 sm2 t2 where r: "record_snapshot (\<lambda>x. x) ''a'' demo_observation (open_telemetry 30) = (Inr sm1, t1)"
    and q: "record_snapshot (\<lambda>x. x) ''b'' (demo_observation\<lparr>ob_at := 20\<rparr>) t1 = (Inr sm2, t2)"
    by (rule demo_recorded_twice)
  show ?thesis
    using repeated_observation_silent [OF ok r q] by (simp only: r q prod.case sum.case)
qed

end
