(* ===== verification/Health.thy ===== *)
theory Health
  imports Telemetry_Properties
begin

text \<open>
  \<open>backend/app/health_logic.py\<close>: the health of the device from its current conditions and from what
  changed since the preceding observation, and the summary built on it. Shown: the state is the worst
  severity of the reasons, and neither a first observation nor a repeated one adds a reason, whatever
  the counters have accumulated.
\<close>

section \<open>Severities and thresholds\<close>

datatype health_state = Healthy | Notice | Attention | Critical

primrec health_rank :: "health_state \<Rightarrow> nat" where
  "health_rank Healthy = 0"
| "health_rank Notice = 1"
| "health_rank Attention = 2"
| "health_rank Critical = 3"

instantiation health_state :: linorder
begin

definition less_eq_health_state :: "health_state \<Rightarrow> health_state \<Rightarrow> bool" where
  "less_eq_health_state a b \<longleftrightarrow> health_rank a \<le> health_rank b"

definition less_health_state :: "health_state \<Rightarrow> health_state \<Rightarrow> bool" where
  "less_health_state a b \<longleftrightarrow> health_rank a < health_rank b"

instance
proof
  fix a b :: health_state
  show "a = b" if "a \<le> b" "b \<le> a"
    using that by (cases a; cases b) (simp_all add: less_eq_health_state_def)
qed (auto simp: less_eq_health_state_def less_health_state_def)

end

record health_thresholds =
  th_cpu_notice :: rat
  th_cpu_attention :: rat
  th_cpu_critical :: rat
  th_memory_notice :: rat
  th_memory_attention :: rat
  th_memory_critical :: rat
  th_error_attention :: int
  th_error_critical :: int

definition default_thresholds :: health_thresholds where
  "default_thresholds = \<lparr>th_cpu_notice = 65, th_cpu_attention = 80, th_cpu_critical = 95, th_memory_notice = 85,
     th_memory_attention = 90, th_memory_critical = 97, th_error_attention = 10, th_error_critical = 100\<rparr>"

record reason =
  rn_code :: string
  rn_severity :: health_state
  rn_title :: string
  rn_detail :: string
  rn_interface :: "string option"

record assessment =
  as_state :: health_state
  as_reasons :: "reason list"
  as_evaluated_at :: time
  as_based_on_history :: bool

definition memory_used :: "memory_status \<Rightarrow> rat option" where
  "memory_used m =
     (case (mem_processor_total m, mem_processor_used m) of
        (Some whole, Some used) \<Rightarrow> if whole \<le> 0 then None else Some (of_int used / of_int whole * 100)
      | _ \<Rightarrow> None)"

definition speed_mbps :: "string option \<Rightarrow> nat option" where
  "speed_mbps v =
     (if or_empty v = [] then None
      else
        let normalized = py_strip (drop_auto (py_lower (or_empty v))) in
        if normalized \<in> {''auto'', ''--'', ''n/a''} then None
        else map_option py_int (found (Grp 1 (plus1 dig)) normalized))"

definition health_poe_active :: "string option \<Rightarrow> bool" where
  "health_poe_active v \<longleftrightarrow>
     or_empty v \<noteq> [] \<and> py_lower (py_strip (or_empty v)) \<notin> {''off'', ''n/a'', ''not-supported'', ''unknown''}"

section \<open>Current conditions\<close>

definition device_reason :: "string \<Rightarrow> health_state \<Rightarrow> string \<Rightarrow> string \<Rightarrow> reason" where
  "device_reason code severity title detail =
     \<lparr>rn_code = code, rn_severity = severity, rn_title = title, rn_detail = detail, rn_interface = None\<rparr>"

definition port_reason :: "string \<Rightarrow> string \<Rightarrow> health_state \<Rightarrow> string \<Rightarrow> string \<Rightarrow> reason" where
  "port_reason port code severity title detail =
     \<lparr>rn_code = code, rn_severity = severity, rn_title = title, rn_detail = detail, rn_interface = Some port\<rparr>"

definition temperature_text :: "environment_status \<Rightarrow> string" where
  "temperature_text e = ''The observed temperature is '' @
     (case env_temperature e of None \<Rightarrow> ''None'' | Some n \<Rightarrow> py_str_int n) @ ''C.''"

definition temperature_reasons :: "environment_status \<Rightarrow> reason list" where
  "temperature_reasons e =
     (if env_state e = ''RED''
      then [device_reason ''temperature_critical'' Critical ''Temperature is in the red range'' (temperature_text e)]
      else if env_state e = ''YELLOW''
      then [device_reason ''temperature_attention'' Attention ''Temperature is in the yellow range'' (temperature_text e)]
      else [])"

definition cpu_reasons :: "health_thresholds \<Rightarrow> cpu_status \<Rightarrow> reason list" where
  "cpu_reasons th c =
     (case cpu_5sec c of
        None \<Rightarrow> []
      | Some load \<Rightarrow>
          let detail = ''Five-second CPU is '' @ format_0f load @ ''%.'' in
          if load \<ge> th_cpu_critical th then [device_reason ''cpu_critical'' Critical ''CPU is critically busy'' detail]
          else if load \<ge> th_cpu_attention th then [device_reason ''cpu_attention'' Attention ''CPU is heavily loaded'' detail]
          else if load \<ge> th_cpu_notice th then [device_reason ''cpu_notice'' Notice ''CPU load is elevated'' detail]
          else [])"

definition memory_reasons :: "health_thresholds \<Rightarrow> memory_status \<Rightarrow> reason list" where
  "memory_reasons th m =
     (case memory_used m of
        None \<Rightarrow> []
      | Some used \<Rightarrow>
          let detail = ''Processor memory is '' @ format_1f used @ ''% used.'' in
          if used \<ge> th_memory_critical th then [device_reason ''memory_critical'' Critical ''Memory is critically full'' detail]
          else if used \<ge> th_memory_attention th then [device_reason ''memory_attention'' Attention ''Memory use is high'' detail]
          else if used \<ge> th_memory_notice th then [device_reason ''memory_notice'' Notice ''Memory use is elevated'' detail]
          else [])"

section \<open>Changes since the preceding observation\<close>

definition counter_reasons :: "health_thresholds \<Rightarrow> interface_delta \<Rightarrow> reason list" where
  "counter_reasons th d =
     (let n = error_amount d; port = dl_port d in
      if n > 0
      then [port_reason port ''interface_errors_increased''
              (if n \<ge> th_error_critical th then Critical else if n \<ge> th_error_attention th then Attention else Notice)
              (port @ '' errors increased by '' @ py_str_int n)
              (''The cumulative error counter rose by '' @ py_str_int n @ '' since the previous observation.'')]
      else if dl_counter_state d = Counter_reset
      then [port_reason port ''interface_counter_reset'' Notice (port @ '' error counter reset observed'')
              ''The counter decreased. A restart or external clear can cause this; SwitchOps cannot determine which.'']
      else [])"

definition link_reasons :: "interface_status option \<Rightarrow> interface_delta \<Rightarrow> reason list" where
  "link_reasons cur d =
     (if dl_status_before d = Some ''connected'' \<and> dl_status_after d \<noteq> ''connected''
      then
        let uplink = is_uplink_text (case cur of None \<Rightarrow> [] | Some i \<Rightarrow> ifs_name i) in
        [port_reason (dl_port d) (if uplink then ''uplink_down'' else ''interface_link_down'')
           (if uplink then Critical else Notice) (dl_port d @ '' link is down'')
           ''This interface was connected at the previous observation and no longer has a link.'']
      else [])"

definition speed_reasons :: "interface_delta \<Rightarrow> reason list" where
  "speed_reasons d =
     (case (speed_mbps (dl_speed_before d), speed_mbps (Some (dl_speed_after d))) of
        (Some before, Some after) \<Rightarrow>
          if stays_connected d \<and> after < before
          then [port_reason (dl_port d) ''link_speed_reduced'' Notice (dl_port d @ '' negotiated a lower speed'')
                  (''Link speed changed from '' @ py_str_nat before @ '' Mbps to '' @ py_str_nat after @ '' Mbps.'')]
          else []
      | _ \<Rightarrow> [])"

definition duplex_reasons :: "interface_delta \<Rightarrow> reason list" where
  "duplex_reasons d =
     (if stays_connected d \<and> py_contains ''half'' (py_lower (dl_duplex_after d)) \<and> dl_duplex_before d \<noteq> Some (dl_duplex_after d)
      then [port_reason (dl_port d) ''half_duplex_negotiated'' Attention (dl_port d @ '' negotiated half duplex'')
              (''Duplex changed from '' @ or_text (or_empty (dl_duplex_before d)) ''unknown'' @ '' to '' @ dl_duplex_after d @ ''.'')]
      else [])"

definition poe_reasons :: "interface_delta \<Rightarrow> reason list" where
  "poe_reasons d =
     (if dl_poe_before d \<noteq> None \<and> health_poe_active (dl_poe_before d) \<and> \<not> health_poe_active (Some (dl_poe_after d))
      then [port_reason (dl_port d) ''poe_stopped'' Notice (''PoE stopped on '' @ dl_port d)
              ''The switch was supplying PoE at the previous observation and is not supplying it now.'']
      else [])"

definition delta_reasons :: "health_thresholds \<Rightarrow> interface_status list \<Rightarrow> interface_delta \<Rightarrow> reason list" where
  "delta_reasons th interfaces d =
     counter_reasons th d @
     link_reasons (map_of (rev (map (\<lambda>i. (ifs_port i, i)) interfaces)) (dl_port d)) d @
     speed_reasons d @ duplex_reasons d @ poe_reasons d"

section \<open>The assessment\<close>

definition partial_reasons :: "bool \<Rightarrow> reason list" where
  "partial_reasons entire =
     (if entire then []
      else [device_reason ''partial_telemetry'' Notice ''Some telemetry is unavailable''
              ''Health was evaluated from the sections that were collected successfully.''])"

definition no_problems :: reason where
  "no_problems = device_reason ''no_active_problems'' Healthy ''No active problems detected''
     ''Current conditions are within thresholds and no adverse change was observed.''"

definition active_reasons ::
  "health_thresholds \<Rightarrow> interface_status list \<Rightarrow> environment_status \<Rightarrow> cpu_status \<Rightarrow> memory_status
     \<Rightarrow> interface_delta list \<Rightarrow> bool \<Rightarrow> reason list"
where
  "active_reasons th interfaces e c m deltas entire =
     temperature_reasons e @ cpu_reasons th c @ memory_reasons th m @
     concat (map (delta_reasons th interfaces) deltas) @ partial_reasons entire"

definition worst :: "reason list \<Rightarrow> health_state" where
  "worst rs = (if rs = [] then Healthy else Max (set (map rn_severity rs)))"

definition evaluate_health ::
  "health_thresholds \<Rightarrow> interface_status list \<Rightarrow> environment_status \<Rightarrow> cpu_status \<Rightarrow> memory_status
     \<Rightarrow> interface_delta list \<Rightarrow> bool \<Rightarrow> time \<Rightarrow> assessment"
where
  "evaluate_health th interfaces e c m deltas entire now =
     (let reasons = active_reasons th interfaces e c m deltas entire
      in \<lparr>as_state = worst reasons, as_reasons = (if reasons = [] then [no_problems] else reasons), as_evaluated_at = now,
          as_based_on_history = list_ex (\<lambda>d. dl_status_before d \<noteq> None) deltas\<rparr>)"

record switch_summary =
  sw_connected :: "string list"
  sw_shutdown :: "string list"
  sw_error_ports :: "string list"
  sw_temperature :: "int option"
  sw_temperature_state :: string
  sw_cpu_5sec :: "rat option"
  sw_poe_available :: rat
  sw_poe_used :: rat
  sw_text :: string
  sw_healthy :: bool
  sw_health :: assessment
  sw_complete :: bool

definition state_title :: "health_state \<Rightarrow> string" where
  "state_title s = (case s of Healthy \<Rightarrow> ''Healthy'' | Notice \<Rightarrow> ''Notice'' | Attention \<Rightarrow> ''Attention'' | Critical \<Rightarrow> ''Critical'')"

definition summary_text :: "assessment \<Rightarrow> nat \<Rightarrow> string" where
  "summary_text h ports =
     (if as_state h = Healthy
      then ''Switch is healthy. '' @ py_str_nat ports @ '' port(s) connected; no active error increases detected.'' @
           (if as_based_on_history h then [] else '' No previous observation is available yet.'')
      else state_title (as_state h) @ '': '' @ py_join ''; '' (map rn_title (take 3 (as_reasons h))) @ ''.'')"

text \<open>The identification fields of the summary (hostname, model, addresses, versions) are copies of the
  arguments and left out.\<close>

definition build_summary ::
  "interface_status list \<Rightarrow> environment_status \<Rightarrow> cpu_status \<Rightarrow> memory_status \<Rightarrow> poe_response
     \<Rightarrow> interface_delta list \<Rightarrow> time \<Rightarrow> bool \<Rightarrow> switch_summary"
where
  "build_summary interfaces e c m poe deltas now entire =
     (let up = map ifs_port (filter (\<lambda>i. ifs_status i = ''connected'') interfaces);
          h = evaluate_health default_thresholds interfaces e c m deltas entire now
      in \<lparr>sw_connected = up,
          sw_shutdown = map ifs_port (filter (\<lambda>i. ifs_status i = ''disabled'') interfaces),
          sw_error_ports = map dl_port (filter (\<lambda>d. error_amount d > 0) deltas),
          sw_temperature = env_temperature e, sw_temperature_state = env_state e, sw_cpu_5sec = cpu_5sec c,
          sw_poe_available = pr_available_watts poe, sw_poe_used = pr_used_watts poe,
          sw_text = summary_text h (length up), sw_healthy = as_state h \<in> {Healthy, Notice},
          sw_health = h, sw_complete = entire\<rparr>)"

section \<open>What the assessment says\<close>

lemma delta_reasons_port: "r \<in> set (delta_reasons th is d) \<Longrightarrow> rn_interface r = Some (dl_port d) \<and> rn_severity r \<noteq> Healthy"
  by (auto simp: delta_reasons_def counter_reasons_def link_reasons_def speed_reasons_def duplex_reasons_def
      poe_reasons_def port_reason_def Let_def split: if_splits option.splits)

lemma active_reasons_severity:
  "r \<in> set (active_reasons th interfaces e c m deltas entire) \<Longrightarrow> rn_severity r \<noteq> Healthy"
  using delta_reasons_port [of r th interfaces]
  by (auto simp: active_reasons_def temperature_reasons_def cpu_reasons_def memory_reasons_def partial_reasons_def
      device_reason_def Let_def split: if_splits option.splits)

lemma worst_unhealthy:
  assumes "rs \<noteq> []" "\<And>r. r \<in> set rs \<Longrightarrow> rn_severity r \<noteq> Healthy"
  shows "worst rs \<noteq> Healthy"
proof -
  have "worst rs \<in> rn_severity ` set rs"
    using assms(1) Max_in [of "rn_severity ` set rs"] by (simp add: worst_def)
  then obtain r where "r \<in> set rs" "worst rs = rn_severity r" by blast
  then show ?thesis using assms(2) by simp
qed

text \<open>The state is the worst severity among the reasons, and it is healthy exactly when the only
  reason is that no problem is active.\<close>

theorem health_is_worst_reason:
  "(let h = evaluate_health th interfaces e c m deltas entire now in
    as_state h = Max (set (map rn_severity (as_reasons h))) \<and> (as_state h = Healthy \<longleftrightarrow> as_reasons h = [no_problems]))"
proof -
  let ?rs = "active_reasons th interfaces e c m deltas entire"
  have "?rs \<noteq> [no_problems]"
    using active_reasons_severity [of no_problems th interfaces e c m deltas entire]
    by (auto simp: no_problems_def device_reason_def)
  then show ?thesis
    using worst_unhealthy [of ?rs] active_reasons_severity [of _ th interfaces e c m deltas entire]
    by (cases "?rs = []") (simp_all add: evaluate_health_def Let_def worst_def no_problems_def device_reason_def)
qed

definition unremarkable :: "interface_delta \<Rightarrow> bool" where
  "unremarkable d \<longleftrightarrow>
     dl_counter_state d \<in> {Counter_first, Counter_unchanged} \<and>
     dl_status_before d \<in> {None, Some (dl_status_after d)} \<and> dl_speed_before d \<in> {None, Some (dl_speed_after d)} \<and>
     dl_duplex_before d \<in> {None, Some (dl_duplex_after d)} \<and> dl_poe_before d \<in> {None, Some (dl_poe_after d)} \<and>
     (dl_duplex_before d = None \<longrightarrow> dl_status_before d = None)"

lemma steady_unremarkable: "steady d \<Longrightarrow> unremarkable d"
  by (simp add: steady_def unremarkable_def)

lemma unremarkable_no_reason:
  assumes "unremarkable d"
  shows "delta_reasons th interfaces d = []"
proof -
  have "counter_reasons th d = []" "link_reasons cur d = []" for cur
    using assms by (auto simp: unremarkable_def counter_reasons_def error_amount_def link_reasons_def)
  moreover have "duplex_reasons d = []" "poe_reasons d = []"
    using assms by (auto simp: unremarkable_def duplex_reasons_def poe_reasons_def stays_connected_def)
  moreover have "speed_mbps None = None" by (simp add: speed_mbps_def or_empty_def)
  then have "speed_reasons d = []"
    using assms unfolding speed_reasons_def
    by (cases "dl_speed_before d") (simp_all add: unremarkable_def split: option.split)
  ultimately show ?thesis by (simp add: delta_reasons_def)
qed

lemma unremarkable_health:
  assumes "list_all unremarkable deltas"
  shows "as_reasons (evaluate_health th interfaces e c m deltas entire now) =
      as_reasons (evaluate_health th interfaces e c m [] entire now) \<and>
    as_state (evaluate_health th interfaces e c m deltas entire now) =
      as_state (evaluate_health th interfaces e c m [] entire now)"
proof -
  have "concat (map (delta_reasons th interfaces) deltas) = []"
    using assms by (auto simp: list_all_iff unremarkable_no_reason)
  then have "active_reasons th interfaces e c m deltas entire = active_reasons th interfaces e c m [] entire"
    unfolding active_reasons_def by (simp only: concat.simps list.map)
  then show ?thesis by (simp only: evaluate_health_def Let_def assessment.select_convs)
qed

lemma first_delta_unremarkable: "unremarkable (derive_delta cur None errors poe)"
  by (simp add: unremarkable_def derive_delta_def calculate_counter_delta_def)

text \<open>A first observation is judged by the current conditions alone: whatever its counters have
  accumulated, the interfaces give no reason.\<close>

theorem first_observation_health:
  assumes "latest_snapshot (ob_device ob) t = (None, [])" "record_snapshot H snap ob t = (Inr sm, t1)"
  shows "as_reasons (evaluate_health th interfaces e c m (ts_deltas sm) entire now) =
      as_reasons (evaluate_health th interfaces e c m [] entire now) \<and>
    as_state (evaluate_health th interfaces e c m (ts_deltas sm) entire now) =
      as_state (evaluate_health th interfaces e c m [] entire now)"
proof -
  have "ts_deltas sm = map (delta_on ob []) (ob_interfaces ob)"
    using assms by (cases "insert_snapshot H snap ob t") (auto simp: record_snapshot_def)
  then show ?thesis by (intro unremarkable_health) (simp add: list_all_iff delta_on_def first_delta_unremarkable)
qed

text \<open>Observing the same tables again is judged by the current conditions alone.\<close>

theorem repeated_observation_health:
  assumes "telemetry_ok t" "record_snapshot H s1 ob t = (Inr sm1, t1)"
    and "record_snapshot H s2 (ob\<lparr>ob_at := now\<rparr>) t1 = (Inr sm2, t2)"
  shows "as_reasons (evaluate_health th interfaces e c m (ts_deltas sm2) entire at') =
      as_reasons (evaluate_health th interfaces e c m [] entire at') \<and>
    as_state (evaluate_health th interfaces e c m (ts_deltas sm2) entire at') =
      as_state (evaluate_health th interfaces e c m [] entire at')"
  using repeated_deltas [OF assms]
  by (intro unremarkable_health) (auto simp: list_all_iff steady_unremarkable)

theorem repeated_observation_health_witness:
  "case record_snapshot (\<lambda>x. x) ''a'' demo_observation (open_telemetry 30) of
     (_, t1) \<Rightarrow>
       (case record_snapshot (\<lambda>x. x) ''b'' (demo_observation\<lparr>ob_at := 20\<rparr>) t1 of
          (Inr sm2, _) \<Rightarrow>
            as_reasons (evaluate_health default_thresholds [] (ob_environment demo_observation) (ob_cpu demo_observation)
              (ob_memory demo_observation) (ts_deltas sm2) True 21) =
            as_reasons (evaluate_health default_thresholds [] (ob_environment demo_observation) (ob_cpu demo_observation)
              (ob_memory demo_observation) [] True 21)
        | _ \<Rightarrow> False)"
proof -
  have ok: "telemetry_ok (open_telemetry 30)" by (simp add: telemetry_ok_def open_telemetry_def clamp_def)
  obtain sm1 t1 sm2 t2 where r: "record_snapshot (\<lambda>x. x) ''a'' demo_observation (open_telemetry 30) = (Inr sm1, t1)"
    and q: "record_snapshot (\<lambda>x. x) ''b'' (demo_observation\<lparr>ob_at := 20\<rparr>) t1 = (Inr sm2, t2)"
    by (rule demo_recorded_twice)
  show ?thesis
    using repeated_observation_health [OF ok r q] by (simp only: r q prod.case sum.case)
qed

end
