(* ===== verification/Unified_Evidence.thy ===== *)
theory Unified_Evidence
  imports Topology_Names Models Regex "HOL-Library.Product_Lexorder"
begin

text \<open>
  The provider-neutral contracts of \<open>backend/app/unified_models.py\<close>, the protection of identifiers
  (\<open>identity_protection.py\<close>), the helpers of \<open>normalized_evidence.py\<close>, and the resolution of identities
  across providers (\<open>identity_resolution.py\<close>). The SHA-256 digest is the parameter \<open>H\<close>, the keyed digest
  of the installation the parameter \<open>K\<close>; both give hexadecimal text. Strings of the models that nothing
  reads are kept; scopes and provenance records are reduced to the reference they carry.
\<close>

section \<open>Vocabulary\<close>

datatype provider = Catalyst_ios | Meraki_dashboard | Switchops_intent | Switchops_history

fun provider_name :: "provider \<Rightarrow> string" where
  "provider_name Catalyst_ios = ''catalyst-ios''"
| "provider_name Meraki_dashboard = ''meraki-dashboard''"
| "provider_name Switchops_intent = ''switchops-intent''"
| "provider_name Switchops_history = ''switchops-history''"

datatype strength = Strong | Supporting | Weak

datatype evidence_freshness = Current | Aging | Stale | Historical

datatype claim_field = F_existence | F_identity | F_attachment | F_relationship | F_availability | F_name | F_vendor
  | F_model | F_category | F_vlan | F_port | F_uplink

fun field_name :: "claim_field \<Rightarrow> string" where
  "field_name F_existence = ''existence''"
| "field_name F_identity = ''identity''"
| "field_name F_attachment = ''attachment''"
| "field_name F_relationship = ''relationship''"
| "field_name F_availability = ''availability''"
| "field_name F_name = ''name''"
| "field_name F_vendor = ''vendor''"
| "field_name F_model = ''model''"
| "field_name F_category = ''category''"
| "field_name F_vlan = ''vlan''"
| "field_name F_port = ''port''"
| "field_name F_uplink = ''uplink''"

datatype identifier_kind = I_serial | I_chassis_mac | I_device_mac | I_management_address | I_provider_id
  | I_direct_adjacency | I_reciprocal_adjacency | I_name | I_model

fun kind_name :: "identifier_kind \<Rightarrow> string" where
  "kind_name I_serial = ''serial''"
| "kind_name I_chassis_mac = ''chassis-mac''"
| "kind_name I_device_mac = ''device-mac''"
| "kind_name I_management_address = ''management-address''"
| "kind_name I_provider_id = ''provider-id''"
| "kind_name I_direct_adjacency = ''direct-adjacency''"
| "kind_name I_reciprocal_adjacency = ''reciprocal-adjacency''"
| "kind_name I_name = ''name''"
| "kind_name I_model = ''model''"

record provider_identifier =
  pi_kind :: identifier_kind
  pi_value :: string
  pi_strength :: strength
  pi_global :: "bool option"
  pi_ref :: string

text \<open>The values a claim carries: the normalizers write texts and \<open>True\<close>.\<close>

datatype claim_value = V_text string | V_bool bool | V_int int | V_none

fun value_text :: "claim_value \<Rightarrow> string" where
  "value_text (V_text s) = s"
| "value_text (V_bool b) = (if b then ''True'' else ''False'')"
| "value_text (V_int i) = py_str_int i"
| "value_text V_none = ''None''"

record claim =
  nc_id :: string
  nc_provider :: provider
  nc_subject :: string
  nc_field :: claim_field
  nc_value :: claim_value
  nc_object :: "string option"
  nc_strength :: strength
  nc_freshness :: evidence_freshness
  nc_source :: string
  nc_detail :: string

record entity =
  en_id :: string
  en_provider :: provider
  en_label :: string
  en_category :: string
  en_vendor :: "string option"
  en_model :: "string option"
  en_identifiers :: "provider_identifier list"
  en_claims :: "string list"
  en_observed_at :: time
  en_freshness :: evidence_freshness

datatype reason_kind = Agreement | Conflict | Support | Hint | Operator

record identity_reason =
  ir_kind :: reason_kind
  ir_field :: string
  ir_strength :: strength
  ir_summary :: string
  ir_refs :: "string list"

datatype link_state = Confirmed | Candidate | Rejected | Conflicted | Link_stale

record identity_link =
  il_id :: string
  il_left :: string
  il_right :: string
  il_state :: link_state
  il_automatic :: bool
  il_reasons :: "identity_reason list"
  il_evaluated_at :: time
  il_decided_at :: "time option"

record identity_conflict =
  ic_id :: string
  ic_left :: string
  ic_right :: string
  ic_field :: identifier_kind
  ic_summary :: string
  ic_refs :: "string list"

datatype source_state = Not_configured | Source_healthy | Source_partial | Rate_limited | Unavailable | Source_stale

record source_health =
  sh_provider :: provider
  sh_state :: source_state
  sh_detail :: string
  sh_checked_at :: time
  sh_last_success :: "time option"
  sh_complete :: bool
  sh_failed :: "string list"

section \<open>Protected identifiers\<close>

definition normalize_serial :: "string \<Rightarrow> string" where
  "normalize_serial v = py_upper (filter (\<lambda>c. \<not> py_isspace_char c) v)"

definition is_lower_hex :: "char \<Rightarrow> bool" where
  "is_lower_hex c \<longleftrightarrow> c \<in> set ''0123456789abcdef''"

definition normalize_hardware_mac :: "string \<Rightarrow> string" where
  "normalize_hardware_mac v =
     (let compact = filter (\<lambda>c. c \<notin> set ''-:.'') (py_lower (py_strip v)) in
      if length compact = 12 \<and> list_all is_lower_hex compact then compact else [])"

definition hex_value :: "char \<Rightarrow> nat" where
  "hex_value c = (if is_decimal_char c then digit_value c else cp c - 87)"

definition globally_administered :: "string \<Rightarrow> bool" where
  "globally_administered v =
     (let m = normalize_hardware_mac v in
      if m = [] \<or> m = replicate 12 (CHR ''0'') \<or> m = replicate 12 (CHR ''f'') then False
      else
        let first = 16 * hex_value (m ! 0) + hex_value (m ! 1) in
        even first \<and> even (first div 2))"

subsection \<open>Addresses as \<open>ipaddress\<close> reads and prints them\<close>

definition octet_ok :: "string \<Rightarrow> bool" where
  "octet_ok s \<longleftrightarrow> s \<noteq> [] \<and> list_all is_decimal_char s \<and> length s \<le> 3 \<and> (hd s = CHR ''0'' \<longrightarrow> length s = 1) \<and> py_int s \<le> 255"

definition ipv4_octets :: "string \<Rightarrow> nat list option" where
  "ipv4_octets s =
     (let parts = py_split_char (CHR ''.'') s in
      if length parts = 4 \<and> list_all octet_ok parts then Some (map py_int parts) else None)"

definition hextet_ok :: "string \<Rightarrow> bool" where
  "hextet_ok s \<longleftrightarrow> s \<noteq> [] \<and> length s \<le> 4 \<and> list_all is_lower_hex (py_lower s)"

definition hextet_value :: "string \<Rightarrow> nat" where
  "hextet_value s = foldl (\<lambda>n c. 16 * n + hex_value c) 0 (py_lower s)"

text \<open>The groups of an IPv6 address; a dotted last part stands for two of them.\<close>

definition ipv6_parts :: "string \<Rightarrow> string list option" where
  "ipv6_parts s =
     (let parts = py_split_char (CHR '':'') s in
      if length parts < 3 then None
      else if CHR ''.'' \<in> set (last parts)
      then (case ipv4_octets (last parts) of
              Some [a, b, c, d] \<Rightarrow>
                Some (butlast parts @
                  [[hex_digit (a div 16), hex_digit (a mod 16), hex_digit (b div 16), hex_digit (b mod 16)],
                   [hex_digit (c div 16), hex_digit (c mod 16), hex_digit (d div 16), hex_digit (d mod 16)]])
            | _ \<Rightarrow> None)
      else Some parts)"

definition inner_gaps :: "string list \<Rightarrow> nat list" where
  "inner_gaps parts = filter (\<lambda>i. parts ! i = []) [1..<length parts - 1]"

definition ipv6_groups :: "string list \<Rightarrow> nat list option" where
  "ipv6_groups parts =
     (if length parts > 9 then None
      else
        (case inner_gaps parts of
           [] \<Rightarrow> if length parts = 8 \<and> list_all hextet_ok parts then Some (map hextet_value parts) else None
         | [gap] \<Rightarrow>
             let before = take gap parts; after = drop (Suc gap) parts;
                 high = (if before = [[]] then [] else before); low = (if after = [[]] then [] else after)
             in if list_all hextet_ok high \<and> list_all hextet_ok low \<and> length high + length low < 8
                then Some (map hextet_value high @ replicate (8 - length high - length low) 0 @ map hextet_value low)
                else None
         | _ \<Rightarrow> None))"

definition hex_text :: "nat \<Rightarrow> string" where
  "hex_text n =
     (let ds = dropWhile (\<lambda>d. d = 0) [n div 4096 mod 16, n div 256 mod 16, n div 16 mod 16, n mod 16] in
      if ds = [] then ''0'' else map hex_digit ds)"

text \<open>The first longest run of zero groups: where it starts and how long it is.\<close>

fun zero_runs :: "nat \<Rightarrow> nat list \<Rightarrow> (nat \<times> nat) list" where
  "zero_runs i [] = []"
| "zero_runs i (g # gs) = (i, length (takeWhile (\<lambda>x. x = 0) (g # gs))) # zero_runs (Suc i) gs"

definition longest_run :: "nat list \<Rightarrow> nat \<times> nat" where
  "longest_run gs = foldl (\<lambda>(bi, bn) (i, n). if n > bn then (i, n) else (bi, bn)) (0, 0) (zero_runs 0 gs)"

definition ipv6_text :: "nat list \<Rightarrow> string" where
  "ipv6_text gs =
     (case longest_run gs of
        (i, n) \<Rightarrow>
          if n < 2 then py_join '':'' (map hex_text gs)
          else py_join '':'' (map hex_text (take i gs)) @ ''::'' @ py_join '':'' (map hex_text (drop (i + n) gs)))"

definition ipv6_canonical :: "string \<Rightarrow> string option" where
  "ipv6_canonical s =
     (if CHR ''/'' \<in> set s then None
      else
        (case py_split_char (CHR ''%'') s of
           [a] \<Rightarrow> Option.bind (ipv6_parts a) (\<lambda>ps. map_option ipv6_text (ipv6_groups ps))
         | [a, scope] \<Rightarrow>
             if scope = [] then None
             else Option.bind (ipv6_parts a) (\<lambda>ps. map_option (\<lambda>g. ipv6_text g @ ''%'' @ scope) (ipv6_groups ps))
         | _ \<Rightarrow> None))"

definition normalize_management_address :: "string \<Rightarrow> string" where
  "normalize_management_address v =
     (let s = py_strip v in
      case ipv4_octets s of
        Some _ \<Rightarrow> s
      | None \<Rightarrow> (case ipv6_canonical s of Some t \<Rightarrow> t | None \<Rightarrow> []))"

subsection \<open>The protector\<close>

definition strip_dashes :: "string \<Rightarrow> string" where
  "strip_dashes s = rev (dropWhile (\<lambda>c. c = CHR ''-'') (rev (dropWhile (\<lambda>c. c = CHR ''-'') s)))"

definition safe_kind :: "string \<Rightarrow> string" where
  "safe_kind kind =
     (let t = strip_dashes (rx_sub (plus1 (chars_not ''abcdefghijklmnopqrstuvwxyz0123456789'')) (\<lambda>_. ''-'') (py_lower kind))
      in if t = [] then ''value'' else t)"

definition protect :: "(string \<Rightarrow> string) \<Rightarrow> string \<Rightarrow> string \<Rightarrow> string" where
  "protect K kind v = ''pid-'' @ safe_kind kind @ ''-'' @ take 24 (K (kind @ ''|'' @ py_lower (py_strip v)))"

definition protect_serial :: "(string \<Rightarrow> string) \<Rightarrow> string \<Rightarrow> string option" where
  "protect_serial K v = (let n = normalize_serial v in if n = [] then None else Some (protect K ''serial'' n))"

definition protect_mac :: "(string \<Rightarrow> string) \<Rightarrow> string \<Rightarrow> string option" where
  "protect_mac K v =
     (let n = normalize_hardware_mac v in
      if globally_administered n then Some (protect K ''hardware-mac'' n) else None)"

definition protect_address :: "(string \<Rightarrow> string) \<Rightarrow> string \<Rightarrow> string option" where
  "protect_address K v =
     (let n = normalize_management_address v in if n = [] then None else Some (protect K ''management-address'' n))"

section \<open>Claims\<close>

definition safe_text :: "string \<Rightarrow> string \<Rightarrow> nat \<Rightarrow> string" where
  "safe_text v fallback limit =
     (let t = take limit (filter (\<lambda>c. cp c \<ge> 32) (py_join '' '' (py_split_ws v))) in if t = [] then fallback else t)"

definition after_last :: "char \<Rightarrow> string \<Rightarrow> string" where
  "after_last d s = last (py_split_char d s)"

definition provider_ref :: "(string \<Rightarrow> string) \<Rightarrow> provider \<Rightarrow> string \<Rightarrow> string \<Rightarrow> string" where
  "provider_ref K p source v =
     (let token = protect K (provider_name p @ '':'' @ source) v
      in provider_name p @ '':'' @ source @ '':'' @ after_last (CHR ''-'') token)"

definition stable_claim_id :: "(string \<Rightarrow> string) \<Rightarrow> provider \<Rightarrow> string \<Rightarrow> claim_field \<Rightarrow> string option \<Rightarrow> claim_value \<Rightarrow> string" where
  "stable_claim_id H p subject field obj v =
     ''claim-'' @ take 20 (H (provider_name p @ ''|'' @ subject @ ''|'' @ field_name field @ ''|'' @ or_empty obj @ ''|'' @ value_text v))"

definition make_claim ::
  "(string \<Rightarrow> string) \<Rightarrow> provider \<Rightarrow> string \<Rightarrow> claim_field \<Rightarrow> claim_value \<Rightarrow> strength \<Rightarrow> string \<Rightarrow> string option
     \<Rightarrow> evidence_freshness \<Rightarrow> string \<Rightarrow> claim"
where
  "make_claim H p subject field v str source obj fresh detail =
     \<lparr>nc_id = stable_claim_id H p subject field obj v, nc_provider = p, nc_subject = subject, nc_field = field, nc_value = v,
      nc_object = obj, nc_strength = str, nc_freshness = fresh, nc_source = source, nc_detail = detail\<rparr>"

definition normalized_name :: "string \<Rightarrow> string" where
  "normalized_name v = rx_sub (plus1 sp) (\<lambda>_. '' '') (py_lower (py_strip v))"

definition reciprocal_token ::
  "(string \<Rightarrow> string) \<Rightarrow> string \<Rightarrow> string \<Rightarrow> string \<Rightarrow> string \<Rightarrow> string option"
where
  "reciprocal_token K left_name left_port right_name right_port =
     (let endpoints = [normalized_name left_name @ ''@'' @ normalized_name left_port,
                       normalized_name right_name @ ''@'' @ normalized_name right_port]
      in if list_ex (\<lambda>e. e = ''@'' \<or> e = ''unknown@unknown'') endpoints then None
         else Some (protect K ''reciprocal-adjacency'' (py_join ''|'' (sort endpoints))))"

section \<open>Resolving a pair\<close>

definition stable_id :: "(string \<Rightarrow> string) \<Rightarrow> string \<Rightarrow> string list \<Rightarrow> string" where
  "stable_id H pre vs = pre @ ''-'' @ take 20 (H (py_join ''|'' (sort vs)))"

text \<open>Identifiers that may count: a hardware address only when it is globally administered.\<close>

definition admitted :: "provider_identifier \<Rightarrow> bool" where
  "admitted i \<longleftrightarrow> (pi_kind i \<in> {I_chassis_mac, I_device_mac} \<longrightarrow> pi_global i = Some True)"

definition items_of :: "entity \<Rightarrow> identifier_kind list \<Rightarrow> provider_identifier list" where
  "items_of e kinds = concat (map (\<lambda>k. filter (\<lambda>i. pi_kind i = k \<and> admitted i) (en_identifiers e)) kinds)"

definition values_of :: "entity \<Rightarrow> identifier_kind list \<Rightarrow> string set" where
  "values_of e kinds = pi_value ` set (items_of e kinds)"

text \<open>The two families of strong identifiers; chassis and device addresses are one family.\<close>

definition strong_groups :: "(identifier_kind \<times> identifier_kind list) list" where
  "strong_groups = [(I_serial, [I_serial]), (I_chassis_mac, [I_chassis_mac, I_device_mac])]"

definition both_report :: "entity \<Rightarrow> entity \<Rightarrow> identifier_kind list \<Rightarrow> bool" where
  "both_report l r kinds \<longleftrightarrow> items_of l kinds \<noteq> [] \<and> items_of r kinds \<noteq> []"

definition share_value :: "entity \<Rightarrow> entity \<Rightarrow> identifier_kind list \<Rightarrow> bool" where
  "share_value l r kinds \<longleftrightarrow> values_of l kinds \<inter> values_of r kinds \<noteq> {}"

definition strong_agree :: "entity \<Rightarrow> entity \<Rightarrow> identifier_kind list \<Rightarrow> bool" where
  "strong_agree l r kinds \<longleftrightarrow> both_report l r kinds \<and> share_value l r kinds"

definition strong_disagree :: "entity \<Rightarrow> entity \<Rightarrow> identifier_kind list \<Rightarrow> bool" where
  "strong_disagree l r kinds \<longleftrightarrow> both_report l r kinds \<and> \<not> share_value l r kinds"

definition refs_of :: "entity \<Rightarrow> entity \<Rightarrow> identifier_kind list \<Rightarrow> string list" where
  "refs_of l r kinds = map pi_ref (items_of l kinds @ items_of r kinds)"

definition agreement_reasons :: "entity \<Rightarrow> entity \<Rightarrow> identity_reason list" where
  "agreement_reasons l r =
     map (\<lambda>(k, ks). \<lparr>ir_kind = Agreement, ir_field = kind_name k, ir_strength = Strong,
           ir_summary = ''Both providers report the same protected '' @ kind_name k @ ''.'', ir_refs = refs_of l r ks\<rparr>)
       (filter (\<lambda>(k, ks). strong_agree l r ks) strong_groups)"

definition supporting_kinds :: "identifier_kind list" where
  "supporting_kinds = [I_management_address, I_direct_adjacency, I_reciprocal_adjacency]"

text \<open>The supporting and the weak kinds, in the order of their names.\<close>

definition soft_kinds :: "identifier_kind list" where
  "soft_kinds = [I_direct_adjacency, I_management_address, I_model, I_name, I_reciprocal_adjacency]"

definition soft_agree :: "entity \<Rightarrow> entity \<Rightarrow> identifier_kind \<Rightarrow> bool" where
  "soft_agree l r k \<longleftrightarrow> both_report l r [k] \<and> share_value l r [k]"

definition soft_reasons :: "entity \<Rightarrow> entity \<Rightarrow> identity_reason list" where
  "soft_reasons l r =
     map (\<lambda>k. let sup = k \<in> set supporting_kinds in
           \<lparr>ir_kind = (if sup then Support else Hint), ir_field = kind_name k,
            ir_strength = (if sup then Supporting else Weak),
            ir_summary = ''Both providers report the same protected '' @ kind_name k @
              ''; this is not sufficient for an automatic merge.'', ir_refs = refs_of l r [k]\<rparr>)
       (filter (soft_agree l r) soft_kinds)"

definition plausible_pair :: "entity \<Rightarrow> entity \<Rightarrow> bool" where
  "plausible_pair l r \<longleftrightarrow>
     list_ex (\<lambda>(k, ks). strong_agree l r ks) strong_groups \<or> list_ex (soft_agree l r) supporting_kinds \<or>
     soft_agree l r I_name"

definition conflicts_of :: "(string \<Rightarrow> string) \<Rightarrow> entity \<Rightarrow> entity \<Rightarrow> identity_conflict list" where
  "conflicts_of H l r =
     map (\<lambda>(k, ks). \<lparr>ic_id = stable_id H ''identity-conflict'' [en_id l, en_id r, kind_name k],
           ic_left = en_id l, ic_right = en_id r, ic_field = k,
           ic_summary = ''The providers report different strong '' @ kind_name k @ '' identifiers.'', ic_refs = refs_of l r ks\<rparr>)
       (filter (\<lambda>(k, ks). strong_disagree l r ks) strong_groups)"

definition conflict_reason :: "identity_conflict \<Rightarrow> identity_reason" where
  "conflict_reason c = \<lparr>ir_kind = Conflict, ir_field = kind_name (ic_field c), ir_strength = Strong,
     ir_summary = ic_summary c, ir_refs = ic_refs c\<rparr>"

definition link_of :: "(string \<Rightarrow> string) \<Rightarrow> entity \<Rightarrow> entity \<Rightarrow> link_state \<Rightarrow> identity_reason list \<Rightarrow> time \<Rightarrow> identity_link" where
  "link_of H l r st reasons now =
     \<lparr>il_id = stable_id H ''identity-link'' [en_id l, en_id r], il_left = en_id l, il_right = en_id r, il_state = st,
      il_automatic = True, il_reasons = reasons, il_evaluated_at = now, il_decided_at = None\<rparr>"

definition resolve_identity_pair ::
  "(string \<Rightarrow> string) \<Rightarrow> time \<Rightarrow> entity \<Rightarrow> entity \<Rightarrow> identity_link \<times> identity_conflict list"
where
  "resolve_identity_pair H now l r =
     (if en_provider l = en_provider r then (link_of H l r Rejected [] now, [])
      else
        let reasons = agreement_reasons l r @ soft_reasons l r; conflicts = conflicts_of H l r in
        if conflicts \<noteq> [] \<and> plausible_pair l r
        then (link_of H l r Conflicted (reasons @ map conflict_reason conflicts) now, conflicts)
        else if list_ex (\<lambda>(k, ks). strong_agree l r ks) strong_groups
        then (link_of H l r Confirmed reasons now, [])
        else if list_ex (soft_agree l r) soft_kinds
        then (link_of H l r Candidate reasons now, [])
        else (link_of H l r Rejected reasons now, []))"

section \<open>Resolving all pairs\<close>

definition families :: "(string \<times> identifier_kind list) list" where
  "families = [(''serial'', [I_serial]), (''hardware-mac'', [I_chassis_mac, I_device_mac])]"

text \<open>How many entities of a provider report a strong value.\<close>

definition strong_count :: "entity list \<Rightarrow> provider \<Rightarrow> identifier_kind list \<Rightarrow> string \<Rightarrow> nat" where
  "strong_count es p kinds v = length (filter (\<lambda>e. en_provider e = p \<and> v \<in> values_of e kinds) es)"

definition unique_agreement :: "entity list \<Rightarrow> entity \<Rightarrow> entity \<Rightarrow> bool" where
  "unique_agreement es l r \<longleftrightarrow>
     list_ex (\<lambda>(f, ks). list_ex (\<lambda>v. v \<in> values_of r ks \<and> strong_count es (en_provider l) ks v = 1 \<and>
                strong_count es (en_provider r) ks v = 1) (map pi_value (items_of l ks))) families"

definition ambiguous_reason :: "entity \<Rightarrow> entity \<Rightarrow> identity_reason" where
  "ambiguous_reason l r =
     \<lparr>ir_kind = Support,
      ir_field = (if share_value l r [I_chassis_mac, I_device_mac] then ''chassis-mac'' else ''serial''), ir_strength = Strong,
      ir_summary = ''The protected strong identifier is not unique within a provider, so SwitchOps will not merge these records automatically.'',
      ir_refs = []\<rparr>"

definition demote :: "entity list \<Rightarrow> entity \<Rightarrow> entity \<Rightarrow> identity_link \<Rightarrow> identity_link" where
  "demote es l r link =
     (if il_state link = Confirmed \<and> \<not> unique_agreement es l r
      then link\<lparr>il_state := Candidate, il_reasons := il_reasons link @ [ambiguous_reason l r]\<rparr>
      else link)"

fun pairs_of :: "'a list \<Rightarrow> ('a \<times> 'a) list" where
  "pairs_of [] = []"
| "pairs_of (x # xs) = map (Pair x) xs @ pairs_of xs"

definition ordered_entities :: "entity list \<Rightarrow> entity list" where
  "ordered_entities es = sort_key (\<lambda>e. (provider_name (en_provider e), en_id e)) es"

definition resolve_cross_provider_identities ::
  "(string \<Rightarrow> string) \<Rightarrow> time \<Rightarrow> entity list \<Rightarrow> identity_link list \<times> identity_conflict list"
where
  "resolve_cross_provider_identities H now es =
     (let ordered = ordered_entities es;
          resolved = map (\<lambda>(l, r). case resolve_identity_pair H now l r of (link, cs) \<Rightarrow> (demote ordered l r link, cs))
            (filter (\<lambda>(l, r). en_provider l \<noteq> en_provider r) (pairs_of ordered))
      in (filter (\<lambda>link. il_state link \<noteq> Rejected) (map fst resolved), concat (map snd resolved)))"

end
