(* ===== verification/Unified_State.thy ===== *)
theory Unified_State
  imports Unified_Evidence "HOL-Library.While_Combinator"
begin

text \<open>
  \<open>backend/app/unified_reconciliation.py\<close>, \<open>unified_store.py\<close> and the part of \<open>unified_service.py\<close> that
  does not talk to a provider: which records of different providers are one device, what the providers
  say of it, and the decisions of the operator. The union-find of the code is kept: a dictionary from
  every entity to its parent, halved on every search. Every link joins two of the entities, so its
  searches start at keys.
\<close>

section \<open>Components\<close>

type_synonym parents = "(string, string) dict"

definition parent :: "parents \<Rightarrow> string \<Rightarrow> string" where
  "parent ps v = get_default ps v v"

definition find_root :: "parents \<Rightarrow> string \<Rightarrow> (parents \<times> string) option" where
  "find_root ps v =
     while_option (\<lambda>(ps, v). parent ps v \<noteq> v)
       (\<lambda>(ps, v). let up = parent ps (parent ps v) in (dict_set v up ps, up)) (ps, v)"

definition join_roots :: "string \<Rightarrow> string \<Rightarrow> parents \<Rightarrow> parents option" where
  "join_roots l r ps =
     Option.bind (find_root ps l) (\<lambda>(ps1, a).
       map_option (\<lambda>(ps2, b). if a = b then ps2 else dict_set (max a b) (min a b) ps2) (find_root ps1 r))"

fun join_links :: "identity_link list \<Rightarrow> parents \<Rightarrow> parents option" where
  "join_links [] ps = Some ps"
| "join_links (k # ks) ps =
     (if il_state k = Confirmed then Option.bind (join_roots (il_left k) (il_right k) ps) (join_links ks)
      else join_links ks ps)"

definition group_add :: "string \<Rightarrow> string \<Rightarrow> (string, string list) dict \<Rightarrow> (string, string list) dict" where
  "group_add k v d = dict_set k (get_default d k [] @ [v]) d"

fun group_entities :: "string list \<Rightarrow> parents \<Rightarrow> (string, string list) dict \<Rightarrow> (string, string list) dict option" where
  "group_entities [] ps d = Some d"
| "group_entities (v # vs) ps d =
     Option.bind (find_root ps v) (\<lambda>(ps', root). group_entities vs ps' (group_add root v d))"

definition initial_parents :: "string list \<Rightarrow> parents" where
  "initial_parents ids = fold (\<lambda>v. dict_set v v) ids []"

definition components :: "string list \<Rightarrow> identity_link list \<Rightarrow> string list list option" where
  "components ids links =
     Option.bind (join_links links (initial_parents ids)) (\<lambda>ps.
       map_option (\<lambda>d. map (\<lambda>(_, vs). sort vs) (sort_key fst d)) (group_entities ids ps []))"

section \<open>What the providers say\<close>

datatype cross_state = AGREED | PROVIDER_ONLY | STALE | AMBIGUOUS | CONFLICT | UNKNOWN

record attribute =
  at_field :: claim_field
  at_state :: cross_state
  at_value :: claim_value
  at_provider_values :: "(provider, string) dict"
  at_claims :: "string list"
  at_explanation :: string

definition relevant_claims :: "claim_field \<Rightarrow> string list \<Rightarrow> claim list \<Rightarrow> claim list" where
  "relevant_claims field members claims =
     filter (\<lambda>c. nc_subject c \<in> set members \<and> nc_field c = field \<and> nc_value c \<noteq> V_none) claims"

definition old :: "evidence_freshness \<Rightarrow> bool" where
  "old f \<longleftrightarrow> f \<in> {Stale, Historical}"

definition providers_of :: "claim list \<Rightarrow> provider list" where
  "providers_of cs = dedup (map nc_provider cs)"

definition texts_of :: "provider \<Rightarrow> claim list \<Rightarrow> string list" where
  "texts_of p cs = sorted_set (map (\<lambda>c. value_text (nc_value c)) (filter (\<lambda>c. nc_provider c = p) cs))"

text \<open>The value whose text is given: the last claim with that text.\<close>

definition raw_value :: "claim list \<Rightarrow> string \<Rightarrow> claim_value" where
  "raw_value cs t = (case filter (\<lambda>c. value_text (nc_value c) = t) (rev cs) of [] \<Rightarrow> V_none | c # _ \<Rightarrow> nc_value c)"

definition resolve_attribute :: "string list \<Rightarrow> claim list \<Rightarrow> claim_field \<Rightarrow> attribute" where
  "resolve_attribute members claims field =
     (let cs = relevant_claims field members claims; ps = providers_of cs;
          ids = map nc_id cs;
          vals = map (\<lambda>p. (p, py_join '', '' (texts_of p cs))) ps;
          distinct_texts = sorted_set (map (\<lambda>c. value_text (nc_value c)) cs)
      in if cs = []
         then \<lparr>at_field = field, at_state = UNKNOWN, at_value = V_none, at_provider_values = [], at_claims = [],
               at_explanation = ''No provider supplied this claim.''\<rparr>
         else if list_all (\<lambda>c. old (nc_freshness c)) cs
         then \<lparr>at_field = field, at_state = STALE, at_value = V_none, at_provider_values = [], at_claims = ids,
               at_explanation = ''Only stale or historical provider evidence is available.''\<rparr>
         else if list_ex (\<lambda>p. length (texts_of p cs) > 1) ps
         then \<lparr>at_field = field, at_state = AMBIGUOUS, at_value = V_none, at_provider_values = vals, at_claims = ids,
               at_explanation = ''At least one provider supplied multiple current values.''\<rparr>
         else if length ps = 1
         then \<lparr>at_field = field, at_state = PROVIDER_ONLY, at_value = raw_value cs (hd distinct_texts),
               at_provider_values = vals, at_claims = ids, at_explanation = ''Only one provider supplied this claim.''\<rparr>
         else if length distinct_texts = 1
         then \<lparr>at_field = field, at_state = AGREED, at_value = raw_value cs (hd distinct_texts),
               at_provider_values = vals, at_claims = ids, at_explanation = ''The providers report the same current value.''\<rparr>
         else \<lparr>at_field = field, at_state = CONFLICT, at_value = V_none, at_provider_values = vals, at_claims = ids,
               at_explanation = ''The providers report different current values; neither wins automatically.''\<rparr>)"

section \<open>Decisions of the operator\<close>

type_synonym decisions = "(string, string \<times> time) dict"

definition decide_link :: "decisions \<Rightarrow> identity_link \<Rightarrow> identity_link" where
  "decide_link ds link =
     (case dict_get ds (il_id link) of
        None \<Rightarrow> link
      | Some (decision, decided_at) \<Rightarrow>
          if il_state link = Conflicted \<or> decision \<notin> {''confirm'', ''reject''} then link
          else link\<lparr>il_state := (if decision = ''confirm'' then Confirmed else Rejected), il_automatic := False,
                    il_decided_at := Some decided_at,
                    il_reasons := il_reasons link @
                      [\<lparr>ir_kind = Operator, ir_field = ''operator-decision'', ir_strength = Supporting,
                        ir_summary = ''The local operator chose to '' @ decision @ '' this ambiguous identity relationship.'',
                        ir_refs = []\<rparr>]\<rparr>)"

section \<open>The unified state\<close>

record unified_entity =
  ue_id :: string
  ue_label :: string
  ue_category :: string
  ue_members :: "string list"
  ue_providers :: "string list"
  ue_identity :: cross_state
  ue_attributes :: "attribute list"
  ue_evidence :: "string list"
  ue_freshness :: evidence_freshness

record relationship =
  rl_id :: string
  rl_subject :: string
  rl_object :: string
  rl_field :: claim_field
  rl_state :: cross_state
  rl_claims :: "string list"
  rl_explanation :: string

record unified_state =
  us_generated_at :: time
  us_entities :: "unified_entity list"
  us_relationships :: "relationship list"
  us_provider_entities :: "entity list"
  us_claims :: "claim list"
  us_links :: "identity_link list"
  us_conflicts :: "identity_conflict list"
  us_health :: "source_health list"

definition attribute_fields :: "claim_field list" where
  "attribute_fields = [F_attachment, F_relationship, F_availability, F_name, F_model, F_vlan, F_port]"

definition identity_explanation :: "cross_state \<Rightarrow> string" where
  "identity_explanation s =
     (if s = AGREED then ''Strong provider identifiers or a local operator decision join these records.''
      else if s = CONFLICT then ''A strong identifier conflict prevents a merge.''
      else if s = AMBIGUOUS then ''Correlation evidence is ambiguous and the records remain separate.''
      else ''This identity is currently reported by one provider only.'')"

definition touched :: "(string \<times> string) list \<Rightarrow> string \<Rightarrow> bool" where
  "touched ends v \<longleftrightarrow> list_ex (\<lambda>(l, r). v = l \<or> v = r) ends"

text \<open>The last entity given for an id.\<close>

definition entity_by_id :: "entity list \<Rightarrow> string \<Rightarrow> entity option" where
  "entity_by_id es v = map_of (rev (map (\<lambda>e. (en_id e, e)) es)) v"

definition members_of :: "entity list \<Rightarrow> string list \<Rightarrow> entity list" where
  "members_of es ids = map (\<lambda>v. the (entity_by_id es v)) ids"

definition identity_state ::
  "identity_conflict list \<Rightarrow> identity_link list \<Rightarrow> string list \<Rightarrow> string list \<Rightarrow> cross_state"
where
  "identity_state conflicts links ids providers =
     (if length providers > 1 then AGREED
      else if list_ex (touched (map (\<lambda>c. (ic_left c, ic_right c)) conflicts)) ids then CONFLICT
      else if list_ex (touched (map (\<lambda>k. (il_left k, il_right k)) (filter (\<lambda>k. il_state k = Candidate) links))) ids
      then AMBIGUOUS else PROVIDER_ONLY)"

definition py_last6 :: "string \<Rightarrow> string" where
  "py_last6 s = drop (length s - 6) s"

definition unify_component ::
  "(string \<Rightarrow> string) \<Rightarrow> entity list \<Rightarrow> claim list \<Rightarrow> identity_link list \<Rightarrow> identity_conflict list \<Rightarrow> string list
     \<Rightarrow> unified_entity"
where
  "unify_component H es claims links conflicts ids =
     (let members = members_of es ids;
          providers = sorted_set (map (\<lambda>e. provider_name (en_provider e)) members);
          names = sorted_set (map en_label members); categories = sorted_set (map en_category members);
          uid = stable_id H ''unified-entity'' ids;
          st = identity_state conflicts links ids providers
      in \<lparr>ue_id = uid,
          ue_label = (if length names = 1 then hd names else ''Unified device '' @ py_last6 uid),
          ue_category = (if length categories = 1 then hd categories else ''unknown''),
          ue_members = ids, ue_providers = providers, ue_identity = st,
          ue_attributes =
            \<lparr>at_field = F_identity, at_state = st, at_value = V_none, at_provider_values = [], at_claims = [],
             at_explanation = identity_explanation st\<rparr> # map (resolve_attribute ids claims) attribute_fields,
          ue_evidence = sorted_set (concat (map en_claims members)),
          ue_freshness = (if list_all (\<lambda>e. old (en_freshness e)) members then Stale else Current)\<rparr>)"

definition unified_of :: "unified_entity list \<Rightarrow> string \<Rightarrow> string option" where
  "unified_of us v = map_of (rev (concat (map (\<lambda>u. map (\<lambda>m. (m, ue_id u)) (ue_members u)) us))) v"

definition relation_key :: "unified_entity list \<Rightarrow> claim \<Rightarrow> (string \<times> string \<times> string) option" where
  "relation_key us c =
     (if nc_field c \<notin> {F_attachment, F_relationship} \<or> or_empty (nc_object c) = [] then None
      else
        let s = or_empty (unified_of us (nc_subject c)); obj = or_empty (unified_of us (or_empty (nc_object c))) in
        if s = [] \<or> obj = [] \<or> s = obj then None else Some (s, obj, field_name (nc_field c)))"

definition relation_claims :: "unified_entity list \<Rightarrow> claim list \<Rightarrow> string \<times> string \<times> string \<Rightarrow> claim list" where
  "relation_claims us claims k = filter (\<lambda>c. relation_key us c = Some k) claims"

definition relation_state :: "claim list \<Rightarrow> cross_state" where
  "relation_state cs =
     (if list_all (\<lambda>c. old (nc_freshness c)) cs then STALE
      else if length (providers_of cs) = 1 then PROVIDER_ONLY
      else if length (dedup (map (\<lambda>c. value_text (nc_value c)) cs)) = 1 then AGREED else CONFLICT)"

definition relation_of :: "(string \<Rightarrow> string) \<Rightarrow> unified_entity list \<Rightarrow> claim list \<Rightarrow> string \<times> string \<times> string \<Rightarrow> relationship" where
  "relation_of H us claims k =
     (case k of
        (s, obj, field) \<Rightarrow>
          let cs = relation_claims us claims k; st = relation_state cs in
          \<lparr>rl_id = stable_id H ''unified-link'' [s, obj, field], rl_subject = s, rl_object = obj,
           rl_field = (if field = ''attachment'' then F_attachment else F_relationship), rl_state = st, rl_claims = map nc_id cs,
           rl_explanation =
             (if st = AGREED then ''Providers agree on this relationship.''
              else if st = PROVIDER_ONLY then ''This relationship is supported by one provider only.''
              else if st = STALE then ''Provider relationship evidence is stale.''
              else ''Providers disagree about this relationship.'')\<rparr>)"

definition relationships :: "(string \<Rightarrow> string) \<Rightarrow> claim list \<Rightarrow> unified_entity list \<Rightarrow> relationship list" where
  "relationships H claims us =
     map (relation_of H us claims) (sorted_set (List.map_filter (relation_key us) claims))"

definition reconcile_unified_state ::
  "(string \<Rightarrow> string) \<Rightarrow> time \<Rightarrow> entity list \<Rightarrow> claim list \<Rightarrow> source_health list \<Rightarrow> decisions \<Rightarrow> unified_state option"
where
  "reconcile_unified_state H now es claims health ds =
     (case resolve_cross_provider_identities H now es of
        (found_links, conflicts) \<Rightarrow>
          let links = map (decide_link ds) found_links in
          map_option (\<lambda>comps.
              let us = map (unify_component H es claims links conflicts) comps in
              \<lparr>us_generated_at = now, us_entities = us, us_relationships = relationships H claims us,
               us_provider_entities = es, us_claims = claims, us_links = links, us_conflicts = conflicts,
               us_health = health\<rparr>)
            (components (map en_id es) links))"

section \<open>The store\<close>

record provider_snapshot =
  ps_observed_at :: time
  ps_entities :: "entity list"
  ps_claims :: "claim list"
  ps_health :: source_health

record unified_store =
  ul_snapshots :: "(string, provider_snapshot) dict"
  ul_decisions :: decisions

definition empty_unified :: unified_store where
  "empty_unified = \<lparr>ul_snapshots = [], ul_decisions = []\<rparr>"

definition save_provider_state ::
  "provider \<Rightarrow> entity list \<Rightarrow> claim list \<Rightarrow> source_health \<Rightarrow> unified_store \<Rightarrow> unified_store"
where
  "save_provider_state p es cs h st =
     st\<lparr>ul_snapshots := dict_set (provider_name p)
          \<lparr>ps_observed_at = sh_checked_at h, ps_entities = es, ps_claims = cs, ps_health = h\<rparr> (ul_snapshots st)\<rparr>"

definition save_source_health :: "source_health \<Rightarrow> unified_store \<Rightarrow> unified_store" where
  "save_source_health h st =
     (case dict_get (ul_snapshots st) (provider_name (sh_provider h)) of
        None \<Rightarrow> save_provider_state (sh_provider h) [] [] h st
      | Some s \<Rightarrow> save_provider_state (sh_provider h) (ps_entities s) (ps_claims s) h st)"

definition load_provider_states :: "unified_store \<Rightarrow> entity list \<times> claim list \<times> source_health list" where
  "load_provider_states st =
     (let rows = map snd (sort_key fst (ul_snapshots st)) in
      (concat (map ps_entities rows), concat (map ps_claims rows), map ps_health rows))"

definition set_identity_decision :: "string \<Rightarrow> string \<Rightarrow> time \<Rightarrow> unified_store \<Rightarrow> unified_store result" where
  "set_identity_decision link decision now st =
     (if decision \<notin> {''confirm'', ''reject''} then Inl (PyError ''ValueError'')
      else Inr (st\<lparr>ul_decisions := dict_set link (decision, now) (ul_decisions st)\<rparr>))"

definition clear_identity_decision :: "string \<Rightarrow> unified_store \<Rightarrow> unified_store" where
  "clear_identity_decision link st = st\<lparr>ul_decisions := dict_pop link (ul_decisions st)\<rparr>"

section \<open>The service\<close>

definition unconfigured_meraki :: "time \<Rightarrow> source_health" where
  "unconfigured_meraki now =
     \<lparr>sh_provider = Meraki_dashboard, sh_state = Not_configured,
      sh_detail = ''Meraki is optional and has not been fully configured.'', sh_checked_at = now, sh_last_success = None,
      sh_complete = False, sh_failed = []\<rparr>"

definition unconfigured_catalyst :: "time \<Rightarrow> source_health" where
  "unconfigured_catalyst now =
     \<lparr>sh_provider = Catalyst_ios, sh_state = Not_configured,
      sh_detail = ''No Catalyst dashboard observation has been normalized yet.'', sh_checked_at = now, sh_last_success = None,
      sh_complete = False, sh_failed = []\<rparr>"

definition failure_health :: "time \<Rightarrow> string \<Rightarrow> string \<Rightarrow> source_health" where
  "failure_health now op_name code =
     \<lparr>sh_provider = Meraki_dashboard, sh_state = (if code = ''rate-limited'' then Rate_limited else Unavailable),
      sh_detail = ''Meraki evidence is currently unavailable; Catalyst operation is unaffected.'', sh_checked_at = now,
      sh_last_success = None, sh_complete = False, sh_failed = [op_name]\<rparr>"

definition all_health :: "time \<Rightarrow> source_health list \<Rightarrow> source_health list" where
  "all_health now hs =
     (let seen = map sh_provider hs in
      hs @ (if Catalyst_ios \<in> set seen then [] else [unconfigured_catalyst now]) @
      (if Meraki_dashboard \<in> set seen then [] else [unconfigured_meraki now]))"

definition service_state :: "(string \<Rightarrow> string) \<Rightarrow> time \<Rightarrow> unified_store \<Rightarrow> unified_state option" where
  "service_state H now st =
     (case load_provider_states st of
        (es, cs, hs) \<Rightarrow> reconcile_unified_state H now es cs (all_health now hs) (ul_decisions st))"

definition decide_identity :: "(string \<Rightarrow> string) \<Rightarrow> time \<Rightarrow> string \<Rightarrow> string \<Rightarrow> unified_store \<Rightarrow> unified_store result option" where
  "decide_identity H now link decision st =
     map_option (\<lambda>current.
       if decision = ''clear'' then Inr (clear_identity_decision link st)
       else
         (case List.find (\<lambda>k. il_id k = link) (us_links current) of
            None \<Rightarrow> Inl (PyError ''ValueError'')
          | Some k \<Rightarrow>
              if il_state k \<noteq> Candidate then Inl (PyError ''ValueError'')
              else set_identity_decision link decision now st))
       (service_state H now st)"

text \<open>What a refresh of the Meraki evidence stores, given the key, the selection and the collection:
  \<open>None\<close> stands for a collection that raised.\<close>

definition refresh_meraki ::
  "bool \<Rightarrow> (entity list \<times> claim list \<times> source_health) option \<Rightarrow> time \<Rightarrow> unified_store \<Rightarrow> source_health \<times> unified_store"
where
  "refresh_meraki configured collection now st =
     (if \<not> configured then (unconfigured_meraki now, save_source_health (unconfigured_meraki now) st)
      else
        (case collection of
           None \<Rightarrow> let h = failure_health now ''collection'' ''unavailable'' in (h, save_source_health h st)
         | Some (es, cs, h) \<Rightarrow>
             (h, if es \<noteq> [] \<or> sh_state h = Source_healthy then save_provider_state Meraki_dashboard es cs h st
                 else save_source_health h st)))"

end
