(* ===== verification/Unified_Properties.thy ===== *)
theory Unified_Properties
  imports Unified_State "HOL-Library.Multiset"
begin

text \<open>
  Properties of the unified state: the union-find ends and computes the classes of the confirmed links, a
  record is joined to another only by an unambiguous strong identifier or by the operator, and no decision
  of the operator overrides a conflict.
\<close>

section \<open>Functional graphs\<close>

definition edge :: "('a \<Rightarrow> 'a) \<Rightarrow> 'a \<Rightarrow> 'a \<Rightarrow> bool" where
  "edge f x y \<longleftrightarrow> y = f x"

lemma equivclp_one: "r x y \<Longrightarrow> equivclp r x y"
  by (metis equivclp_def r_into_rtranclp symclpI1)

lemma equivclp_refl_at [simp]: "equivclp r x x"
  by (simp add: equivclp_def)

lemma equivclp_join: "equivclp r x y \<Longrightarrow> equivclp r y z \<Longrightarrow> equivclp r x z"
  by (metis equivclp_def rtranclp_trans)

lemma equivclp_least:
  assumes "\<And>x y. r x y \<Longrightarrow> equivclp s x y"
  shows "equivclp r x y \<Longrightarrow> equivclp s x y"
  unfolding equivclp_def
proof (induction rule: rtranclp_induct)
  case (step y z)
  then have "equivclp s y z" using assms by (metis equivclp_sym symclpE)
  then show ?case using step.IH by (metis equivclp_def equivclp_join)
qed simp

lemma equivclp_same:
  assumes "\<And>x y. r x y \<Longrightarrow> equivclp s x y" "\<And>x y. s x y \<Longrightarrow> equivclp r x y"
  shows "equivclp r = equivclp s"
  by (intro ext iffI) (auto intro: equivclp_least assms)

text \<open>Connected elements of a functional graph meet, so two connected fixed points are equal.\<close>

lemma connected_meet: "equivclp (edge f) x y \<Longrightarrow> \<exists>m n. (f ^^ m) x = (f ^^ n) y"
  unfolding equivclp_def
proof (induction rule: rtranclp_induct)
  case base
  then show ?case by blast
next
  case (step y z)
  then obtain m n where mn: "(f ^^ m) x = (f ^^ n) y" by blast
  from step.hyps(2) show ?case
  proof (cases rule: symclpE)
    case base
    then have "(f ^^ Suc m) x = (f ^^ n) z" using mn by (simp add: edge_def funpow_swap1)
    then show ?thesis by blast
  next
    case sym
    then have "(f ^^ m) x = (f ^^ Suc n) z" using mn by (simp add: edge_def funpow_swap1)
    then show ?thesis by blast
  qed
qed

lemma funpow_fixed: "f x = x \<Longrightarrow> (f ^^ n) x = x"
  by (induction n) auto

lemma connected_fixed: "equivclp (edge f) x y \<Longrightarrow> f x = x \<Longrightarrow> f y = y \<Longrightarrow> x = y"
  using connected_meet [of f x y] by (auto simp: funpow_fixed)

lemma two_up: "equivclp (edge f) v (f (f v))"
  by (rule equivclp_join [where y = "f v"]) (auto intro: equivclp_one simp: edge_def)

section \<open>Searching a root\<close>

lemma parent_set [simp]: "parent (dict_set v u ps) = (parent ps)(v := u)"
  by (auto simp: parent_def get_default_def)

definition forest :: "string set \<Rightarrow> (string \<Rightarrow> string) \<Rightarrow> bool" where
  "forest K f \<longleftrightarrow> finite K \<and> (\<forall>v \<in> K. f v \<in> K \<and> f v \<le> v)"

text \<open>The same classes and the same roots.\<close>

definition alike :: "(string \<Rightarrow> string) \<Rightarrow> (string \<Rightarrow> string) \<Rightarrow> bool" where
  "alike f g \<longleftrightarrow> equivclp (edge f) = equivclp (edge g) \<and> (\<forall>x. f x = x \<longleftrightarrow> g x = x)"

lemma alike_refl [simp]: "alike f f"
  by (simp add: alike_def)

lemma alike_trans: "alike f g \<Longrightarrow> alike g h \<Longrightarrow> alike f h"
  by (simp add: alike_def)

lemma halve_forest:
  assumes "forest K f" "v \<in> K"
  shows "forest K (f(v := f (f v)))"
  using assms by (auto simp: forest_def) (metis order_trans)

lemma halve_alike:
  assumes "forest K f" "v \<in> K" "f v \<noteq> v"
  shows "alike f (f(v := f (f v)))"
proof -
  let ?g = "f(v := f (f v))"
  have up: "equivclp (edge ?g) v (f v)"
  proof -
    have "edge ?g v (f (f v))" "edge ?g (f v) (f (f v))" using assms(3) by (simp_all add: edge_def)
    then show ?thesis by (meson equivclp_join equivclp_one equivclp_sym)
  qed
  have "equivclp (edge f) = equivclp (edge ?g)"
  proof (rule equivclp_same)
    fix x y assume "edge f x y"
    then show "equivclp (edge ?g) x y"
      using up by (cases "x = v") (auto simp: edge_def intro: equivclp_one)
  next
    fix x y assume "edge ?g x y"
    then show "equivclp (edge f) x y"
      by (cases "x = v") (auto simp: edge_def two_up intro: equivclp_one)
  qed
  moreover have "f (f v) \<noteq> v"
    using assms by (metis forest_def order_antisym)
  ultimately show ?thesis using assms(3) by (auto simp: alike_def)
qed

lemma find_root_correct:
  assumes "find_root ps v = Some (ps', r)" "forest K (parent ps)" "v \<in> K"
  shows "forest K (parent ps')" "alike (parent ps) (parent ps')" "r \<in> K" "parent ps' r = r"
    "equivclp (edge (parent ps')) v r"
proof -
  let ?P = "\<lambda>(qs, u). forest K (parent qs) \<and> alike (parent ps) (parent qs) \<and> u \<in> K \<and> equivclp (edge (parent ps)) v u"
  let ?b = "\<lambda>(qs, u). parent qs u \<noteq> u"
  let ?c = "\<lambda>(qs, u). let up = parent qs (parent qs u) in (dict_set u up qs, up)"
  have "?P (ps', r)"
  proof (rule while_option_rule [where P = ?P and b = ?b and c = ?c and s = "(ps, v)"])
    fix s assume P: "?P s" and b: "?b s"
    obtain qs u where s: "s = (qs, u)" by (cases s)
    let ?f = "parent qs"
    have f: "forest K ?f" "alike (parent ps) ?f" "u \<in> K" "equivclp (edge (parent ps)) v u" "?f u \<noteq> u"
      using P b by (auto simp: s)
    have "equivclp (edge (parent ps)) u (?f (?f u))" using f(2) two_up [of ?f u] by (simp add: alike_def)
    then have "equivclp (edge (parent ps)) v (?f (?f u))" using f(4) equivclp_join by metis
    moreover have "?f (?f u) \<in> K" using f(1,3) by (simp add: forest_def)
    ultimately show "?P (?c s)"
      using halve_forest [OF f(1,3)] alike_trans [OF f(2) halve_alike [OF f(1,3,5)]] by (simp add: s Let_def)
  next
    show "while_option ?b ?c (ps, v) = Some (ps', r)" using assms(1) by (simp add: find_root_def)
    show "?P (ps, v)" using assms(2,3) by simp
  qed
  then have P: "forest K (parent ps')" "alike (parent ps) (parent ps')" "r \<in> K" "equivclp (edge (parent ps)) v r"
    by simp_all
  then show "forest K (parent ps')" "alike (parent ps) (parent ps')" "r \<in> K" by simp_all
  show "equivclp (edge (parent ps')) v r" using P(2,4) by (simp only: alike_def)
  have "while_option ?b ?c (ps, v) = Some (ps', r)" using assms(1) by (simp only: find_root_def)
  from while_option_stop [OF this] show "parent ps' r = r" by simp
qed

lemma find_root_ends:
  assumes "forest K (parent ps)" "v \<in> K"
  shows "\<exists>q. find_root ps v = Some q"
  unfolding find_root_def
proof (rule measure_while_option_Some [where P = "\<lambda>(qs, u). forest K (parent qs) \<and> u \<in> K"
      and f = "\<lambda>(qs, u). card {w \<in> K. w < u}"])
  fix s :: "parents \<times> string"
  assume P: "case s of (qs, u) \<Rightarrow> forest K (parent qs) \<and> u \<in> K" and b: "case s of (qs, u) \<Rightarrow> parent qs u \<noteq> u"
  obtain qs u where s: "s = (qs, u)" by (cases s)
  let ?f = "parent qs"
  have f: "forest K ?f" "u \<in> K" "?f u \<noteq> u" using P b by (auto simp: s)
  then have up: "?f (?f u) \<in> K" "?f (?f u) < u"
    unfolding forest_def by (auto, metis order.not_eq_order_implies_strict order.strict_trans1)
  have "{w \<in> K. w < ?f (?f u)} \<subset> {w \<in> K. w < u}"
    using up by (auto intro: less_trans)
  then have "card {w \<in> K. w < ?f (?f u)} < card {w \<in> K. w < u}"
    using f(1) by (intro psubset_card_mono) (auto simp: forest_def)
  then show "(case case s of (qs, u) \<Rightarrow> let up = parent qs (parent qs u) in (dict_set u up qs, up) of
        (qs, u) \<Rightarrow> forest K (parent qs) \<and> u \<in> K) \<and>
      (case case s of (qs, u) \<Rightarrow> let up = parent qs (parent qs u) in (dict_set u up qs, up) of (qs, u) \<Rightarrow> card {w \<in> K. w < u}) <
      (case s of (qs, u) \<Rightarrow> card {w \<in> K. w < u})"
    using halve_forest [OF f(1,2)] up by (simp add: s Let_def)
next
  show "case (ps, v) of (qs, u) \<Rightarrow> forest K (parent qs) \<and> u \<in> K" using assms by simp
qed

section \<open>Joining the links\<close>

text \<open>The two ends of a confirmed link.\<close>

definition joined :: "identity_link list \<Rightarrow> string \<Rightarrow> string \<Rightarrow> bool" where
  "joined links x y \<longleftrightarrow> (\<exists>k \<in> set links. il_state k = Confirmed \<and> il_left k = x \<and> il_right k = y)"

definition with_pair :: "('a \<Rightarrow> 'a \<Rightarrow> bool) \<Rightarrow> 'a \<Rightarrow> 'a \<Rightarrow> 'a \<Rightarrow> 'a \<Rightarrow> bool" where
  "with_pair r a b x y \<longleftrightarrow> r x y \<or> x = a \<and> y = b"

lemma equivclp_with_pair_cong:
  assumes "equivclp r = equivclp s" "equivclp r a a'" "equivclp r b b'"
  shows "equivclp (with_pair r a b) = equivclp (with_pair s a' b')"
proof (rule equivclp_same)
  have up: "equivclp (with_pair t u v) x y" if "equivclp t x y" for t :: "'a \<Rightarrow> 'a \<Rightarrow> bool" and u v x y
    using that by (rule equivclp_least [rotated]) (auto simp: with_pair_def intro: equivclp_one)
  have pair: "equivclp (with_pair t u v) u v" for t :: "'a \<Rightarrow> 'a \<Rightarrow> bool" and u v
    by (rule equivclp_one) (simp add: with_pair_def)
  show "equivclp (with_pair s a' b') x y" if "with_pair r a b x y" for x y
  proof (cases "r x y")
    case True
    then show ?thesis using assms(1) up equivclp_one by metis
  next
    case False
    then have "x = a" "y = b" using that by (simp_all add: with_pair_def)
    then show ?thesis using pair [of s a' b'] assms up equivclp_join equivclp_sym by metis
  qed
  show "equivclp (with_pair r a b) x y" if "with_pair s a' b' x y" for x y
  proof (cases "s x y")
    case True
    then show ?thesis using assms(1) up equivclp_one by metis
  next
    case False
    then have "x = a'" "y = b'" using that by (simp_all add: with_pair_def)
    then show ?thesis using pair [of r a b] assms up equivclp_join equivclp_sym by metis
  qed
qed

lemma attach_root:
  assumes "f hi = hi"
  shows "equivclp (edge (f(hi := lo))) = equivclp (with_pair (edge f) hi lo)"
proof (rule equivclp_same)
  show "equivclp (with_pair (edge f) hi lo) x y" if "edge (f(hi := lo)) x y" for x y
    using that by (cases "x = hi") (auto simp: edge_def with_pair_def intro!: equivclp_one)
  show "equivclp (edge (f(hi := lo))) x y" if "with_pair (edge f) hi lo x y" for x y
    using that assms by (cases "x = hi") (auto simp: edge_def with_pair_def intro: equivclp_one)
qed

lemma with_pair_swap: "equivclp (with_pair r a b) = equivclp (with_pair r b a)"
proof (rule equivclp_same)
  show "equivclp (with_pair r b a) x y" if "with_pair r a b x y" for x y
    using that by (metis equivclp_one equivclp_sym with_pair_def)
  show "equivclp (with_pair r a b) x y" if "with_pair r b a x y" for x y
    using that by (metis equivclp_one equivclp_sym with_pair_def)
qed

lemma attach_forest: "forest K f \<Longrightarrow> hi \<in> K \<Longrightarrow> lo \<in> K \<Longrightarrow> lo \<le> hi \<Longrightarrow> forest K (f(hi := lo))"
  by (auto simp: forest_def)

lemma join_roots_correct:
  assumes "forest K (parent ps)" "l \<in> K" "r \<in> K"
  shows "\<exists>qs. join_roots l r ps = Some qs \<and> forest K (parent qs) \<and>
    equivclp (edge (parent qs)) = equivclp (with_pair (edge (parent ps)) l r)"
proof -
  obtain ps1 a where 1: "find_root ps l = Some (ps1, a)"
    using find_root_ends [OF assms(1,2)] by (metis prod.collapse)
  note a = find_root_correct [OF 1 assms(1,2)]
  obtain ps2 b where 2: "find_root ps1 r = Some (ps2, b)"
    using find_root_ends [OF a(1) assms(3)] by (metis prod.collapse)
  note b = find_root_correct [OF 2 a(1) assms(3)]
  have same: "equivclp (edge (parent ps)) = equivclp (edge (parent ps2))"
    using a(2) b(2) by (simp add: alike_def)
  have roots: "parent ps2 a = a" "parent ps2 b = b" using a(4) b(2,4) by (auto simp: alike_def)
  have ends: "equivclp (edge (parent ps2)) l a" "equivclp (edge (parent ps2)) r b"
    using a(5) b(2,5) by (auto simp: alike_def)
  have mid: "equivclp (with_pair (edge (parent ps)) l r) = equivclp (with_pair (edge (parent ps2)) a b)"
    using equivclp_with_pair_cong [OF same, of l a r b] ends same by simp
  show ?thesis
  proof (cases "a = b")
    case True
    have "equivclp (with_pair (edge (parent ps2)) a a) = equivclp (edge (parent ps2))"
      by (rule equivclp_same) (auto simp: with_pair_def intro: equivclp_one)
    then show ?thesis using True mid b(1) 1 2 by (simp add: join_roots_def)
  next
    case False
    have "equivclp (with_pair (edge (parent ps2)) (max a b) (min a b)) = equivclp (with_pair (edge (parent ps2)) a b)"
      by (cases "a \<le> b") (simp_all add: with_pair_swap max_def min_def)
    moreover have "parent ps2 (max a b) = max a b" using roots by (simp add: max_def)
    ultimately have "equivclp (edge (parent (dict_set (max a b) (min a b) ps2))) =
        equivclp (with_pair (edge (parent ps)) l r)"
      using attach_root [of "parent ps2" "max a b" "min a b"] mid by simp
    moreover have "forest K (parent (dict_set (max a b) (min a b) ps2))"
      unfolding parent_set using a(3) b(1,3) by (intro attach_forest) (auto simp: max_def min_def)
    ultimately show ?thesis using False 1 2 by (simp add: join_roots_def)
  qed
qed

definition also_joined :: "(string \<Rightarrow> string \<Rightarrow> bool) \<Rightarrow> identity_link list \<Rightarrow> string \<Rightarrow> string \<Rightarrow> bool" where
  "also_joined r links x y \<longleftrightarrow> r x y \<or> joined links x y"

lemma also_joined_cong:
  assumes "equivclp r = equivclp s"
  shows "equivclp (also_joined r links) = equivclp (also_joined s links)"
proof (rule equivclp_same)
  have up: "equivclp (also_joined t links) x y" if "equivclp t x y" for t x y
    using that by (rule equivclp_least [rotated]) (auto simp: also_joined_def intro: equivclp_one)
  show "equivclp (also_joined s links) x y" if "also_joined r links x y" for x y
    using that assms up [of s] equivclp_one [of r] equivclp_one [of "also_joined s links"] by (metis also_joined_def)
  show "equivclp (also_joined r links) x y" if "also_joined s links x y" for x y
    using that assms up [of r] equivclp_one [of s] equivclp_one [of "also_joined r links"] by (metis also_joined_def)
qed

lemma join_links_correct:
  assumes "forest K (parent ps)" "\<And>k. k \<in> set links \<Longrightarrow> il_left k \<in> K \<and> il_right k \<in> K"
  shows "\<exists>qs. join_links links ps = Some qs \<and> forest K (parent qs) \<and>
    equivclp (edge (parent qs)) = equivclp (also_joined (edge (parent ps)) links)"
  using assms
proof (induction links arbitrary: ps)
  case Nil
  have "also_joined r [] = r" for r by (simp add: fun_eq_iff also_joined_def joined_def)
  then show ?case using Nil by simp
next
  case (Cons k links)
  show ?case
  proof (cases "il_state k = Confirmed")
    case True
    obtain qs where 1: "join_roots (il_left k) (il_right k) ps = Some qs" "forest K (parent qs)"
      "equivclp (edge (parent qs)) = equivclp (with_pair (edge (parent ps)) (il_left k) (il_right k))"
      using join_roots_correct [OF Cons.prems(1)] Cons.prems(2) by (meson list.set_intros(1))
    obtain rs where 2: "join_links links qs = Some rs" "forest K (parent rs)"
      "equivclp (edge (parent rs)) = equivclp (also_joined (edge (parent qs)) links)"
      using Cons.IH [OF 1(2)] Cons.prems(2) by auto
    have "also_joined (with_pair r (il_left k) (il_right k)) links = also_joined r (k # links)" for r
      using True by (auto simp: fun_eq_iff also_joined_def with_pair_def joined_def)
    then show ?thesis using 1 2 True also_joined_cong [OF 1(3), of links] by simp
  next
    case False
    then have "also_joined r (k # links) = also_joined r links" for r
      by (auto simp: fun_eq_iff also_joined_def joined_def)
    then show ?thesis using Cons False by simp
  qed
qed

section \<open>Grouping by root\<close>

definition rep :: "(string \<Rightarrow> string) \<Rightarrow> string \<Rightarrow> string \<Rightarrow> bool" where
  "rep f v k \<longleftrightarrow> f k = k \<and> equivclp (edge f) v k"

lemma rep_alike: "alike f g \<Longrightarrow> rep f = rep g"
  by (auto simp: fun_eq_iff rep_def alike_def)

lemma rep_unique: "rep f v k \<Longrightarrow> rep f v j \<Longrightarrow> k = j"
  by (meson connected_fixed equivclp_join equivclp_sym rep_def)

lemma rep_same: "rep f u k \<Longrightarrow> rep f v k \<longleftrightarrow> equivclp (edge f) u v"
  by (meson equivclp_join equivclp_sym rep_def)

lemma map_of_group_add: "get_default (group_add k v d) j [] = get_default d j [] @ (if j = k then [v] else [])"
  by (simp add: group_add_def get_default_def)

lemma group_add_ok: "dict_ok d \<Longrightarrow> dict_ok (group_add k v d)"
  by (simp add: group_add_def)

lemma update_mset:
  "dict_ok d \<Longrightarrow> mset (concat (map snd (AList.update k (get_default d k [] @ [v]) d))) = mset (concat (map snd d)) + {#v#}"
proof (induction d)
  case Nil
  then show ?case by (simp add: get_default_def)
next
  case (Cons e d)
  obtain j w where e: "e = (j, w)" by (cases e)
  have "dict_ok d" using Cons.prems by (simp add: dict_ok_def)
  then show ?case using Cons.IH by (cases "j = k") (simp_all add: e get_default_def)
qed

lemma group_add_mset: "dict_ok d \<Longrightarrow> mset (concat (map snd (group_add k v d))) = mset (concat (map snd d)) + {#v#}"
  unfolding group_add_def dict_set_def by (rule update_mset)

lemma group_entities_correct:
  assumes "forest K (parent ps)" "set vs \<subseteq> K" "dict_ok d"
  shows "\<exists>d'. group_entities vs ps d = Some d' \<and> dict_ok d' \<and>
    mset (concat (map snd d')) = mset (concat (map snd d)) + mset vs \<and>
    (\<forall>k. get_default d' k [] = get_default d k [] @ filter (\<lambda>v. rep (parent ps) v k) vs)"
  using assms
proof (induction vs arbitrary: ps d)
  case Nil
  then show ?case by simp
next
  case (Cons v vs)
  have v: "v \<in> K" and vs: "set vs \<subseteq> K" using Cons.prems(2) by simp_all
  obtain qs r where 1: "find_root ps v = Some (qs, r)"
    using find_root_ends [OF Cons.prems(1) v] by (metis prod.collapse)
  note q = find_root_correct [OF 1 Cons.prems(1) v]
  have reps: "rep (parent qs) = rep (parent ps)" using rep_alike [OF q(2)] by simp
  have r: "rep (parent ps) v k \<longleftrightarrow> k = r" for k
    using rep_unique [of "parent ps" v k r] q(4,5) reps by (metis rep_def)
  obtain d' where 2: "group_entities vs qs (group_add r v d) = Some d'" "dict_ok d'"
    "mset (concat (map snd d')) = mset (concat (map snd (group_add r v d))) + mset vs"
    "\<forall>k. get_default d' k [] = get_default (group_add r v d) k [] @ filter (\<lambda>v. rep (parent qs) v k) vs"
    using Cons.IH [OF q(1) vs group_add_ok [OF Cons.prems(3)], of r v] by auto
  show ?case
    using 1 2 group_add_mset [OF Cons.prems(3)] by (simp add: map_of_group_add reps r)
qed

lemma initial_parents_id: "parent (initial_parents ids) = id"
proof -
  have "parent (fold (\<lambda>v. dict_set v v) ids ps) = id" if "parent ps = id" for ps :: parents
    using that
  proof (induction ids arbitrary: ps)
    case (Cons v ids)
    have "parent (dict_set v v ps) = id" using Cons.prems by auto
    then show ?case using Cons.IH by simp
  qed simp
  moreover have "parent [] = id" by (simp add: fun_eq_iff parent_def get_default_def)
  ultimately show ?thesis by (simp add: initial_parents_def)
qed

lemma components_correct:
  assumes "\<And>k. k \<in> set links \<Longrightarrow> il_left k \<in> set ids \<and> il_right k \<in> set ids"
  shows "\<exists>cs. components ids links = Some cs \<and> mset (concat cs) = mset ids \<and>
    (\<forall>u v. u \<in> set ids \<and> v \<in> set ids \<longrightarrow>
       list_ex (\<lambda>c. u \<in> set c \<and> v \<in> set c) cs = equivclp (joined links) u v)"
proof -
  let ?K = "set ids"
  have "forest ?K (parent (initial_parents ids))" by (simp add: forest_def initial_parents_id)
  then obtain ps where 1: "join_links links (initial_parents ids) = Some ps" "forest ?K (parent ps)"
    "equivclp (edge (parent ps)) = equivclp (also_joined (edge id) links)"
    using join_links_correct [of ?K "initial_parents ids" links] assms initial_parents_id by metis
  have "equivclp (also_joined (edge id) links) = equivclp (joined links)"
    by (rule equivclp_same) (auto simp: also_joined_def edge_def intro: equivclp_one)
  then have cls: "equivclp (edge (parent ps)) = equivclp (joined links)" using 1(3) by simp
  obtain d where 2: "group_entities ids ps [] = Some d" "dict_ok d" "mset (concat (map snd d)) = mset ids"
    "\<forall>k. get_default d k [] = filter (\<lambda>v. rep (parent ps) v k) ids"
    using group_entities_correct [OF 1(2), of ids "[]"] by (auto simp: dict_ok_def get_default_def)
  define cs where "cs = map (\<lambda>(_, vs). sort vs) (sort_key fst d)"
  have comp: "components ids links = Some cs" using 1 2 by (simp add: components_def cs_def)
  have flat: "mset (concat (map f (sort_key fst d))) = mset (concat (map f d))" for f :: "string \<times> string list \<Rightarrow> string list"
    by (simp add: mset_concat flip: sum_mset_sum_list)
  have "mset (concat cs) = mset (concat (map snd (sort_key fst d)))"
    unfolding cs_def by (simp add: mset_concat comp_def case_prod_beta)
  then have all: "mset (concat cs) = mset ids" using flat [of snd] 2(3) by simp
  have "list_ex (\<lambda>c. u \<in> set c \<and> v \<in> set c) cs = equivclp (joined links) u v" if uv: "u \<in> ?K" "v \<in> ?K" for u v
  proof -
    have mem: "x \<in> set w \<longleftrightarrow> x \<in> ?K \<and> rep (parent ps) x k" if "(k, w) \<in> set d" for x k w
    proof -
      have "get_default d k [] = w" using that 2(2) by (simp add: get_default_def dict_ok_def)
      then have "w = filter (\<lambda>v. rep (parent ps) v k) ids" using 2(4) by metis
      then show ?thesis by auto
    qed
    have "list_ex (\<lambda>c. u \<in> set c \<and> v \<in> set c) cs \<longleftrightarrow> (\<exists>(k, w) \<in> set d. u \<in> set w \<and> v \<in> set w)"
      by (auto simp: cs_def list_ex_iff)
    also have "\<dots> \<longleftrightarrow> equivclp (edge (parent ps)) u v"
    proof
      assume "\<exists>(k, w) \<in> set d. u \<in> set w \<and> v \<in> set w"
      then obtain k w where "(k, w) \<in> set d" "u \<in> set w" "v \<in> set w" by auto
      then have "rep (parent ps) u k" "rep (parent ps) v k" using mem by blast+
      then show "equivclp (edge (parent ps)) u v" using rep_same by metis
    next
      assume c: "equivclp (edge (parent ps)) u v"
      have "u \<in> set (concat (map snd d))" using uv(1) 2(3) by (metis set_mset_mset)
      then obtain k w where "(k, w) \<in> set d" "u \<in> set w" by auto
      then show "\<exists>(k, w) \<in> set d. u \<in> set w \<and> v \<in> set w" using mem uv(2) c rep_same by blast
    qed
    finally show ?thesis using cls by simp
  qed
  then show ?thesis using comp all by blast
qed

text \<open>C28: the union-find of the code always ends and computes the classes of the confirmed links: two
  records share a component exactly when a chain of confirmed links joins them, and every record is in
  one component.\<close>

theorem components_are_classes:
  assumes "\<And>k. k \<in> set links \<Longrightarrow> il_left k \<in> set ids \<and> il_right k \<in> set ids"
  shows "\<exists>cs. components ids links = Some cs \<and> mset (concat cs) = mset ids \<and>
    (\<forall>u v. u \<in> set ids \<and> v \<in> set ids \<longrightarrow>
       list_ex (\<lambda>c. u \<in> set c \<and> v \<in> set c) cs = equivclp (joined links) u v)"
  using assms by (rule components_correct)

definition demo_link :: identity_link where
  "demo_link = \<lparr>il_id = ''k'', il_left = ''b'', il_right = ''a'', il_state = Confirmed, il_automatic = True, il_reasons = [],
     il_evaluated_at = 0, il_decided_at = None\<rparr>"

theorem components_are_classes_witness:
  "\<exists>cs. components [''c'', ''b'', ''a''] [demo_link] = Some cs \<and> mset (concat cs) = mset [''c'', ''b'', ''a''] \<and>
     list_ex (\<lambda>c. ''a'' \<in> set c \<and> ''b'' \<in> set c) cs = equivclp (joined [demo_link]) ''a'' ''b'' \<and>
     list_ex (\<lambda>c. ''a'' \<in> set c \<and> ''c'' \<in> set c) cs = equivclp (joined [demo_link]) ''a'' ''c''"
proof -
  have "il_left k \<in> set [''c'', ''b'', ''a''] \<and> il_right k \<in> set [''c'', ''b'', ''a'']" if "k \<in> set [demo_link]" for k
    using that by (simp add: demo_link_def)
  from components_are_classes [OF this] show ?thesis by (meson list.set_intros)
qed

section \<open>Which links are confirmed\<close>

definition undisputed :: "entity \<Rightarrow> entity \<Rightarrow> bool" where
  "undisputed l r \<longleftrightarrow> list_all (\<lambda>(k, ks). \<not> strong_disagree l r ks) strong_groups"

definition conflicting :: "entity \<Rightarrow> entity \<Rightarrow> bool" where
  "conflicting l r \<longleftrightarrow> \<not> undisputed l r \<and> plausible_pair l r"

text \<open>Two records that may be joined: by an unambiguous strong identifier that no other strong one
  contradicts, or by the operator where the identifiers are not in conflict.\<close>

definition justified :: "(string \<Rightarrow> string) \<Rightarrow> entity list \<Rightarrow> decisions \<Rightarrow> string \<Rightarrow> string \<Rightarrow> bool" where
  "justified H es ds x y \<longleftrightarrow>
     (\<exists>l \<in> set es. \<exists>r \<in> set es. en_id l = x \<and> en_id r = y \<and> en_provider l \<noteq> en_provider r \<and>
        (unique_agreement es l r \<and> undisputed l r \<or>
         \<not> conflicting l r \<and> (\<exists>t. dict_get ds (stable_id H ''identity-link'' [x, y]) = Some (''confirm'', t))))"

lemma conflicts_undisputed: "conflicts_of H l r = [] \<longleftrightarrow> undisputed l r"
  by (auto simp: conflicts_of_def undisputed_def strong_groups_def)

lemma strong_plausible: "list_ex (\<lambda>(k, ks). strong_agree l r ks) strong_groups \<Longrightarrow> plausible_pair l r"
  by (simp add: plausible_pair_def)

lemma pair_link:
  assumes "resolve_identity_pair H now l r = (k, cs)"
  shows "il_left k = en_id l" "il_right k = en_id r" "il_id k = stable_id H ''identity-link'' [en_id l, en_id r]" "il_automatic k"
    "il_state k = Confirmed \<Longrightarrow> undisputed l r" "il_state k \<noteq> Conflicted \<Longrightarrow> en_provider l \<noteq> en_provider r \<Longrightarrow> \<not> conflicting l r"
  using assms strong_plausible [of l r] conflicts_undisputed [of H l r]
  by (auto simp: resolve_identity_pair_def Let_def link_of_def conflicting_def split: if_splits)

lemma strong_count_ordered: "strong_count (ordered_entities es) p ks v = strong_count es p ks v"
proof -
  have "size (filter_mset P (mset (ordered_entities es))) = size (filter_mset P (mset es))" for P
    by (simp add: ordered_entities_def)
  then show ?thesis by (simp add: strong_count_def flip: size_mset mset_filter)
qed

lemma unique_agreement_ordered: "unique_agreement (ordered_entities es) l r = unique_agreement es l r"
  by (simp add: unique_agreement_def strong_count_ordered)

lemma pairs_of_set: "(x, y) \<in> set (pairs_of xs) \<Longrightarrow> x \<in> set xs \<and> y \<in> set xs"
  by (induction xs) auto

lemma demote_link:
  "il_left (demote es l r k) = il_left k" "il_right (demote es l r k) = il_right k" "il_id (demote es l r k) = il_id k"
  "il_automatic (demote es l r k) = il_automatic k"
  "il_state (demote es l r k) = Confirmed \<Longrightarrow> il_state k = Confirmed \<and> unique_agreement es l r"
  "il_state (demote es l r k) = Conflicted \<longleftrightarrow> il_state k = Conflicted"
  by (auto simp: demote_def split: if_splits)

lemma cross_link:
  assumes "resolve_cross_provider_identities H now es = (links, conflicts)" "k \<in> set links"
  shows "\<exists>l \<in> set es. \<exists>r \<in> set es. il_left k = en_id l \<and> il_right k = en_id r \<and> en_provider l \<noteq> en_provider r \<and>
    il_id k = stable_id H ''identity-link'' [en_id l, en_id r] \<and> il_automatic k \<and>
    (il_state k = Confirmed \<longrightarrow> unique_agreement es l r \<and> undisputed l r) \<and> (il_state k \<noteq> Conflicted \<longrightarrow> \<not> conflicting l r)"
proof -
  let ?o = "ordered_entities es"
  have "links = filter (\<lambda>k. il_state k \<noteq> Rejected) (map fst (map (\<lambda>(l, r). case resolve_identity_pair H now l r of
      (link, cs) \<Rightarrow> (demote ?o l r link, cs)) (filter (\<lambda>(l, r). en_provider l \<noteq> en_provider r) (pairs_of ?o))))"
    using assms(1) by (simp add: resolve_cross_provider_identities_def Let_def)
  then obtain l r where lr: "(l, r) \<in> set (pairs_of ?o)" "en_provider l \<noteq> en_provider r"
    and k: "k = demote ?o l r (fst (resolve_identity_pair H now l r))"
    using assms(2) by (auto split: prod.splits)
  have "l \<in> set es" "r \<in> set es" using pairs_of_set [OF lr(1)] by (simp_all add: ordered_entities_def)
  moreover have "resolve_identity_pair H now l r =
      (fst (resolve_identity_pair H now l r), snd (resolve_identity_pair H now l r))" by simp
  note pair_link [OF this]
  ultimately show ?thesis
    using lr(2) demote_link [of ?o l r "fst (resolve_identity_pair H now l r)"] unique_agreement_ordered [of es l r]
    unfolding k by metis
qed

lemma decide_link_parts [simp]:
  "il_left (decide_link ds k) = il_left k" "il_right (decide_link ds k) = il_right k" "il_id (decide_link ds k) = il_id k"
  by (auto simp: decide_link_def split: option.split prod.split)

lemma decide_link_confirmed:
  "il_state (decide_link ds k) = Confirmed \<Longrightarrow>
    il_state k = Confirmed \<or> il_state k \<noteq> Conflicted \<and> (\<exists>t. dict_get ds (il_id k) = Some (''confirm'', t))"
  by (auto simp: decide_link_def split: option.splits prod.splits if_splits)

lemma confirmed_justified:
  assumes "resolve_cross_provider_identities H now es = (links, conflicts)" "joined (map (decide_link ds) links) x y"
  shows "justified H es ds x y"
proof -
  obtain k where k: "k \<in> set links" "il_state (decide_link ds k) = Confirmed" "il_left k = x" "il_right k = y"
    using assms(2) by (auto simp: joined_def)
  from cross_link [OF assms(1) k(1)] decide_link_confirmed [OF k(2)] show ?thesis
    unfolding justified_def k(3,4) [symmetric] by metis
qed

lemma unified_exists:
  obtains us comps links conflicts where
    "resolve_cross_provider_identities H now es = (links, conflicts)"
    "reconcile_unified_state H now es cs hs ds = Some us"
    "components (map en_id es) (map (decide_link ds) links) = Some comps"
    "us_links us = map (decide_link ds) links" "map ue_members (us_entities us) = comps"
    "mset (concat comps) = mset (map en_id es)"
    "\<And>u v. u \<in> set (map en_id es) \<Longrightarrow> v \<in> set (map en_id es) \<Longrightarrow>
       list_ex (\<lambda>c. u \<in> set c \<and> v \<in> set c) comps = equivclp (joined (map (decide_link ds) links)) u v"
proof -
  obtain links conflicts where r: "resolve_cross_provider_identities H now es = (links, conflicts)" by force
  have ends: "il_left k \<in> set (map en_id es) \<and> il_right k \<in> set (map en_id es)" if k: "k \<in> set (map (decide_link ds) links)" for k
  proof -
    from k obtain j where j: "j \<in> set links" "k = decide_link ds j" unfolding set_map by blast
    obtain l q where "l \<in> set es" "q \<in> set es" "il_left j = en_id l" "il_right j = en_id q"
      using cross_link [OF r j(1)] by metis
    then show ?thesis using j(2) by simp
  qed
  from components_correct [OF ends] obtain comps where
    "components (map en_id es) (map (decide_link ds) links) = Some comps \<and> mset (concat comps) = mset (map en_id es) \<and>
    (\<forall>u v. u \<in> set (map en_id es) \<and> v \<in> set (map en_id es) \<longrightarrow>
       list_ex (\<lambda>c. u \<in> set c \<and> v \<in> set c) comps = equivclp (joined (map (decide_link ds) links)) u v)"
    by (rule exE)
  note c = this [THEN conjunct1] this [THEN conjunct2, THEN conjunct1] this [THEN conjunct2, THEN conjunct2]
  let ?links = "map (decide_link ds) links"
  let ?us = "map (unify_component H es cs ?links conflicts) comps"
  let ?state = "\<lparr>us_generated_at = now, us_entities = ?us, us_relationships = relationships H cs ?us,
    us_provider_entities = es, us_claims = cs, us_links = ?links, us_conflicts = conflicts, us_health = hs\<rparr>"
  have "reconcile_unified_state H now es cs hs ds = Some ?state"
    unfolding reconcile_unified_state_def r prod.case Let_def c(1) option.map by (rule refl)
  moreover have "map ue_members (us_entities ?state) = comps"
    by (simp add: unify_component_def Let_def comp_def)
  moreover have "us_links ?state = ?links" by (rule unified_state.select_convs)
  ultimately show thesis using that [OF r _ c(1) _ _ c(2)] c(3) by blast
qed

text \<open>C29: the unified state always exists, every record is in one unified device, and records share one
  only through a chain of justified joins.\<close>

theorem merges_are_justified:
  "\<exists>us. reconcile_unified_state H now es cs hs ds = Some us \<and>
     mset (concat (map ue_members (us_entities us))) = mset (map en_id es) \<and>
     (\<forall>u a b. u \<in> set (us_entities us) \<and> a \<in> set (ue_members u) \<and> b \<in> set (ue_members u) \<longrightarrow>
        equivclp (justified H es ds) a b)"
proof -
  obtain us comps links conflicts where u:
    "resolve_cross_provider_identities H now es = (links, conflicts)"
    "reconcile_unified_state H now es cs hs ds = Some us"
    "map ue_members (us_entities us) = comps" "mset (concat comps) = mset (map en_id es)"
    "\<And>u v. u \<in> set (map en_id es) \<Longrightarrow> v \<in> set (map en_id es) \<Longrightarrow>
       list_ex (\<lambda>c. u \<in> set c \<and> v \<in> set c) comps = equivclp (joined (map (decide_link ds) links)) u v"
    by (rule unified_exists [of H now es cs hs ds]) blast
  have "equivclp (justified H es ds) a b"
    if m: "v \<in> set (us_entities us)" "a \<in> set (ue_members v)" "b \<in> set (ue_members v)" for v a b
  proof -
    have v: "ue_members v \<in> set comps" using m(1) u(3) by auto
    have "set (concat comps) = set (map en_id es)" using u(4) by (metis set_mset_mset)
    then have "a \<in> set (map en_id es)" "b \<in> set (map en_id es)" using v m(2,3) by auto
    then have "equivclp (joined (map (decide_link ds) links)) a b"
      using u(5) v m(2,3) by (auto simp: list_ex_iff)
    then show ?thesis by (rule equivclp_least [rotated]) (auto intro: equivclp_one confirmed_justified [OF u(1)])
  qed
  then show ?thesis using u(2,3,4) by blast
qed

definition demo_entity :: "string \<Rightarrow> provider \<Rightarrow> entity" where
  "demo_entity v p =
     \<lparr>en_id = v, en_provider = p, en_label = v, en_category = ''switch'', en_vendor = None, en_model = None,
      en_identifiers = [\<lparr>pi_kind = I_serial, pi_value = ''s'', pi_strength = Strong, pi_global = None, pi_ref = v\<rparr>],
      en_claims = [], en_observed_at = 0, en_freshness = Current\<rparr>"

theorem merges_are_justified_witness:
  "equivclp (justified (\<lambda>s. s) [demo_entity ''b'' Meraki_dashboard, demo_entity ''a'' Catalyst_ios] []) ''a'' ''b''"
proof -
  let ?es = "[demo_entity ''b'' Meraki_dashboard, demo_entity ''a'' Catalyst_ios]"
  obtain us where us: "reconcile_unified_state (\<lambda>s. s) 0 ?es [] [] [] = Some us"
    and j: "\<forall>u a b. u \<in> set (us_entities us) \<and> a \<in> set (ue_members u) \<and> b \<in> set (ue_members u) \<longrightarrow>
        equivclp (justified (\<lambda>s. s) ?es []) a b"
    using merges_are_justified [of "\<lambda>s. s" 0 ?es "[]" "[]" "[]"] by blast
  have "map_option (\<lambda>us. list_ex (\<lambda>u. ''a'' \<in> set (ue_members u) \<and> ''b'' \<in> set (ue_members u)) (us_entities us))
      (reconcile_unified_state (\<lambda>s. s) 0 ?es [] [] []) = Some True"
    by code_simp
  then have "list_ex (\<lambda>u. ''a'' \<in> set (ue_members u) \<and> ''b'' \<in> set (ue_members u)) (us_entities us)"
    by (simp add: us)
  then show ?thesis using j by (auto simp: list_ex_iff)
qed

section \<open>Decisions\<close>

text \<open>C30: a decision is recorded only for a link that is a candidate now; anything else, a conflict in
  particular, is refused and nothing is stored.\<close>

theorem only_candidates_are_decided:
  "\<exists>answer. decide_identity H now link decision st = Some answer \<and>
     (case answer of
        Inl e \<Rightarrow> e = PyError ''ValueError'' \<and> decision \<noteq> ''clear''
      | Inr st' \<Rightarrow> ul_snapshots st' = ul_snapshots st \<and>
          (if decision = ''clear'' then dict_get (ul_decisions st') = (dict_get (ul_decisions st))(link := None)
           else dict_get (ul_decisions st') = (dict_get (ul_decisions st))(link \<mapsto> (decision, now)) \<and>
             (\<exists>us. service_state H now st = Some us \<and>
                list_ex (\<lambda>k. il_id k = link \<and> il_state k = Candidate) (us_links us))))"
proof -
  obtain es cs hs where l: "load_provider_states st = (es, cs, hs)" by (metis prod_cases3)
  obtain us where us: "service_state H now st = Some us"
    unfolding service_state_def l prod.case
    by (rule unified_exists [of H now es cs "all_health now hs" "ul_decisions st"]) blast
  show ?thesis
  proof (cases "decision = ''clear''")
    case True
    then show ?thesis
      by (simp add: decide_identity_def us clear_identity_decision_def fun_eq_iff dict_pop_def delete_conv')
  next
    case False
    show ?thesis
    proof (cases "List.find (\<lambda>k. il_id k = link) (us_links us)")
      case None
      then show ?thesis using False by (simp add: decide_identity_def us)
    next
      case (Some k)
      then have "k \<in> set (us_links us)" "il_id k = link" by (auto simp: find_Some_iff)
      then show ?thesis
        using False Some
        by (auto simp: decide_identity_def us set_identity_decision_def fun_eq_iff list_ex_iff)
    qed
  qed
qed

end
