(* ===== verification/Planner.thy ===== *)
theory Planner
  imports Command_Registry Models
begin

text \<open>
  \<open>backend/app/planner.py\<close>: the dry-run plan for an access point. Nothing here runs a command; the plan
  lists the lines an operator would enter, and only when every check passed. The digest behind the
  plan's number is a parameter. Shown: lines are proposed exactly when the port was observed, is
  OPERABLE, the VLAN exists and PoE is available where it is wanted, and they name no other interface.
\<close>

datatype plan_poe = Plan_auto | Plan_never

record plan_request =
  pr_interface :: string
  pr_enabled :: bool
  pr_vlan :: int
  pr_poe :: plan_poe
  pr_portfast :: bool

text \<open>What the request model accepts; its role has one value only.\<close>

definition plan_role :: string where "plan_role = ''wireless-access-point''"

definition validate_plan_interface :: "string \<Rightarrow> string result" where
  "validate_plan_interface v =
     (let t = py_strip v in
      if t = [] \<or> length t > 64 \<or> list_ex (\<lambda>c. cp c < 32) t then Inl (PyError ''Interface is invalid.'') else Inr t)"

definition make_plan_request :: "string \<Rightarrow> bool \<Rightarrow> int \<Rightarrow> plan_poe \<Rightarrow> bool \<Rightarrow> plan_request result" where
  "make_plan_request interface enabled vlan poe portfast =
     and_then (validate_plan_interface interface) (\<lambda>name.
       if 1 \<le> vlan \<and> vlan \<le> 4094
       then Inr \<lparr>pr_interface = name, pr_enabled = enabled, pr_vlan = vlan, pr_poe = poe, pr_portfast = portfast\<rparr>
       else Inl (PyError ''ValidationError''))"

record plan_check =
  pc_name :: string
  pc_passed :: bool
  pc_detail :: string

record plan =
  pl_id :: string
  pl_valid :: bool
  pl_target :: string
  pl_checks :: "plan_check list"
  pl_impact :: string
  pl_proposed :: "string list"
  pl_backup_required :: bool
  pl_verification :: "string list"
  pl_apply_available :: bool

definition poe_text :: "plan_poe \<Rightarrow> string" where
  "poe_text p = (case p of Plan_auto \<Rightarrow> ''auto'' | Plan_never \<Rightarrow> ''never'')"

definition json_bool :: "bool \<Rightarrow> string" where
  "json_bool b = (if b then ''true'' else ''false'')"

definition quoted :: "string \<Rightarrow> string" where
  "quoted s = [CHR 0x22] @ s @ [CHR 0x22]"

text \<open>The JSON text of the desired state, its keys sorted; a canonical interface name needs no escape.\<close>

definition plan_fingerprint_text :: "string \<Rightarrow> plan_request \<Rightarrow> string" where
  "plan_fingerprint_text canonical q =
     CHR ''{'' # py_join '', '' (map (\<lambda>(k, v). quoted k @ '': '' @ v)
       [(''enabled'', json_bool (pr_enabled q)), (''interface'', quoted canonical), (''mode'', quoted ''access''),
        (''poe'', quoted (poe_text (pr_poe q))), (''portfast'', json_bool (pr_portfast q)), (''role'', quoted plan_role),
        (''vlan'', py_str_int (pr_vlan q))]) @ ''}''"

definition observed_port :: "interface_status list \<Rightarrow> string \<Rightarrow> interface_status option" where
  "observed_port interfaces short = last_row (\<lambda>i. py_lower (ifs_port i)) (py_lower short) interfaces"

definition interface_check :: "string \<Rightarrow> bool \<Rightarrow> plan_check" where
  "interface_check short found = \<lparr>pc_name = ''interface_exists'', pc_passed = found,
     pc_detail = (if found then short @ '' was returned by show interfaces status.'' else short @ '' was not returned by the switch.'')\<rparr>"

definition target_check :: "string \<Rightarrow> bool \<Rightarrow> plan_check" where
  "target_check canonical safe = \<lparr>pc_name = ''target_is_safe'', pc_passed = safe,
     pc_detail = canonical @ (if safe then '' is explicitly OPERABLE in this device''
       else '' is not explicitly OPERABLE in this device'') @ [CHR 0x27] @ ''s local policy.''\<rparr>"

definition poe_check :: "string \<Rightarrow> plan_poe \<Rightarrow> bool \<Rightarrow> plan_check" where
  "poe_check short wanted reported = \<lparr>pc_name = ''poe_supported'', pc_passed = (wanted = Plan_never \<or> reported),
     pc_detail = (if reported then short @ '' is present in show power inline.''
       else if wanted = Plan_never then ''PoE is not required by this desired state.''
       else short @ '' was not reported as PoE-capable.'')\<rparr>"

definition vlan_check :: "int \<Rightarrow> int list \<Rightarrow> plan_check" where
  "vlan_check vlan vlans = \<lparr>pc_name = ''vlan_exists'', pc_passed = (vlan \<in> set vlans),
     pc_detail = ''VLAN '' @ py_str_int vlan @
       (if vlan \<in> set vlans then '' exists in show vlan brief.'' else '' was not returned by show vlan brief.'')\<rparr>"

definition plan_checks ::
  "plan_request \<Rightarrow> string \<Rightarrow> string \<Rightarrow> interface_status list \<Rightarrow> poe_port list \<Rightarrow> int list \<Rightarrow> plan_check list"
where
  "plan_checks q canonical short interfaces poes vlans =
     [interface_check short (observed_port interfaces short \<noteq> None),
      target_check canonical (case observed_port interfaces short of None \<Rightarrow> False | Some i \<Rightarrow> ifs_policy_state i = OPERABLE),
      poe_check short (pr_poe q) (list_ex (\<lambda>p. py_lower (pp_interface p) = py_lower short) poes),
      vlan_check (pr_vlan q) vlans]"

definition plan_lines :: "plan_request \<Rightarrow> string \<Rightarrow> string list" where
  "plan_lines q canonical =
     [''configure terminal'', ''interface '' @ canonical, ''description Wireless access point'', ''switchport mode access'',
      ''switchport access vlan '' @ py_str_int (pr_vlan q)] @
     (if pr_portfast q then [''spanning-tree portfast''] else []) @
     [if pr_poe q = Plan_auto then ''power inline auto'' else ''power inline never'',
      if pr_enabled q then ''no shutdown'' else ''shutdown'', ''end'']"

definition build_access_point_plan ::
  "(string \<Rightarrow> string) \<Rightarrow> plan_request \<Rightarrow> interface_status list \<Rightarrow> poe_port list \<Rightarrow> int list \<Rightarrow> plan result"
where
  "build_access_point_plan digest q interfaces poes vlans =
     and_then (assert_interface_readable (pr_interface q)) (\<lambda>canonical.
     and_then (short_interface canonical) (\<lambda>short.
     and_then (map_result resolve_read_command [''show_interfaces_status'', ''show_power_inline'', ''show_spanning_tree'']) (\<lambda>verification.
       let checks = plan_checks q canonical short interfaces poes vlans; valid = list_all pc_passed checks in
       Inr \<lparr>pl_id = ''ap-'' @ take 12 (digest (plan_fingerprint_text canonical q)), pl_valid = valid, pl_target = canonical,
         pl_checks = checks,
         pl_impact = (if pc_passed (checks ! 1)
           then ''Selected OPERABLE interface only. Protected interfaces are unaffected.''
           else ''Plan is blocked because the target is PROTECTED or UNMANAGED.''),
         pl_proposed = (if valid then plan_lines q canonical else []), pl_backup_required = True,
         pl_verification = verification, pl_apply_available = False\<rparr>)))"

section \<open>What a plan proposes\<close>

lemma plan_verification:
  "map_result resolve_read_command [''show_interfaces_status'', ''show_power_inline'', ''show_spanning_tree''] =
    Inr [''show interfaces status'', ''show power inline'', ''show spanning-tree'']"
  by code_simp

lemma plan_checks_pass:
  "list_all pc_passed (plan_checks q canonical short interfaces poes vlans) \<longleftrightarrow>
    (\<exists>i. observed_port interfaces short = Some i \<and> ifs_policy_state i = OPERABLE) \<and>
    (pr_poe q = Plan_never \<or> (\<exists>p \<in> set poes. py_lower (pp_interface p) = py_lower short)) \<and> pr_vlan q \<in> set vlans"
  by (auto simp: plan_checks_def interface_check_def target_check_def poe_check_def vlan_check_def list_ex_iff
      split: option.splits)

lemma plan_lines_interfaces: "filter (prefix ''interface '') (plan_lines q canonical) = [''interface '' @ canonical]"
  by (simp add: plan_lines_def)

text \<open>C32: a plan proposes lines only for a target that the switch listed, that the policy calls OPERABLE
  and that gives the wanted PoE, on a VLAN that exists; otherwise it proposes nothing. The lines enter
  exactly one interface, the target, and a plan can never be applied.\<close>

theorem plan_gated:
  assumes "build_access_point_plan digest q interfaces poes vlans = Inr p"
  shows "pl_apply_available p = False \<and>
    (pl_proposed p \<noteq> [] \<longleftrightarrow> pl_valid p) \<and>
    (pl_valid p \<longleftrightarrow> list_all pc_passed (pl_checks p)) \<and>
    (pl_valid p \<longrightarrow> (\<exists>i \<in> set interfaces. ifs_policy_state i = OPERABLE \<and>
        Inr (py_lower (ifs_port i)) = and_then (short_interface (pl_target p)) (\<lambda>s. Inr (py_lower s))) \<and>
      pr_vlan q \<in> set vlans \<and>
      filter (prefix ''interface '') (pl_proposed p) = [''interface '' @ pl_target p])"
proof -
  obtain canonical short where short: "short_interface canonical = Inr short"
    and p: "pl_target p = canonical" "pl_checks p = plan_checks q canonical short interfaces poes vlans"
      "pl_valid p = list_all pc_passed (pl_checks p)" "pl_apply_available p = False"
      "pl_proposed p = (if pl_valid p then plan_lines q canonical else [])"
    using assms by (auto simp: build_access_point_plan_def and_then_Inr_iff plan_verification Let_def)
  have "(\<exists>i \<in> set interfaces. ifs_policy_state i = OPERABLE \<and> py_lower (ifs_port i) = py_lower short) \<and> pr_vlan q \<in> set vlans"
    if v: "pl_valid p"
    using v p(2,3) by (auto simp: plan_checks_pass observed_port_def dest!: last_row_Some)
  then show ?thesis using p short by (auto simp: plan_lines_interfaces) (auto simp: plan_lines_def)
qed

definition planned_port :: interface_status where
  "planned_port = \<lparr>ifs_port = ''Gi1/0/7'', ifs_name = [], ifs_status = ''notconnect'', ifs_vlan = ''1'', ifs_duplex = ''auto'',
     ifs_speed = ''auto'', ifs_type = [], ifs_protected = False, ifs_policy_state = OPERABLE\<rparr>"

definition planned :: plan_request where
  "planned = \<lparr>pr_interface = ''gi1/0/7'', pr_enabled = True, pr_vlan = 10, pr_poe = Plan_never, pr_portfast = True\<rparr>"

theorem plan_gated_witness:
  "\<exists>p. build_access_point_plan id planned [planned_port] [] [1, 10] = Inr p \<and> pl_valid p \<and>
    filter (prefix ''interface '') (pl_proposed p) = [''interface GigabitEthernet1/0/7'']"
proof -
  have "isl (build_access_point_plan id planned [planned_port] [] [1, 10]) = False" by code_simp
  then obtain p where p: "build_access_point_plan id planned [planned_port] [] [1, 10] = Inr p"
    by (cases "build_access_point_plan id planned [planned_port] [] [1, 10]") auto
  have "(case build_access_point_plan id planned [planned_port] [] [1, 10] of Inl _ \<Rightarrow> False
    | Inr p \<Rightarrow> pl_valid p \<and> pl_target p = ''GigabitEthernet1/0/7'')" by code_simp
  with p have "pl_valid p" "pl_target p = ''GigabitEthernet1/0/7''" by simp_all
  with plan_gated [OF p] p show ?thesis by auto
qed

end
