(* ===== verification/Configuration_History.thy ===== *)
theory Configuration_History
  imports Redaction Models
begin

text \<open>
  \<open>backend/app/configuration_history.py\<close>: the versions of a device's running configuration. The table
  is the list of its rows in the order of their numbers, the history directory a dictionary from file
  names to texts. The digest, the difference of two texts (\<open>difflib.unified_diff\<close>) and the printed
  form of a time are parameters. Shown: in every reachable state each version points back to the one
  before it and differs from it, its file holds the text of its fingerprint, at most one version of a
  device is known good, and observing the same text again stores nothing.
\<close>

datatype version_source = Initial_observation | External_or_unknown

record config_version =
  cv_id :: nat
  cv_at :: time
  cv_device :: string
  cv_fingerprint :: string
  cv_filename :: string
  cv_previous :: "nat option"
  cv_known_good :: bool
  cv_changed :: bool
  cv_source :: version_source
  cv_diff :: "string list"

record config_history =
  ch_rows :: "config_version list"
  ch_next :: nat
  ch_files :: "(string, string) dict"

definition empty_history :: config_history where
  "empty_history = \<lparr>ch_rows = [], ch_next = 1, ch_files = []\<rparr>"

definition filename_char :: "char \<Rightarrow> bool" where
  "filename_char c \<longleftrightarrow> is_ascii_letter c \<or> is_decimal_char c \<or> c = CHR ''_'' \<or> c = CHR ''-''"

definition strip_hyphens :: "string \<Rightarrow> string" where
  "strip_hyphens s = rev (dropWhile (\<lambda>c. c = CHR ''-'') (rev (dropWhile (\<lambda>c. c = CHR ''-'') s)))"

definition safe_slug :: "string \<Rightarrow> string" where
  "safe_slug v =
     (let s = strip_hyphens (rx_sub (plus1 (One (\<lambda>c. \<not> filename_char c))) (\<lambda>_. ''-'') v) in
      if s = [] then ''switch'' else s)"

definition carriage_return :: string where "carriage_return = [CHR 0x0D]"

definition normalize_config :: "string \<Rightarrow> string" where
  "normalize_config t =
     py_strip (py_replace (py_replace t (carriage_return @ [newline]) [newline]) carriage_return [newline]) @ [newline]"

type_synonym differ = "string list \<Rightarrow> string list \<Rightarrow> string \<Rightarrow> string \<Rightarrow> string list"

definition version_filename :: "(time \<Rightarrow> string) \<Rightarrow> string \<Rightarrow> time \<Rightarrow> string \<Rightarrow> string" where
  "version_filename stamp hostname when fingerprint =
     safe_slug hostname @ ''-running-config-'' @ stamp when @ ''-'' @ take 12 fingerprint @ ''.txt''"

definition versions_of :: "string \<Rightarrow> config_history \<Rightarrow> config_version list" where
  "versions_of device h = filter (\<lambda>v. cv_device v = device) (rev (ch_rows h))"

definition latest_version :: "string \<Rightarrow> config_history \<Rightarrow> config_version option" where
  "latest_version device h = (case versions_of device h of [] \<Rightarrow> None | v # _ \<Rightarrow> Some v)"

definition redacted_change :: "differ \<Rightarrow> config_version \<Rightarrow> string \<Rightarrow> config_history \<Rightarrow> string list" where
  "redacted_change diff previous text h =
     (let earlier = (case dict_get (ch_files h) (cv_filename previous) of None \<Rightarrow> [] | Some t \<Rightarrow> t) in
      diff (py_splitlines (redact_config (normalize_config earlier))) (py_splitlines (redact_config text))
        (''version-'' @ py_str_nat (cv_id previous)) ''current-observation'')"

definition new_version ::
  "differ \<Rightarrow> time \<Rightarrow> string \<Rightarrow> string \<Rightarrow> string \<Rightarrow> string \<Rightarrow> config_history \<Rightarrow> config_version"
where
  "new_version diff when device fingerprint filename text h =
     (let previous = latest_version device h in
      \<lparr>cv_id = ch_next h, cv_at = when, cv_device = device, cv_fingerprint = fingerprint, cv_filename = filename,
       cv_previous = map_option cv_id previous, cv_known_good = False, cv_changed = (previous \<noteq> None),
       cv_source = (if previous = None then Initial_observation else External_or_unknown),
       cv_diff = (case previous of None \<Rightarrow> [] | Some p \<Rightarrow> redacted_change diff p text h)\<rparr>)"

text \<open>The stored or found version, and whether it differs from the one before it.\<close>

definition observe_config ::
  "(string \<Rightarrow> string) \<Rightarrow> differ \<Rightarrow> (time \<Rightarrow> string) \<Rightarrow> string \<Rightarrow> string \<Rightarrow> string \<Rightarrow> time \<Rightarrow> config_history \<Rightarrow>
   (config_version \<times> bool) result \<times> config_history"
where
  "observe_config digest diff stamp device hostname text when h =
     (if py_strip text = [] then (Inl (PyError ''ValueError''), h)
      else
        let normalized = normalize_config text; fingerprint = digest normalized;
            filename = version_filename stamp hostname when fingerprint;
            added = new_version diff when device fingerprint filename normalized h;
            extended = h\<lparr>ch_files := dict_set filename normalized (ch_files h), ch_rows := ch_rows h @ [added],
                          ch_next := Suc (ch_next h)\<rparr>
        in (case latest_version device h of
              Some v \<Rightarrow>
                if cv_fingerprint v = fingerprint then (Inr (v, False), h)
                else if dict_get (ch_files h) filename \<noteq> None then (Inl (PyError ''FileExistsError''), h)
                else (Inr (added, True), extended)
            | None \<Rightarrow>
                if dict_get (ch_files h) filename \<noteq> None then (Inl (PyError ''FileExistsError''), h)
                else (Inr (added, False), extended)))"

definition recent_versions :: "string option \<Rightarrow> int \<Rightarrow> config_history \<Rightarrow> config_version list" where
  "recent_versions device limit h =
     take (nat (max 1 (min limit 200)))
       (case device of None \<Rightarrow> rev (ch_rows h) | Some d \<Rightarrow> if d = [] then rev (ch_rows h) else versions_of d h)"

definition mark_version :: "nat \<Rightarrow> string \<Rightarrow> config_version \<Rightarrow> config_version" where
  "mark_version entry device v =
     (if cv_id v = entry then v\<lparr>cv_known_good := True\<rparr>
      else if cv_device v = device then v\<lparr>cv_known_good := False\<rparr> else v)"

definition mark_known_good :: "nat \<Rightarrow> config_history \<Rightarrow> config_version result \<times> config_history" where
  "mark_known_good entry h =
     (case find (\<lambda>v. cv_id v = entry) (ch_rows h) of
        None \<Rightarrow> (Inl (PyError ''KeyError''), h)
      | Some target \<Rightarrow>
          (Inr (mark_version entry (cv_device target) target),
           h\<lparr>ch_rows := map (mark_version entry (cv_device target)) (ch_rows h)\<rparr>))"

section \<open>The invariant\<close>

text \<open>The histories the two writing operations reach.\<close>

inductive history_reaches :: "(string \<Rightarrow> string) \<Rightarrow> differ \<Rightarrow> (time \<Rightarrow> string) \<Rightarrow> config_history \<Rightarrow> bool"
  for digest diff stamp
where
  reach_start: "history_reaches digest diff stamp empty_history"
| reach_observe: "history_reaches digest diff stamp h \<Longrightarrow>
    history_reaches digest diff stamp (snd (observe_config digest diff stamp device hostname text when h))"
| reach_mark: "history_reaches digest diff stamp h \<Longrightarrow> history_reaches digest diff stamp (snd (mark_known_good entry h))"

text \<open>A version against the versions before it, newest first.\<close>

definition follows :: "config_version list \<Rightarrow> config_version \<Rightarrow> bool" where
  "follows older v =
     (case find (\<lambda>w. cv_device w = cv_device v) older of
        None \<Rightarrow> cv_previous v = None \<and> \<not> cv_changed v
      | Some w \<Rightarrow> cv_previous v = Some (cv_id w) \<and> cv_changed v \<and> cv_fingerprint w \<noteq> cv_fingerprint v)"

fun chained :: "config_version list \<Rightarrow> bool" where
  "chained [] \<longleftrightarrow> True"
| "chained (v # older) \<longleftrightarrow> list_all (\<lambda>w. cv_id w < cv_id v) older \<and> follows older v \<and> chained older"

definition one_known_good :: "config_version list \<Rightarrow> bool" where
  "one_known_good vs \<longleftrightarrow>
     (\<forall>v \<in> set vs. \<forall>w \<in> set vs. cv_known_good v \<and> cv_known_good w \<and> cv_device v = cv_device w \<longrightarrow> cv_id v = cv_id w)"

definition history_ok :: "(string \<Rightarrow> string) \<Rightarrow> config_history \<Rightarrow> bool" where
  "history_ok digest h \<longleftrightarrow>
     chained (rev (ch_rows h)) \<and> one_known_good (ch_rows h) \<and> (\<forall>v \<in> set (ch_rows h). cv_id v < ch_next h) \<and>
     (\<forall>v \<in> set (ch_rows h). \<exists>t. dict_get (ch_files h) (cv_filename v) = Some t \<and> digest t = cv_fingerprint v)"

lemma latest_find: "latest_version device h = find (\<lambda>v. cv_device v = device) (rev (ch_rows h))"
proof -
  have "(case filter p xs of [] \<Rightarrow> None | x # _ \<Rightarrow> Some x) = find p xs" for p :: "config_version \<Rightarrow> bool" and xs
    by (induction xs) auto
  then show ?thesis by (simp add: latest_version_def versions_of_def)
qed

lemma new_version_simps [simp]:
  "cv_id (new_version diff when d f n t h) = ch_next h" "cv_device (new_version diff when d f n t h) = d"
  "cv_fingerprint (new_version diff when d f n t h) = f" "cv_filename (new_version diff when d f n t h) = n"
  "cv_known_good (new_version diff when d f n t h) = False"
  "cv_previous (new_version diff when d f n t h) = map_option cv_id (latest_version d h)"
  "cv_changed (new_version diff when d f n t h) \<longleftrightarrow> latest_version d h \<noteq> None"
  by (simp_all add: new_version_def Let_def)

lemma mark_version_simps [simp]:
  "cv_id (mark_version e d v) = cv_id v" "cv_device (mark_version e d v) = cv_device v"
  "cv_fingerprint (mark_version e d v) = cv_fingerprint v" "cv_filename (mark_version e d v) = cv_filename v"
  "cv_previous (mark_version e d v) = cv_previous v" "cv_changed (mark_version e d v) = cv_changed v"
  by (simp_all add: mark_version_def)

lemma follows_map: "follows (map (mark_version e d) older) (mark_version e d v) = follows older v"
proof -
  have "find (\<lambda>w. cv_device w = x) (map (mark_version e d) older) =
      map_option (mark_version e d) (find (\<lambda>w. cv_device w = x) older)" for x
    by (induction older) auto
  then show ?thesis by (simp add: follows_def split: option.split)
qed

lemma chained_map: "chained (map (mark_version e d) vs) = chained vs"
  by (induction vs) (auto simp: follows_map list_all_iff)

lemma one_known_good_append: "\<not> cv_known_good v \<Longrightarrow> one_known_good (vs @ [v]) = one_known_good vs"
  unfolding one_known_good_def by auto

lemma one_known_good_mark:
  assumes "one_known_good vs" "\<And>v. v \<in> set vs \<Longrightarrow> cv_id v = entry \<Longrightarrow> cv_device v = d"
  shows "one_known_good (map (mark_version entry d) vs)"
proof -
  have good: "cv_known_good (mark_version entry d v) \<longleftrightarrow> cv_id v = entry \<or> cv_device v \<noteq> d \<and> cv_known_good v" for v
    by (simp add: mark_version_def)
  show ?thesis
    unfolding one_known_good_def set_map ball_simps mark_version_simps good
    using assms unfolding one_known_good_def by metis
qed

text \<open>Storing a new version whose fingerprint is not the latest keeps the invariant.\<close>

lemma history_extend:
  assumes ok: "history_ok digest h"
    and new: "\<And>v. latest_version device h = Some v \<Longrightarrow> cv_fingerprint v \<noteq> digest t"
    and free: "dict_get (ch_files h) filename = None"
  shows "history_ok digest (h\<lparr>ch_files := dict_set filename t (ch_files h),
    ch_rows := ch_rows h @ [new_version diff when device (digest t) filename t h], ch_next := Suc (ch_next h)\<rparr>)"
proof -
  let ?v = "new_version diff when device (digest t) filename t h"
  have "follows (rev (ch_rows h)) ?v"
    using new by (auto simp: follows_def latest_find split: option.split)
  moreover have "\<forall>w \<in> set (ch_rows h). cv_id w < ch_next h" using ok by (simp add: history_ok_def)
  ultimately have "chained (rev (ch_rows h @ [?v]))" using ok by (simp add: history_ok_def list_all_iff)
  moreover have "one_known_good (ch_rows h @ [?v])"
    using ok by (simp add: history_ok_def one_known_good_append)
  moreover have "cv_filename w \<noteq> filename" if w: "w \<in> set (ch_rows h)" for w
    using ok free w by (force simp: history_ok_def)
  then have "\<exists>x. dict_get (dict_set filename t (ch_files h)) (cv_filename w) = Some x \<and> digest x = cv_fingerprint w"
    if "w \<in> set (ch_rows h @ [?v])" for w
    using that ok by (auto simp: history_ok_def)
  ultimately show ?thesis using ok by (simp add: history_ok_def less_Suc_eq)
qed

lemma chained_distinct: "chained vs \<Longrightarrow> distinct (map cv_id vs)"
  by (induction vs) (auto simp: list_all_iff)

lemma history_mark:
  assumes ok: "history_ok digest h" and found: "find (\<lambda>v. cv_id v = entry) (ch_rows h) = Some target"
  shows "history_ok digest (h\<lparr>ch_rows := map (mark_version entry (cv_device target)) (ch_rows h)\<rparr>)"
proof -
  have inj: "inj_on cv_id (set (ch_rows h))"
    using chained_distinct [of "rev (ch_rows h)"] ok by (simp add: history_ok_def distinct_map)
  have "target \<in> set (ch_rows h)" "cv_id target = entry" using find_SomeD [OF found] by auto
  then have dev: "cv_device v = cv_device target" if "v \<in> set (ch_rows h)" "cv_id v = entry" for v
    using that inj by (metis inj_onD)
  have "one_known_good (map (mark_version entry (cv_device target)) (ch_rows h))"
    using ok dev by (intro one_known_good_mark) (simp_all add: history_ok_def)
  then show ?thesis using ok by (simp add: history_ok_def rev_map chained_map)
qed

lemma history_mark_step: "history_ok digest h \<Longrightarrow> history_ok digest (snd (mark_known_good entry h))"
  using history_mark by (auto simp: mark_known_good_def split: option.split)

lemma history_observe:
  assumes "history_ok digest h"
  shows "history_ok digest (snd (observe_config digest diff stamp device hostname text when h))"
  using history_extend [OF assms, of device "normalize_config text"
      "version_filename stamp hostname when (digest (normalize_config text))" diff "when"] assms
  by (auto simp: observe_config_def Let_def split: option.split)

text \<open>C33: in every history the program reaches, version numbers ascend, each version names the version of
  its device before it and has another fingerprint, at most one version of a device is known good, and
  the file of each version holds a text with its fingerprint.\<close>

theorem history_wellformed:
  assumes "history_reaches digest diff stamp h"
  shows "history_ok digest h"
  using assms
proof (induction rule: history_reaches.induct)
  case reach_start
  then show ?case by (simp add: history_ok_def empty_history_def one_known_good_def)
qed (simp_all add: history_observe history_mark_step)

definition sample_history :: config_history where
  "sample_history = snd (mark_known_good 2
     (snd (observe_config id (\<lambda>a b c d. b) (\<lambda>t. ''t'') ''dev'' ''sw 1'' ''hostname b'' 2
       (snd (observe_config id (\<lambda>a b c d. b) (\<lambda>t. ''t'') ''dev'' ''sw 1'' ''hostname a'' 1 empty_history)))))"

theorem history_wellformed_witness: "history_ok id sample_history \<and> map cv_id (ch_rows sample_history) = [1, 2]"
proof -
  have "history_reaches id (\<lambda>a b c d. b) (\<lambda>t. ''t'') sample_history"
    unfolding sample_history_def by (intro history_reaches.intros)
  then have "history_ok id sample_history" by (rule history_wellformed)
  moreover have "map cv_id (ch_rows sample_history) = [1, 2]" by code_simp
  ultimately show ?thesis by simp
qed

text \<open>Observing a text again, or one that differs only in its line ends and outer blanks, stores nothing.\<close>

theorem same_text_not_stored:
  assumes "observe_config digest diff stamp device hostname text when h = (Inr (v, c), h')"
    and "normalize_config again = normalize_config text" "py_strip again \<noteq> []"
  shows "snd (observe_config digest diff stamp device other again later h') = h'"
proof -
  have "\<exists>w. latest_version device h' = Some w \<and> cv_fingerprint w = digest (normalize_config text)"
    using assms(1) by (auto simp: observe_config_def latest_find Let_def split: if_split_asm option.split_asm)
  then show ?thesis using assms(2,3) by (auto simp: observe_config_def Let_def)
qed

end
