(* ===== verification/Discovery.thy ===== *)
theory Discovery
  imports Topology
begin

text \<open>
  \<open>backend/app/discovery.py\<close>: whether the computer that runs the program can be recognised on a port,
  and what the configuration says of LLDP and SNMP. The list of local adapters is an argument (the
  operating system gives it). A network is an IPv4 address with a netmask, as \<open>ipaddress\<close> reads them;
  IPv6 management networks are outside the model. Shown: the computer is only recognised where its
  address is the only one learned on a connected access port.
\<close>

section \<open>Local adapters\<close>

record local_adapter =
  la_name :: string
  la_ip :: string
  la_netmask :: string
  la_mac :: string

definition locally_administered :: "string \<Rightarrow> bool" where
  "locally_administered v =
     (let m = normalize_mac v in
      if length m = 12 then odd ((16 * hex_value (m ! 0) + hex_value (m ! 1)) div 2) else False)"

definition octet :: "string \<Rightarrow> int option" where
  "octet s = (if s \<noteq> [] \<and> list_all is_decimal_char s \<and> length s \<le> 3 \<and> (hd s = CHR ''0'' \<longrightarrow> length s = 1) \<and> py_int s \<le> 255
     then Some (int (py_int s)) else None)"

fun all_some :: "'a option list \<Rightarrow> 'a list option" where
  "all_some [] = Some []"
| "all_some (x # xs) = Option.bind x (\<lambda>v. map_option ((#) v) (all_some xs))"

text \<open>An IPv4 address as a number; \<open>None\<close> for a \<open>ValueError\<close>.\<close>

definition ipv4 :: "string \<Rightarrow> int option" where
  "ipv4 s =
     (case all_some (map octet (py_split_char (CHR ''.'') s)) of
        Some [a, b, c, d] \<Rightarrow> Some (((a * 256 + b) * 256 + c) * 256 + d)
      | _ \<Rightarrow> None)"

definition power_of_two :: "int \<Rightarrow> bool" where
  "power_of_two n = list_ex (\<lambda>k. n = 2 ^ k) [0..<33]"

text \<open>How many hosts bits a mask leaves: a prefix length, a netmask of leading ones, or a hostmask of
  trailing ones; a text of ones only is read as a netmask.\<close>

definition host_count :: "string \<Rightarrow> int option" where
  "host_count netmask =
     (if netmask \<noteq> [] \<and> list_all is_decimal_char netmask
      then (if py_int netmask \<le> 32 then Some (2 ^ (32 - py_int netmask)) else None)
      else
        (case ipv4 netmask of
           None \<Rightarrow> None
         | Some m \<Rightarrow>
             if power_of_two (2 ^ 32 - m) then Some (2 ^ 32 - m)
             else if power_of_two (m + 1) then Some (m + 1) else None))"

definition same_network :: "local_adapter \<Rightarrow> string \<Rightarrow> bool" where
  "same_network a management =
     (case (ipv4 (la_ip a), host_count (la_netmask a), ipv4 management) of
        (Some x, Some n, Some m) \<Rightarrow> x div n = m div n
      | _ \<Rightarrow> False)"

section \<open>The local endpoint\<close>

definition not_placed :: "string \<Rightarrow> string option \<Rightarrow> string \<Rightarrow> local_endpoint" where
  "not_placed state port detail =
     \<lparr>le_state = state, le_interface = port, le_label = ''This SwitchOps PC'', le_ip = None, le_detail = detail\<rparr>"

text \<open>The pairs of port and normalised address the table gives.\<close>

definition sightings_of :: "mac_table_entry list \<Rightarrow> (string \<times> string) list" where
  "sightings_of macs =
     dedup (filter (\<lambda>(p, m). length m = 12)
       (map (\<lambda>e. (mac_port e, normalize_mac (mac_addr e)))
         (filter (\<lambda>e. py_upper (mac_port e) \<noteq> ''CPU'' \<and> py_lower (mac_vlan e) \<noteq> ''all'') macs)))"

definition ports_of_mac :: "(string \<times> string) list \<Rightarrow> string \<Rightarrow> string list" where
  "ports_of_mac seen m = map fst (filter (\<lambda>(p, x). x = m) seen)"

definition macs_of_port :: "(string \<times> string) list \<Rightarrow> string \<Rightarrow> string list" where
  "macs_of_port seen p = map snd (filter (\<lambda>(q, x). q = p) seen)"

definition randomised_match :: "(string \<times> string) list \<Rightarrow> local_adapter list \<Rightarrow> bool" where
  "randomised_match seen as =
     list_ex (\<lambda>a. ports_of_mac seen (normalize_mac (la_mac a)) \<noteq> [] \<and> locally_administered (la_mac a)) as"

definition matches :: "(string \<times> string) list \<Rightarrow> local_adapter list \<Rightarrow> (local_adapter \<times> string) list" where
  "matches seen as =
     concat (map (\<lambda>a. let ports = ports_of_mac seen (normalize_mac (la_mac a)) in
         if ports \<noteq> [] \<and> locally_administered (la_mac a) then []
         else (case ports of [p] \<Rightarrow> [(a, p)] | _ \<Rightarrow> [])) as)"

definition place_match ::
  "(string \<times> string) list \<Rightarrow> arp_entry list \<Rightarrow> interface_status list \<Rightarrow> local_adapter \<Rightarrow> string \<Rightarrow> local_endpoint"
where
  "place_match seen arps interfaces a port =
     (let arp = filter (\<lambda>e. arp_ip e = la_ip a) arps in
      if (case find (\<lambda>i. py_lower (ifs_port i) = py_lower port) interfaces of
            None \<Rightarrow> True
          | Some i \<Rightarrow> py_lower (ifs_status i) \<noteq> ''connected'' \<or> py_lower (ifs_vlan i) = ''trunk'')
      then not_placed ''ambiguous'' (Some port) ''The MAC matched, but the switch port is not a connected access interface.''
      else if length (macs_of_port seen port) \<noteq> 1
      then not_placed ''ambiguous'' (Some port)
        ''Other addresses are reachable through the same port, so direct attachment is uncertain.''
      else if list_ex (\<lambda>e. normalize_mac (arp_mac e) \<noteq> normalize_mac (la_mac a)) arp
      then not_placed ''ambiguous'' (Some port)
        ''The local IP and switch ARP evidence disagree, so no identity was assigned.''
      else \<lparr>le_state = ''confirmed'', le_interface = Some port, le_label = ''This SwitchOps PC'', le_ip = Some (la_ip a),
             le_detail = ''One active local adapter matched the only learned address on this connected access port. '' @
               ''The hardware address is intentionally not exposed.''\<rparr>)"

definition correlate_local_endpoint ::
  "string \<Rightarrow> mac_table_entry list \<Rightarrow> arp_entry list \<Rightarrow> interface_status list \<Rightarrow> local_adapter list \<Rightarrow> local_endpoint"
where
  "correlate_local_endpoint management macs arps interfaces adapters =
     (let candidates = filter (\<lambda>a. same_network a management) adapters; seen = sightings_of macs; ms = matches seen candidates in
      if candidates = []
      then not_placed ''unavailable'' None ''No active local adapter on the switch management network could be inspected.''
      else if randomised_match seen candidates
      then not_placed ''ambiguous'' None
        ''A matching adapter uses a software-assigned MAC address, so SwitchOps will not claim a stable identity.''
      else if ms = []
      then not_placed ''not-observed'' None ''The active local adapter was not uniquely present in the switch MAC table.''
      else if length (remdups (map (\<lambda>(a, p). (la_ip a, p)) ms)) \<noteq> 1
      then not_placed ''ambiguous'' None ''More than one local adapter or switch path matched; no identity was assigned.''
      else place_match seen arps interfaces (fst (hd ms)) (snd (hd ms)))"

section \<open>LLDP and SNMP\<close>

record lldp_status =
  ls_state :: string
  ls_supported :: bool
  ls_enabled :: "bool option"
  ls_neighbors :: "lldp_neighbor list"
  ls_detail :: string

definition unsupported_rx :: rx where
  "unsupported_rx = seqs [lit ''%'', star sp, alts [liti ''Invalid input'', liti ''Ambiguous command'',
     liti ''Incomplete command'', liti ''Unrecognized command'']]"

definition lldp_banner_rx :: rx where
  "lldp_banner_rx = seqs [liti ''LLDP'', plus1 sp, liti ''is'', plus1 sp, liti ''not'', plus1 sp, liti ''enabled'']"

definition config_words :: "string list \<Rightarrow> rx" where
  "config_words ws = seqs (Bol # star sp # tl (concat (map (\<lambda>w. [plus1 sp, liti w]) ws)) @ [star sp, Eol])"

definition config_has :: "string list \<Rightarrow> string option \<Rightarrow> bool" where
  "config_has ws config = (case config of None \<Rightarrow> False | Some t \<Rightarrow> rx_search (config_words ws) t \<noteq> None)"

definition inspect_lldp :: "string option \<Rightarrow> string \<Rightarrow> string \<Rightarrow> lldp_status" where
  "inspect_lldp config summary detail =
     (let combined = summary @ [newline] @ detail; configured = config_has [''lldp'', ''run''] config;
          neighbors = parse_lldp detail summary
      in if rx_search unsupported_rx combined \<noteq> None
         then \<lparr>ls_state = ''unsupported'', ls_supported = False, ls_enabled = None, ls_neighbors = [],
               ls_detail = ''This IOS image does not support the allowlisted LLDP neighbour commands.''\<rparr>
         else if configured \<or> neighbors \<noteq> []
         then \<lparr>ls_state = ''enabled'', ls_supported = True, ls_enabled = Some True, ls_neighbors = neighbors,
               ls_detail = ''LLDP is enabled and reported '' @ py_str_nat (length neighbors) @ '' direct neighbour(s).''\<rparr>
         else if config_has [''no'', ''lldp'', ''run''] config \<or> rx_search lldp_banner_rx combined \<noteq> None \<or>
           (config \<noteq> None \<and> \<not> configured)
         then \<lparr>ls_state = ''disabled'', ls_supported = True, ls_enabled = Some False, ls_neighbors = [],
               ls_detail = ''LLDP is supported but disabled; no LLDP identity evidence is being claimed.''\<rparr>
         else \<lparr>ls_state = ''unknown'', ls_supported = True, ls_enabled = None, ls_neighbors = [],
               ls_detail = ''LLDP state could not be determined.''\<rparr>)"

record snmp_status =
  sn_configured :: bool
  sn_versions :: "string list"
  sn_read_only :: nat
  sn_read_write :: nat
  sn_v3_users :: nat
  sn_trap_hosts :: nat
  sn_detail :: string

definition blank :: rx where "blank = chars_in [CHR '' '', CHR 0x09]"

definition community_rx :: rx where
  "community_rx = Grp 1 (seqs [Bol, star blank, liti ''snmp-server'', plus1 blank, liti ''community'', plus1 blank, plus1 nsp,
     star (Seq (plus1 blank) (plus1 nsp)), star blank, Eol])"

definition read_write_rx :: rx where
  "read_write_rx = seqs [Alt Sos sp, liti ''RW'', Alt sp Eod]"

definition snmp_line_rx :: "string \<Rightarrow> rx" where
  "snmp_line_rx noun = seqs [Bol, star sp, liti ''snmp-server'', plus1 sp, liti noun, plus1 sp]"

definition snmp_group_rx :: rx where
  "snmp_group_rx = seqs [snmp_line_rx ''group'', plus1 nsp, plus1 sp, liti ''v3'', Wordb]"

definition inspect_snmp_config :: "string \<Rightarrow> snmp_status" where
  "inspect_snmp_config config =
     (let lines = map (\<lambda>g. group_text g 1) (rx_finditer community_rx config);
          writable = length (filter (\<lambda>l. rx_search read_write_rx l \<noteq> None) lines);
          users = length (rx_finditer (snmp_line_rx ''user'') config);
          groups = length (rx_finditer snmp_group_rx config);
          traps = length (rx_finditer (snmp_line_rx ''host'') config);
          configured = lines \<noteq> [] \<or> users > 0 \<or> groups > 0 \<or> traps > 0
      in \<lparr>sn_configured = configured,
          sn_versions = (if lines \<noteq> [] then [''v1/v2c''] else []) @ (if users > 0 \<or> groups > 0 then [''v3''] else []),
          sn_read_only = length lines - writable, sn_read_write = writable, sn_v3_users = users, sn_trap_hosts = traps,
          sn_detail = (if configured
             then ''Existing SNMP configuration was detected read-only; SwitchOps did not use or change it.''
             else ''No SNMP configuration was detected. SwitchOps continues to use the persistent SSH session.'')\<rparr>)"

section \<open>When the computer is recognised\<close>

lemma ports_of_mac_set: "p \<in> set (ports_of_mac seen m) \<longleftrightarrow> (p, m) \<in> set seen"
  by (force simp: ports_of_mac_def)

lemma matches_seen:
  "(a, p) \<in> set (matches seen as) \<Longrightarrow>
    a \<in> set as \<and> ports_of_mac seen (normalize_mac (la_mac a)) = [p] \<and> \<not> locally_administered (la_mac a)"
  by (auto simp: matches_def Let_def split: if_splits list.splits)

lemma sightings_normal: "(p, m) \<in> set (sightings_of macs) \<Longrightarrow> length m = 12"
  by (auto simp: sightings_of_def)

lemma not_placed_state [simp]: "le_state (not_placed s p d) = s"
  by (simp add: not_placed_def)

lemma correlate_confirmed:
  assumes "le_state (correlate_local_endpoint management macs arps interfaces adapters) = ''confirmed''"
  shows "let ms = matches (sightings_of macs) (filter (\<lambda>a. same_network a management) adapters) in
    ms \<noteq> [] \<and> correlate_local_endpoint management macs arps interfaces adapters =
      place_match (sightings_of macs) arps interfaces (fst (hd ms)) (snd (hd ms))"
  using assms unfolding correlate_local_endpoint_def Let_def
  by (simp split: if_split_asm)

lemma place_match_confirmed:
  assumes "le_state (place_match seen arps interfaces a port) = ''confirmed''"
  shows "(\<exists>i \<in> set interfaces. py_lower (ifs_port i) = py_lower port \<and> py_lower (ifs_status i) = ''connected'' \<and>
      py_lower (ifs_vlan i) \<noteq> ''trunk'') \<and> length (macs_of_port seen port) = 1 \<and>
    list_all (\<lambda>x. arp_ip x = la_ip a \<longrightarrow> normalize_mac (arp_mac x) = normalize_mac (la_mac a)) arps \<and>
    le_interface (place_match seen arps interfaces a port) = Some port \<and>
    le_ip (place_match seen arps interfaces a port) = Some (la_ip a)"
proof (cases "find (\<lambda>i. py_lower (ifs_port i) = py_lower port) interfaces")
  case None
  then show ?thesis using assms by (simp add: place_match_def)
next
  case (Some i)
  then have "i \<in> set interfaces" "py_lower (ifs_port i) = py_lower port" by (auto simp: find_Some_iff)
  moreover have "py_lower (ifs_status i) = ''connected''" "py_lower (ifs_vlan i) \<noteq> ''trunk''"
    using assms Some by (simp_all add: place_match_def Let_def split: if_split_asm)
  ultimately show ?thesis
    using assms Some by (auto simp: place_match_def Let_def list_ex_iff list_all_iff split: if_split_asm)
qed

text \<open>C31: the computer is recognised on a port only when its address, not a software-assigned one, was
  learned there and nowhere else, nothing else was learned on the port, the port is a connected access
  port, and no ARP entry contradicts it.\<close>

theorem local_endpoint_unique:
  assumes "correlate_local_endpoint management macs arps interfaces adapters = e" "le_state e = ''confirmed''"
  shows "\<exists>a port i. a \<in> set adapters \<and> same_network a management \<and> \<not> locally_administered (la_mac a) \<and>
    le_interface e = Some port \<and> le_ip e = Some (la_ip a) \<and>
    ports_of_mac (sightings_of macs) (normalize_mac (la_mac a)) = [port] \<and>
    macs_of_port (sightings_of macs) port = [normalize_mac (la_mac a)] \<and>
    i \<in> set interfaces \<and> py_lower (ifs_port i) = py_lower port \<and> py_lower (ifs_status i) = ''connected'' \<and>
    py_lower (ifs_vlan i) \<noteq> ''trunk'' \<and>
    list_all (\<lambda>x. arp_ip x = la_ip a \<longrightarrow> normalize_mac (arp_mac x) = normalize_mac (la_mac a)) arps"
proof -
  let ?seen = "sightings_of macs" and ?cs = "filter (\<lambda>a. same_network a management) adapters"
  let ?a = "fst (hd (matches ?seen ?cs))" and ?p = "snd (hd (matches ?seen ?cs))"
  have ne: "matches ?seen ?cs \<noteq> []" and e: "place_match ?seen arps interfaces ?a ?p = e"
    using correlate_confirmed [of management macs arps interfaces adapters] assms by (auto simp: Let_def)
  have m: "(?a, ?p) \<in> set (matches ?seen ?cs)" using ne by (metis hd_in_set prod.collapse)
  note found = matches_seen [OF m]
  have "normalize_mac (la_mac ?a) \<in> set (macs_of_port ?seen ?p)"
    using found ports_of_mac_set [of ?p ?seen "normalize_mac (la_mac ?a)"] by (force simp: macs_of_port_def)
  moreover note placed = place_match_confirmed [of ?seen arps interfaces ?a ?p, unfolded e, OF assms(2)]
  ultimately have "macs_of_port ?seen ?p = [normalize_mac (la_mac ?a)]"
    by (cases "macs_of_port ?seen ?p") auto
  with found placed show ?thesis by (intro exI [of _ ?a] exI [of _ ?p]) auto
qed

definition sample_adapter :: local_adapter where
  "sample_adapter = \<lparr>la_name = ''eth0'', la_ip = ''192.0.2.10'', la_netmask = ''255.255.255.0'', la_mac = ''00-11-22-33-44-55''\<rparr>"

definition sample_port :: interface_status where
  "sample_port = \<lparr>ifs_port = ''Gi1/0/4'', ifs_name = [], ifs_status = ''connected'', ifs_vlan = ''10'', ifs_duplex = ''a-full'',
     ifs_speed = ''a-1000'', ifs_type = [], ifs_protected = False, ifs_policy_state = UNMANAGED\<rparr>"

theorem local_endpoint_unique_witness:
  "\<exists>a port i. a \<in> set [sample_adapter] \<and> same_network a ''192.0.2.2'' \<and> \<not> locally_administered (la_mac a) \<and>
    port = ''Gi1/0/4'' \<and> i \<in> set [sample_port] \<and> py_lower (ifs_port i) = py_lower port"
proof -
  let ?macs = "[\<lparr>mac_vlan = ''10'', mac_addr = ''0011.2233.4455'', mac_type = ''DYNAMIC'', mac_port = ''Gi1/0/4''\<rparr>]"
  let ?e = "correlate_local_endpoint ''192.0.2.2'' ?macs [] [sample_port] [sample_adapter]"
  have e: "le_state ?e = ''confirmed''" "le_interface ?e = Some ''Gi1/0/4''" by code_simp+
  show ?thesis using local_endpoint_unique [OF refl e(1)] e(2) by fastforce
qed

end
