(* ===== verification/Guide.thy ===== *)
theory Guide
  imports Operations Parse_Device Discovery
begin

text \<open>
  \<open>backend/app/guide.py\<close>: the Lab Guide, a fixed list of questions that are answered by allow-listed
  read commands and an explanation of their output. The typed results stand for the JSON objects of the
  code. An operation runs in the world of the theory \<open>Operations\<close>. Shown: only the listed questions are
  answered, every listed one has an answer once its commands succeed, and answering sends no
  configuration; only the backup question writes a file.
\<close>

section \<open>The questions\<close>

record guide_definition =
  gd_id :: string
  gd_category :: string
  gd_title :: string
  gd_question :: string
  gd_tells :: string
  gd_symbols :: "string list"
  gd_requires_interface :: bool
  gd_backup :: bool

definition guide_question :: "string \<Rightarrow> string \<Rightarrow> string \<Rightarrow> string \<Rightarrow> string \<Rightarrow> string list \<Rightarrow> guide_definition" where
  "guide_question i c t q w s =
     \<lparr>gd_id = i, gd_category = c, gd_title = t, gd_question = q, gd_tells = w, gd_symbols = s,
      gd_requires_interface = False, gd_backup = False\<rparr>"

definition guide_definitions :: "guide_definition list" where
  "guide_definitions =
     [guide_question ''identify_switch'' ''GETTING STARTED'' ''Identify this switch'' ''What switch do I have?''
        ''Shows the hardware model and installed Cisco IOS software.'' [''show_version'', ''show_inventory''],
      guide_question ''connected_ports'' ''GETTING STARTED'' ''Check connected ports'' ''Which ports are connected?''
        ''Explains which physical interfaces have an Ethernet link and how each link negotiated.'' [''show_interfaces_status''],
      guide_question ''connected_devices'' ''GETTING STARTED'' ''Find connected devices'' ''What is connected to my switch?''
        ''Correlates learned MAC-table entries with physical switch ports without guessing device identity.''
        [''show_interfaces_status'', ''show_mac_address_table''],
      (guide_question ''port_state'' ''TROUBLESHOOTING'' ''Explain a port state'' ''Why is this port down?''
        ''Distinguishes an administratively disabled port from an enabled port with no physical link.''
        [''show_interfaces_status'', ''show_power_inline''])\<lparr>gd_requires_interface := True\<rparr>,
      (guide_question ''port_errors'' ''TROUBLESHOOTING'' ''Check a port for errors'' ''Is this port getting errors?''
        ''Shows cumulative interface counters and explains why change over time matters more than an old non-zero total.''
        [''show_interfaces_counters_errors''])\<lparr>gd_requires_interface := True\<rparr>,
      guide_question ''switch_load'' ''TROUBLESHOOTING'' ''Check switch load'' ''Is the switch under heavy load?''
        ''Shows recent CPU use and processor-memory consumption using supported lightweight commands.''
        [''show_processes_cpu'', ''show_memory_statistics''],
      guide_question ''poe_status'' ''TROUBLESHOOTING'' ''Inspect Power over Ethernet'' ''Is PoE working?''
        ''Shows the PoE budget and which capable ports are currently supplying power.'' [''show_power_inline''],
      guide_question ''vlans'' ''NETWORKING'' ''Explore VLANs'' ''Show my VLANs''
        ''Lists VLANs the switch reports and the access ports assigned to them.'' [''show_vlan_brief''],
      guide_question ''spanning_tree'' ''NETWORKING'' ''Inspect spanning tree'' ''What is the root bridge?''
        ''Explains the observed spanning-tree root and port roles without changing the topology.'' [''show_spanning_tree''],
      guide_question ''neighbors'' ''NETWORKING'' ''Discover Cisco neighbours'' ''Show CDP neighbours''
        ''Shows devices that advertise themselves through CDP. An empty result is valid.'' [''show_cdp_neighbors_detail''],
      guide_question ''lldp_neighbors'' ''NETWORKING'' ''Discover LLDP neighbours'' ''Show LLDP neighbours''
        ''Checks LLDP support and lists direct neighbours without enabling or configuring LLDP.''
        [''show_lldp_neighbors'', ''show_lldp_neighbors_detail''],
      guide_question ''temperature'' ''SWITCH'' ''Check the environment'' ''Show switch temperature''
        ''Shows the current temperature and the switch-reported warning thresholds.'' [''show_env_all''],
      guide_question ''recent_logs'' ''SWITCH'' ''Review recent switch messages'' ''What has the switch logged?''
        ''Parses recent IOS messages. Old messages are history and do not automatically become current health faults.''
        [''show_logging''],
      (guide_question ''backup_configuration'' ''SWITCH'' ''Back up the running configuration'' ''Save a local configuration backup''
        ''Reads the running configuration into a private local file and returns only a redacted preview.''
        [''terminal_length_0'', ''show_running_config''])\<lparr>gd_backup := True\<rparr>]"

record guide_operation =
  go_definition :: guide_definition
  go_commands :: "string list"

definition guide_public :: "guide_definition \<Rightarrow> guide_operation result" where
  "guide_public d = and_then (map_result resolve_read_command (gd_symbols d)) (\<lambda>cs.
     Inr \<lparr>go_definition = d, go_commands = cs\<rparr>)"

definition list_guide_operations :: "guide_operation list result" where
  "list_guide_operations = map_result guide_public guide_definitions"

definition guide_by_id :: "string \<Rightarrow> guide_definition option" where
  "guide_by_id i = last_row gd_id i guide_definitions"

section \<open>Results\<close>

record tree_port =
  tp_port :: string
  tp_role :: string
  tp_state :: string
  tp_cost :: string

record spanning_tree =
  tr_local_root :: bool
  tr_root :: "(nat \<times> string) option"
  tr_ports :: "tree_port list"

datatype guide_result =
    G_identity "string option" "string option" "string option" "string option" "string option" "string option"
  | G_interfaces "interface_status list"
  | G_devices "(string \<times> string \<times> string) list"
  | G_no_interface string
  | G_interface interface_status "poe_port option"
  | G_counters string "interface_error_counters option"
  | G_load cpu_status memory_status "rat option"
  | G_poe poe_response
  | G_vlans "vlan_row list"
  | G_tree spanning_tree
  | G_neighbors "cdp_neighbor list"
  | G_lldp lldp_status
  | G_environment environment_status
  | G_logs "log_entry list"
  | G_backup backup_result

record guide_run =
  gr_operation :: guide_operation
  gr_result :: guide_result
  gr_explanation :: string
  gr_warnings :: "string list"

definition tree_root_rx :: rx where
  "tree_root_rx = seqs [liti ''Root ID'', plus1 sp, liti ''Priority'', plus1 sp, Grp 1 (plus1 dig), star_lazy anyc,
     liti ''Address'', plus1 sp, Grp 2 (plus1 (chars_in ''0123456789abcdefABCDEF.''))]"

definition tree_port_rx :: rx where
  "tree_port_rx = seqs [star sp, Grp 1 (seqs [liti ''Gi'', plus1 nsp]), plus1 sp, Grp 2 (plus1 nsp), plus1 sp,
     Grp 3 (alts (map liti [''FWD'', ''BLK'', ''LIS'', ''LRN'', ''DIS''])), plus1 sp, Grp 4 (plus1 nsp)]"

definition parse_spanning_tree :: "string \<Rightarrow> spanning_tree" where
  "parse_spanning_tree text =
     \<lparr>tr_local_root = py_contains ''This bridge is the root'' text,
      tr_root = map_option (\<lambda>g. (py_int (group_text g 1), group_text g 2)) (rx_search tree_root_rx text),
      tr_ports = List.map_filter (\<lambda>line. map_option (\<lambda>g.
          \<lparr>tp_port = group_text g 1, tp_role = group_text g 2, tp_state = py_upper (group_text g 3), tp_cost = group_text g 4\<rparr>)
        (rx_match tree_port_rx line)) (py_splitlines text)\<rparr>"

definition explain_interface_status :: "string \<Rightarrow> string" where
  "explain_interface_status status =
     (if py_lower status = ''disabled''
      then ''This interface has been administratively shut down. It will not establish a link until it is enabled.''
      else if py_lower status = ''notconnect''
      then ''This interface is enabled, but the switch does not currently detect an Ethernet link.''
      else if py_lower status = ''connected''
      then ''The switch detects an active Ethernet link on this interface.''
      else ''The switch reported a state that SwitchOps does not classify further.'')"

section \<open>One answer per question\<close>

type_synonym guide_outputs = "(string, string) dict"

type_synonym answer = "guide_result \<times> string"

definition output_of :: "guide_outputs \<Rightarrow> string \<Rightarrow> string" where
  "output_of outs symbol = get_default outs symbol []"

definition or_other :: "string option \<Rightarrow> string option \<Rightarrow> string option" where
  "or_other a b = (case a of None \<Rightarrow> b | Some s \<Rightarrow> if s = [] then b else a)"

definition or_text :: "string option \<Rightarrow> string \<Rightarrow> string" where
  "or_text a d = (case a of None \<Rightarrow> d | Some s \<Rightarrow> if s = [] then d else s)"

definition answer_identity :: "guide_outputs \<Rightarrow> answer" where
  "answer_identity outs =
     (let version = parse_version (output_of outs ''show_version''); inventory = parse_inventory (output_of outs ''show_inventory'');
          model = or_other (dict_get inventory ''pid'') (dict_get version ''model'')
      in (G_identity (dict_get version ''hostname'') model
            (or_other (dict_get inventory ''vid'') (dict_get version ''hardware_revision''))
            (dict_get version ''ios_version'') (dict_get version ''ios_image'') (dict_get version ''uptime''),
          ''This is '' @ or_text model ''an unidentified Cisco switch'' @ '' running IOS '' @
            or_text (dict_get version ''ios_version'') ''of an unknown version'' @ ''.''))"

definition count_text :: "'a list \<Rightarrow> string" where
  "count_text xs = py_str_nat (length xs)"

definition answer_ports :: "guide_outputs \<Rightarrow> answer" where
  "answer_ports outs =
     (let interfaces = parse_interface_status (output_of outs ''show_interfaces_status'');
          with_status = (\<lambda>s. filter (\<lambda>i. ifs_status i = s) interfaces)
      in (G_interfaces interfaces,
          count_text (with_status ''connected'') @ '' port(s) have a link, '' @ count_text (with_status ''notconnect'') @
          '' are enabled without a link, and '' @ count_text (with_status ''disabled'') @ '' are administratively disabled.''))"

definition learned_entries :: "mac_table_entry list \<Rightarrow> mac_table_entry list" where
  "learned_entries = filter (\<lambda>e. py_upper (mac_port e) \<noteq> ''CPU'' \<and> py_lower (mac_vlan e) \<noteq> ''all'')"

definition answer_devices :: "guide_outputs \<Rightarrow> answer" where
  "answer_devices outs =
     (let interfaces = parse_interface_status (output_of outs ''show_interfaces_status'');
          entries = learned_entries (parse_mac_table (output_of outs ''show_mac_address_table''))
      in (G_devices (map (\<lambda>e. (mac_port e, mac_vlan e,
             case last_row ifs_port (mac_port e) interfaces of None \<Rightarrow> [] | Some i \<Rightarrow> ifs_name i)) entries),
          ''The switch currently has '' @ count_text entries @ '' learned endpoint record(s). '' @
          ''A MAC entry shows where traffic was learned, not the exact device model.''))"

definition answer_port_state :: "string \<Rightarrow> guide_outputs \<Rightarrow> answer" where
  "answer_port_state selected outs =
     (let wanted = (\<lambda>name. py_lower name = py_lower selected) in
      case find (\<lambda>i. wanted (ifs_port i)) (parse_interface_status (output_of outs ''show_interfaces_status'')) of
        None \<Rightarrow> (G_no_interface selected, ''The switch did not return a status row for '' @ selected @ ''.'')
      | Some i \<Rightarrow>
          (G_interface i (find (\<lambda>p. wanted (pp_interface p)) (pr_ports (parse_poe (output_of outs ''show_power_inline'')))),
           explain_interface_status (ifs_status i)))"

definition answer_port_errors :: "string \<Rightarrow> guide_outputs \<Rightarrow> answer" where
  "answer_port_errors selected outs =
     (let counters = find (\<lambda>c. py_lower (ec_port c) = py_lower selected)
        (parse_interface_errors (output_of outs ''show_interfaces_counters_errors''))
      in (G_counters selected counters,
          selected @ '' currently reports '' @ py_str_int (case counters of None \<Rightarrow> 0 | Some c \<Rightarrow> ec_total c) @
          '' cumulative error(s). The total alone does not prove a current fault; the dashboard compares it with the previous observation.''))"

definition used_percent :: "memory_status \<Rightarrow> rat option" where
  "used_percent m =
     (case (mem_processor_total m, mem_processor_used m) of
        (Some t, Some u) \<Rightarrow> if t = 0 then None else Some (round_to 1 (of_int u / of_int t * 100))
      | _ \<Rightarrow> None)"

definition or_unknown :: "rat option \<Rightarrow> string" where
  "or_unknown x = (case x of None \<Rightarrow> ''unknown'' | Some v \<Rightarrow> format_1f v)"

definition answer_load :: "guide_outputs \<Rightarrow> answer" where
  "answer_load outs =
     (let cpu = parse_cpu (output_of outs ''show_processes_cpu''); memory = parse_memory (output_of outs ''show_memory_statistics'') in
      (G_load cpu memory (used_percent memory),
       ''Five-second CPU is '' @ or_unknown (cpu_5sec cpu) @ ''% and processor memory use is '' @
       or_unknown (used_percent memory) @ ''%.''))"

definition answer_poe :: "guide_outputs \<Rightarrow> answer" where
  "answer_poe outs =
     (let poe = parse_poe (output_of outs ''show_power_inline'') in
      (G_poe poe,
       ''The switch is using '' @ format_1f (pr_used_watts poe) @ '' W of '' @ format_1f (pr_available_watts poe) @
       '' W and is supplying power on '' @
       count_text (filter (\<lambda>p. py_lower (pp_oper p) \<notin> {[], ''off'', ''n/a''}) (pr_ports poe)) @ '' port(s).''))"

definition answer_vlans :: "guide_outputs \<Rightarrow> answer" where
  "answer_vlans outs =
     (let rows = parse_vlans (output_of outs ''show_vlan_brief'') in
      (G_vlans rows, ''The switch reported '' @ count_text rows @
         '' VLAN(s). A VLAN separates one logical Ethernet network from another.''))"

definition answer_tree :: "guide_outputs \<Rightarrow> answer" where
  "answer_tree outs =
     (let tree = parse_spanning_tree (output_of outs ''show_spanning_tree'') in
      (G_tree tree,
       if tr_local_root tree then ''This switch reports that it is the spanning-tree root for the displayed VLAN.''
       else if tr_root tree \<noteq> None then ''This switch reports another bridge as the spanning-tree root.''
       else ''No spanning-tree root could be determined from the returned output.''))"

definition answer_neighbors :: "guide_outputs \<Rightarrow> answer" where
  "answer_neighbors outs =
     (let ns = parse_cdp (output_of outs ''show_cdp_neighbors_detail'') in
      (G_neighbors ns, ''CDP reported '' @ count_text ns @
         '' neighbour(s). An empty result can simply mean no adjacent device is advertising CDP.''))"

definition answer_lldp :: "guide_outputs \<Rightarrow> answer" where
  "answer_lldp outs =
     (let status = inspect_lldp None (output_of outs ''show_lldp_neighbors'') (output_of outs ''show_lldp_neighbors_detail'') in
      (G_lldp status, ls_detail status))"

definition answer_temperature :: "guide_outputs \<Rightarrow> answer" where
  "answer_temperature outs =
     (let environment = parse_environment (output_of outs ''show_env_all'') in
      (G_environment environment,
       ''The switch reports '' @ (case env_temperature environment of None \<Rightarrow> ''an unknown'' | Some c \<Rightarrow> py_str_int c) @
       '' C and state '' @ env_state environment @ ''.''))"

definition answer_logs :: "guide_outputs \<Rightarrow> answer" where
  "answer_logs outs =
     (let entries = parse_logs (output_of outs ''show_logging'') in
      (G_logs entries, ''The switch returned '' @ count_text entries @
         '' parsed log message(s). These are historical records, not automatically current faults.''))"

text \<open>The chain of branches; \<open>None\<close> is its last one, an operation without a handler.\<close>

definition guide_answer :: "string \<Rightarrow> string \<Rightarrow> guide_outputs \<Rightarrow> answer option" where
  "guide_answer operation selected outs =
     (if operation = ''identify_switch'' then Some (answer_identity outs)
      else if operation = ''connected_ports'' then Some (answer_ports outs)
      else if operation = ''connected_devices'' then Some (answer_devices outs)
      else if operation = ''port_state'' then Some (answer_port_state selected outs)
      else if operation = ''port_errors'' then Some (answer_port_errors selected outs)
      else if operation = ''switch_load'' then Some (answer_load outs)
      else if operation = ''poe_status'' then Some (answer_poe outs)
      else if operation = ''vlans'' then Some (answer_vlans outs)
      else if operation = ''spanning_tree'' then Some (answer_tree outs)
      else if operation = ''neighbors'' then Some (answer_neighbors outs)
      else if operation = ''lldp_neighbors'' then Some (answer_lldp outs)
      else if operation = ''temperature'' then Some (answer_temperature outs)
      else if operation = ''recent_logs'' then Some (answer_logs outs)
      else None)"

section \<open>Running a question\<close>

definition guide_lift :: "'a result \<Rightarrow> ('d, 'a) act" where
  "guide_lift r w = (r, w)"

definition guide_unsupported_rx :: rx where
  "guide_unsupported_rx = seqs [lit ''%'', star sp, alts [liti ''Invalid input'', liti ''Ambiguous command'',
     liti ''Incomplete command'', liti ''Unrecognized command'']]"

definition guide_read :: "'d env \<Rightarrow> string \<Rightarrow> ('d, string \<times> string list) act" where
  "guide_read env symbol =
     act_then (run_and_audit env symbol ''lab-guide'') (\<lambda>output.
       if rx_search guide_unsupported_rx output = None then act_return (output, [])
       else act_then (guide_lift (resolve_read_command symbol)) (\<lambda>command.
         act_return ([], [command @ '' is unsupported by this IOS release.''])))"

fun guide_reads :: "'d env \<Rightarrow> string list \<Rightarrow> ('d, guide_outputs \<times> string list) act" where
  "guide_reads env [] = act_return ([], [])"
| "guide_reads env (s # ss) =
     act_then (guide_read env s) (\<lambda>(output, warned).
     act_then (guide_reads env ss) (\<lambda>(outs, warnings). act_return ((s, output) # outs, warned @ warnings)))"

definition guide_selected :: "guide_definition \<Rightarrow> string option \<Rightarrow> string result" where
  "guide_selected d interface =
     (case interface of
        None \<Rightarrow>
          if gd_requires_interface d
          then Inl (CommandNotAllowedError (''Lab Guide operation '' @ py_repr (gd_id d) @ '' requires an interface.''))
          else Inr []
      | Some i \<Rightarrow>
          if gd_requires_interface d then and_then (assert_interface_readable i) (\<lambda>c. Inr (short_gi c))
          else Inl (CommandNotAllowedError (''Lab Guide operation '' @ py_repr (gd_id d) @ '' does not accept an interface.'')))"

definition default_hostname :: string where "default_hostname = ''SWITCHOPS-TEST-SW1''"

definition guide_backup :: "'d env \<Rightarrow> guide_definition \<Rightarrow> ('d, guide_run) act" where
  "guide_backup env d =
     act_then (backup_running_config env default_hostname ''lab-guide'' None) (\<lambda>b.
     act_then (guide_lift (guide_public d)) (\<lambda>public.
     act_return \<lparr>gr_operation = public, gr_result = G_backup b,
       gr_explanation = ''A private local backup was created. The displayed preview is redacted; no switch configuration was changed.'',
       gr_warnings = []\<rparr>))"

definition vlan_warning :: "string \<Rightarrow> guide_result \<Rightarrow> string list \<Rightarrow> string list" where
  "vlan_warning operation r warnings =
     (if operation = ''vlans'' \<and> r = G_vlans [] \<and> warnings = [] then [''No VLAN rows were returned.''] else warnings)"

definition guide_questioned :: "'d env \<Rightarrow> guide_definition \<Rightarrow> string \<Rightarrow> ('d, guide_run) act" where
  "guide_questioned env d selected =
     act_then (guide_reads env (gd_symbols d)) (\<lambda>(outs, warnings).
       case guide_answer (gd_id d) selected outs of
         None \<Rightarrow> guide_lift (Inl (CommandNotAllowedError (''Lab Guide operation '' @ py_repr (gd_id d) @ '' has no handler.'')))
       | Some (r, explanation) \<Rightarrow>
           act_then (guide_lift (guide_public d)) (\<lambda>public.
             act_return \<lparr>gr_operation = public, gr_result = r, gr_explanation = explanation,
                         gr_warnings = vlan_warning (gd_id d) r warnings\<rparr>))"

definition run_guide_operation :: "'d env \<Rightarrow> string \<Rightarrow> string option \<Rightarrow> ('d, guide_run) act" where
  "run_guide_operation env operation interface =
     (case guide_by_id operation of
        None \<Rightarrow> guide_lift (Inl (CommandNotAllowedError (''Unknown Lab Guide operation: '' @ py_repr operation)))
      | Some d \<Rightarrow>
          act_then (guide_lift (guide_selected d interface)) (\<lambda>selected.
            if gd_backup d then guide_backup env d else guide_questioned env d selected))"

section \<open>Answering changes nothing\<close>

lemma quiet_lift [quiet_intros]: "quiet_act (guide_lift r)"
  by (simp add: quiet_act_def guide_lift_def)

lemma quiet_read [quiet_intros]: "quiet_act (guide_read env symbol)"
  unfolding guide_read_def by (intro quiet_intros)

lemma quiet_reads [quiet_intros]: "quiet_act (guide_reads env symbols)"
  by (induction symbols) (auto intro!: quiet_intros split: prod.split)

lemma quiet_questioned [quiet_intros]: "quiet_act (guide_questioned env d selected)"
  unfolding guide_questioned_def
  by (intro quiet_then quiet_reads) (auto intro!: quiet_intros split: prod.split option.split)

text \<open>A step that may add a file but sends nothing to the switch.\<close>

definition sends_nothing :: "'d world \<Rightarrow> 'd world \<Rightarrow> bool" where
  "sends_nothing w w' \<longleftrightarrow> w_sent w' = w_sent w \<and> prefix (w_audit w) (w_audit w')"

lemma sends_nothing_quiet: "quiet_act m \<Longrightarrow> sends_nothing w (snd (m w))"
  by (simp add: quiet_act_def quiet_def sends_nothing_def)

lemma sends_nothing_then:
  assumes "\<And>w. sends_nothing w (snd (m w))" "\<And>a w. sends_nothing w (snd (f a w))"
  shows "sends_nothing w (snd (act_then m f w))"
proof (cases "m w")
  case (Pair r w1)
  then have "sends_nothing w w1" using assms(1) [of w] by simp
  then show ?thesis using Pair assms(2) [of w1]
    by (cases r) (auto simp: act_then_def sends_nothing_def intro: prefix_order.trans)
qed

lemma sends_nothing_write: "sends_nothing w (snd (write_backup env path config w))"
  by (simp add: write_backup_def sends_nothing_def)

lemma sends_nothing_backup: "sends_nothing w (snd (backup_running_config env host actor text w))"
proof -
  have 1: "sends_nothing w (snd (client_run env ''terminal_length_0'' w))"
    by (rule sends_nothing_quiet [OF quiet_client_run])
  have 2: "sends_nothing v (snd (act_then (case text of None \<Rightarrow> client_run env ''show_running_config'' | Some t \<Rightarrow> act_return t)
       (\<lambda>config.
         let fname = safe_hostname host @ ''-running-config-'' @ env_stamp env @ ''.txt'';
             path = env_backup_dir env @ ''/'' @ fname
         in act_then (write_backup env path config) (\<lambda>_.
            act_then (store_record env
              ((blank_event actor ''backup_config'' [''terminal length 0'', ''show running-config''] True)
                 \<lparr>ae_output_path := Some path\<rparr>)) (\<lambda>_.
            act_return \<lparr>br_filename = fname, br_path = path, br_preview = backup_preview config\<rparr>))) v))" for v
    unfolding Let_def
    by (intro sends_nothing_then sends_nothing_write sends_nothing_quiet quiet_intros)
      (auto intro: sends_nothing_quiet quiet_intros split: option.split)
  show ?thesis using 1 2 [of "snd (client_run env ''terminal_length_0'' w)"]
    unfolding backup_running_config_def sends_nothing_def by (auto intro: prefix_order.trans)
qed

lemma sends_nothing_guide:
  "sends_nothing w (snd (act_then (guide_lift r) (\<lambda>selected.
     if gd_backup d then guide_backup env d else guide_questioned env d selected) w))"
proof (rule sends_nothing_then)
  fix v show "sends_nothing v (snd (guide_lift r v))" by (rule sends_nothing_quiet [OF quiet_lift])
next
  fix selected v
  have "sends_nothing v (snd (guide_backup env d v))"
    unfolding guide_backup_def
    by (intro sends_nothing_then sends_nothing_backup sends_nothing_quiet quiet_intros)
  then show "sends_nothing v (snd ((if gd_backup d then guide_backup env d else guide_questioned env d selected) v))"
    by (simp add: sends_nothing_quiet [OF quiet_questioned])
qed

lemma guide_backup_id: "guide_by_id operation = Some d \<Longrightarrow> gd_backup d \<Longrightarrow> operation = ''backup_configuration''"
  using last_row_Some [of gd_id operation guide_definitions d]
  by (auto simp: guide_by_id_def guide_definitions_def guide_question_def)

text \<open>C34: answering a question of the Lab Guide, known or not, sends no configuration to the switch and only
  adds to the audit trail; a file is written by the backup question alone.\<close>

theorem guide_changes_nothing:
  fixes w :: "'d world"
  shows "let w' = snd (run_guide_operation env operation interface w) in
    w_sent w' = w_sent w \<and> prefix (w_audit w) (w_audit w') \<and>
    (operation = ''backup_configuration'' \<or> w_backups w' = w_backups w)"
proof (cases "guide_by_id operation")
  case None
  then show ?thesis by (simp add: run_guide_operation_def guide_lift_def)
next
  case (Some d)
  have run: "sends_nothing w (snd (run_guide_operation env operation interface w))"
    using Some by (simp add: run_guide_operation_def sends_nothing_guide)
  moreover have "w_backups (snd (run_guide_operation env operation interface w)) = w_backups w"
    if "operation \<noteq> ''backup_configuration''"
  proof -
    have "\<not> gd_backup d" using that guide_backup_id [OF Some] by blast
    then have "quiet_act (run_guide_operation env operation interface :: ('d, guide_run) act)"
      using Some unfolding run_guide_operation_def by (simp, intro quiet_intros)
    then show ?thesis by (simp add: quiet_act_def quiet_def)
  qed
  ultimately show ?thesis using run by (auto simp: sends_nothing_def Let_def)
qed

section \<open>Every question has an answer\<close>

lemma guide_commands_resolve:
  "list_all (\<lambda>d. list_all (\<lambda>s. \<not> isl (resolve_read_command s)) (gd_symbols d)) guide_definitions"
  by code_simp

lemma guide_has_handler:
  "list_all (\<lambda>d. gd_backup d \<or> guide_answer (gd_id d) selected outs \<noteq> None) guide_definitions"
  by (simp add: guide_definitions_def guide_question_def guide_answer_def)

end
