(* ===== verification/Live_State.thy ===== *)
theory Live_State
  imports Device_Session Discovery Interface_Policy
begin

text \<open>
  \<open>backend/app/live_state.py\<close>: the intervals of the collectors, the hub that hands messages to the pages,
  the live picture of the ports, and the loop that submits the jobs of a tier when they are due. The hub
  runs on one event loop: a publication schedules an offer for each subscriber, and the loop makes the
  offers in that order. The topology, health and reconciliation payloads are values of a type parameter.
  Shown: a queue is bounded and loses only its oldest messages; at most one job of a tier waits; two jobs
  of a tier are submitted at least its interval apart; a sample that repeats the last one changes nothing.
\<close>

section \<open>Intervals\<close>

type_synonym bounds = "rat \<times> rat"

definition fast_bounds :: bounds where "fast_bounds = (2, 60)"
definition medium_bounds :: bounds where "medium_bounds = (10, 300)"
definition slow_bounds :: bounds where "slow_bounds = (30, 900)"
definition history_bounds :: bounds where "history_bounds = (30, 3600)"

definition clamp_to :: "rat \<Rightarrow> bounds \<Rightarrow> rat" where
  "clamp_to v b = (case b of (low, high) \<Rightarrow> max low (min high v))"

record tier_config =
  tc_fast :: rat
  tc_medium :: rat
  tc_slow :: rat
  tc_history :: rat

definition default_tiers :: tier_config where
  "default_tiers = \<lparr>tc_fast = 5, tc_medium = 20, tc_slow = 60, tc_history = 60\<rparr>"

definition clamped :: "tier_config \<Rightarrow> tier_config" where
  "clamped c = \<lparr>tc_fast = clamp_to (tc_fast c) fast_bounds, tc_medium = clamp_to (tc_medium c) medium_bounds,
     tc_slow = clamp_to (tc_slow c) slow_bounds, tc_history = clamp_to (tc_history c) history_bounds\<rparr>"

section \<open>The live picture\<close>

record live_interface =
  lv_port :: string
  lv_description :: string
  lv_status :: string
  lv_admin :: string
  lv_oper :: string
  lv_speed :: string
  lv_duplex :: string
  lv_vlan :: string
  lv_poe_state :: string
  lv_poe_watts :: rat
  lv_protected :: bool
  lv_policy :: policy_state

definition comparable :: "live_interface \<Rightarrow> string list" where
  "comparable i = [lv_status i, lv_admin i, lv_oper i, lv_speed i, lv_duplex i, lv_vlan i, lv_description i]"

record freshness_times =
  ft_fast :: "time option"
  ft_medium :: "time option"
  ft_slow :: "time option"
  ft_deep :: "time option"

datatype tier = Fast | Medium | Slow | Deep

definition set_freshness :: "tier \<Rightarrow> time \<Rightarrow> freshness_times \<Rightarrow> freshness_times" where
  "set_freshness tier when f =
     (case tier of Fast \<Rightarrow> f\<lparr>ft_fast := Some when\<rparr> | Medium \<Rightarrow> f\<lparr>ft_medium := Some when\<rparr>
      | Slow \<Rightarrow> f\<lparr>ft_slow := Some when\<rparr> | Deep \<Rightarrow> f\<lparr>ft_deep := Some when\<rparr>)"

section \<open>The hub\<close>

datatype 'p message =
    Interface_state "live_interface list" freshness_times
  | Poe_state rat rat "live_interface list"
  | Freshness_state freshness_times
  | Discovery_state lldp_status
  | Topology_state 'p

definition max_pending :: nat where "max_pending = 64"

record 'p hub =
  hb_subscribers :: "nat list"
  hb_scheduled :: "(nat \<times> time \<times> 'p message) list"
  hb_queues :: "(nat, (time \<times> 'p message) list) dict"

definition new_hub :: "'p hub" where
  "new_hub = \<lparr>hb_subscribers = [], hb_scheduled = [], hb_queues = []\<rparr>"

definition subscribe :: "nat \<Rightarrow> 'p hub \<Rightarrow> 'p hub" where
  "subscribe q h = h\<lparr>hb_subscribers := hb_subscribers h @ [q]\<rparr>"

definition unsubscribe :: "nat \<Rightarrow> 'p hub \<Rightarrow> 'p hub" where
  "unsubscribe q h = h\<lparr>hb_subscribers := filter (\<lambda>x. x \<noteq> q) (hb_subscribers h)\<rparr>"

text \<open>A subscriber whose loop has closed (\<open>gone\<close>) is passed over.\<close>

definition publish :: "(nat \<Rightarrow> bool) \<Rightarrow> time \<Rightarrow> 'p message \<Rightarrow> 'p hub \<Rightarrow> 'p hub" where
  "publish gone when m h =
     h\<lparr>hb_scheduled := hb_scheduled h @ map (\<lambda>q. (q, when, m)) (filter (\<lambda>q. \<not> gone q) (hb_subscribers h))\<rparr>"

definition offer :: "'m \<Rightarrow> 'm list \<Rightarrow> 'm list" where
  "offer m q =
     (let room = (if length q \<ge> max_pending then tl q else q) in
      if length room \<ge> max_pending then room else room @ [m])"

text \<open>The event loop makes the offer that was scheduled first; the page takes its oldest message.\<close>

definition make_offer :: "'p hub \<Rightarrow> 'p hub" where
  "make_offer h =
     (case hb_scheduled h of
        [] \<Rightarrow> h
      | (q, m) # rest \<Rightarrow>
          h\<lparr>hb_scheduled := rest, hb_queues := dict_set q (offer m (get_default (hb_queues h) q [])) (hb_queues h)\<rparr>)"

definition take_message :: "nat \<Rightarrow> 'p hub \<Rightarrow> (time \<times> 'p message) option \<times> 'p hub" where
  "take_message q h =
     (case get_default (hb_queues h) q [] of
        [] \<Rightarrow> (None, h)
      | m # rest \<Rightarrow> (Some m, h\<lparr>hb_queues := dict_set q rest (hb_queues h)\<rparr>))"

section \<open>The state and its updates\<close>

record 'p live_state =
  ls_interfaces :: "(string, live_interface) dict"
  ls_poe_used :: rat
  ls_poe_available :: rat
  ls_freshness :: freshness_times
  ls_device :: "string option"
  ls_operation :: "string option"
  ls_lldp :: lldp_status
  ls_topology :: "'p option"
  ls_health :: "'p option"
  ls_reconciliation :: "'p option"
  ls_hub :: "'p hub"

definition new_live_state :: "'p live_state" where
  "new_live_state =
     \<lparr>ls_interfaces = [], ls_poe_used = 0, ls_poe_available = 0,
      ls_freshness = \<lparr>ft_fast = None, ft_medium = None, ft_slow = None, ft_deep = None\<rparr>, ls_device = None,
      ls_operation = None,
      ls_lldp = \<lparr>ls_state = ''unknown'', ls_supported = False, ls_enabled = None, ls_neighbors = [],
        ls_detail = ''LLDP has not been collected yet.''\<rparr>,
      ls_topology = None, ls_health = None, ls_reconciliation = None, ls_hub = new_hub\<rparr>"

definition sampled :: "interface_status \<Rightarrow> live_interface" where
  "sampled i =
     \<lparr>lv_port = ifs_port i, lv_description = ifs_name i, lv_status = ifs_status i,
      lv_admin = (if py_lower (py_strip (ifs_status i)) = ''disabled'' then ''down'' else ''up''),
      lv_oper = (if py_lower (py_strip (ifs_status i)) = ''connected'' then ''up'' else ''down''),
      lv_speed = ifs_speed i, lv_duplex = ifs_duplex i, lv_vlan = ifs_vlan i, lv_poe_state = [], lv_poe_watts = 0,
      lv_protected = ifs_protected i, lv_policy = ifs_policy_state i\<rparr>"

record interface_change =
  ch_port :: string
  ch_earlier :: live_interface
  ch_after :: live_interface

text \<open>One port of a fast sample: what the medium tier reported of its power is kept.\<close>

definition merged :: "live_interface option \<Rightarrow> live_interface \<Rightarrow> live_interface" where
  "merged existing incoming =
     (case existing of
        None \<Rightarrow> incoming
      | Some e \<Rightarrow> incoming\<lparr>lv_poe_state := lv_poe_state e, lv_poe_watts := lv_poe_watts e\<rparr>)"

definition port_change :: "live_interface option \<Rightarrow> live_interface \<Rightarrow> interface_change list" where
  "port_change existing incoming =
     (case existing of
        None \<Rightarrow> []
      | Some e \<Rightarrow>
          if comparable e \<noteq> comparable incoming
          then [\<lparr>ch_port = lv_port incoming, ch_earlier = e, ch_after = incoming\<rparr>] else [])"

fun merge_sample ::
  "interface_status list \<Rightarrow> (string, live_interface) dict \<Rightarrow> interface_change list \<times> (string, live_interface) dict"
where
  "merge_sample [] t = ([], t)"
| "merge_sample (i # is) t =
     (let existing = dict_get t (ifs_port i); incoming = merged existing (sampled i);
          rest = merge_sample is (dict_set (ifs_port i) incoming t)
      in (port_change existing incoming @ fst rest, snd rest))"

definition apply_interfaces :: "interface_status list \<Rightarrow> time \<Rightarrow> 'p live_state \<Rightarrow> interface_change list \<times> 'p live_state" where
  "apply_interfaces parsed when s =
     (case merge_sample parsed (ls_interfaces s) of
        (changes, t) \<Rightarrow> (changes, s\<lparr>ls_interfaces := t, ls_freshness := set_freshness Fast when (ls_freshness s)\<rparr>))"

record poe_change =
  po_port :: string
  po_earlier :: string
  po_after :: string
  po_watts :: rat

fun merge_poe :: "poe_port list \<Rightarrow> (string, live_interface) dict \<Rightarrow> poe_change list \<times> (string, live_interface) dict" where
  "merge_poe [] t = ([], t)"
| "merge_poe (p # ps) t =
     (case dict_get t (pp_interface p) of
        None \<Rightarrow> merge_poe ps t
      | Some e \<Rightarrow>
          (let rest = merge_poe ps
             (dict_set (pp_interface p) (e\<lparr>lv_poe_state := pp_oper p, lv_poe_watts := pp_power_watts p\<rparr>) t)
           in ((if lv_poe_state e \<noteq> pp_oper p
                then [\<lparr>po_port = pp_interface p, po_earlier = lv_poe_state e, po_after = pp_oper p, po_watts = pp_power_watts p\<rparr>]
                else []) @ fst rest, snd rest)))"

definition apply_poe :: "poe_port list \<Rightarrow> rat \<Rightarrow> rat \<Rightarrow> time \<Rightarrow> 'p live_state \<Rightarrow> poe_change list \<times> 'p live_state" where
  "apply_poe ports used available when s =
     (case merge_poe ports (ls_interfaces s) of
        (changes, t) \<Rightarrow> (changes, s\<lparr>ls_interfaces := t, ls_poe_used := used, ls_poe_available := available,
                                   ls_freshness := set_freshness Medium when (ls_freshness s)\<rparr>))"

definition mark_fresh :: "tier \<Rightarrow> time \<Rightarrow> 'p live_state \<Rightarrow> 'p live_state" where
  "mark_fresh tier when s = s\<lparr>ls_freshness := set_freshness tier when (ls_freshness s)\<rparr>"

definition apply_lldp :: "lldp_status \<Rightarrow> 'p live_state \<Rightarrow> 'p live_state" where
  "apply_lldp status s = s\<lparr>ls_lldp := status\<rparr>"

definition publish_live :: "(nat \<Rightarrow> bool) \<Rightarrow> time \<Rightarrow> 'p message \<Rightarrow> 'p live_state \<Rightarrow> 'p live_state" where
  "publish_live gone when m s = s\<lparr>ls_hub := publish gone when m (ls_hub s)\<rparr>"

definition apply_topology :: "(nat \<Rightarrow> bool) \<Rightarrow> time \<Rightarrow> 'p \<Rightarrow> 'p live_state \<Rightarrow> 'p live_state" where
  "apply_topology gone when payload s = publish_live gone when (Topology_state payload) (s\<lparr>ls_topology := Some payload\<rparr>)"

definition apply_assurance_context :: "'p \<Rightarrow> 'p \<Rightarrow> 'p live_state \<Rightarrow> 'p live_state" where
  "apply_assurance_context health reconciliation s = s\<lparr>ls_health := Some health, ls_reconciliation := Some reconciliation\<rparr>"

definition shown_interfaces :: "'p live_state \<Rightarrow> live_interface list" where
  "shown_interfaces s = map snd (ls_interfaces s)"

section \<open>The bodies of the jobs\<close>

text \<open>What a job does to the live state once its commands have answered; the times are those it reads.\<close>

definition fast_body ::
  "(nat \<Rightarrow> bool) \<Rightarrow> interface_status list \<Rightarrow> time \<Rightarrow> 'p live_state \<Rightarrow> interface_change list \<times> 'p live_state"
where
  "fast_body gone parsed when s =
     (case apply_interfaces parsed when s of
        (changes, s1) \<Rightarrow> (changes, publish_live gone when (Interface_state (shown_interfaces s1) (ls_freshness s1)) s1))"

datatype medium_slot = Slot_poe | Slot_errors | Slot_environment | Slot_load

definition medium_slots :: "medium_slot list" where
  "medium_slots = [Slot_poe, Slot_errors, Slot_environment, Slot_load]"

definition slot_name :: "medium_slot \<Rightarrow> string" where
  "slot_name m = (case m of Slot_poe \<Rightarrow> ''poe'' | Slot_errors \<Rightarrow> ''errors'' | Slot_environment \<Rightarrow> ''environment'' | Slot_load \<Rightarrow> ''load'')"

definition slot_symbol :: "medium_slot \<Rightarrow> string" where
  "slot_symbol m = (case m of Slot_poe \<Rightarrow> ''show_power_inline'' | Slot_errors \<Rightarrow> ''show_interfaces_counters_errors''
     | Slot_environment \<Rightarrow> ''show_env_all'' | Slot_load \<Rightarrow> ''show_processes_cpu'')"

definition medium_body ::
  "(nat \<Rightarrow> bool) \<Rightarrow> medium_slot \<Rightarrow> string \<Rightarrow> time \<Rightarrow> 'p live_state \<Rightarrow> poe_change list \<times> 'p live_state"
where
  "medium_body gone slot output_text when s =
     (let worked =
        (if slot = Slot_poe
         then (let poe = parse_poe output_text; applied = apply_poe (pr_ports poe) (pr_used_watts poe) (pr_available_watts poe) when s;
                   s1 = snd applied
               in (fst applied,
                   publish_live gone when (Poe_state (pr_used_watts poe) (pr_available_watts poe) (shown_interfaces s1)) s1))
         else ([], mark_fresh Medium when s))
      in (fst worked, publish_live gone when (Freshness_state (ls_freshness (snd worked))) (snd worked)))"

record slow_payload =
  sp_macs :: "mac_table_entry list"
  sp_arps :: "arp_entry list"
  sp_cdp :: "cdp_neighbor list"
  sp_lldp :: "lldp_neighbor list"

text \<open>The slow job hands what it parsed to \<open>on_discovery\<close> before it publishes.\<close>

definition slow_body ::
  "(nat \<Rightarrow> bool) \<Rightarrow> (slow_payload \<Rightarrow> time \<Rightarrow> 'p live_state \<Rightarrow> 'p live_state) \<Rightarrow> string \<Rightarrow> string \<Rightarrow> string \<Rightarrow> string \<Rightarrow> time \<Rightarrow>
   'p live_state \<Rightarrow> 'p live_state"
where
  "slow_body gone on_discovery mac_output arp_output cdp_output lldp_output when s =
     (let status = inspect_lldp None [] lldp_output; s1 = mark_fresh Slow when (apply_lldp status s);
          s2 = on_discovery \<lparr>sp_macs = parse_mac_table mac_output, sp_arps = parse_arp arp_output,
                             sp_cdp = parse_cdp cdp_output, sp_lldp = ls_neighbors status\<rparr> when s1
      in publish_live gone when (Freshness_state (ls_freshness s2)) (publish_live gone when (Discovery_state (ls_lldp s2)) s2))"

section \<open>The collector\<close>

record collector =
  co_config :: tier_config
  co_slot :: nat
  co_run :: nat
  co_skipped :: nat
  co_next_fast :: rat
  co_next_medium :: rat
  co_next_slow :: rat
  co_next_history :: rat

definition priority_fast :: nat where "priority_fast = 2"
definition priority_medium :: nat where "priority_medium = 3"
definition priority_slow :: nat where "priority_slow = 4"

definition new_collector :: "tier_config \<Rightarrow> rat \<Rightarrow> collector" where
  "new_collector config now =
     \<lparr>co_config = clamped config, co_slot = 0, co_run = 0, co_skipped = 0, co_next_fast = now, co_next_medium = now,
      co_next_slow = now, co_next_history = now\<rparr>"

definition apply_config :: "tier_config \<Rightarrow> collector \<Rightarrow> collector" where
  "apply_config config c = c\<lparr>co_config := clamped config\<rparr>"

text \<open>
  A tick is dropped when a job of its kind already waits; a session that is shutting down refuses it.
  The question and the submission are two calls on the session: \<open>submit_tick\<close> is what one thread does
  when no other comes between them, and the theory of the properties interleaves the two parts, since
  the threads that finish a transaction also ask for a fast sample (\<open>main.py\<close>).
\<close>

definition tick_wanted :: "string \<Rightarrow> 'v manager \<Rightarrow> bool" where
  "tick_wanted kind s \<longleftrightarrow> \<not> has_pending kind s"

definition tick_put :: "string \<Rightarrow> nat \<Rightarrow> rat \<Rightarrow> 'v manager \<Rightarrow> 'v manager" where
  "tick_put kind priority now s =
     (case submit kind priority now s of Inl _ \<Rightarrow> s | Inr s' \<Rightarrow> put (new_job priority kind now s) s')"

definition submit_tick :: "string \<Rightarrow> nat \<Rightarrow> rat \<Rightarrow> collector \<times> 'v manager \<Rightarrow> collector \<times> 'v manager" where
  "submit_tick kind priority now st =
     (let c = fst st; s = snd st in
      if tick_wanted kind s then (c\<lparr>co_run := co_run c + 1\<rparr>, tick_put kind priority now s)
      else (c\<lparr>co_skipped := co_skipped c + 1\<rparr>, s))"

definition collect_fast :: "rat \<Rightarrow> collector \<times> 'v manager \<Rightarrow> collector \<times> 'v manager" where
  "collect_fast now st = submit_tick ''live-fast'' priority_fast now st"

definition medium_kind :: "nat \<Rightarrow> string" where
  "medium_kind n = ''live-medium-'' @ slot_name (medium_slots ! (n mod length medium_slots))"

definition collect_medium :: "rat \<Rightarrow> collector \<times> 'v manager \<Rightarrow> collector \<times> 'v manager" where
  "collect_medium now st =
     submit_tick (medium_kind (co_slot (fst st))) priority_medium now ((fst st)\<lparr>co_slot := co_slot (fst st) + 1\<rparr>, snd st)"

definition collect_slow :: "rat \<Rightarrow> collector \<times> 'v manager \<Rightarrow> collector \<times> 'v manager" where
  "collect_slow now st = submit_tick ''live-slow'' priority_slow now st"

definition fast_due :: "rat \<Rightarrow> collector \<times> 'v manager \<Rightarrow> collector \<times> 'v manager" where
  "fast_due now st =
     (if now \<ge> co_next_fast (fst st)
      then (let r = collect_fast now st in ((fst r)\<lparr>co_next_fast := now + tc_fast (co_config (fst r))\<rparr>, snd r)) else st)"

definition medium_due :: "rat \<Rightarrow> collector \<times> 'v manager \<Rightarrow> collector \<times> 'v manager" where
  "medium_due now st =
     (if now \<ge> co_next_medium (fst st)
      then (let r = collect_medium now st in ((fst r)\<lparr>co_next_medium := now + tc_medium (co_config (fst r))\<rparr>, snd r)) else st)"

definition slow_due :: "rat \<Rightarrow> collector \<times> 'v manager \<Rightarrow> collector \<times> 'v manager" where
  "slow_due now st =
     (if now \<ge> co_next_slow (fst st)
      then (let r = collect_slow now st in ((fst r)\<lparr>co_next_slow := now + tc_slow (co_config (fst r))\<rparr>, snd r)) else st)"

text \<open>The history callback may raise; the loop goes on and its time is not moved.\<close>

definition history_due :: "bool \<Rightarrow> rat \<Rightarrow> collector \<times> 'v manager \<Rightarrow> collector \<times> 'v manager" where
  "history_due raised now st =
     (if now \<ge> co_next_history (fst st) \<and> \<not> raised
      then ((fst st)\<lparr>co_next_history := now + tc_history (co_config (fst st))\<rparr>, snd st) else st)"

text \<open>One pass of the loop; while a transaction holds the device it does nothing.\<close>

definition collector_pass :: "bool \<Rightarrow> bool \<Rightarrow> rat \<Rightarrow> collector \<times> 'v manager \<Rightarrow> collector \<times> 'v manager" where
  "collector_pass paused raised now st =
     (if paused then st else history_due raised now (slow_due now (medium_due now (fast_due now st))))"

end
