(* ===== verification/Live_Properties.thy ===== *)
theory Live_Properties
  imports Live_State "HOL-Library.Sublist"
begin

text \<open>
  The properties of the theory \<open>Live_State\<close>: what a page receives of the stream, how often the collectors'
  loop asks the switch, how many of its jobs can wait, and what a repeated sample reveals.
\<close>

section \<open>The stream of a page\<close>

text \<open>The hub with the log of what was published to a subscriber and the log of what a page took.\<close>

inductive hub_reaches ::
  "'p hub \<Rightarrow> (nat \<times> time \<times> 'p message) list \<Rightarrow> (nat \<times> time \<times> 'p message) list \<Rightarrow> bool"
where
  hub_start: "hub_reaches new_hub [] []"
| hub_subscribe: "hub_reaches h sent got \<Longrightarrow> hub_reaches (subscribe q h) sent got"
| hub_unsubscribe: "hub_reaches h sent got \<Longrightarrow> hub_reaches (unsubscribe q h) sent got"
| hub_publish: "hub_reaches h sent got \<Longrightarrow> hub_reaches (publish gone when m h)
    (sent @ map (\<lambda>q. (q, when, m)) (filter (\<lambda>q. \<not> gone q) (hb_subscribers h))) got"
| hub_offer: "hub_reaches h sent got \<Longrightarrow> hub_reaches (make_offer h) sent got"
| hub_take: "hub_reaches h sent got \<Longrightarrow> take_message q h = (Some m, h') \<Longrightarrow> hub_reaches h' sent (got @ [(q, m)])"

definition for_page :: "nat \<Rightarrow> (nat \<times> 'm) list \<Rightarrow> 'm list" where
  "for_page q xs = map snd (filter (\<lambda>x. fst x = q) xs)"

abbreviation queue_of :: "nat \<Rightarrow> 'p hub \<Rightarrow> (time \<times> 'p message) list" where
  "queue_of q h \<equiv> get_default (hb_queues h) q []"

lemma for_page_simps [simp]:
  "for_page q [] = []" "for_page q (xs @ ys) = for_page q xs @ for_page q ys"
  "for_page q ((p, m) # xs) = (if p = q then [m] else []) @ for_page q xs"
  by (simp_all add: for_page_def)

definition stream_ok :: "nat \<Rightarrow> 'p hub \<Rightarrow> (nat \<times> time \<times> 'p message) list \<Rightarrow> (nat \<times> time \<times> 'p message) list \<Rightarrow> bool" where
  "stream_ok q h sent got \<longleftrightarrow>
     length (queue_of q h) \<le> max_pending \<and>
     suffix (queue_of q h @ for_page q (hb_scheduled h)) (for_page q sent) \<and>
     subseq (for_page q got @ queue_of q h @ for_page q (hb_scheduled h)) (for_page q sent)"

lemma queue_set [simp]: "get_default (dict_set k v d) q x = (if q = k then v else get_default d q x)"
  by (simp add: get_default_def)

lemma offer_short: "length xs \<le> max_pending \<Longrightarrow> offer m xs = (if length xs = max_pending then tl xs else xs) @ [m]"
  by (auto simp: offer_def Let_def max_pending_def)

lemma subseq_tl: "subseq (tl xs) xs"
  by (cases xs) auto

lemma suffix_tl: "suffix (xs @ ys) zs \<Longrightarrow> suffix (tl xs @ ys) zs"
  by (cases xs) (auto simp: suffix_def)

lemma stream_offer:
  assumes "stream_ok q h sent got"
  shows "stream_ok q (make_offer h) sent got"
proof (cases "hb_scheduled h")
  case Nil
  then show ?thesis using assms by (simp add: make_offer_def)
next
  case (Cons x rest)
  obtain p m where x: "x = (p, m)" by (cases x)
  show ?thesis
  proof (cases "p = q")
    case False
    then show ?thesis using assms Cons x by (simp add: stream_ok_def make_offer_def)
  next
    case True
    let ?q = "queue_of q h" and ?r = "for_page q rest"
    let ?k = "if length ?q = max_pending then tl ?q else ?q"
    have old: "length ?q \<le> max_pending" "suffix (?q @ m # ?r) (for_page q sent)"
      "subseq (for_page q got @ ?q @ m # ?r) (for_page q sent)"
      using assms Cons x True by (simp_all add: stream_ok_def)
    have new: "queue_of q (make_offer h) = ?k @ [m]" "hb_scheduled (make_offer h) = rest"
      using Cons x True old(1) by (simp_all add: make_offer_def offer_short)
    have "length (?k @ [m]) \<le> max_pending" using old(1) by (auto simp: max_pending_def)
    moreover have "suffix (?k @ m # ?r) (for_page q sent)" using old(2) suffix_tl by auto
    moreover have "subseq (for_page q got @ ?k @ m # ?r) (for_page q got @ ?q @ m # ?r)"
      by (auto intro!: list_emb_append_mono subseq_tl)
    ultimately show ?thesis
      using old(3) unfolding stream_ok_def new by (auto intro: subseq_order.trans)
  qed
qed

lemma stream_take:
  assumes "stream_ok q h sent got" "take_message p h = (Some m, h')"
  shows "stream_ok q h' sent (got @ [(p, m)])"
proof -
  obtain rest where rest: "queue_of p h = m # rest" "h' = h\<lparr>hb_queues := dict_set p rest (hb_queues h)\<rparr>"
    using assms(2) by (auto simp: take_message_def split: list.splits)
  show ?thesis
  proof (cases "p = q")
    case True
    then show ?thesis using assms(1) rest by (auto simp: stream_ok_def intro: suffix_ConsD)
  next
    case False
    then show ?thesis using assms(1) rest by (simp add: stream_ok_def)
  qed
qed

text \<open>C35: whatever the order of publications, offers and reads, a page's queue holds at most 64 messages;
  it and what is still scheduled for the page are exactly the newest messages published to it, and what
  the page has read and will read from them is in the order of publication. A slow page loses only its
  oldest messages and never holds up a publication.\<close>

theorem stream_is_recent:
  assumes "hub_reaches h sent got"
  shows "length (queue_of q h) \<le> 64 \<and>
    suffix (queue_of q h @ for_page q (hb_scheduled h)) (for_page q sent) \<and>
    subseq (for_page q got @ queue_of q h @ for_page q (hb_scheduled h)) (for_page q sent)"
proof -
  have "stream_ok q h sent got"
    using assms
  proof (induction rule: hub_reaches.induct)
    case hub_start
    then show ?case by (simp add: stream_ok_def new_hub_def get_default_def)
  next
    case (hub_publish h sent got gone "when" m)
    let ?new = "map (\<lambda>q. (q, when, m)) (filter (\<lambda>q. \<not> gone q) (hb_subscribers h))"
    have "subseq ((for_page q got @ queue_of q h @ for_page q (hb_scheduled h)) @ for_page q ?new)
        (for_page q sent @ for_page q ?new)"
      using hub_publish.IH by (intro list_emb_append_mono) (simp_all add: stream_ok_def)
    moreover have "suffix ((queue_of q h @ for_page q (hb_scheduled h)) @ for_page q ?new)
        (for_page q sent @ for_page q ?new)"
      using hub_publish.IH by (auto simp: stream_ok_def suffix_def)
    ultimately show ?case using hub_publish.IH by (simp add: stream_ok_def publish_def)
  next
    case (hub_subscribe h sent got p)
    then show ?case by (simp add: stream_ok_def subscribe_def)
  next
    case (hub_unsubscribe h sent got p)
    then show ?case by (simp add: stream_ok_def unsubscribe_def)
  qed (rule stream_offer stream_take; assumption)+
  then show ?thesis by (simp add: stream_ok_def max_pending_def)
qed

definition page_hub :: "nat hub" where
  "page_hub = make_offer (publish (\<lambda>_. False) 5 (Topology_state 7) (subscribe 1 new_hub))"

theorem stream_is_recent_witness:
  "queue_of 1 page_hub = [(5, Topology_state 7)] \<and> length (queue_of 1 page_hub) \<le> 64 \<and>
    suffix (queue_of 1 page_hub) [(5, Topology_state 7)]"
proof -
  have "hub_reaches page_hub ([] @ map (\<lambda>q. (q, 5, Topology_state 7))
      (filter (\<lambda>q. \<not> (\<lambda>_. False) q) (hb_subscribers (subscribe 1 (new_hub :: nat hub))))) []"
    unfolding page_hub_def by (intro hub_offer hub_publish hub_subscribe hub_start)
  then have r: "hub_reaches page_hub [(1, 5, Topology_state 7)] []" by (simp add: subscribe_def new_hub_def)
  have "queue_of 1 page_hub = [(5, Topology_state 7)]" "hb_scheduled page_hub = []" by code_simp+
  then show ?thesis using stream_is_recent [OF r, of 1] by simp
qed

section \<open>How often the loop asks the switch\<close>

text \<open>
  A pass of the loop, with what the other threads do to the session until the next one and with the
  intervals they configure, if any.
\<close>

record 'v loop_pass =
  lp_paused :: bool
  lp_raised :: bool
  lp_now :: rat
  lp_others :: "'v manager \<Rightarrow> 'v manager"
  lp_config :: "tier_config option"

definition next_pass :: "'v loop_pass \<Rightarrow> collector \<times> 'v manager \<Rightarrow> collector \<times> 'v manager" where
  "next_pass p st =
     (case collector_pass (lp_paused p) (lp_raised p) (lp_now p) st of (c, s) \<Rightarrow>
        (case lp_config p of None \<Rightarrow> c | Some config \<Rightarrow> apply_config config c, lp_others p s))"

text \<open>The jobs that the passes themselves put into the queue of the session, with the time of the pass.\<close>

definition pass_jobs :: "'v loop_pass \<Rightarrow> collector \<times> 'v manager \<Rightarrow> job list" where
  "pass_jobs p st = drop (length (dm_queue (snd st)))
     (dm_queue (snd (collector_pass (lp_paused p) (lp_raised p) (lp_now p) st)))"

fun loop_jobs :: "'v loop_pass list \<Rightarrow> collector \<times> 'v manager \<Rightarrow> (rat \<times> string) list" where
  "loop_jobs [] st = []"
| "loop_jobs (p # ps) st = map (\<lambda>j. (lp_now p, jb_kind j)) (pass_jobs p st) @ loop_jobs ps (next_pass p st)"

definition asked :: "(string \<Rightarrow> bool) \<Rightarrow> (rat \<times> string) list \<Rightarrow> rat list" where
  "asked tier jobs = map fst (filter (\<lambda>x. tier (snd x)) jobs)"

definition medium_tier :: "string \<Rightarrow> bool" where
  "medium_tier kind \<longleftrightarrow> prefix ''live-medium-'' kind"

definition spaced :: "rat \<Rightarrow> rat list \<Rightarrow> bool" where
  "spaced d ts = sorted_wrt (\<lambda>a b. a + d \<le> b) ts"

lemma submit_tick_simps [simp]:
  "co_config (fst (submit_tick k p now st)) = co_config (fst st)"
  "co_next_fast (fst (submit_tick k p now st)) = co_next_fast (fst st)"
  "co_next_medium (fst (submit_tick k p now st)) = co_next_medium (fst st)"
  "co_next_slow (fst (submit_tick k p now st)) = co_next_slow (fst st)"
  by (simp_all add: submit_tick_def Let_def)

lemmas due_defs = fast_due_def medium_due_def slow_due_def history_due_def collect_fast_def collect_medium_def
  collect_slow_def Let_def

lemma pass_config [simp]: "co_config (fst (collector_pass paused raised now st)) = co_config (fst st)"
  by (simp add: collector_pass_def due_defs)

lemma pass_next:
  "co_next_fast (fst (collector_pass paused raised now st)) =
     (if \<not> paused \<and> now \<ge> co_next_fast (fst st) then now + tc_fast (co_config (fst st)) else co_next_fast (fst st))"
  "co_next_medium (fst (collector_pass paused raised now st)) =
     (if \<not> paused \<and> now \<ge> co_next_medium (fst st) then now + tc_medium (co_config (fst st)) else co_next_medium (fst st))"
  "co_next_slow (fst (collector_pass paused raised now st)) =
     (if \<not> paused \<and> now \<ge> co_next_slow (fst st) then now + tc_slow (co_config (fst st)) else co_next_slow (fst st))"
  by (simp_all add: collector_pass_def due_defs)

text \<open>What a tick puts into the queue: at most one job of its kind.\<close>

lemma tick_queue:
  "\<exists>js. dm_queue (snd (submit_tick kind p now st)) = dm_queue (snd st) @ js \<and> length js \<le> 1 \<and> list_all (\<lambda>j. jb_kind j = kind) js"
  by (auto simp: submit_tick_def tick_put_def submit_def put_def enter_job_def new_job_def Let_def)

lemma slot_kind: "\<exists>m. medium_kind n = ''live-medium-'' @ slot_name m"
  unfolding medium_kind_def by blast

lemma pass_queue:
  "\<exists>fs ms ss. dm_queue (snd (collector_pass paused raised now st)) = dm_queue (snd st) @ fs @ ms @ ss \<and>
     length fs \<le> 1 \<and> length ms \<le> 1 \<and> length ss \<le> 1 \<and>
     list_all (\<lambda>j. jb_kind j = ''live-fast'') fs \<and> list_all (\<lambda>j. medium_tier (jb_kind j)) ms \<and>
     list_all (\<lambda>j. jb_kind j = ''live-slow'') ss \<and>
     (fs \<noteq> [] \<longrightarrow> \<not> paused \<and> now \<ge> co_next_fast (fst st)) \<and>
     (ms \<noteq> [] \<longrightarrow> \<not> paused \<and> now \<ge> co_next_medium (fst st)) \<and>
     (ss \<noteq> [] \<longrightarrow> \<not> paused \<and> now \<ge> co_next_slow (fst st))"
proof (cases paused)
  case True
  then show ?thesis by (intro exI [of _ "[]"]) (simp add: collector_pass_def)
next
  case False
  define a where "a = fast_due now st"
  define b where "b = medium_due now a"
  have next_b: "co_next_slow (fst b) = co_next_slow (fst st)" "co_next_medium (fst a) = co_next_medium (fst st)"
    by (simp_all add: a_def b_def due_defs)
  obtain fs where fs: "dm_queue (snd a) = dm_queue (snd st) @ fs" "length fs \<le> 1"
    "list_all (\<lambda>j. jb_kind j = ''live-fast'') fs" "fs \<noteq> [] \<longrightarrow> now \<ge> co_next_fast (fst st)"
  proof (cases "now \<ge> co_next_fast (fst st)")
    case True
    then show ?thesis using tick_queue [of "''live-fast''" priority_fast now st] that by (auto simp: a_def due_defs)
  next
    case False
    then show ?thesis using that [of "[]"] by (simp add: a_def due_defs)
  qed
  obtain ms where ms: "dm_queue (snd b) = dm_queue (snd a) @ ms" "length ms \<le> 1"
    "list_all (\<lambda>j. medium_tier (jb_kind j)) ms" "ms \<noteq> [] \<longrightarrow> now \<ge> co_next_medium (fst st)"
  proof (cases "now \<ge> co_next_medium (fst a)")
    case True
    obtain js where js: "dm_queue (snd b) = dm_queue (snd a) @ js" "length js \<le> 1"
      "list_all (\<lambda>j. jb_kind j = medium_kind (co_slot (fst a))) js"
      using tick_queue [of "medium_kind (co_slot (fst a))" priority_medium now
          "((fst a)\<lparr>co_slot := co_slot (fst a) + 1\<rparr>, snd a)"] True
      by (auto simp: b_def due_defs)
    have "list_all (\<lambda>j. medium_tier (jb_kind j)) js"
      using js(3) slot_kind [of "co_slot (fst a)"] by (auto simp: list_all_iff medium_tier_def)
    then show ?thesis using that js(1,2) True next_b(2) by simp
  next
    case False
    then show ?thesis using that [of "[]"] by (simp add: b_def due_defs)
  qed
  obtain ss where ss: "dm_queue (snd (slow_due now b)) = dm_queue (snd b) @ ss" "length ss \<le> 1"
    "list_all (\<lambda>j. jb_kind j = ''live-slow'') ss" "ss \<noteq> [] \<longrightarrow> now \<ge> co_next_slow (fst st)"
  proof (cases "now \<ge> co_next_slow (fst b)")
    case True
    then show ?thesis using tick_queue [of "''live-slow''" priority_slow now b] that next_b(1) by (auto simp: due_defs)
  next
    case False
    then show ?thesis using that [of "[]"] by (simp add: due_defs)
  qed
  have "dm_queue (snd (collector_pass paused raised now st)) = dm_queue (snd (slow_due now b))"
    using False by (simp add: collector_pass_def a_def b_def history_due_def)
  then show ?thesis using fs ms ss False by (intro exI [of _ fs] exI [of _ ms] exI [of _ ss]) simp
qed

text \<open>The jobs of a tier that a pass enters: at most one, and only when the tier is due.\<close>

lemma pass_tier:
  "length (filter (\<lambda>j. jb_kind j = ''live-fast'') (pass_jobs p st)) \<le> (if \<not> lp_paused p \<and> lp_now p \<ge> co_next_fast (fst st) then 1 else 0)"
  "length (filter (\<lambda>j. medium_tier (jb_kind j)) (pass_jobs p st)) \<le> (if \<not> lp_paused p \<and> lp_now p \<ge> co_next_medium (fst st) then 1 else 0)"
  "length (filter (\<lambda>j. jb_kind j = ''live-slow'') (pass_jobs p st)) \<le> (if \<not> lp_paused p \<and> lp_now p \<ge> co_next_slow (fst st) then 1 else 0)"
proof -
  obtain fs ms ss where
    queue: "dm_queue (snd (collector_pass (lp_paused p) (lp_raised p) (lp_now p) st)) = dm_queue (snd st) @ fs @ ms @ ss"
    and n: "length fs \<le> 1" "length ms \<le> 1" "length ss \<le> 1"
    and k: "list_all (\<lambda>j. jb_kind j = ''live-fast'') fs" "list_all (\<lambda>j. medium_tier (jb_kind j)) ms"
      "list_all (\<lambda>j. jb_kind j = ''live-slow'') ss"
    and d: "fs \<noteq> [] \<longrightarrow> \<not> lp_paused p \<and> lp_now p \<ge> co_next_fast (fst st)"
      "ms \<noteq> [] \<longrightarrow> \<not> lp_paused p \<and> lp_now p \<ge> co_next_medium (fst st)"
      "ss \<noteq> [] \<longrightarrow> \<not> lp_paused p \<and> lp_now p \<ge> co_next_slow (fst st)"
    using pass_queue [of "lp_paused p" "lp_raised p" "lp_now p" st] by (elim exE conjE) blast
  have q: "pass_jobs p st = fs @ ms @ ss" by (simp add: pass_jobs_def queue)
  have medium: "\<not> medium_tier ''live-fast''" "\<not> medium_tier ''live-slow''" by (simp_all add: medium_tier_def)
  have none: "filter (\<lambda>j. jb_kind j = ''live-fast'') ms = []" "filter (\<lambda>j. jb_kind j = ''live-fast'') ss = []"
    "filter (\<lambda>j. medium_tier (jb_kind j)) fs = []" "filter (\<lambda>j. medium_tier (jb_kind j)) ss = []"
    "filter (\<lambda>j. jb_kind j = ''live-slow'') fs = []" "filter (\<lambda>j. jb_kind j = ''live-slow'') ms = []"
    using k medium by (auto simp: filter_empty_conv list_all_iff)
  have le: "length (filter P xs) \<le> (if b then 1 else 0)" if "length xs \<le> 1" "xs \<noteq> [] \<longrightarrow> b" for P and xs :: "job list" and b
    using that length_filter_le [of P xs] by (cases xs) auto
  show "length (filter (\<lambda>j. jb_kind j = ''live-fast'') (pass_jobs p st)) \<le> (if \<not> lp_paused p \<and> lp_now p \<ge> co_next_fast (fst st) then 1 else 0)"
    unfolding q filter_append none by (simp del: One_nat_def add: le [OF n(1) d(1)])
  show "length (filter (\<lambda>j. medium_tier (jb_kind j)) (pass_jobs p st)) \<le> (if \<not> lp_paused p \<and> lp_now p \<ge> co_next_medium (fst st) then 1 else 0)"
    unfolding q filter_append none by (simp del: One_nat_def add: le [OF n(2) d(2)])
  show "length (filter (\<lambda>j. jb_kind j = ''live-slow'') (pass_jobs p st)) \<le> (if \<not> lp_paused p \<and> lp_now p \<ge> co_next_slow (fst st) then 1 else 0)"
    unfolding q filter_append none by (simp del: One_nat_def add: le [OF n(3) d(3)])
qed

definition paced :: "tier_config \<Rightarrow> bool" where
  "paced c \<longleftrightarrow> tc_fast c \<ge> 2 \<and> tc_medium c \<ge> 10 \<and> tc_slow c \<ge> 30"

lemma clamp_to_bounds: "fst b \<le> snd b \<Longrightarrow> fst b \<le> clamp_to v b \<and> clamp_to v b \<le> snd b"
  by (auto simp: clamp_to_def split: prod.split)

lemma clamped_paced: "paced (clamped config)"
  using clamp_to_bounds [of fast_bounds "tc_fast config"] clamp_to_bounds [of medium_bounds "tc_medium config"]
    clamp_to_bounds [of slow_bounds "tc_slow config"]
  by (simp add: paced_def clamped_def fast_bounds_def medium_bounds_def slow_bounds_def)

text \<open>A tier whose jobs come only when due, and whose due time then moves on by at least \<open>d\<close>.\<close>

lemma tier_spaced:
  fixes st :: "collector \<times> 'v manager"
  assumes enters: "\<And>p (st :: collector \<times> 'v manager). length (filter (\<lambda>j. tier (jb_kind j)) (pass_jobs p st)) \<le>
      (if \<not> lp_paused p \<and> lp_now p \<ge> due (fst st) then 1 else 0)"
    and moves: "\<And>p (st :: collector \<times> 'v manager). due (fst (next_pass p st)) =
      (if \<not> lp_paused p \<and> lp_now p \<ge> due (fst st) then lp_now p + every (co_config (fst st)) else due (fst st))"
    and every: "\<And>c. paced c \<Longrightarrow> d \<le> every c" "d \<ge> 0"
    and "paced (co_config (fst st))"
  shows "spaced d (asked tier (loop_jobs ps st)) \<and> list_all (\<lambda>t. due (fst st) \<le> t) (asked tier (loop_jobs ps st))"
  using assms(5)
proof (induction ps arbitrary: st)
  case Nil
  show ?case by (simp add: spaced_def asked_def)
next
  case (Cons p ps)
  let ?st = "next_pass p st" and ?b = "\<not> lp_paused p \<and> lp_now p \<ge> due (fst st)"
  have "paced (co_config (fst ?st))"
    using Cons.prems pass_config [of "lp_paused p" "lp_raised p" "lp_now p" st] clamped_paced
    by (cases "collector_pass (lp_paused p) (lp_raised p) (lp_now p) st")
      (simp add: next_pass_def apply_config_def split: option.split)
  then have ih: "spaced d (asked tier (loop_jobs ps ?st))" "list_all (\<lambda>t. due (fst ?st) \<le> t) (asked tier (loop_jobs ps ?st))"
    using Cons.IH by blast+
  define js where "js = filter (\<lambda>j. tier (jb_kind j)) (pass_jobs p st)"
  have js: "length js \<le> (if ?b then 1 else 0)" using enters [of p st] by (simp only: js_def)
  have log: "asked tier (loop_jobs (p # ps) st) = map (\<lambda>_. lp_now p) js @ asked tier (loop_jobs ps ?st)"
    by (simp add: asked_def js_def filter_map comp_def)
  show ?case
  proof (cases "?b")
    case True
    have later: "lp_now p + d \<le> t \<and> due (fst st) \<le> t" if "t \<in> set (asked tier (loop_jobs ps ?st))" for t
    proof -
      have "due (fst ?st) = lp_now p + every (co_config (fst st))" using moves [of p st] True by simp
      moreover have "due (fst ?st) \<le> t" using ih(2) that by (simp add: list_all_iff)
      ultimately show ?thesis using every(1) [OF Cons.prems] every(2) True by linarith
    qed
    have "js = [] \<or> (\<exists>j. js = [j])" using js by (cases js) (auto split: if_splits)
    then show ?thesis using ih(1) later True unfolding log by (auto simp: spaced_def list_all_iff)
  next
    case False
    then have "js = []" "due (fst ?st) = due (fst st)" using js moves [of p st] by auto
    then show ?thesis using ih unfolding log by simp
  qed
qed

lemma next_pass_due:
  "co_next_fast (fst (next_pass p st)) =
     (if \<not> lp_paused p \<and> lp_now p \<ge> co_next_fast (fst st) then lp_now p + tc_fast (co_config (fst st)) else co_next_fast (fst st))"
  "co_next_medium (fst (next_pass p st)) =
     (if \<not> lp_paused p \<and> lp_now p \<ge> co_next_medium (fst st) then lp_now p + tc_medium (co_config (fst st)) else co_next_medium (fst st))"
  "co_next_slow (fst (next_pass p st)) =
     (if \<not> lp_paused p \<and> lp_now p \<ge> co_next_slow (fst st) then lp_now p + tc_slow (co_config (fst st)) else co_next_slow (fst st))"
  using pass_next [of "lp_paused p" "lp_raised p" "lp_now p" st]
  by (cases "collector_pass (lp_paused p) (lp_raised p) (lp_now p) st";
      simp add: next_pass_def apply_config_def split: option.split)+

text \<open>C36: The jobs that the collectors' loop puts into the queue are spaced, whatever intervals are configured
  at the beginning or in between, however its passes fall and whatever other threads do to the session
  meanwhile: those of the fast tier by at least two seconds, of the medium tier (its four kinds together)
  by ten and of the slow tier by thirty. What other threads submit is not counted: the two handlers
  that finish a transaction ask for one fast sample of their own.\<close>

theorem loop_jobs_are_spaced:
  fixes s :: "'v manager"
  shows "spaced 2 (asked (\<lambda>k. k = ''live-fast'') (loop_jobs ps (new_collector config begun, s))) \<and>
    spaced 10 (asked medium_tier (loop_jobs ps (new_collector config begun, s))) \<and>
    spaced 30 (asked (\<lambda>k. k = ''live-slow'') (loop_jobs ps (new_collector config begun, s)))"
proof -
  let ?st = "(new_collector config begun, s)"
  have c: "paced (co_config (fst ?st))" by (simp add: new_collector_def clamped_paced)
  have every: "paced c \<Longrightarrow> 2 \<le> tc_fast c" "paced c \<Longrightarrow> 10 \<le> tc_medium c" "paced c \<Longrightarrow> 30 \<le> tc_slow c" for c
    by (simp_all add: paced_def)
  show ?thesis
    using tier_spaced [of "\<lambda>k. k = ''live-fast''" co_next_fast tc_fast 2, OF pass_tier(1) next_pass_due(1) every(1) _ c]
      tier_spaced [of medium_tier co_next_medium tc_medium 10, OF pass_tier(2) next_pass_due(2) every(2) _ c]
      tier_spaced [of "\<lambda>k. k = ''live-slow''" co_next_slow tc_slow 30, OF pass_tier(3) next_pass_due(3) every(3) _ c]
    by simp
qed

section \<open>How many jobs of a kind wait\<close>

definition waiting_of :: "string \<Rightarrow> 'v manager \<Rightarrow> nat" where
  "waiting_of kind s = length (filter (\<lambda>j. jb_kind j = kind) (dm_queue s))"

text \<open>
  The threads that submit ticks: at most \<open>n kind\<close> of them at a time for a kind. The list holds the kinds
  for which a thread has asked whether a job waits, was told no, and has not submitted yet. Anything else
  may happen to the session, but no other thread submits jobs of a kind with ticks.
\<close>

inductive ticking :: "(string \<Rightarrow> nat) \<Rightarrow> 'v manager \<Rightarrow> string list \<Rightarrow> bool" for n where
  tick_start: "\<forall>k. n k \<noteq> 0 \<longrightarrow> waiting_of k s = 0 \<Longrightarrow> ticking n s []"
| tick_ask: "ticking n s ks \<Longrightarrow> tick_wanted k s \<Longrightarrow> count_list ks k < n k \<Longrightarrow> ticking n s (k # ks)"
| tick_submit: "ticking n s ks \<Longrightarrow> k \<in> set ks \<Longrightarrow> ticking n (tick_put k priority now s) (remove1 k ks)"
| tick_other: "ticking n s ks \<Longrightarrow> \<forall>k. n k \<noteq> 0 \<longrightarrow> waiting_of k s' \<le> waiting_of k s \<Longrightarrow> ticking n s' ks"

lemma wanted_waiting: "tick_wanted k s \<longleftrightarrow> waiting_of k s = 0"
  by (auto simp: tick_wanted_def has_pending_def waiting_of_def list_ex_iff filter_empty_conv)

lemma put_waiting: "waiting_of k (tick_put kind priority now s) \<le> waiting_of k s + (if k = kind then 1 else 0)"
  by (auto simp: tick_put_def submit_def put_def enter_job_def new_job_def waiting_of_def)

lemma count_remove1: "k \<in> set ks \<Longrightarrow> count_list (remove1 k ks) j = count_list ks j - (if j = k then 1 else 0)"
  by (induction ks) auto

text \<open>C37: A busy switch is not asked over and over: of a kind of tick there never wait more jobs than there are
  threads that submit it, threads about to submit one included, however the question whether one
  waits and the submission interleave. The slow kind and each of the four medium kinds come from the loop
  alone, so at most one of each waits; a fast sample may also come from a request that ends a
  transaction, and then one may wait for the loop and one for each such request.\<close>

theorem ticks_never_pile_up:
  assumes "ticking n s ks" "n k \<noteq> 0"
  shows "waiting_of k s + count_list ks k \<le> n k"
  using assms
proof (induction rule: ticking.induct)
  case (tick_ask s ks k')
  then show ?case by (auto simp: wanted_waiting)
next
  case (tick_submit s ks k' priority now)
  have "k' = k \<Longrightarrow> count_list ks k \<noteq> 0" using tick_submit.hyps(2) by (simp add: count_list_0_iff)
  then show ?case
    using tick_submit.IH [OF assms(2)] put_waiting [of k k' priority now s] count_remove1 [OF tick_submit.hyps(2), of k]
    by (auto split: if_splits)
next
  case (tick_other s ks s')
  then show ?case by fastforce
qed simp

text \<open>Two threads that ask before either submits: two fast samples wait.\<close>

definition raced :: "unit manager" where
  "raced = tick_put ''live-fast'' priority_fast 1 (tick_put ''live-fast'' priority_fast 1 new_manager)"

theorem ticks_never_pile_up_witness:
  "waiting_of ''live-fast'' raced = 2 \<and> waiting_of ''live-fast'' raced + count_list [''live-slow''] ''live-fast'' \<le> 2 \<and>
   tick_wanted ''live-slow'' raced"
proof -
  let ?n = "\<lambda>k. if k = ''live-fast'' then 2 else 1 :: nat"
  have "ticking ?n (new_manager :: unit manager) []" by (rule tick_start) (simp add: waiting_of_def new_manager_def)
  then have "ticking ?n (new_manager :: unit manager) [''live-fast'', ''live-fast'']"
    by (intro tick_ask) (simp_all add: wanted_waiting waiting_of_def new_manager_def)
  then have "ticking ?n raced (remove1 ''live-fast'' (remove1 ''live-fast'' [''live-fast'', ''live-fast'']))"
    unfolding raced_def by (intro tick_submit) simp_all
  then have r: "ticking ?n raced []" by simp
  have w: "waiting_of ''live-fast'' raced = 2" "tick_wanted ''live-slow'' raced" by code_simp+
  have "ticking ?n raced [''live-slow'']" by (rule tick_ask [OF r w(2)]) simp
  from ticks_never_pile_up [OF this, of "''live-fast''"] w show ?thesis by simp
qed

section \<open>A repeated sample\<close>

lemma merged_twice: "merged (Some (merged x (sampled i))) (sampled j) = merged x (sampled j)"
  by (cases x) (simp_all add: merged_def sampled_def)

lemma merge_sample_get:
  "dict_get (snd (merge_sample is t)) p =
    (case find (\<lambda>i. ifs_port i = p) (rev is) of None \<Rightarrow> dict_get t p | Some i \<Rightarrow> Some (merged (dict_get t p) (sampled i)))"
proof (induction "is" arbitrary: t)
  case (Cons i "is")
  note again = merged_twice
  have find_app: "find P (xs @ [i]) = (case find P xs of None \<Rightarrow> if P i then Some i else None | Some y \<Rightarrow> Some y)" for P xs
    by (induction xs) auto
  show ?case by (auto simp: Cons.IH Let_def find_app again split: option.split)
qed simp

lemma merge_sample_quiet:
  assumes "list_all (\<lambda>i. dict_get t (ifs_port i) = Some (merged (dict_get t (ifs_port i)) (sampled i))) is"
  shows "fst (merge_sample is t) = [] \<and> (\<forall>p. dict_get (snd (merge_sample is t)) p = dict_get t p)"
  using assms
proof (induction "is" arbitrary: t)
  case (Cons i "is")
  let ?t = "dict_set (ifs_port i) (merged (dict_get t (ifs_port i)) (sampled i)) t"
  have same: "dict_get ?t p = dict_get t p" for p using Cons.prems by simp
  have "fst (merge_sample is ?t) = [] \<and> (\<forall>p. dict_get (snd (merge_sample is ?t)) p = dict_get ?t p)"
    using Cons.prems by (intro Cons.IH) (simp add: same del: dict_get_set)
  moreover have "port_change (dict_get t (ifs_port i)) (merged (dict_get t (ifs_port i)) (sampled i)) = []"
    using Cons.prems by (cases "dict_get t (ifs_port i)") (simp_all add: port_change_def)
  ultimately show ?case using same by (simp add: Let_def)
qed simp

text \<open>A fast sample keeps what the medium tier reported of a port's power; taking the same sample again
  reveals no transition and leaves every port as it is.\<close>

theorem repeated_sample_silent:
  assumes "distinct (map ifs_port parsed)" "apply_interfaces parsed t s = (changes, s1)"
  shows "fst (apply_interfaces parsed u s1) = [] \<and>
    (\<forall>p. dict_get (ls_interfaces (snd (apply_interfaces parsed u s1))) p = dict_get (ls_interfaces s1) p) \<and>
    (\<forall>p e. dict_get (ls_interfaces s) p = Some e \<longrightarrow>
      map_option lv_poe_state (dict_get (ls_interfaces s1) p) = Some (lv_poe_state e))"
proof -
  let ?t = "ls_interfaces s"
  have s1: "ls_interfaces s1 = snd (merge_sample parsed ?t)"
    using assms(2) by (auto simp: apply_interfaces_def split: prod.splits)
  have "find (\<lambda>j. ifs_port j = ifs_port i) (rev parsed) = Some i" if "i \<in> set parsed" for i
    using that assms(1) by (intro find_unique) (auto simp: distinct_map dest: inj_onD)
  then have "list_all (\<lambda>i. dict_get (ls_interfaces s1) (ifs_port i) =
      Some (merged (dict_get (ls_interfaces s1) (ifs_port i)) (sampled i))) parsed"
    by (simp add: list_all_iff s1 merge_sample_get merged_twice)
  note quiet = merge_sample_quiet [OF this]
  have again: "apply_interfaces parsed u s1 = (fst (merge_sample parsed (ls_interfaces s1)),
      s1\<lparr>ls_interfaces := snd (merge_sample parsed (ls_interfaces s1)), ls_freshness := set_freshness Fast u (ls_freshness s1)\<rparr>)"
    by (simp add: apply_interfaces_def split: prod.split)
  have "map_option lv_poe_state (dict_get (ls_interfaces s1) p) = Some (lv_poe_state e)" if "dict_get ?t p = Some e" for p e
    using that by (simp add: s1 merge_sample_get merged_def split: option.split)
  then show ?thesis using quiet by (simp add: again)
qed

end
