(* ===== verification/Discovery_Store.thy ===== *)
theory Discovery_Store
  imports Topology
begin

text \<open>
  \<open>backend/app/discovery_store.py\<close>: the local history of discovered devices and facts. A table is a
  dictionary on its primary key in the order of its rows; rows of equal time keep that order. Times are
  microseconds in UTC, where comparing them agrees with comparing the stored ISO texts; the printed form
  of a time and the digest of an evidence number are parameters. The state of the connection is not one:
  freshness does not depend on it. Shown: a row is never lost and keeps the time it was first seen, an
  incomplete observation ends nothing, and a complete one ends exactly what it did not see.
\<close>

section \<open>Tables\<close>

record entity_row =
  en_first :: time
  en_last :: time
  en_interface :: "string option"
  en_active :: bool
  en_body :: network_device
  en_link :: "network_link option"

record evidence_row =
  er_first :: time
  er_last :: time
  er_active :: bool
  er_body :: discovery_evidence

type_synonym row_key = "string \<times> string"

record discovery_history =
  dh_entities :: "(row_key, entity_row) dict"
  dh_evidence :: "(row_key, evidence_row) dict"
  dh_observations :: "(string \<times> string \<times> time, freshness \<times> bool) dict"

definition empty_discovery :: discovery_history where
  "empty_discovery = \<lparr>dh_entities = [], dh_evidence = [], dh_observations = []\<rparr>"

text \<open>\<open>_migrate\<close>: a database of a newer schema is refused.\<close>

definition schema_version :: nat where "schema_version = 1"

definition open_discovery :: "nat \<Rightarrow> discovery_history \<Rightarrow> string + discovery_history" where
  "open_discovery version h =
     (if version > schema_version
      then Inl (''Discovery database schema '' @ py_str_nat version @ '' is newer than supported '' @ py_str_nat schema_version @ ''.'')
      else if version < 1 then Inr empty_discovery else Inr h)"

definition rows_for :: "string \<Rightarrow> (row_key, 'r) dict \<Rightarrow> (string \<times> 'r) list" where
  "rows_for device t = map (\<lambda>(k, r). (snd k, r)) (filter (\<lambda>(k, r). fst k = device) t)"

definition update_rows :: "string \<Rightarrow> ('r \<Rightarrow> 'r) \<Rightarrow> (row_key, 'r) dict \<Rightarrow> (row_key, 'r) dict" where
  "update_rows device f t = map (\<lambda>(k, r). (k, if fst k = device then f r else r)) t"

definition update_row :: "row_key \<Rightarrow> ('r \<Rightarrow> 'r) \<Rightarrow> (row_key, 'r) dict \<Rightarrow> (row_key, 'r) dict" where
  "update_row k f t = map (\<lambda>(j, r). (j, if j = k then f r else r)) t"

text \<open>The rows with the latest time first.\<close>

definition newest_rows :: "(string \<times> entity_row) list \<Rightarrow> (string \<times> entity_row) list" where
  "newest_rows rows = sort_key (\<lambda>(i, r). - en_last r) rows"

section \<open>Storing what was observed\<close>

definition deactivate :: "string \<Rightarrow> discovery_history \<Rightarrow> discovery_history" where
  "deactivate device h =
     h\<lparr>dh_entities := update_rows device (\<lambda>r. r\<lparr>en_active := False\<rparr>) (dh_entities h),
       dh_evidence := update_rows device (\<lambda>r. r\<lparr>er_active := False\<rparr>) (dh_evidence h)\<rparr>"

text \<open>The last device seen on the port, when it is another one and had an identity.\<close>

definition former_occupant :: "string \<Rightarrow> network_device \<Rightarrow> (row_key, entity_row) dict \<Rightarrow> string option" where
  "former_occupant device e t =
     (if or_empty (nd_connected e) = [] then None
      else
        (case newest_rows (filter (\<lambda>(i, r). en_interface r = nd_connected e \<and> i \<noteq> nd_id e) (rows_for device t)) of
           [] \<Rightarrow> None
         | (i, r) # _ \<Rightarrow> if nd_identity_source (en_body r) \<noteq> ''none'' then Some (nd_name (en_body r)) else None))"

definition enriched ::
  "string \<Rightarrow> time \<Rightarrow> (row_key, entity_row) dict \<Rightarrow> (row_key, entity_row) dict \<Rightarrow> network_device \<Rightarrow> network_device"
where
  "enriched device when previous t e =
     (case dict_get previous (device, nd_id e) of
        Some old \<Rightarrow> e\<lparr>nd_first_seen := Some (en_first old), nd_last_seen := Some when\<rparr>
      | None \<Rightarrow>
          (let seen = e\<lparr>nd_first_seen := Some when, nd_last_seen := Some when\<rparr> in
           case former_occupant device e t of None \<Rightarrow> seen | Some n \<Rightarrow> seen\<lparr>nd_historical_identity := Some n\<rparr>))"

definition upsert_entity ::
  "string \<Rightarrow> time \<Rightarrow> network_link list \<Rightarrow> network_device \<Rightarrow> (row_key, entity_row) dict \<Rightarrow> (row_key, entity_row) dict"
where
  "upsert_entity device when links e t =
     (let row = \<lparr>en_first = (case nd_first_seen e of None \<Rightarrow> when | Some f \<Rightarrow> f), en_last = when, en_interface = nd_connected e,
                 en_active = True, en_body = e, en_link = last_row nl_to (nd_id e) links\<rparr>
      in dict_set (device, nd_id e)
           (case dict_get t (device, nd_id e) of None \<Rightarrow> row | Some old \<Rightarrow> row\<lparr>en_first := en_first old\<rparr>) t)"

fun store_entities ::
  "string \<Rightarrow> time \<Rightarrow> network_link list \<Rightarrow> (row_key, entity_row) dict \<Rightarrow> network_device list \<Rightarrow> (row_key, entity_row) dict \<Rightarrow>
   network_device list \<times> (row_key, entity_row) dict"
where
  "store_entities device when links previous [] t = ([], t)"
| "store_entities device when links previous (e # es) t =
     (let e' = enriched device when previous t e;
          rest = store_entities device when links previous es (upsert_entity device when links e' t)
      in (e' # fst rest, snd rest))"

definition observe_fact ::
  "string \<Rightarrow> time \<Rightarrow> discovery_evidence \<Rightarrow> discovery_history \<Rightarrow> discovery_history"
where
  "observe_fact device when e h =
     (if dict_get (dh_observations h) (device, de_id e, when) = None
      then h\<lparr>dh_observations := dict_set (device, de_id e, when) (de_freshness e, de_revoked e) (dh_observations h)\<rparr>
      else h)"

definition upsert_fact :: "string \<Rightarrow> time \<Rightarrow> discovery_evidence \<Rightarrow> (row_key, evidence_row) dict \<Rightarrow> (row_key, evidence_row) dict" where
  "upsert_fact device when e t =
     dict_set (device, de_id e)
       \<lparr>er_first = (case dict_get t (device, de_id e) of None \<Rightarrow> when | Some old \<Rightarrow> er_first old), er_last = when,
        er_active = True, er_body = e\<rparr> t"

definition store_fact :: "string \<Rightarrow> time \<Rightarrow> discovery_evidence \<Rightarrow> discovery_history \<Rightarrow> discovery_history" where
  "store_fact device when e h = observe_fact device when e (h\<lparr>dh_evidence := upsert_fact device when e (dh_evidence h)\<rparr>)"

section \<open>What was not observed\<close>

definition ended_device :: "network_device \<Rightarrow> network_device" where
  "ended_device d = d\<lparr>nd_freshness := Historical, nd_existence_state := ''historical'', nd_online := False\<rparr>"

definition ended_fact :: "discovery_evidence \<Rightarrow> discovery_evidence" where
  "ended_fact e = e\<lparr>de_revoked := True, de_freshness := Historical\<rparr>"

text \<open>The active rows before the observation that it does not name.\<close>

definition missing_rows :: "string \<Rightarrow> ('r \<Rightarrow> bool) \<Rightarrow> string list \<Rightarrow> (row_key, 'r) dict \<Rightarrow> (string \<times> 'r) list" where
  "missing_rows device active seen t = filter (\<lambda>(i, r). active r \<and> i \<notin> set seen) (rows_for device t)"

definition end_entities :: "string \<Rightarrow> (string \<times> entity_row) list \<Rightarrow> discovery_history \<Rightarrow> discovery_history" where
  "end_entities device rows h =
     fold (\<lambda>(i, r) h. h\<lparr>dh_entities := update_row (device, i) (\<lambda>x. x\<lparr>en_body := ended_device (en_body r)\<rparr>) (dh_entities h)\<rparr>) rows h"

definition end_facts :: "string \<Rightarrow> time \<Rightarrow> (string \<times> evidence_row) list \<Rightarrow> discovery_history \<Rightarrow> discovery_history" where
  "end_facts device when rows h =
     fold (\<lambda>(i, r) h. observe_fact device when (ended_fact (er_body r))
       (h\<lparr>dh_evidence := update_row (device, i) (\<lambda>x. x\<lparr>er_body := ended_fact (er_body r)\<rparr>) (dh_evidence h)\<rparr>)) rows h"

definition aged_device :: "time \<Rightarrow> entity_row \<Rightarrow> network_device" where
  "aged_device when r =
     (let f = freshness_for Interface_link (en_last r) when False in
      (en_body r)\<lparr>nd_freshness := f, nd_online := (f = Current \<and> nd_online (en_body r))\<rparr>)"

definition aged_link :: "time \<Rightarrow> entity_row \<Rightarrow> network_link list" where
  "aged_link when r =
     (case en_link r of
        None \<Rightarrow> []
      | Some l \<Rightarrow> [l\<lparr>nl_freshness := nd_freshness (aged_device when r), nl_status := ''unknown''\<rparr>])"

definition aged_fact :: "time \<Rightarrow> evidence_row \<Rightarrow> discovery_evidence" where
  "aged_fact when r = (er_body r)\<lparr>de_freshness := freshness_for (de_type (er_body r)) (er_last r) when False\<rparr>"

definition prior_fact :: "(string \<Rightarrow> string) \<Rightarrow> (time \<Rightarrow> string) \<Rightarrow> string \<Rightarrow> network_device \<Rightarrow> time \<Rightarrow> discovery_evidence" where
  "prior_fact digest iso_text device d last_seen =
     (let named = nd_identity_source d \<noteq> ''none''; port = or_empty (nd_connected d) in
      (evidence_record digest Prior_observation ''historical'' ''prior-observation'' device (nd_connected d) (Some (nd_id d))
         (Some (nd_name d))
         (nd_name d @ '' was last observed on '' @ (if port = [] then ''an unknown interface'' else port) @ '' at '' @ iso_text last_seen @
           ''. It is not current evidence.'')
         last_seen (if named then Conf_medium else Conf_low)
         (no_claim\<lparr>cl_existence := True, cl_identity := named, cl_relationship := (nd_relationship d \<noteq> None)\<rparr>)
         ''SwitchOps local discovery history'' (nd_relationship d))
        \<lparr>de_freshness := Historical, de_revoked := True\<rparr>)"

definition historical_rows :: "string \<Rightarrow> (row_key, entity_row) dict \<Rightarrow> (string \<times> entity_row) list" where
  "historical_rows device t = take 50 (newest_rows (filter (\<lambda>(i, r). \<not> en_active r) (rows_for device t)))"

section \<open>One observation\<close>

definition seen_devices :: "topology_model \<Rightarrow> network_device list" where
  "seen_devices tm = filter (\<lambda>d. nd_id d \<noteq> tm_root tm) (tm_devices tm)"

definition store_observation :: "bool \<Rightarrow> time \<Rightarrow> topology_model \<Rightarrow> discovery_history \<Rightarrow> network_device list \<times> discovery_history" where
  "store_observation finished when tm h =
     (let device = tm_root tm;
          h1 = (if finished then deactivate device h else h);
          stored = store_entities device when (tm_links tm) (dh_entities h) (seen_devices tm) (dh_entities h1)
      in (fst stored, fold (store_fact device when) (tm_evidence tm) (h1\<lparr>dh_entities := snd stored\<rparr>)))"

definition end_missing :: "time \<Rightarrow> topology_model \<Rightarrow> discovery_history \<Rightarrow> discovery_history \<Rightarrow> discovery_history" where
  "end_missing when tm previous h =
     end_facts (tm_root tm) when
       (missing_rows (tm_root tm) er_active (map de_id (tm_evidence tm)) (dh_evidence previous))
       (end_entities (tm_root tm)
         (missing_rows (tm_root tm) en_active (map nd_id (seen_devices tm)) (dh_entities previous)) h)"

definition shown_missing ::
  "time \<Rightarrow> topology_model \<Rightarrow> discovery_history \<Rightarrow> discovery_history \<Rightarrow>
   network_device list \<times> network_link list \<times> discovery_evidence list"
where
  "shown_missing when tm previous h =
     (let rows = missing_rows (tm_root tm) en_active (map nd_id (seen_devices tm)) (dh_entities previous);
          facts = filter (\<lambda>(i, r). er_active r \<and> i \<notin> set (map de_id (tm_evidence tm))) (rows_for (tm_root tm) (dh_evidence h))
      in (map (\<lambda>(i, r). aged_device when r) rows, concat (map (\<lambda>(i, r). aged_link when r) rows),
          map (\<lambda>(i, r). aged_fact when r) facts))"

definition apply_observation ::
  "(string \<Rightarrow> string) \<Rightarrow> (time \<Rightarrow> string) \<Rightarrow> bool \<Rightarrow> time \<Rightarrow> topology_model \<Rightarrow> discovery_history \<Rightarrow>
   topology_model \<times> discovery_history"
where
  "apply_observation digest iso_text finished when tm h =
     (let device = tm_root tm;
          root = filter (\<lambda>d. nd_id d = device) (tm_devices tm);
          stored = store_observation finished when tm h;
          h2 = (if finished then end_missing when tm h (snd stored) else snd stored);
          kept = (if finished then ([], [], []) else shown_missing when tm h (snd stored));
          past = historical_rows device (dh_entities h2);
          facts = map (\<lambda>(i, r). prior_fact digest iso_text device (ended_device (en_body r)) (en_last r)) past
      in (tm\<lparr>tm_devices := take 1 root @ fst stored @ fst kept,
             tm_links := tm_links tm @ fst (snd kept),
             tm_evidence := tm_evidence tm @ snd (snd kept) @ facts,
             tm_historical := map (\<lambda>((i, r), f). (ended_device (en_body r))\<lparr>nd_evidence_ids := [de_id f]\<rparr>) (zip past facts)\<rparr>,
          h2))"

definition observation_count :: "string \<Rightarrow> discovery_history \<Rightarrow> nat" where
  "observation_count device h = length (filter (\<lambda>(k, v). fst k = device) (dh_observations h))"

section \<open>Continuity\<close>

lemma get_update_rows [simp]:
  "dict_get (update_rows device f t) k = map_option (if fst k = device then f else id) (dict_get t k)"
  by (induction t) (auto simp: update_rows_def)

lemma get_update_row [simp]: "dict_get (update_row j f t) k = map_option (if k = j then f else id) (dict_get t k)"
  by (induction t) (auto simp: update_row_def)

lemma rows_for_mem: "dict_get t (device, i) = Some r \<Longrightarrow> (i, r) \<in> set (rows_for device t)"
  by (force simp: rows_for_def dest: dict_get_mem)

lemma enriched_id [simp]: "nd_id (enriched device when previous t e) = nd_id e"
  by (simp add: enriched_def Let_def split: option.split)

text \<open>What the tables say of a row: when it was first seen, and whether it is active.\<close>

definition row_view :: "discovery_history \<Rightarrow> row_key \<Rightarrow> (time \<times> bool) option" where
  "row_view h k = map_option (\<lambda>r. (en_first r, en_active r)) (dict_get (dh_entities h) k)"

lemma upsert_entity_get:
  "dict_get (upsert_entity device when links e t) k =
    (if k = (device, nd_id e) then dict_get (upsert_entity device when links e t) k else dict_get t k)"
  "map_option (\<lambda>r. (en_first r, en_active r)) (dict_get (upsert_entity device when links e t) (device, nd_id e)) =
    Some (case dict_get t (device, nd_id e) of
      None \<Rightarrow> (case nd_first_seen e of None \<Rightarrow> when | Some f \<Rightarrow> f) | Some old \<Rightarrow> en_first old, True)"
  by (simp_all add: upsert_entity_def Let_def split: option.split)

lemma store_entities_get:
  fixes t previous :: "(row_key, entity_row) dict" and device :: string and "when" :: time and links :: "network_link list"
  defines "stored \<equiv> \<lambda>es t. dict_get (snd (store_entities device when links previous es t))"
  shows "(k \<notin> (\<lambda>e. (device, nd_id e)) ` set es \<longrightarrow> stored es t k = dict_get t k) \<and>
    (k \<in> (\<lambda>e. (device, nd_id e)) ` set es \<longrightarrow>
      (\<exists>r. stored es t k = Some r \<and> en_active r \<and> (\<forall>old. dict_get t k = Some old \<longrightarrow> en_first r = en_first old)))"
proof (induction es arbitrary: t)
  case Nil
  show ?case by (simp add: stored_def)
next
  case (Cons e es)
  let ?e = "enriched device when previous t e"
  let ?u = "upsert_entity device when links ?e t"
  have step: "stored (e # es) t k = stored es ?u k" by (simp add: stored_def Let_def)
  have here: "\<exists>r. dict_get ?u (device, nd_id e) = Some r \<and> en_active r \<and>
      (\<forall>old. dict_get t (device, nd_id e) = Some old \<longrightarrow> en_first r = en_first old)"
    using upsert_entity_get(2) [of device "when" links ?e t] by auto
  have there: "dict_get ?u k = dict_get t k" if "k \<noteq> (device, nd_id e)"
    using that upsert_entity_get(1) [of device "when" links ?e t k] by simp
  show ?case
    using Cons.IH [of ?u] here there unfolding step
    by (cases "k = (device, nd_id e)"; cases "k \<in> (\<lambda>e. (device, nd_id e)) ` set es") auto
qed

lemma observe_fact_entities [simp]: "dh_entities (observe_fact device when e h) = dh_entities h"
  by (simp add: observe_fact_def)

lemma fold_facts_entities [simp]: "dh_entities (fold (store_fact device when) es h) = dh_entities h"
  by (induction es arbitrary: h) (simp_all add: store_fact_def)

lemma end_facts_entities [simp]: "dh_entities (end_facts device when rows h) = dh_entities h"
  by (induction rows arbitrary: h) (auto simp: end_facts_def)

lemma end_entities_view [simp]: "row_view (end_entities device rows h) k = row_view h k"
proof (induction rows arbitrary: h)
  case (Cons x rows)
  obtain i r where x: "x = (i, r)" by (cases x)
  let ?h = "h\<lparr>dh_entities := update_row (device, i) (\<lambda>x. x\<lparr>en_body := ended_device (en_body r)\<rparr>) (dh_entities h)\<rparr>"
  have "row_view ?h k = row_view h k" by (cases "dict_get (dh_entities h) k") (auto simp: row_view_def)
  then show ?case using Cons.IH [of ?h] by (simp add: end_entities_def x)
qed (simp add: end_entities_def)

lemma end_missing_view: "row_view (end_missing when tm previous h) k = row_view h k"
  by (simp add: end_missing_def row_view_def [of "end_facts device u rows x" for device u rows x])
    (simp add: row_view_def [symmetric])

lemma deactivate_view:
  "row_view (deactivate device h) k = map_option (\<lambda>(f, a). (f, if fst k = device then False else a)) (row_view h k)"
  by (cases "dict_get (dh_entities h) k") (auto simp: row_view_def deactivate_def)

lemma apply_view:
  assumes "dict_get (dh_entities h) (device, i) = Some r"
  shows "row_view (snd (apply_observation digest iso_text finished when tm h)) (device, i) =
    Some (en_first r, if device = tm_root tm \<and> i \<in> nd_id ` set (seen_devices tm) then True
      else en_active r \<and> \<not> (finished \<and> device = tm_root tm))"
proof -
  let ?h1 = "if finished then deactivate (tm_root tm) h else h"
  let ?stored = "store_entities (tm_root tm) when (tm_links tm) (dh_entities h) (seen_devices tm) (dh_entities ?h1)"
  have view: "row_view (snd (apply_observation digest iso_text finished when tm h)) k =
      map_option (\<lambda>r. (en_first r, en_active r)) (dict_get (snd ?stored) k)" for k
    by (simp add: apply_observation_def store_observation_def Let_def end_missing_view) (simp add: row_view_def)
  have h1: "row_view ?h1 (device, i) = Some (en_first r, en_active r \<and> \<not> (finished \<and> device = tm_root tm))"
  proof -
    have "row_view h (device, i) = Some (en_first r, en_active r)" using assms by (simp add: row_view_def)
    then show ?thesis by (simp add: deactivate_view)
  qed
  then obtain r1 where r1: "dict_get (dh_entities ?h1) (device, i) = Some r1" "en_first r1 = en_first r"
    "en_active r1 \<longleftrightarrow> en_active r \<and> \<not> (finished \<and> device = tm_root tm)"
    by (auto simp: row_view_def)
  show ?thesis
    using store_entities_get [of "(device, i)" "tm_root tm" "seen_devices tm" "when" "tm_links tm" "dh_entities h" "dh_entities ?h1"]
      r1 unfolding view by auto
qed

lemma aged_not_historical: "nd_freshness (aged_device when r) \<noteq> Historical"
  by (simp add: aged_device_def freshness_for_def current_seconds_def Let_def)

text \<open>C38: an observation loses no row of the history and moves no first sighting. A device of the observed
  switch is active afterwards when it was seen; when it was not, a complete observation ends it, and an
  incomplete one keeps it active and still shows it, aged but not historical. The rows of other switches
  stay as they are.\<close>

theorem outage_is_not_absence:
  assumes "dict_get (dh_entities h) (device, i) = Some r"
    and "apply_observation digest iso_text finished when tm h = (tm', h')"
  shows "\<exists>r'. dict_get (dh_entities h') (device, i) = Some r' \<and> en_first r' = en_first r \<and>
    (if device \<noteq> tm_root tm then en_active r' = en_active r
     else if i \<in> nd_id ` set (seen_devices tm) then en_active r'
     else if finished then \<not> en_active r'
     else en_active r' = en_active r \<and>
       (en_active r \<longrightarrow> aged_device when r \<in> set (tm_devices tm') \<and> nd_freshness (aged_device when r) \<noteq> Historical))"
proof -
  have "row_view h' (device, i) = Some (en_first r, if device = tm_root tm \<and> i \<in> nd_id ` set (seen_devices tm) then True
      else en_active r \<and> \<not> (finished \<and> device = tm_root tm))"
    using apply_view [OF assms(1), of digest iso_text finished "when" tm] assms(2) by simp
  then obtain r' where r': "dict_get (dh_entities h') (device, i) = Some r'" "en_first r' = en_first r"
    "en_active r' \<longleftrightarrow> (if device = tm_root tm \<and> i \<in> nd_id ` set (seen_devices tm) then True
      else en_active r \<and> \<not> (finished \<and> device = tm_root tm))"
    by (auto simp: row_view_def)
  have "aged_device when r \<in> set (tm_devices tm')"
    if "device = tm_root tm" "i \<notin> nd_id ` set (seen_devices tm)" "\<not> finished" "en_active r"
  proof -
    have "(i, r) \<in> set (missing_rows (tm_root tm) en_active (map nd_id (seen_devices tm)) (dh_entities h))"
      using rows_for_mem [OF assms(1)] that by (simp add: missing_rows_def)
    then show ?thesis using assms(2) that(3)
      by (force simp: apply_observation_def shown_missing_def Let_def)
  qed
  then show ?thesis using r' aged_not_historical by auto
qed

definition quiet_tables :: collected where
  "quiet_tables = \<lparr>co_digest = id, co_registry = (\<lambda>_. None), co_namespace = ''physical'', co_hostname = ''lab'',
     co_model = [], co_management_ip = ''Unknown'', co_interfaces = [], co_macs = [], co_poe = [], co_cdp = [],
     co_lldp = [], co_arp = [], co_local = None, co_expected = [], co_now = 9\<rparr>"

definition kept_history :: discovery_history where
  "kept_history = \<lparr>dh_entities = [((tm_root (build_topology quiet_tables), ''e1''),
     \<lparr>en_first = 3, en_last = 5, en_interface = None, en_active = True, en_body = root_device quiet_tables, en_link = None\<rparr>)],
     dh_evidence = [], dh_observations = []\<rparr>"

definition kept_after :: "bool \<Rightarrow> entity_row option" where
  "kept_after finished = dict_get (dh_entities (snd
     (apply_observation id py_str_int finished 9 (build_topology quiet_tables) kept_history)))
     (tm_root (build_topology quiet_tables), ''e1'')"

theorem outage_is_not_absence_witness:
  "(\<exists>r. kept_after False = Some r \<and> en_first r = 3 \<and> en_active r) \<and>
   (\<exists>r. kept_after True = Some r \<and> en_first r = 3 \<and> \<not> en_active r)"
proof -
  let ?r = "\<lparr>en_first = 3, en_last = 5, en_interface = None, en_active = True, en_body = root_device quiet_tables, en_link = None\<rparr>"
  have row: "dict_get (dh_entities kept_history) (tm_root (build_topology quiet_tables), ''e1'') = Some ?r"
    by (simp add: kept_history_def)
  have "seen_devices (build_topology quiet_tables) = []"
    by (simp add: seen_devices_def build_topology_def quiet_tables_def root_device_def Let_def)
  then show ?thesis
    using outage_is_not_absence [OF row, of id py_str_int False 9 "build_topology quiet_tables", OF prod.collapse [symmetric]]
      outage_is_not_absence [OF row, of id py_str_int True 9 "build_topology quiet_tables", OF prod.collapse [symmetric]]
    by (auto simp: kept_after_def)
qed

end
