(* ===== verification/Dashboard.thy ===== *)
theory Dashboard
  imports Operations Live_State Discovery_Store Configuration_History Telemetry Health
begin

text \<open>
  The observation of \<open>backend/app/main.py\<close>: \<open>_collect_dashboard\<close> runs the fifteen read commands, parses
  them, and takes the result through the policy, the topology, the discovery history, the telemetry, the
  configuration history, the reconciliation and the health assessment; the callbacks of the collectors
  record what a live tier reveals. The site holds every store. Where the code catches any exception of a
  storage step, \<open>dx_fault\<close> says whether the step's storage raises; a step that raises leaves its store as it
  was. The parsers of the model are total, so the fallback of \<open>_parse_section\<close> is not reached. The unified
  view (\<open>update_catalyst\<close>) takes the finished dashboard and cannot change it; it is left out.
\<close>

section \<open>The site\<close>

datatype live_payload = P_topology topology_model | P_health assessment | P_reconciliation reconciliation_summary

record 'd site =
  st_world :: "'d world"
  st_policy :: policy_file
  st_intent :: intent_store
  st_discovery :: discovery_history
  st_telemetry :: telemetry
  st_history :: config_history
  st_live :: "live_payload live_state"

record 'd dash_env =
  dx_env :: "'d env"
  dx_device_digest :: "string \<Rightarrow> string"
  dx_digest :: "string \<Rightarrow> string"
  dx_registry :: "string \<Rightarrow> string option"
  dx_iso :: "time \<Rightarrow> string"
  dx_stamp :: "time \<Rightarrow> string"
  dx_diff :: differ
  dx_host :: "string option"
  dx_settings_host :: string
  dx_mock :: bool
  dx_adapters :: "local_adapter list"
  dx_now :: time
  dx_snapshot :: string
  dx_retention :: int
  dx_fault :: "string \<Rightarrow> bool"
  dx_gone :: "nat \<Rightarrow> bool"

section \<open>Reading the sections\<close>

definition section_commands :: "(string \<times> string) list" where
  "section_commands =
     [(''version'', ''show_version''), (''inventory'', ''show_inventory''), (''config'', ''show_running_config''),
      (''interfaces'', ''show_interfaces_status''), (''environment'', ''show_env_all''), (''cpu'', ''show_processes_cpu''),
      (''poe'', ''show_power_inline''), (''errors'', ''show_interfaces_counters_errors''),
      (''memory'', ''show_memory_statistics''), (''macTable'', ''show_mac_address_table''),
      (''neighbors'', ''show_cdp_neighbors_detail''), (''lldpSummary'', ''show_lldp_neighbors''),
      (''lldpDetail'', ''show_lldp_neighbors_detail''), (''arp'', ''show_ip_arp''), (''logs'', ''show_logging'')]"

type_synonym section_texts = "(string, string) dict"

definition ios_unsupported_rx :: rx where
  "ios_unsupported_rx = seqs [lit ''%'', star sp, alts [liti ''Invalid input'', liti ''Ambiguous command'',
     liti ''Incomplete command'', liti ''Unrecognized command'']]"

text \<open>The text of a section and its error, if any.\<close>

definition section_result :: "string \<Rightarrow> string result \<Rightarrow> string \<times> string option" where
  "section_result name r =
     (case r of
        Inl _ \<Rightarrow> ([], Some ''command_failed'')
      | Inr out \<Rightarrow>
          if rx_search ios_unsupported_rx out \<noteq> None \<and> \<not> py_startswith name ''lldp''
          then ([], Some ''unsupported_by_ios'') else (out, None))"

fun read_sections ::
  "'d env \<Rightarrow> (string \<times> string) list \<Rightarrow> 'd world \<Rightarrow> section_texts \<times> section_texts \<times> 'd world"
where
  "read_sections env [] w = ([], [], w)"
| "read_sections env ((name, symbol) # rest) w =
     (case run_and_audit env symbol ''system'' w of
        (r, w1) \<Rightarrow>
          (let (out, err) = section_result name r; (outs, errs, w2) = read_sections env rest w1
           in ((name, out) # outs, (case err of None \<Rightarrow> errs | Some e \<Rightarrow> (name, e) # errs), w2)))"

section \<open>What the texts say\<close>

record tables =
  tb_version :: "(string, string) dict"
  tb_inventory :: "(string, string) dict"
  tb_config_text :: string
  tb_config :: running_config
  tb_interfaces :: "interface_status list"
  tb_environment :: environment_status
  tb_cpu :: cpu_status
  tb_poe :: poe_response
  tb_errors :: "interface_error_counters list"
  tb_memory :: memory_status
  tb_macs :: "mac_table_entry list"
  tb_logs :: "log_entry list"
  tb_cdp :: "cdp_neighbor list"
  tb_lldp :: lldp_status
  tb_arps :: "arp_entry list"

definition parse_tables :: "section_texts \<Rightarrow> tables" where
  "parse_tables outs =
     (let t = (\<lambda>name. get_default outs name []) in
      \<lparr>tb_version = parse_version (t ''version''), tb_inventory = parse_inventory (t ''inventory''),
       tb_config_text = t ''config'', tb_config = parse_running_config (t ''config''),
       tb_interfaces = parse_interface_status (t ''interfaces''), tb_environment = parse_environment (t ''environment''),
       tb_cpu = parse_cpu (t ''cpu''), tb_poe = parse_poe (t ''poe''), tb_errors = parse_interface_errors (t ''errors''),
       tb_memory = parse_memory (t ''memory''), tb_macs = parse_mac_table (t ''macTable''), tb_logs = parse_logs (t ''logs''),
       tb_cdp = parse_cdp (t ''neighbors''), tb_lldp = inspect_lldp (Some (t ''config'')) (t ''lldpSummary'') (t ''lldpDetail''),
       tb_arps = parse_arp (t ''arp'')\<rparr>)"

text \<open>The interface that carries the configured address is the management interface and is protected.\<close>

definition management_svi :: "string option \<Rightarrow> running_config \<Rightarrow> svi_address option" where
  "management_svi host config =
     (if or_empty host = [] then None else find (\<lambda>v. svi_ip v = or_empty host) (rc_svi_addresses config))"

definition protect_management ::
  "'d dash_env \<Rightarrow> tables \<Rightarrow> policy_file \<Rightarrow> tables result \<times> policy_file"
where
  "protect_management dx tb f =
     (case management_svi (dx_host dx) (tb_config tb) of
        None \<Rightarrow> (Inr tb, f)
      | Some v \<Rightarrow>
          (case ensure_protected (dx_device_digest dx) f (dx_host dx) (Some (svi_interface v)) of
             (Inl e, f') \<Rightarrow> (Inl e, f')
           | (Inr _, f') \<Rightarrow> (Inr (tb\<lparr>tb_config := (tb_config tb)\<lparr>rc_management := Some v\<rparr>\<rparr>), f')))"

definition annotated :: "'d dash_env \<Rightarrow> policy_file \<Rightarrow> tables \<Rightarrow> tables result" where
  "annotated dx f tb =
     and_then (annotate (dx_device_digest dx) f (if or_empty (dx_host dx) = [] then None else dx_host dx) (tb_interfaces tb))
       (\<lambda>is. Inr (tb\<lparr>tb_interfaces := is\<rparr>))"

definition first_text :: "string option list \<Rightarrow> string \<Rightarrow> string" where
  "first_text vs d = (case filter (\<lambda>v. or_empty v \<noteq> []) vs of [] \<Rightarrow> d | v # _ \<Rightarrow> or_empty v)"

definition device_hostname :: "tables \<Rightarrow> string" where
  "device_hostname tb = first_text [rc_hostname (tb_config tb), dict_get (tb_version tb) ''hostname''] ''Unknown''"

definition device_model :: "tables \<Rightarrow> string" where
  "device_model tb = first_text [dict_get (tb_inventory tb) ''pid'', dict_get (tb_version tb) ''model''] ''Unknown Cisco device''"

definition device_address :: "'d dash_env \<Rightarrow> tables \<Rightarrow> string" where
  "device_address dx tb =
     first_text [map_option svi_ip (rc_management (tb_config tb)), dx_host dx, Some (dx_settings_host dx)] ''Unknown''"

definition source_namespace :: "'d dash_env \<Rightarrow> string" where
  "source_namespace dx = (if dx_mock dx then ''mock'' else ''physical'')"

definition placed_computer :: "'d dash_env \<Rightarrow> string \<Rightarrow> mac_table_entry list \<Rightarrow> arp_entry list \<Rightarrow> interface_status list \<Rightarrow> local_endpoint" where
  "placed_computer dx address macs arps interfaces =
     correlate_local_endpoint address macs arps interfaces (if dx_mock dx then [] else dx_adapters dx)"

definition collected_of :: "'d dash_env \<Rightarrow> tables \<Rightarrow> expected_relationship list \<Rightarrow> collected" where
  "collected_of dx tb expected =
     \<lparr>co_digest = dx_digest dx, co_registry = dx_registry dx, co_namespace = source_namespace dx,
      co_hostname = device_hostname tb, co_model = device_model tb, co_management_ip = device_address dx tb,
      co_interfaces = tb_interfaces tb, co_macs = tb_macs tb, co_poe = pr_ports (tb_poe tb), co_cdp = tb_cdp tb,
      co_lldp = ls_neighbors (tb_lldp tb), co_arp = tb_arps tb,
      co_local = Some (placed_computer dx (device_address dx tb) (tb_macs tb) (tb_arps tb) (tb_interfaces tb)),
      co_expected = expected, co_now = dx_now dx\<rparr>"

section \<open>The stores\<close>

definition fault :: "string \<Rightarrow> string \<Rightarrow> section_texts \<Rightarrow> section_texts" where
  "fault name why errs = dict_set name why errs"

definition expected_step :: "'d dash_env \<Rightarrow> tables \<Rightarrow> 'd site \<Rightarrow> section_texts \<Rightarrow> expected_relationship list \<times> section_texts" where
  "expected_step dx tb s errs =
     (if dx_fault dx ''topologyIntent'' then ([], fault ''topologyIntent'' ''persistence_failed'' errs)
      else (list_expected (switch_device_id (device_hostname tb) (source_namespace dx)) (st_intent s), errs))"

definition core_sections :: "string list" where
  "core_sections = [''interfaces'', ''macTable'', ''neighbors'', ''lldpSummary'', ''lldpDetail'', ''arp'']"

definition finished_observation :: "section_texts \<Rightarrow> bool" where
  "finished_observation errs = list_all (\<lambda>n. dict_get errs n = None) core_sections"

definition discovery_step ::
  "'d dash_env \<Rightarrow> topology_model \<Rightarrow> 'd site \<Rightarrow> section_texts \<Rightarrow> topology_model \<times> 'd site \<times> section_texts"
where
  "discovery_step dx tm s errs =
     (if dx_fault dx ''discoveryHistory'' then (tm, s, fault ''discoveryHistory'' ''persistence_failed'' errs)
      else
        (case apply_observation (dx_digest dx) (dx_iso dx) (finished_observation errs) (dx_now dx) tm (st_discovery s) of
           (tm', h) \<Rightarrow> (tm', s\<lparr>st_discovery := h\<rparr>, errs)))"

definition observation_of :: "'d dash_env \<Rightarrow> string \<Rightarrow> tables \<Rightarrow> observation" where
  "observation_of dx device tb =
     \<lparr>ob_device = device, ob_reachable = True, ob_cpu = tb_cpu tb, ob_memory = tb_memory tb,
      ob_environment = tb_environment tb, ob_poe = tb_poe tb, ob_interfaces = tb_interfaces tb, ob_errors = tb_errors tb,
      ob_macs = tb_macs tb, ob_at = dx_now dx\<rparr>"

text \<open>The deltas without a history.\<close>

definition plain_delta :: "interface_error_counters list \<Rightarrow> interface_status \<Rightarrow> interface_delta" where
  "plain_delta counters i =
     \<lparr>dl_port = ifs_port i, dl_previous_errors = None,
      dl_current_errors = (case last_row ec_port (ifs_port i) counters of None \<Rightarrow> 0 | Some c \<Rightarrow> ec_total c),
      dl_error_delta = None, dl_counter_state = Counter_first, dl_status_before = None, dl_status_after = ifs_status i,
      dl_admin_before = None, dl_admin_after = (if ifs_status i = ''disabled'' then ''down'' else ''up''),
      dl_speed_before = None, dl_speed_after = ifs_speed i, dl_duplex_before = None, dl_duplex_after = ifs_duplex i,
      dl_vlan_before = None, dl_vlan_after = ifs_vlan i, dl_poe_before = None, dl_poe_after = []\<rparr>"

definition plain_summary :: "'d dash_env \<Rightarrow> tables \<Rightarrow> snapshot_summary" where
  "plain_summary dx tb =
     \<lparr>ts_observed_at = dx_now dx, ts_previous_at = None, ts_history_available = False,
      ts_deltas = map (plain_delta (tb_errors tb)) (tb_interfaces tb), ts_retention = dx_retention dx\<rparr>"

definition telemetry_step ::
  "'d dash_env \<Rightarrow> string \<Rightarrow> tables \<Rightarrow> 'd site \<Rightarrow> section_texts \<Rightarrow> snapshot_summary \<times> 'd site \<times> section_texts"
where
  "telemetry_step dx device tb s errs =
     (let failed = (plain_summary dx tb, s, fault ''telemetry'' ''persistence_failed'' errs) in
      if dx_fault dx ''telemetry'' then failed
      else
        (case record_snapshot (dx_digest dx) (dx_snapshot dx) (observation_of dx device tb) (st_telemetry s) of
           (Inl _, _) \<Rightarrow> failed
         | (Inr summary, t) \<Rightarrow> (summary, s\<lparr>st_telemetry := t\<rparr>, errs)))"

definition drift_event :: "time \<Rightarrow> string \<Rightarrow> network_event" where
  "drift_event now device =
     \<lparr>ne_at = now, ne_device = device, ne_interface = None, ne_type = ''configuration_drift_detected'', ne_severity = ''NOTICE'',
      ne_title = ''Running configuration changed'',
      ne_detail = ''The running configuration differs from the preceding observation. '' @
        ''Change source is unknown or external to SwitchOps.'',
      ne_metadata = [(''source'', Meta_text ''external_or_unknown'')]\<rparr>"

definition record_events :: "network_event list \<Rightarrow> 'd site \<Rightarrow> 'd site" where
  "record_events es s = s\<lparr>st_telemetry := fold (\<lambda>e t. snd (store_event e t)) es (st_telemetry s)\<rparr>"

definition history_step ::
  "'d dash_env \<Rightarrow> string \<Rightarrow> tables \<Rightarrow> 'd site \<Rightarrow> section_texts \<Rightarrow> config_version list \<times> 'd site \<times> section_texts"
where
  "history_step dx device tb s errs =
     (let failed = ([], s, fault ''configurationHistory'' ''persistence_failed'' errs);
          listed = (\<lambda>s. (recent_versions (Some device) 50 (st_history s), s, errs))
      in if dx_fault dx ''configurationHistory'' then failed
         else if py_strip (tb_config_text tb) = [] then listed s
         else
           (case observe_config (dx_digest dx) (dx_diff dx) (dx_stamp dx) device (device_hostname tb) (tb_config_text tb)
               (dx_now dx) (st_history s) of
              (Inl _, _) \<Rightarrow> failed
            | (Inr (v, changed), h) \<Rightarrow>
                listed (record_events (if changed then [drift_event (dx_now dx) device] else []) (s\<lparr>st_history := h\<rparr>))))"

definition previous_of :: "time option \<Rightarrow> (string, string option \<times> bool) dict \<Rightarrow> interface_delta \<Rightarrow> (string \<times> previous_state) list" where
  "previous_of seen_at identities d =
     (let (label, identified) = get_default identities (dl_port d) (None, False) in
      if dl_status_before d = None \<and> label = None then []
      else [(dl_port d, \<lparr>ps_connected = (py_lower (or_empty (dl_status_before d)) = ''connected''),
               ps_identity = (if identified then label else None), ps_learned = 0, ps_at = seen_at\<rparr>)])"

definition previous_states_of :: "snapshot_summary \<Rightarrow> (string, string option \<times> bool) dict \<Rightarrow> (string, previous_state) dict" where
  "previous_states_of summary identities =
     fold (\<lambda>(p, v). dict_set p v) (concat (map (previous_of (ts_previous_at summary) identities) (ts_deltas summary))) []"

definition no_reconciliation :: "time \<Rightarrow> string \<Rightarrow> reconciliation_summary" where
  "no_reconciliation now device =
     \<lparr>rs_at = now, rs_device = device, rs_aligned = 0, rs_drift = 0, rs_expected_not_observed = 0, rs_unexpected = 0,
      rs_uncertain = 0, rs_changed = 0, rs_attention = False,
      rs_headline = ''Reconciliation unavailable for this observation.'', rs_interfaces = []\<rparr>"

definition reconciliation_step ::
  "'d dash_env \<Rightarrow> collected \<Rightarrow> topology_model \<Rightarrow> tables \<Rightarrow> snapshot_summary \<Rightarrow> 'd site \<Rightarrow> section_texts \<Rightarrow>
   reconciliation_summary \<times> 'd site \<times> section_texts"
where
  "reconciliation_step dx co tm tb summary s errs =
     (let device = tm_root tm in
      if dx_fault dx ''reconciliation''
      then (no_reconciliation (dx_now dx) device, s, fault ''reconciliation'' ''reconciliation_failed'' errs)
      else
        (let previous = previous_states_of summary (previous_observations device (st_intent s));
             result_summary = reconcile (dx_now dx) device (tb_interfaces tb)
               \<lparr>ip_tables = co, ip_gateway = rc_gateway (tb_config tb), ip_topology = Some tm\<rparr>
               (intent_provider_of (tb_interfaces tb) (co_expected co)) previous []
         in (case reconciliation_events device (dx_now dx) (rs_interfaces result_summary) (st_intent s) of
               (es, st) \<Rightarrow> (result_summary, record_events es (s\<lparr>st_intent := st\<rparr>), errs))))"

section \<open>The dashboard\<close>

record dashboard =
  db_summary :: switch_summary
  db_tables :: tables
  db_errors_healthy :: bool
  db_telemetry :: snapshot_summary
  db_events :: "(nat \<times> network_event) list"
  db_topology :: topology_model
  db_reconciliation :: reconciliation_summary
  db_snmp :: snmp_status
  db_history :: "config_version list"
  db_audit :: "audit_event list"
  db_section_errors :: section_texts

definition partial_text :: "string \<Rightarrow> section_texts \<Rightarrow> string" where
  "partial_text text_so_far errs =
     (if errs = [] then text_so_far
      else text_so_far @ '' Partial telemetry: '' @ py_join '', '' (map fst errs) @ '' unavailable.'')"

definition summary_of :: "'d dash_env \<Rightarrow> tables \<Rightarrow> snapshot_summary \<Rightarrow> section_texts \<Rightarrow> switch_summary" where
  "summary_of dx tb summary errs =
     (let sw = build_summary (tb_interfaces tb) (tb_environment tb) (tb_cpu tb) (tb_memory tb) (tb_poe tb) (ts_deltas summary)
        (dx_now dx) (errs = [])
      in sw\<lparr>sw_text := partial_text (sw_text sw) errs\<rparr>)"

definition grew :: "interface_delta \<Rightarrow> bool" where
  "grew d \<longleftrightarrow> dl_counter_state d \<in> {Counter_increased, Counter_wrapped} \<and> (case dl_error_delta d of None \<Rightarrow> 0 | Some n \<Rightarrow> n) > 0"

definition live_begin :: "'d dash_env \<Rightarrow> string \<Rightarrow> 'd site \<Rightarrow> 'd site" where
  "live_begin dx device s = s\<lparr>st_live := mark_fresh Deep (dx_now dx) ((st_live s)\<lparr>ls_device := Some device\<rparr>)\<rparr>"

definition live_end ::
  "'d dash_env \<Rightarrow> topology_model \<Rightarrow> switch_summary \<Rightarrow> reconciliation_summary \<Rightarrow> 'd site \<Rightarrow> 'd site"
where
  "live_end dx tm sw rs s =
     s\<lparr>st_live := apply_assurance_context (P_health (sw_health sw)) (P_reconciliation rs)
         (apply_topology (dx_gone dx) (dx_now dx) (P_topology tm) (st_live s))\<rparr>"

text \<open>From the parsed tables on, nothing raises.\<close>

definition finish_dashboard :: "'d dash_env \<Rightarrow> tables \<Rightarrow> section_texts \<Rightarrow> 'd site \<Rightarrow> dashboard \<times> 'd site" where
  "finish_dashboard dx tb errs s =
     (case expected_step dx tb s errs of (expected, errs1) \<Rightarrow>
      let co = collected_of dx tb expected in
      case discovery_step dx (build_topology co) s errs1 of (tm, s1, errs2) \<Rightarrow>
      case telemetry_step dx (tm_root tm) tb s1 errs2 of (summary, s2, errs3) \<Rightarrow>
      case history_step dx (tm_root tm) tb s2 errs3 of (versions, s3, errs4) \<Rightarrow>
      case reconciliation_step dx co tm tb summary (live_begin dx (tm_root tm) s3) errs4 of (rs, s4, errs5) \<Rightarrow>
      let sw = summary_of dx tb summary errs5; s5 = live_end dx tm sw rs s4 in
      (\<lparr>db_summary = sw, db_tables = tb, db_errors_healthy = \<not> list_ex grew (ts_deltas summary), db_telemetry = summary,
        db_events = recent_events 100 (Some (tm_root tm)) None None None (st_telemetry s5), db_topology = tm,
        db_reconciliation = rs, db_snmp = inspect_snmp_config (tb_config_text tb), db_history = versions,
        db_audit = audit_recent 100 (w_audit (st_world s5)), db_section_errors = errs5\<rparr>, s5))"

definition collect_dashboard :: "'d dash_env \<Rightarrow> 'd site \<Rightarrow> dashboard result \<times> 'd site" where
  "collect_dashboard dx s =
     (case read_sections (dx_env dx) section_commands (st_world s) of (outs, errs, w) \<Rightarrow>
      case protect_management dx (parse_tables outs) (st_policy s) of
        (Inl e, f) \<Rightarrow> (Inl e, s\<lparr>st_world := w, st_policy := f\<rparr>)
      | (Inr tb, f) \<Rightarrow>
          (case annotated dx f tb of
             Inl e \<Rightarrow> (Inl e, s\<lparr>st_world := w, st_policy := f\<rparr>)
           | Inr tb' \<Rightarrow>
               (case finish_dashboard dx tb' errs (s\<lparr>st_world := w, st_policy := f\<rparr>) of (d, s') \<Rightarrow> (Inr d, s'))))"

section \<open>The callbacks of the collectors\<close>

definition live_event :: "time \<Rightarrow> string \<Rightarrow> string \<Rightarrow> string \<Rightarrow> string \<Rightarrow> string \<Rightarrow> string \<Rightarrow> network_event" where
  "live_event now device port kind severity title detail =
     \<lparr>ne_at = now, ne_device = device, ne_interface = Some port, ne_type = kind, ne_severity = severity, ne_title = title,
      ne_detail = detail, ne_metadata = [(''source'', Meta_text ''live-fast'')]\<rparr>"

definition transition_event :: "time \<Rightarrow> string \<Rightarrow> interface_change \<Rightarrow> network_event list" where
  "transition_event now device c =
     (let e = ch_earlier c; a = ch_after c; port = ch_port c in
      if lv_oper e \<noteq> lv_oper a
      then (if lv_oper a = ''up''
            then [live_event now device port ''interface_link_up'' ''HEALTHY'' (port @ '' link established'')
                    (''Observed by live telemetry. Negotiated '' @ lv_speed a @ '' '' @ lv_duplex a @ ''.'')]
            else [live_event now device port ''interface_link_down'' ''NOTICE'' (port @ '' link lost'')
                    ''The switch no longer detects an Ethernet link on this interface.''])
      else if lv_admin e \<noteq> lv_admin a
      then [live_event now device port ''interface_admin_changed'' ''NOTICE''
              (port @ '' administratively '' @ (if lv_admin a = ''up'' then ''enabled'' else ''disabled''))
              (''The interface'' @ [CHR 0x27] @ ''s administrative state changed.'')]
      else if lv_description e \<noteq> lv_description a
      then [live_event now device port ''interface_description_changed'' ''NOTICE'' (port @ '' description changed'')
              (''The interface description is now '' @ py_repr (lv_description a) @ ''.'')]
      else [])"

text \<open>The device is known after the first deep observation; an event that the storage refuses is dropped.\<close>

definition record_interface_transitions :: "(string \<Rightarrow> bool) \<Rightarrow> time \<Rightarrow> interface_change list \<Rightarrow> 'd site \<Rightarrow> 'd site" where
  "record_interface_transitions refused now changes s =
     (case ls_device (st_live s) of
        None \<Rightarrow> s
      | Some device \<Rightarrow>
          if device = [] then s
          else record_events (concat (map (transition_event now device) (filter (\<lambda>c. \<not> refused (ch_port c)) changes))) s)"

definition poe_transition :: "time \<Rightarrow> string \<Rightarrow> poe_change \<Rightarrow> network_event" where
  "poe_transition now device c =
     (let active = (py_lower (po_after c) \<notin> {[], ''off'', ''n/a'', ''faulty'', ''deny''});
          named = (\<lambda>v. if v = [] then ''unknown'' else v)
      in \<lparr>ne_at = now, ne_device = device, ne_interface = Some (po_port c), ne_type = ''poe_state_changed'',
          ne_severity = (if active then ''HEALTHY'' else ''NOTICE''),
          ne_title = ''PoE '' @ (if active then ''started'' else ''stopped'') @ '' on '' @ po_port c,
          ne_detail = ''Observed PoE operational state changed from '' @ named (po_earlier c) @ '' to '' @ named (po_after c) @ ''.'',
          ne_metadata = [(''source'', Meta_text ''live-medium''), (''watts'', Meta_num (po_watts c))]\<rparr>)"

definition record_poe_transitions :: "(string \<Rightarrow> bool) \<Rightarrow> time \<Rightarrow> poe_change list \<Rightarrow> 'd site \<Rightarrow> 'd site" where
  "record_poe_transitions refused now changes s =
     (case ls_device (st_live s) of
        None \<Rightarrow> s
      | Some device \<Rightarrow>
          if device = [] then s
          else record_events (map (poe_transition now device) (filter (\<lambda>c. \<not> refused (po_port c)) changes)) s)"

definition status_of_live :: "live_interface \<Rightarrow> interface_status" where
  "status_of_live i =
     \<lparr>ifs_port = lv_port i, ifs_name = lv_description i, ifs_status = lv_status i, ifs_vlan = lv_vlan i,
      ifs_duplex = lv_duplex i, ifs_speed = lv_speed i, ifs_type = [], ifs_protected = lv_protected i,
      ifs_policy_state = lv_policy i\<rparr>"

definition poe_of_live :: "live_interface \<Rightarrow> poe_port list" where
  "poe_of_live i =
     (if lv_poe_state i = [] then []
      else [\<lparr>pp_interface = lv_port i, pp_admin = [], pp_oper = lv_poe_state i, pp_power_watts = lv_poe_watts i,
             pp_device = ''n/a'', pp_class = ''n/a'', pp_max_watts = 30\<rparr>])"

definition cached_topology :: "'d site \<Rightarrow> topology_model option" where
  "cached_topology s = (case ls_topology (st_live s) of Some (P_topology tm) \<Rightarrow> Some tm | _ \<Rightarrow> None)"

definition cached_root :: "topology_model \<Rightarrow> network_device option" where
  "cached_root tm = find (\<lambda>d. nd_id d = tm_root tm) (tm_devices tm)"

definition slow_collected ::
  "'d dash_env \<Rightarrow> network_device \<Rightarrow> string \<Rightarrow> slow_payload \<Rightarrow> time \<Rightarrow> 'd site \<Rightarrow> collected"
where
  "slow_collected dx own device payload now s =
     (let lives = shown_interfaces (st_live s); interfaces = map status_of_live lives;
          address = first_text [nd_ip own] ''Unknown''
      in \<lparr>co_digest = dx_digest dx, co_registry = dx_registry dx, co_namespace = source_namespace dx, co_hostname = nd_name own,
          co_model = first_text [nd_model own] ''Unknown Cisco device'', co_management_ip = address,
          co_interfaces = interfaces, co_macs = sp_macs payload, co_poe = concat (map poe_of_live lives),
          co_cdp = sp_cdp payload, co_lldp = sp_lldp payload, co_arp = sp_arps payload,
          co_local = Some (placed_computer dx address (sp_macs payload) (sp_arps payload) interfaces),
          co_expected = list_expected device (st_intent s), co_now = now\<rparr>)"

definition show_topology :: "'d dash_env \<Rightarrow> time \<Rightarrow> topology_model \<times> discovery_history \<Rightarrow> 'd site \<Rightarrow> 'd site" where
  "show_topology dx now r s =
     s\<lparr>st_discovery := snd r, st_live := apply_topology (dx_gone dx) now (P_topology (fst r)) (st_live s)\<rparr>"

definition record_slow_discovery :: "'d dash_env \<Rightarrow> slow_payload \<Rightarrow> time \<Rightarrow> 'd site \<Rightarrow> 'd site" where
  "record_slow_discovery dx payload now s =
     (case cached_topology s of
        None \<Rightarrow> s
      | Some cached \<Rightarrow>
          (case cached_root cached of
             None \<Rightarrow> s
           | Some own \<Rightarrow>
               if shown_interfaces (st_live s) = [] \<or> dx_fault dx ''topologyIntent'' \<or> dx_fault dx ''discoveryHistory'' then s
               else show_topology dx now
                 (apply_observation (dx_digest dx) (dx_iso dx) True now
                   (build_topology (slow_collected dx own (tm_root cached) payload now s)) (st_discovery s)) s))"

definition record_slow_failure :: "'d dash_env \<Rightarrow> time \<Rightarrow> 'd site \<Rightarrow> 'd site" where
  "record_slow_failure dx now s =
     (case cached_topology s of
        None \<Rightarrow> s
      | Some cached \<Rightarrow>
          (case cached_root cached of
             None \<Rightarrow> s
           | Some own \<Rightarrow>
               if observation_count (tm_root cached) (st_discovery s) = 0 \<or> dx_fault dx ''discoveryHistory'' then s
               else show_topology dx now
                 (apply_observation (dx_digest dx) (dx_iso dx) False now
                   \<lparr>tm_generated_at = now, tm_root = tm_root cached, tm_devices = [own], tm_interfaces = tm_interfaces cached,
                    tm_links = [], tm_evidence = [], tm_expectations = tm_expectations cached, tm_historical = []\<rparr>
                   (st_discovery s)) s))"

end
