(* ===== verification/Dashboard_Properties.thy ===== *)
theory Dashboard_Properties
  imports Dashboard
begin

text \<open>
  Properties of the observation in the theory \<open>Dashboard\<close>: it sends nothing to the switch and leaves the
  operator's intent alone, and an observation with a failed discovery section ends no device.
\<close>

section \<open>What the steps leave alone\<close>

lemma quiet_sections: "read_sections env cs w = (outs, errs, w') \<Longrightarrow> quiet w w'"
proof (induction cs arbitrary: w outs errs w')
  case (Cons c cs)
  obtain name symbol where c: "c = (name, symbol)" by (cases c)
  obtain r w1 where run: "run_and_audit env symbol ''system'' w = (r, w1)" by fastforce
  obtain outs1 errs1 w2 where rest: "read_sections env cs w1 = (outs1, errs1, w2)" by (metis prod.exhaust)
  have "w' = w2" using Cons.prems by (auto simp: c run rest Let_def split: prod.splits)
  then show ?case
    using quiet_trans [OF quiet_actD [OF quiet_run_and_audit run] Cons.IH [OF rest]] by simp
qed simp

text \<open>A step keeps the world, the policy and the recorded intent.\<close>

definition keeps :: "'d site \<Rightarrow> 'd site \<Rightarrow> bool" where
  "keeps s s' \<longleftrightarrow> st_world s' = st_world s \<and> st_policy s' = st_policy s \<and>
     is_expected (st_intent s') = is_expected (st_intent s)"

lemma keeps_refl [simp]: "keeps s s"
  by (simp add: keeps_def)

lemma keeps_trans: "keeps s t \<Longrightarrow> keeps t u \<Longrightarrow> keeps s u"
  by (simp add: keeps_def)

lemma keeps_discovery: "discovery_step dx tm s errs = (tm', s', errs') \<Longrightarrow> keeps s s'"
  by (auto simp: discovery_step_def keeps_def split: if_split_asm prod.splits)

lemma keeps_telemetry: "telemetry_step dx device tb s errs = (x, s', errs') \<Longrightarrow> keeps s s'"
  by (auto simp: telemetry_step_def keeps_def Let_def split: if_split_asm prod.splits sum.splits)

lemma record_events_keeps [simp]: "keeps s (record_events es s)" "st_discovery (record_events es s) = st_discovery s"
  by (simp_all add: record_events_def keeps_def)

lemma history_step_keeps:
  assumes "history_step dx device tb s errs = (x, s', errs')"
  shows "keeps s s' \<and> st_discovery s' = st_discovery s \<and>
    (errs' = errs \<or> errs' = fault ''configurationHistory'' ''persistence_failed'' errs)"
  using assms
  by (auto simp: history_step_def Let_def keeps_def record_events_def split: if_split_asm prod.splits sum.splits)

lemma reconciliation_events_expected:
  "reconciliation_events device now rs st = (es, st') \<Longrightarrow> is_expected st' = is_expected st"
proof (induction rs arbitrary: st es st')
  case (Cons r rs)
  obtain fs st1 where one: "interface_events device now r st = (fs, st1)" by fastforce
  then have "is_expected st1 = is_expected st"
    by (auto simp: interface_events_def observe_reconciliation_def put_seen_def Let_def)
  moreover obtain gs st2 where rest: "reconciliation_events device now rs st1 = (gs, st2)" by fastforce
  ultimately show ?case using Cons.prems Cons.IH [OF rest] by (auto simp: one)
qed simp

lemma reconciliation_step_keeps:
  assumes "reconciliation_step dx co tm tb summary s errs = (x, s', errs')"
  shows "keeps s s' \<and> st_discovery s' = st_discovery s \<and>
    (errs' = errs \<or> errs' = fault ''reconciliation'' ''reconciliation_failed'' errs)"
  using assms
  by (auto simp: reconciliation_step_def Let_def keeps_def record_events_def split: if_split_asm prod.splits
      dest: reconciliation_events_expected)

lemma live_keeps [simp]:
  "keeps s (live_begin dx device s)" "keeps s (live_end dx tm sw rs s)"
  "st_discovery (live_begin dx device s) = st_discovery s" "st_discovery (live_end dx tm sw rs s) = st_discovery s"
  by (simp_all add: live_begin_def live_end_def keeps_def)

lemma telemetry_step_discovery:
  "telemetry_step dx device tb s errs = (x, s', errs') \<Longrightarrow>
    st_discovery s' = st_discovery s \<and> (errs' = errs \<or> errs' = fault ''telemetry'' ''persistence_failed'' errs)"
  by (auto simp: telemetry_step_def Let_def split: if_split_asm prod.splits sum.splits)

text \<open>The finished dashboard as its five steps.\<close>

lemma finish_steps:
  assumes "finish_dashboard dx tb errs s = (d, s')"
  obtains expected errs1 tm s1 errs2 summary s2 errs3 versions s3 errs4 rs s4 where
    "expected_step dx tb s errs = (expected, errs1)"
    "discovery_step dx (build_topology (collected_of dx tb expected)) s errs1 = (tm, s1, errs2)"
    "telemetry_step dx (tm_root tm) tb s1 errs2 = (summary, s2, errs3)"
    "history_step dx (tm_root tm) tb s2 errs3 = (versions, s3, errs4)"
    "reconciliation_step dx (collected_of dx tb expected) tm tb summary (live_begin dx (tm_root tm) s3) errs4 =
       (rs, s4, db_section_errors d)"
    "s' = live_end dx tm (summary_of dx tb summary (db_section_errors d)) rs s4"
proof -
  obtain expected errs1 where 1: "expected_step dx tb s errs = (expected, errs1)" by fastforce
  let ?co = "collected_of dx tb expected"
  obtain tm s1 errs2 where 2: "discovery_step dx (build_topology ?co) s errs1 = (tm, s1, errs2)" by (metis prod.exhaust)
  obtain summary s2 errs3 where 3: "telemetry_step dx (tm_root tm) tb s1 errs2 = (summary, s2, errs3)" by (metis prod.exhaust)
  obtain versions s3 errs4 where 4: "history_step dx (tm_root tm) tb s2 errs3 = (versions, s3, errs4)" by (metis prod.exhaust)
  obtain rs s4 errs5 where 5: "reconciliation_step dx ?co tm tb summary (live_begin dx (tm_root tm) s3) errs4 = (rs, s4, errs5)"
    by (metis prod.exhaust)
  have "db_section_errors d = errs5" "s' = live_end dx tm (summary_of dx tb summary errs5) rs s4"
    using assms by (auto simp: finish_dashboard_def 1 2 3 4 5 Let_def)
  then show ?thesis using 1 2 3 4 5 that by blast
qed

lemma finish_keeps:
  assumes "finish_dashboard dx tb errs s = (d, s')"
  shows "keeps s s'"
  using assms
proof (rule finish_steps)
  fix expected errs1 tm s1 errs2 summary s2 errs3 versions s3 errs4 rs s4
  assume steps: "discovery_step dx (build_topology (collected_of dx tb expected)) s errs1 = (tm, s1, errs2)"
    "telemetry_step dx (tm_root tm) tb s1 errs2 = (summary, s2, errs3)"
    "history_step dx (tm_root tm) tb s2 errs3 = (versions, s3, errs4)"
    "reconciliation_step dx (collected_of dx tb expected) tm tb summary (live_begin dx (tm_root tm) s3) errs4 =
       (rs, s4, db_section_errors d)"
    "s' = live_end dx tm (summary_of dx tb summary (db_section_errors d)) rs s4"
  have "keeps s s3"
    using keeps_discovery [OF steps(1)] keeps_telemetry [OF steps(2)] history_step_keeps [OF steps(3)] keeps_trans by blast
  moreover have "keeps s3 s4"
    using reconciliation_step_keeps [OF steps(4)] live_keeps(1) keeps_trans by blast
  ultimately show ?thesis using steps(5) live_keeps(2) keeps_trans by blast
qed

text \<open>The collection as its reading, the protection of the management interface, and the rest.\<close>

lemma collect_steps:
  assumes "collect_dashboard dx s = (r, s')"
  obtains outs errs w p f where
    "read_sections (dx_env dx) section_commands (st_world s) = (outs, errs, w)"
    "protect_management dx (parse_tables outs) (st_policy s) = (p, f)"
    "(\<exists>e. r = Inl e \<and> s' = s\<lparr>st_world := w, st_policy := f\<rparr>) \<or>
     (\<exists>d tb. r = Inr d \<and> finish_dashboard dx tb errs (s\<lparr>st_world := w, st_policy := f\<rparr>) = (d, s'))"
proof -
  obtain outs errs w where 1: "read_sections (dx_env dx) section_commands (st_world s) = (outs, errs, w)" by (metis prod.exhaust)
  obtain p f where 2: "protect_management dx (parse_tables outs) (st_policy s) = (p, f)" by fastforce
  have "(\<exists>e. r = Inl e \<and> s' = s\<lparr>st_world := w, st_policy := f\<rparr>) \<or>
     (\<exists>d tb. r = Inr d \<and> finish_dashboard dx tb errs (s\<lparr>st_world := w, st_policy := f\<rparr>) = (d, s'))"
    using assms by (auto simp: collect_dashboard_def 1 2 split: sum.splits prod.splits)
  then show ?thesis using 1 2 that by blast
qed

text \<open>C39: an observation, complete or not, sends no configuration and writes no backup; it only adds to the
  audit trail, and what the operator recorded as intent stays as it is.\<close>

theorem observing_changes_nothing:
  assumes "collect_dashboard dx s = (r, s')"
  shows "w_sent (st_world s') = w_sent (st_world s) \<and> w_backups (st_world s') = w_backups (st_world s) \<and>
    prefix (w_audit (st_world s)) (w_audit (st_world s')) \<and> is_expected (st_intent s') = is_expected (st_intent s)"
  using assms
proof (rule collect_steps)
  fix outs errs w p f
  assume read: "read_sections (dx_env dx) section_commands (st_world s) = (outs, errs, w)"
    and rest: "(\<exists>e. r = Inl e \<and> s' = s\<lparr>st_world := w, st_policy := f\<rparr>) \<or>
     (\<exists>d tb. r = Inr d \<and> finish_dashboard dx tb errs (s\<lparr>st_world := w, st_policy := f\<rparr>) = (d, s'))"
  have "keeps (s\<lparr>st_world := w, st_policy := f\<rparr>) s'" using rest by (auto dest: finish_keeps)
  then show ?thesis using quiet_sections [OF read] by (simp add: keeps_def quiet_def)
qed

section \<open>A failed section ends nothing\<close>

lemma core_names: "n \<in> set core_sections \<Longrightarrow>
    n \<noteq> ''topologyIntent'' \<and> n \<noteq> ''discoveryHistory'' \<and> n \<noteq> ''telemetry'' \<and> n \<noteq> ''configurationHistory'' \<and> n \<noteq> ''reconciliation''"
  by (auto simp: core_sections_def)

lemma discovery_step_active:
  assumes "discovery_step dx tm s errs = (tm', s', errs')" "\<not> finished_observation errs"
    and "dict_get (dh_entities (st_discovery s)) k = Some row" "en_active row"
  shows "\<exists>row'. dict_get (dh_entities (st_discovery s')) k = Some row' \<and> en_active row' \<and> en_first row' = en_first row"
proof -
  obtain device i where k: "k = (device, i)" by (cases k)
  have "row_view (snd (apply_observation (dx_digest dx) (dx_iso dx) False (dx_now dx) tm (st_discovery s))) k =
      Some (en_first row, True)"
    using apply_view [OF assms(3) [unfolded k], of "dx_digest dx" "dx_iso dx" False "dx_now dx" tm] assms(4) by (simp add: k)
  then show ?thesis
    using assms by (auto simp: discovery_step_def row_view_def split: if_split_asm prod.splits)
qed

lemma finish_core:
  assumes "finish_dashboard dx tb errs s = (d, s')" "n \<in> set core_sections"
  obtains tm tm' s1 errs1 errs2 where "discovery_step dx tm s errs1 = (tm', s1, errs2)" "st_discovery s' = st_discovery s1"
    "dict_get errs1 n = dict_get errs n" "dict_get (db_section_errors d) n = dict_get errs n"
  using assms(1)
proof (rule finish_steps)
  fix expected errs1 tm s1 errs2 summary s2 errs3 versions s3 errs4 rs s4
  assume steps: "expected_step dx tb s errs = (expected, errs1)"
    "discovery_step dx (build_topology (collected_of dx tb expected)) s errs1 = (tm, s1, errs2)"
    "telemetry_step dx (tm_root tm) tb s1 errs2 = (summary, s2, errs3)"
    "history_step dx (tm_root tm) tb s2 errs3 = (versions, s3, errs4)"
    "reconciliation_step dx (collected_of dx tb expected) tm tb summary (live_begin dx (tm_root tm) s3) errs4 =
       (rs, s4, db_section_errors d)"
    "s' = live_end dx tm (summary_of dx tb summary (db_section_errors d)) rs s4"
  note n = core_names [OF assms(2)]
  have late: "dict_get (fault m e x) n = dict_get x n" if "m \<noteq> n" for m e x
    using that by (simp add: fault_def)
  have "dict_get errs1 n = dict_get errs n"
    using steps(1) n late by (auto simp: expected_step_def split: if_split_asm)
  moreover have "dict_get errs2 n = dict_get errs1 n"
    using steps(2) n late by (auto simp: discovery_step_def split: if_split_asm prod.splits)
  moreover have "dict_get (db_section_errors d) n = dict_get errs2 n"
    using telemetry_step_discovery [OF steps(3)] history_step_keeps [OF steps(4)] reconciliation_step_keeps [OF steps(5)] n late
    by metis
  moreover have "st_discovery s' = st_discovery s1"
    using telemetry_step_discovery [OF steps(3)] history_step_keeps [OF steps(4)] reconciliation_step_keeps [OF steps(5)] steps(6)
    by simp
  ultimately show ?thesis by (intro that [OF steps(2)]) simp_all
qed

lemma finish_active:
  assumes "finish_dashboard dx tb errs s = (d, s')" "n \<in> set core_sections" "dict_get (db_section_errors d) n \<noteq> None"
    and "dict_get (dh_entities (st_discovery s)) k = Some row" "en_active row"
  shows "\<exists>row'. dict_get (dh_entities (st_discovery s')) k = Some row' \<and> en_active row' \<and> en_first row' = en_first row"
proof (rule finish_core [OF assms(1,2)])
  fix tm tm' s1 errs1 errs2
  assume step: "discovery_step dx tm s errs1 = (tm', s1, errs2)" "st_discovery s' = st_discovery s1"
    "dict_get errs1 n = dict_get errs n" "dict_get (db_section_errors d) n = dict_get errs n"
  then have "\<not> finished_observation errs1"
    using assms(2,3) unfolding finished_observation_def list_all_iff by metis
  then show ?thesis using discovery_step_active [OF step(1)] assms(4,5) step(2) by simp
qed

text \<open>C40: an observation whose dashboard reports a failed discovery section ends no device of the history: a
  device that was active stays active and keeps the time it was first seen.\<close>

theorem failed_section_ends_nothing:
  assumes "collect_dashboard dx s = (Inr d, s')"
    and "n \<in> set core_sections" "dict_get (db_section_errors d) n \<noteq> None"
    and "dict_get (dh_entities (st_discovery s)) k = Some row" "en_active row"
  shows "\<exists>row'. dict_get (dh_entities (st_discovery s')) k = Some row' \<and> en_active row' \<and> en_first row' = en_first row"
  using assms(1)
proof (rule collect_steps)
  fix outs errs w p f
  assume "(\<exists>e. Inr d = (Inl e :: dashboard result) \<and> s' = s\<lparr>st_world := w, st_policy := f\<rparr>) \<or>
     (\<exists>d' tb. Inr d = (Inr d' :: dashboard result) \<and> finish_dashboard dx tb errs (s\<lparr>st_world := w, st_policy := f\<rparr>) = (d', s'))"
  then obtain tb where "finish_dashboard dx tb errs (s\<lparr>st_world := w, st_policy := f\<rparr>) = (d, s')" by auto
  from finish_active [OF this assms(2,3), of k row] assms(4,5) show ?thesis by simp
qed

section \<open>Witnesses\<close>

text \<open>A switch that answers no command, and a history with one active device of it.\<close>

definition silent_env :: "demo_switch env" where
  "silent_env = demo_env\<lparr>dev_run := (\<lambda>_ d. (Inl (SwitchConnectionError ''closed''), d))\<rparr>"

definition silent_dash :: "demo_switch dash_env" where
  "silent_dash =
     \<lparr>dx_env = silent_env, dx_device_digest = id, dx_digest = id, dx_registry = (\<lambda>_. None), dx_iso = py_str_int,
      dx_stamp = py_str_int, dx_diff = (\<lambda>a b c d. b), dx_host = None, dx_settings_host = [], dx_mock = False,
      dx_adapters = [], dx_now = 9, dx_snapshot = ''s1'', dx_retention = 30, dx_fault = (\<lambda>_. False), dx_gone = (\<lambda>_. False)\<rparr>"

definition silent_site :: "demo_switch site" where
  "silent_site =
     \<lparr>st_world = demo_world, st_policy = NoFile, st_intent = empty_intent, st_discovery = kept_history,
      st_telemetry = open_telemetry 30, st_history = empty_history, st_live = new_live_state\<rparr>"

lemma silent_run: "isl (fst (run_and_audit silent_env symbol actor w))"
  by (auto simp: run_and_audit_def client_run_def silent_env_def demo_env_def store_record_def audit_record_def Let_def
      split: sum.splits)

lemma silent_read:
  "\<exists>w'. read_sections silent_env cs w = (map (\<lambda>c. (fst c, [])) cs, map (\<lambda>c. (fst c, ''command_failed'')) cs, w')"
proof (induction cs arbitrary: w)
  case (Cons c cs)
  obtain name symbol where c: "c = (name, symbol)" by (cases c)
  obtain e w1 where run: "run_and_audit silent_env symbol ''system'' w = (Inl e, w1)"
    using silent_run [of symbol "''system''" w] by (cases "run_and_audit silent_env symbol ''system'' w") (auto simp: isl_def)
  show ?case using Cons.IH [of w1] by (auto simp: c run section_result_def Let_def)
qed simp

lemma silent_collect:
  obtains d s' where "collect_dashboard silent_dash silent_site = (Inr d, s')" "dict_get (db_section_errors d) ''arp'' \<noteq> None"
proof -
  let ?outs = "map (\<lambda>c. (fst c, [])) section_commands :: section_texts" and ?errs = "map (\<lambda>c. (fst c, ''command_failed'')) section_commands"
  let ?tb = "parse_tables ?outs"
  obtain w where read: "read_sections silent_env section_commands demo_world = (?outs, ?errs, w)" using silent_read by blast
  have "get_default ?outs ''interfaces'' [] = []" by (simp add: section_commands_def get_default_def)
  moreover have "parse_interface_status [] = []" by code_simp
  ultimately have "tb_interfaces ?tb = []" by (simp add: parse_tables_def)
  then have "annotated silent_dash NoFile ?tb = Inr (?tb\<lparr>tb_interfaces := []\<rparr>)"
    by (simp add: annotated_def annotate_def)
  moreover have "protect_management silent_dash ?tb NoFile = (Inr ?tb, NoFile)"
    by (simp add: protect_management_def management_svi_def silent_dash_def or_empty_def)
  ultimately obtain d s' where fin: "finish_dashboard silent_dash (?tb\<lparr>tb_interfaces := []\<rparr>) ?errs
      (silent_site\<lparr>st_world := w, st_policy := NoFile\<rparr>) = (d, s')"
    and col: "collect_dashboard silent_dash silent_site = (Inr d, s')"
    using read by (cases "finish_dashboard silent_dash (?tb\<lparr>tb_interfaces := []\<rparr>) ?errs
      (silent_site\<lparr>st_world := w, st_policy := NoFile\<rparr>)")
      (auto simp: collect_dashboard_def silent_dash_def silent_site_def)
  have "''arp'' \<in> set core_sections" by (simp add: core_sections_def)
  then have "dict_get (db_section_errors d) ''arp'' = dict_get ?errs ''arp''"
    by (rule finish_core [OF fin])
  moreover have "dict_get ?errs ''arp'' = Some ''command_failed''" by (simp add: section_commands_def)
  ultimately show ?thesis using col that by simp
qed

theorem failed_section_ends_nothing_witness:
  "\<exists>row. dict_get (dh_entities (st_discovery (snd (collect_dashboard silent_dash silent_site))))
    (tm_root (build_topology quiet_tables), ''e1'') = Some row \<and> en_active row \<and> en_first row = 3"
proof (rule silent_collect)
  fix d s'
  assume run: "collect_dashboard silent_dash silent_site = (Inr d, s')" and arp: "dict_get (db_section_errors d) ''arp'' \<noteq> None"
  let ?k = "(tm_root (build_topology quiet_tables), ''e1'')"
  let ?row = "\<lparr>en_first = 3, en_last = 5, en_interface = None, en_active = True, en_body = root_device quiet_tables, en_link = None\<rparr>"
  have "dict_get (dh_entities (st_discovery silent_site)) ?k = Some ?row" "''arp'' \<in> set core_sections"
    by (simp_all add: silent_site_def kept_history_def core_sections_def)
  from failed_section_ends_nothing [OF run this(2) arp this(1)] show ?thesis using run by simp
qed

theorem observing_changes_nothing_witness:
  "w_sent (st_world (snd (collect_dashboard silent_dash silent_site))) = [] \<and>
   is_expected (st_intent (snd (collect_dashboard silent_dash silent_site))) = []"
  using observing_changes_nothing [OF prod.collapse [symmetric], of silent_dash silent_site]
  by (simp add: silent_site_def demo_world_def empty_intent_def)

end
