(* ===== verification/Spec2Isabelle.thy ===== *)
theory Spec2Isabelle
  imports Operation_Properties Change_Properties Reconciliation_Properties Device_Session_Properties
    Health Unified_Properties Planner Configuration_History Guide Live_Properties Dashboard_Properties
begin

text \<open>
  Verification development for SwitchOps, a local operator console for Cisco Catalyst switches
  (Python, \<open>backend/app\<close>). The program observes one switch over one serialised session, keeps what it saw
  in local stores, compares it with what the operator expects, and lets the operator change a small catalogue
  of interface settings behind a write lock and a per-interface policy. The theories model those parts as
  total, executable HOL functions over explicit states and prove what the parts promise and what the
  composition of them promises.

  \<^bold>\<open>Parts and theories.\<close> Each theory opens with what it holds; paths are under \<open>backend/app\<close>.

  \<^item> \<open>Prelude\<close>, \<open>Regex\<close>: Python strings, lists, dictionaries (association lists in insertion order), decimal
    printing, and the part of \<open>re\<close> the program uses, as a backtracking matcher with Python's priorities.
  \<^item> \<open>Errors\<close> (\<open>errors.py\<close>), \<open>Models\<close> (\<open>models.py\<close>; the classes of one component stand in its theory).
  \<^item> \<open>Command_Registry\<close> (\<open>command_registry.py\<close>): the allowlists, \<open>normalize_interface\<close>,
    \<open>build_write_action\<close>. \<open>Interface_Policy\<close> (\<open>interface_policy.py\<close>): the policy file as the JSON value read
    from disk; \<open>policy_guard\<close> is the contract of \<open>assert_operable\<close>.
  \<^item> \<open>Redaction\<close> (\<open>logging_config.py\<close>, \<open>parsers/config_parser.py\<close>), \<open>Audit_Log\<close> (\<open>audit_store.py\<close>).
  \<^item> \<open>Parse_Ports\<close>, \<open>Parse_Neighbors\<close>, \<open>Parse_Device\<close> (\<open>parsers/*.py\<close>): every table parser.
  \<^item> \<open>Operations\<close>, \<open>Operation_Properties\<close> (\<open>operations.py\<close>, \<open>tools/\<close>): \<open>run_operation\<close> with its stages. The
    state \<open>world\<close> is the state of the switch with the audit trail, the stored backups, the text sent and the
    text asked; each stage takes it and returns it with a result or an error.
  \<^item> \<open>Change_Models\<close>, \<open>Change_Store\<close>, \<open>Change_Assurance\<close>, \<open>Change_Service\<close>, \<open>Change_Sessions\<close>,
    \<open>Change_Properties\<close> (\<open>change_models.py\<close>, \<open>change_store.py\<close>, \<open>change_assurance.py\<close>): plans, preflights,
    comparisons and the service that runs an operation inside a stored session; the service state is the
    session table with the world.
  \<^item> \<open>Discovery_Evidence\<close>, \<open>Topology_Names\<close>, \<open>Topology\<close>, \<open>Discovery\<close>, \<open>Discovery_Store\<close>
    (\<open>discovery_evidence.py\<close>, \<open>topology.py\<close>, \<open>discovery.py\<close>, \<open>discovery_store.py\<close>): facts, the model built from
    them, recognition of the local computer, and the history of what was seen.
  \<^item> \<open>Intent_Store\<close>, \<open>Reconciliation\<close>, \<open>Reconciliation_Properties\<close> (\<open>intent_store.py\<close>,
    \<open>reconciliation.py\<close>): recorded expectations and the verdict per interface.
  \<^item> \<open>Device_Session\<close>, \<open>Device_Session_Properties\<close> (\<open>device_session.py\<close>): the queue, the worker and its
    backoff; the threads are the step relation \<open>manager_step\<close>.
  \<^item> \<open>Telemetry\<close>, \<open>Telemetry_Properties\<close>, \<open>Health\<close>, \<open>Configuration_History\<close>, \<open>Planner\<close>, \<open>Guide\<close>
    (\<open>telemetry_store.py\<close>, \<open>health_logic.py\<close>, \<open>configuration_history.py\<close>, \<open>planner.py\<close>, \<open>guide.py\<close>).
  \<^item> \<open>Unified_Evidence\<close>, \<open>Unified_State\<close>, \<open>Unified_Properties\<close> (\<open>unified_models.py\<close>,
    \<open>identity_protection.py\<close>, \<open>normalized_evidence.py\<close>, \<open>identity_resolution.py\<close>,
    \<open>unified_reconciliation.py\<close>, \<open>unified_store.py\<close>, \<open>unified_service.py\<close>): records of several providers, the
    links between them, and the union-find that merges them.
  \<^item> \<open>Live_State\<close>, \<open>Live_Properties\<close> (\<open>live_state.py\<close>): the hub, the live picture and the collectors.
  \<^item> \<open>Dashboard\<close>, \<open>Dashboard_Properties\<close> (\<open>main.py\<close>): \<open>_collect_dashboard\<close> and the callbacks of the
    collectors, which compose most of the parts above over one \<open>site\<close>.
  \<^bold>\<open>How the parts interact.\<close> A write runs \<open>execute\<close> (session), \<open>run_operation\<close> (lock, policy, backup, commands,
  verification, rollback), the device session, and the audit trail. An observation reads through the same
  session, then feeds the topology, the discovery history, telemetry, configuration history, reconciliation
  and health. The interfaces between them are locales: \<open>keyed_store\<close> (what a lookup
  returns after a put or a removal), \<open>document_store\<close> over it (tables of documents under their own key, with
  an invariant), and \<open>write_gate\<close> (what a granted guard establishes). The first is interpreted on the
  dictionaries, the second on the session table and on both tables of the intent store, the third on
  \<open>policy_guard\<close>, each in the theory that provides the operations.

  \<^bold>\<open>What the lemmas show.\<close> Safety of the write path: what is sent, to which interface, behind which gates, after
  which backup and which stored document; refinement of \<open>run_operation\<close> to the abstract \<open>spec_operation\<close>;
  meaning of success and of a rollback. Sessions: transitions, evidence behind each final status, recovery,
  settlement of every execution. Parsers: round trip of the status table, consistency of counters. Topology
  and reconciliation: endpoints, resolving references, when a verdict is earned, events raised once. Stores:
  well-formedness over every reachable state, absence only after complete observations. Session and
  collectors: each job in exactly one place, no interleaving unless a stop gives up waiting, bounded queues,
  spacing of the loop's jobs, how many ticks can wait. Identity: the
  union-find ends and computes the classes of the confirmed links. Secrets: registered ones that do
  not overlap the marker reach neither a redacted text nor the redacted columns of the trail.

  \<^bold>\<open>Fuel and bounds.\<close> \<open>rx_pieces\<close> (\<open>findall\<close>, \<open>split\<close>) runs on fuel one more than the length of the text, and
  each round consumes a character or moves one position, so it is never used up. The queue items of a drain
  shrink with each step, which is the measure of \<open>worker_drain\<close>. The loops of the union-find are
  \<open>while_option\<close>, and its ending is a property. Counters of the interfaces are 32-bit words in the statement
  about them. The hub keeps 64 messages for a page; the intervals of the collectors are clamped to at least 2,
  10 and 30 seconds. Other bounds (string lengths, page sizes, retention) are the constants of the code.

  \<^bold>\<open>Conventions.\<close> A Python string is a HOL string, so its characters are the first 256 code points; what the
  code asks of \<open>isdigit\<close>, \<open>strip\<close> and the regular expression classes is written out for them; \<open>casefold\<close> is
  read as \<open>lower\<close>, which agrees with it but for the sharp s and the micro sign. A
  float is a rational where the code only adds, compares and multiplies. Points in time are integers, of
  microseconds where fractions of a second matter. The limit on digits of \<open>int()\<close> is not modelled. Digests,
  the keyed hash, the IEEE registry, the ISO parser and printer, fresh numbers, the unified diff, the switch
  and the storage faults are parameters; \<open>IPv6Address\<close> prints mapped addresses as before Python 3.13. Rows of
  equal \<open>last_seen\<close> keep the order of the table. An exception is a value of \<open>exn\<close>, raised as \<open>Inl\<close>; a storage
  step that raises leaves its store as it was. The submission check of the device session and the number it
  hands out are one step; asking whether a tick waits and submitting it are two. A streamed save of a session is ordered after the stage that streams it.

  \<^bold>\<open>Not modelled.\<close>
  \<^item> \<open>switch_client.py\<close>, \<open>legacy_ssh_client.py\<close>, \<open>connection_test.py\<close>, \<open>performance_probes.py\<close>,
    \<open>meraki_client.py\<close>: sockets, SSH, HTTP and subprocesses around Netmiko, Paramiko and httpx. The switch is
    a parameter of the model: a state with what a read and a configuration do to it.
  \<^item> \<open>credential_store.py\<close>, \<open>meraki_credentials.py\<close>, \<open>lab_device_store.py\<close>, \<open>host_key_store.py\<close>,
    \<open>file_security.py\<close>: the operating system's keyring, file modes and known-host files.
  \<^item> \<open>meraki_collector.py\<close>, \<open>meraki_models.py\<close>, \<open>meraki_selection.py\<close>: they translate the JSON of a cloud service
    whose format is not in the repository. Their output, the provider's records, is an input of \<open>Unified_State\<close>.
  \<^item> \<open>lab_assurance.py\<close>, \<open>lab_models.py\<close>, \<open>lab_service.py\<close>, \<open>lab_collector.py\<close>, \<open>parsers/lab_assurance.py\<close>: the
    report over several devices; and \<open>catalyst_evidence_adapter.py\<close>, the records made of the dashboard.
  \<^item> \<open>tools/safe_write.py\<close> (a facade over \<open>operations.py\<close>) and \<open>tools/lldp_experiment.py\<close> (a stand-alone script).
  \<^item> \<open>main.py\<close>: the HTTP routes, which check a body and call one of the modelled operations, and start-up;
    \<open>config.py\<close>, \<open>cli.py\<close>: settings from the environment and the command line.
  \<^item> SQLite schemas and migrations, and the frontend and desktop shell, which are in other languages.
\<close>

end
